(* ===== verification/Fly_Prelude.thy ===== *)
theory Fly_Prelude
  imports Main "HOL-Library.Monad_Syntax"
begin

text \<open>
  Shared vocabulary of the development.

  A Rust \<open>String\<close> or \<open>&str\<close> is a sequence of UTF-8 bytes; the model keeps the bytes, as a list of
  8-bit \<open>char\<close>s, so that lengths, byte offsets and slices are the ones the program computes with.
  \<open>utf8\<close> writes down a literal with non-ASCII characters by its bytes.

  The theory also holds the collections of rewrite and introduction rules that the component
  theories fill, and the generic facts on lists and bytes they share.
\<close>

type_synonym byte = char

named_theorems lexer_frame \<open>which fields of the lexer state an operation leaves alone\<close>
named_theorems wp_intro \<open>total-correctness rules of the parser monad\<close>

definition utf8 :: "int list \<Rightarrow> string" where
  "utf8 bs = map char_of bs"

definition ord :: "byte \<Rightarrow> int" where
  "ord c = of_char c"

text \<open>\<open>b as char\<close>, pushed on a \<open>String\<close>: code points from 128 on take two bytes.\<close>

definition byte_as_char :: "byte \<Rightarrow> string" where
  "byte_as_char c =
     (if ord c < 128 then [c] else [char_of (192 + ord c div 64), char_of (128 + ord c mod 64)])"

definition is_digit :: "byte \<Rightarrow> bool" where
  "is_digit c \<longleftrightarrow> 48 \<le> ord c \<and> ord c \<le> 57"

definition is_lower :: "byte \<Rightarrow> bool" where
  "is_lower c \<longleftrightarrow> 97 \<le> ord c \<and> ord c \<le> 122"

definition is_upper :: "byte \<Rightarrow> bool" where
  "is_upper c \<longleftrightarrow> 65 \<le> ord c \<and> ord c \<le> 90"

definition to_lower :: "byte \<Rightarrow> byte" where
  "to_lower c = (if is_upper c then char_of (ord c + 32) else c)"

abbreviation newline :: byte where "newline \<equiv> CHR 0x0A"
abbreviation carriage_return :: byte where "carriage_return \<equiv> CHR 0x0D"
abbreviation tab :: byte where "tab \<equiv> CHR 0x09"
abbreviation single_quote :: byte where "single_quote \<equiv> CHR 0x27"
abbreviation double_quote :: byte where "double_quote \<equiv> CHR 0x22"
abbreviation backslash :: byte where "backslash \<equiv> CHR 0x5C"
abbreviation hash_sign :: byte where "hash_sign \<equiv> CHR 0x23"
abbreviation nul :: byte where "nul \<equiv> CHR 0x00"

text \<open>\<open>slice xs i j\<close> is Rust's \<open>&xs[i..j]\<close> for \<open>i \<le> j \<le> xs.len()\<close>.\<close>

definition slice :: "'a list \<Rightarrow> nat \<Rightarrow> nat \<Rightarrow> 'a list" where
  "slice xs i j = take (j - i) (drop i xs)"

lemma length_slice [simp]: "j \<le> length xs \<Longrightarrow> length (slice xs i j) = j - i"
  by (simp add: slice_def)

lemma slice_self [simp]: "slice xs i i = []"
  by (simp add: slice_def)

lemma set_slice_subset: "set (slice xs i j) \<subseteq> set xs"
  unfolding slice_def by (meson order_trans set_drop_subset set_take_subset)

lemma slice_Suc:
  "i \<le> j \<Longrightarrow> j < length xs \<Longrightarrow> slice xs i (Suc j) = slice xs i j @ [xs ! j]"
  by (simp add: slice_def Suc_diff_le take_Suc_conv_app_nth)

lemma slice_append: "i \<le> j \<Longrightarrow> j \<le> k \<Longrightarrow> slice xs i j @ slice xs j k = slice xs i k"
  by (auto simp: slice_def take_add add.commute dest!: le_Suc_ex)

text \<open>\<open>join sep parts\<close> is \<open>parts.join(sep)\<close>.\<close>

fun join :: "string \<Rightarrow> string list \<Rightarrow> string" where
  "join sep [] = []"
| "join sep [x] = x"
| "join sep (x # y # zs) = x @ sep @ join sep (y # zs)"

end
