(* ===== verification/Fly_Token.thy ===== *)
theory Fly_Token
  imports Fly_Prelude
begin

text \<open>
  Tokens of the Fly language (\<^verbatim>\<open>src/lexer/token.rs\<close>): the token classes, the keyword table in both
  directions, the display name used in diagnostics, and the token record.  The keyword table is the
  source's \<open>match\<close> on the identifier text written as an association list.  Positions are \<open>nat\<close>;
  that no line or column number of the lexer leaves the range of \<open>u32\<close> is proved with the lexer.

  The enum \<open>TokenType\<close> has 96 constructors.  They are grouped here the way the source groups them by
  blank lines (literals and layout, Python keywords, Fly keywords, operators and punctuation), each
  group a datatype of its own and each constructor under its own name \<open>T_\<dots>\<close>, so that case
  distinctions stay small.
\<close>

datatype kw_token =
    K_Def | K_Class | K_If | K_Elif | K_Else | K_For | K_While | K_Return | K_Raise | K_Try |
    K_Except | K_Finally | K_Pass | K_Break | K_Continue | K_Import | K_From | K_As | K_In |
    K_Not | K_And | K_Or | K_Is | K_None | K_True | K_False | K_Del | K_Assert | K_With |
    K_Yield | K_Global | K_Nonlocal | K_Lambda | K_Async | K_Await

datatype fly_token =
    F_Safe | F_Only | F_Lock | F_Mask | F_Cage | F_Guard | F_Seal | F_Trace

datatype op_token =
    O_Plus | O_Minus | O_Star | O_Slash | O_Percent | O_DoubleStar | O_FloorDiv | O_Shl |
    O_Shr | O_Amp | O_Pipe | O_Caret | O_Tilde | O_Lt | O_Gt | O_Le | O_Ge | O_EqEq | O_Ne

datatype assign_token =
    A_Assign | A_PlusAssign | A_MinusAssign | A_StarAssign | A_SlashAssign | A_PercentAssign |
    A_DoubleStarAssign | A_FloorDivAssign | A_ShlAssign | A_ShrAssign | A_AmpAssign |
    A_PipeAssign | A_CaretAssign

datatype punct_token =
    P_Colon | P_Comma | P_Dot | P_Semicolon | P_Arrow | P_LParen | P_RParen | P_LBracket |
    P_RBracket | P_LBrace | P_RBrace | P_At | P_Ellipsis

datatype token_type =
    T_Illegal | T_Eof | T_Ident | T_Int | T_Float | T_String | T_Newline | T_Indent | T_Dedent |
    T_Kw kw_token | T_Fly fly_token | T_Op op_token | T_Asg assign_token | T_Punct punct_token

abbreviation "T_Def \<equiv> T_Kw K_Def"
abbreviation "T_Class \<equiv> T_Kw K_Class"
abbreviation "T_If \<equiv> T_Kw K_If"
abbreviation "T_Elif \<equiv> T_Kw K_Elif"
abbreviation "T_Else \<equiv> T_Kw K_Else"
abbreviation "T_For \<equiv> T_Kw K_For"
abbreviation "T_While \<equiv> T_Kw K_While"
abbreviation "T_Return \<equiv> T_Kw K_Return"
abbreviation "T_Raise \<equiv> T_Kw K_Raise"
abbreviation "T_Try \<equiv> T_Kw K_Try"
abbreviation "T_Except \<equiv> T_Kw K_Except"
abbreviation "T_Finally \<equiv> T_Kw K_Finally"
abbreviation "T_Pass \<equiv> T_Kw K_Pass"
abbreviation "T_Break \<equiv> T_Kw K_Break"
abbreviation "T_Continue \<equiv> T_Kw K_Continue"
abbreviation "T_Import \<equiv> T_Kw K_Import"
abbreviation "T_From \<equiv> T_Kw K_From"
abbreviation "T_As \<equiv> T_Kw K_As"
abbreviation "T_In \<equiv> T_Kw K_In"
abbreviation "T_Not \<equiv> T_Kw K_Not"
abbreviation "T_And \<equiv> T_Kw K_And"
abbreviation "T_Or \<equiv> T_Kw K_Or"
abbreviation "T_Is \<equiv> T_Kw K_Is"
abbreviation "T_None \<equiv> T_Kw K_None"
abbreviation "T_True \<equiv> T_Kw K_True"
abbreviation "T_False \<equiv> T_Kw K_False"
abbreviation "T_Del \<equiv> T_Kw K_Del"
abbreviation "T_Assert \<equiv> T_Kw K_Assert"
abbreviation "T_With \<equiv> T_Kw K_With"
abbreviation "T_Yield \<equiv> T_Kw K_Yield"
abbreviation "T_Global \<equiv> T_Kw K_Global"
abbreviation "T_Nonlocal \<equiv> T_Kw K_Nonlocal"
abbreviation "T_Lambda \<equiv> T_Kw K_Lambda"
abbreviation "T_Async \<equiv> T_Kw K_Async"
abbreviation "T_Await \<equiv> T_Kw K_Await"
abbreviation "T_Safe \<equiv> T_Fly F_Safe"
abbreviation "T_Only \<equiv> T_Fly F_Only"
abbreviation "T_Lock \<equiv> T_Fly F_Lock"
abbreviation "T_Mask \<equiv> T_Fly F_Mask"
abbreviation "T_Cage \<equiv> T_Fly F_Cage"
abbreviation "T_Guard \<equiv> T_Fly F_Guard"
abbreviation "T_Seal \<equiv> T_Fly F_Seal"
abbreviation "T_Trace \<equiv> T_Fly F_Trace"
abbreviation "T_Plus \<equiv> T_Op O_Plus"
abbreviation "T_Minus \<equiv> T_Op O_Minus"
abbreviation "T_Star \<equiv> T_Op O_Star"
abbreviation "T_Slash \<equiv> T_Op O_Slash"
abbreviation "T_Percent \<equiv> T_Op O_Percent"
abbreviation "T_DoubleStar \<equiv> T_Op O_DoubleStar"
abbreviation "T_FloorDiv \<equiv> T_Op O_FloorDiv"
abbreviation "T_Shl \<equiv> T_Op O_Shl"
abbreviation "T_Shr \<equiv> T_Op O_Shr"
abbreviation "T_Amp \<equiv> T_Op O_Amp"
abbreviation "T_Pipe \<equiv> T_Op O_Pipe"
abbreviation "T_Caret \<equiv> T_Op O_Caret"
abbreviation "T_Tilde \<equiv> T_Op O_Tilde"
abbreviation "T_Lt \<equiv> T_Op O_Lt"
abbreviation "T_Gt \<equiv> T_Op O_Gt"
abbreviation "T_Le \<equiv> T_Op O_Le"
abbreviation "T_Ge \<equiv> T_Op O_Ge"
abbreviation "T_EqEq \<equiv> T_Op O_EqEq"
abbreviation "T_Ne \<equiv> T_Op O_Ne"
abbreviation "T_Assign \<equiv> T_Asg A_Assign"
abbreviation "T_PlusAssign \<equiv> T_Asg A_PlusAssign"
abbreviation "T_MinusAssign \<equiv> T_Asg A_MinusAssign"
abbreviation "T_StarAssign \<equiv> T_Asg A_StarAssign"
abbreviation "T_SlashAssign \<equiv> T_Asg A_SlashAssign"
abbreviation "T_PercentAssign \<equiv> T_Asg A_PercentAssign"
abbreviation "T_DoubleStarAssign \<equiv> T_Asg A_DoubleStarAssign"
abbreviation "T_FloorDivAssign \<equiv> T_Asg A_FloorDivAssign"
abbreviation "T_ShlAssign \<equiv> T_Asg A_ShlAssign"
abbreviation "T_ShrAssign \<equiv> T_Asg A_ShrAssign"
abbreviation "T_AmpAssign \<equiv> T_Asg A_AmpAssign"
abbreviation "T_PipeAssign \<equiv> T_Asg A_PipeAssign"
abbreviation "T_CaretAssign \<equiv> T_Asg A_CaretAssign"
abbreviation "T_Colon \<equiv> T_Punct P_Colon"
abbreviation "T_Comma \<equiv> T_Punct P_Comma"
abbreviation "T_Dot \<equiv> T_Punct P_Dot"
abbreviation "T_Semicolon \<equiv> T_Punct P_Semicolon"
abbreviation "T_Arrow \<equiv> T_Punct P_Arrow"
abbreviation "T_LParen \<equiv> T_Punct P_LParen"
abbreviation "T_RParen \<equiv> T_Punct P_RParen"
abbreviation "T_LBracket \<equiv> T_Punct P_LBracket"
abbreviation "T_RBracket \<equiv> T_Punct P_RBracket"
abbreviation "T_LBrace \<equiv> T_Punct P_LBrace"
abbreviation "T_RBrace \<equiv> T_Punct P_RBrace"
abbreviation "T_At \<equiv> T_Punct P_At"
abbreviation "T_Ellipsis \<equiv> T_Punct P_Ellipsis"

definition keyword_table :: "(string \<times> token_type) list" where
  "keyword_table =
    [(''def'', T_Def), (''class'', T_Class), (''if'', T_If), (''elif'', T_Elif),
     (''else'', T_Else), (''for'', T_For), (''while'', T_While), (''return'', T_Return),
     (''raise'', T_Raise), (''try'', T_Try), (''except'', T_Except), (''finally'', T_Finally),
     (''pass'', T_Pass), (''break'', T_Break), (''continue'', T_Continue),
     (''import'', T_Import), (''from'', T_From), (''as'', T_As), (''in'', T_In),
     (''not'', T_Not), (''and'', T_And), (''or'', T_Or), (''is'', T_Is), (''None'', T_None),
     (''True'', T_True), (''False'', T_False), (''del'', T_Del), (''assert'', T_Assert),
     (''with'', T_With), (''yield'', T_Yield), (''global'', T_Global),
     (''nonlocal'', T_Nonlocal), (''lambda'', T_Lambda), (''async'', T_Async),
     (''await'', T_Await), (''safe'', T_Safe), (''only'', T_Only), (''lock'', T_Lock),
     (''mask'', T_Mask), (''cage'', T_Cage), (''guard'', T_Guard), (''seal'', T_Seal),
     (''trace'', T_Trace)]"

definition keyword :: "string \<Rightarrow> token_type option" where
  "keyword name = map_of keyword_table name"

fun keyword_name :: "token_type \<Rightarrow> string option" where
  "keyword_name T_Def = Some ''def''"
| "keyword_name T_Class = Some ''class''"
| "keyword_name T_If = Some ''if''"
| "keyword_name T_Elif = Some ''elif''"
| "keyword_name T_Else = Some ''else''"
| "keyword_name T_For = Some ''for''"
| "keyword_name T_While = Some ''while''"
| "keyword_name T_Return = Some ''return''"
| "keyword_name T_Raise = Some ''raise''"
| "keyword_name T_Try = Some ''try''"
| "keyword_name T_Except = Some ''except''"
| "keyword_name T_Finally = Some ''finally''"
| "keyword_name T_Pass = Some ''pass''"
| "keyword_name T_Break = Some ''break''"
| "keyword_name T_Continue = Some ''continue''"
| "keyword_name T_Import = Some ''import''"
| "keyword_name T_From = Some ''from''"
| "keyword_name T_As = Some ''as''"
| "keyword_name T_In = Some ''in''"
| "keyword_name T_Not = Some ''not''"
| "keyword_name T_And = Some ''and''"
| "keyword_name T_Or = Some ''or''"
| "keyword_name T_Is = Some ''is''"
| "keyword_name T_None = Some ''None''"
| "keyword_name T_True = Some ''True''"
| "keyword_name T_False = Some ''False''"
| "keyword_name T_Del = Some ''del''"
| "keyword_name T_Assert = Some ''assert''"
| "keyword_name T_With = Some ''with''"
| "keyword_name T_Yield = Some ''yield''"
| "keyword_name T_Global = Some ''global''"
| "keyword_name T_Nonlocal = Some ''nonlocal''"
| "keyword_name T_Lambda = Some ''lambda''"
| "keyword_name T_Async = Some ''async''"
| "keyword_name T_Await = Some ''await''"
| "keyword_name T_Safe = Some ''safe''"
| "keyword_name T_Only = Some ''only''"
| "keyword_name T_Lock = Some ''lock''"
| "keyword_name T_Mask = Some ''mask''"
| "keyword_name T_Cage = Some ''cage''"
| "keyword_name T_Guard = Some ''guard''"
| "keyword_name T_Seal = Some ''seal''"
| "keyword_name T_Trace = Some ''trace''"
| "keyword_name _ = None"

fun symbol_name :: "token_type \<Rightarrow> string" where
  "symbol_name T_Illegal = utf8 [233, 157, 158, 230, 179, 149, 116, 111, 107, 101, 110]"
| "symbol_name T_Eof = ''EOF''"
| "symbol_name T_Ident = utf8 [230, 160, 135, 232, 175, 134, 231, 172, 166]"
| "symbol_name T_Int = utf8 [230, 149, 180, 230, 149, 176]"
| "symbol_name T_Float = utf8 [230, 181, 174, 231, 130, 185, 230, 149, 176]"
| "symbol_name T_String = utf8 [229, 173, 151, 231, 172, 166, 228, 184, 178]"
| "symbol_name T_Newline = utf8 [230, 141, 162, 232, 161, 140]"
| "symbol_name T_Indent = utf8 [231, 188, 169, 232, 191, 155]"
| "symbol_name T_Dedent = utf8 [229, 143, 150, 230, 182, 136, 231, 188, 169, 232, 191, 155]"
| "symbol_name T_Plus = ''+''"
| "symbol_name T_Minus = ''-''"
| "symbol_name T_Star = ''*''"
| "symbol_name T_Slash = ''/''"
| "symbol_name T_Percent = ''%''"
| "symbol_name T_DoubleStar = ''**''"
| "symbol_name T_FloorDiv = ''//''"
| "symbol_name T_Shl = ''<<''"
| "symbol_name T_Shr = ''>>''"
| "symbol_name T_Amp = ''&''"
| "symbol_name T_Pipe = ''|''"
| "symbol_name T_Caret = ''^''"
| "symbol_name T_Tilde = ''~''"
| "symbol_name T_Lt = ''<''"
| "symbol_name T_Gt = ''>''"
| "symbol_name T_Le = ''<=''"
| "symbol_name T_Ge = ''>=''"
| "symbol_name T_EqEq = ''==''"
| "symbol_name T_Ne = ''!=''"
| "symbol_name T_Assign = ''=''"
| "symbol_name T_PlusAssign = ''+=''"
| "symbol_name T_MinusAssign = ''-=''"
| "symbol_name T_StarAssign = ''*=''"
| "symbol_name T_SlashAssign = ''/=''"
| "symbol_name T_PercentAssign = ''%=''"
| "symbol_name T_DoubleStarAssign = ''**=''"
| "symbol_name T_FloorDivAssign = ''//=''"
| "symbol_name T_ShlAssign = ''<<=''"
| "symbol_name T_ShrAssign = ''>>=''"
| "symbol_name T_AmpAssign = ''&=''"
| "symbol_name T_PipeAssign = ''|=''"
| "symbol_name T_CaretAssign = ''^=''"
| "symbol_name T_Colon = '':''"
| "symbol_name T_Comma = '',''"
| "symbol_name T_Dot = ''.''"
| "symbol_name T_Semicolon = '';''"
| "symbol_name T_Arrow = ''->''"
| "symbol_name T_LParen = ''(''"
| "symbol_name T_RParen = '')''"
| "symbol_name T_LBracket = ''[''"
| "symbol_name T_RBracket = '']''"
| "symbol_name T_LBrace = ''{''"
| "symbol_name T_RBrace = ''}''"
| "symbol_name T_At = ''@''"
| "symbol_name T_Ellipsis = ''...''"
| "symbol_name _ = utf8 [230, 156, 170, 231, 159, 165]"


definition token_name :: "token_type \<Rightarrow> string" where
  "token_name tt = (case keyword_name tt of Some k \<Rightarrow> k | None \<Rightarrow> symbol_name tt)"

record position =
  pos_line :: nat
  pos_col :: nat

record token =
  t_ty :: token_type
  t_lit :: string
  t_line :: nat
  t_col :: nat

definition token_pos :: "token \<Rightarrow> position" where
  "token_pos t = \<lparr>pos_line = t_line t, pos_col = t_col t\<rparr>"

end
