(* ===== verification/Fly_Diagnostic.thy ===== *)
theory Fly_Diagnostic
  imports Fly_Token
begin

text \<open>
  Diagnostics (\<^verbatim>\<open>src/diagnostic.rs\<close>) and the message formatter \<open>format_msg\<close> of
  \<^verbatim>\<open>src/lexer/lexer.rs\<close>.  Every message format of the table is a constant named after its error
  code; the texts are the source's, written by their UTF-8 bytes.  The theory shows that the table
  is a function (no format is listed twice), that it covers the codes E0001 to E0066 and nothing
  else, and how the formatter fills the single place holder that most formats have.
\<close>

record diagnostic =
  d_pos :: position
  d_code :: string
  d_msg :: string

subsection \<open>The message formats\<close>

definition F0001 :: string where
  "F0001 = utf8 [230, 156, 159, 230, 156, 155] @ '' %s'' @ utf8 [239, 188, 140, 229, 174, 158,
     233, 153, 133, 228, 184, 186] @ '' %s''"

definition F0002 :: string where
  "F0002 = utf8 [230, 156, 159, 230, 156, 155, 232, 161, 168, 232, 190, 190, 229, 188, 143, 239,
     188, 140, 229, 174, 158, 233, 153, 133, 228, 184, 186] @ '' %q''"

definition F0003 :: string where
  "F0003 = utf8 [230, 156, 159, 230, 156, 155, 232, 175, 173, 229, 143, 165, 231, 187, 147, 230,
     157, 159, 239, 188, 140, 229, 174, 158, 233, 153, 133, 228, 184, 186] @ '' %q''"

definition F0004 :: string where
  "F0004 = utf8 [229, 133, 179, 233, 148, 174, 229, 173, 151] @ '' %s '' @ utf8 [230, 154, 130,
     228, 184, 141, 230, 148, 175, 230, 140, 129]"

definition F0005 :: string where
  "F0005 = utf8 [229, 133, 179, 233, 148, 174, 229, 173, 151, 229, 143, 130, 230, 149, 176, 229,
     144, 141, 229, 191, 133, 233, 161, 187, 230, 152, 175, 230, 160, 135, 232, 175, 134, 231,
     172, 166]"

definition F0006 :: string where
  "F0006 = utf8 [233, 157, 158, 230, 179, 149, 232, 181, 139, 229, 128, 188, 231, 155, 174, 230,
     160, 135]"

definition F0007 :: string where
  "F0007 = utf8 [232, 163, 133, 233, 165, 176, 229, 153, 168, 229, 144, 142, 229, 191, 133, 233,
     161, 187, 232, 183, 159, 233, 154, 143] @ '' def '' @ utf8 [230, 136, 150] @ '' class''"

definition F0008 :: string where
  "F0008 = utf8 [229, 173, 151, 229, 133, 184] @ ''/'' @ utf8 [233, 155, 134, 229, 144, 136, 230,
     142, 168, 229, 175, 188, 229, 188, 143, 230, 154, 130, 228, 184, 141, 230, 148, 175, 230,
     140, 129]"

definition F0009 :: string where
  "F0009 = utf8 [229, 173, 151, 229, 133, 184, 232, 167, 163, 229, 140, 133] @ '' {} '' @
     utf8 [230, 154, 130, 228, 184, 141, 230, 148, 175, 230, 140, 129]"

definition F0010 :: string where
  "F0010 = ''lock '' @ utf8 [233, 156, 128, 232, 166, 129, 228, 184, 128, 228, 184, 170, 229, 143,
     152, 233, 135, 143, 229, 144, 141]"

definition F0011 :: string where
  "F0011 = ''seal '' @ utf8 [229, 144, 142, 229, 191, 133, 233, 161, 187, 232, 183, 159, 233, 154,
     143] @ '' class '' @ utf8 [229, 174, 154, 228, 185, 137]"

definition F0012 :: string where
  "F0012 = ''level '' @ utf8 [229, 191, 133, 233, 161, 187, 230, 152, 175, 229, 173, 151, 231,
     172, 166, 228, 184, 178, 239, 188, 136, 229, 166, 130] @ '' '' @ utf8 [34] @ ''WARN'' @
     utf8 [34, 239, 188, 137]"

definition F0013 :: string where
  "F0013 = ''args '' @ utf8 [229, 191, 133, 233, 161, 187, 230, 152, 175] @ '' True '' @
     utf8 [230, 136, 150] @ '' False''"

definition F0014 :: string where
  "F0014 = ''ret '' @ utf8 [229, 191, 133, 233, 161, 187, 230, 152, 175] @ '' True '' @ utf8 [230,
     136, 150] @ '' False''"

definition F0015 :: string where
  "F0015 = ''trace '' @ utf8 [229, 143, 130, 230, 149, 176] @ '' %s '' @ utf8 [230, 156, 170, 231,
     159, 165, 239, 188, 136, 230, 148, 175, 230, 140, 129] @ '' level/args/ret'' @ utf8 [239,
     188, 137]"

definition F0016 :: string where
  "F0016 = ''cage '' @ utf8 [229, 143, 130, 230, 149, 176] @ '' %s '' @ utf8 [229, 191, 133, 233,
     161, 187, 230, 152, 175, 229, 173, 151, 231, 172, 166, 228, 184, 178, 239, 188, 136, 229,
     166, 130] @ '' max_time='' @ utf8 [34] @ ''5s'' @ utf8 [34, 239, 188, 137]"

definition F0017 :: string where
  "F0017 = ''max_time '' @ utf8 [230, 160, 188, 229, 188, 143, 233, 157, 158, 230, 179, 149, 239,
     188, 154] @ ''%q'' @ utf8 [239, 188, 136, 230, 148, 175, 230, 140, 129] @
     '' 500ms/5s/2m/1h'' @ utf8 [239, 188, 137]"

definition F0018 :: string where
  "F0018 = ''max_memory '' @ utf8 [230, 160, 188, 229, 188, 143, 233, 157, 158, 230, 179, 149,
     239, 188, 154] @ ''%q'' @ utf8 [239, 188, 136, 230, 148, 175, 230, 140, 129] @
     '' 64KB/100MB/2GB'' @ utf8 [239, 188, 137]"

definition F0019 :: string where
  "F0019 = ''cage '' @ utf8 [229, 143, 130, 230, 149, 176] @ '' %s '' @ utf8 [230, 156, 170, 231,
     159, 165, 239, 188, 136, 230, 148, 175, 230, 140, 129] @ '' max_time/max_memory'' @
     utf8 [239, 188, 137]"

definition F0020 :: string where
  "F0020 = ''cage '' @ utf8 [233, 156, 128, 232, 135, 179, 229, 176, 145, 230, 140, 135, 229, 174,
     154] @ '' max_time '' @ utf8 [230, 136, 150] @ '' max_memory '' @ utf8 [228, 185, 139, 228,
     184, 128]"

definition F0021 :: string where
  "F0021 = utf8 [230, 156, 170, 233, 151, 173, 229, 144, 136, 231, 154, 132, 230, 139, 172, 229,
     143, 183]"

definition F0022 :: string where
  "F0022 = utf8 [232, 161, 140, 233, 166, 150, 228, 184, 141, 230, 148, 175, 230, 140, 129, 229,
     136, 182, 232, 161, 168, 231, 172, 166, 231, 188, 169, 232, 191, 155]"

definition F0023 :: string where
  "F0023 = utf8 [231, 188, 169, 232, 191, 155, 231, 186, 167, 229, 136, 171, 228, 184, 142, 228,
     184, 138, 229, 177, 130, 228, 184, 141, 228, 184, 128, 232, 135, 180]"

definition F0024 :: string where
  "F0024 = utf8 [229, 173, 151, 231, 172, 166, 228, 184, 178, 230, 156, 170, 233, 151, 173, 229,
     144, 136]"

definition F0025 :: string where
  "F0025 = utf8 [230, 140, 135, 230, 149, 176, 233, 131, 168, 229, 136, 134, 231, 188, 186, 229,
     176, 145, 230, 149, 176, 229, 173, 151] @ '': %s''"

definition F0026 :: string where
  "F0026 = utf8 [233, 157, 158, 230, 179, 149, 230, 149, 176, 229, 173, 151, 229, 173, 151, 233,
     157, 162, 233, 135, 143] @ '' %s''"

definition F0027a :: string where
  "F0027a = utf8 [230, 132, 143, 229, 164, 150, 231, 154, 132, 229, 173, 151, 231, 172, 166] @
     '' %q''"

definition F0027b :: string where
  "F0027b = utf8 [230, 132, 143, 229, 164, 150, 231, 154, 132, 229, 173, 151, 231, 172, 166] @
     '' '' @ utf8 [39] @ ''%s'' @ utf8 [39]"

definition F0028a :: string where
  "F0028a = utf8 [229, 164, 154, 228, 189, 153, 231, 154, 132, 229, 143, 179, 230, 139, 172, 229,
     143, 183] @ '' '' @ utf8 [39] @ ''%s'' @ utf8 [39]"

definition F0028b :: string where
  "F0028b = utf8 [229, 164, 154, 228, 189, 153, 231, 154, 132, 229, 143, 179, 230, 139, 172, 229,
     143, 183] @ '' '' @ utf8 [39] @ '')'' @ utf8 [39]"

definition F0028c :: string where
  "F0028c = utf8 [229, 164, 154, 228, 189, 153, 231, 154, 132, 229, 143, 179, 230, 139, 172, 229,
     143, 183] @ '' '' @ utf8 [39] @ '']'' @ utf8 [39]"

definition F0028d :: string where
  "F0028d = utf8 [229, 164, 154, 228, 189, 153, 231, 154, 132, 229, 143, 179, 230, 139, 172, 229,
     143, 183] @ '' '' @ utf8 [39] @ ''}'' @ utf8 [39]"

definition F0029 :: string where
  "F0029 = utf8 [229, 144, 141, 229, 173, 151] @ '' %s '' @ utf8 [233, 135, 141, 229, 164, 141,
     229, 174, 154, 228, 185, 137, 239, 188, 136, 231, 172, 172, 228, 184, 128, 230, 172, 161,
     229, 156, 168, 231, 172, 172] @ '' %d '' @ utf8 [232, 161, 140, 239, 188, 137]"

definition F0030 :: string where
  "F0030 = utf8 [229, 135, 189, 230, 149, 176, 229, 143, 130, 230, 149, 176] @ '' %s '' @
     utf8 [233, 135, 141, 229, 164, 141, 229, 174, 154, 228, 185, 137]"

definition F0031a :: string where
  "F0031a = utf8 [230, 156, 170, 229, 135, 128, 229, 140, 150, 231, 154, 132, 229, 164, 150, 233,
     131, 168, 232, 190, 147, 229, 133, 165] @ '' %s '' @ utf8 [230, 181, 129, 229, 133, 165] @
     '' %s'' @ utf8 [239, 188, 136, 229, 141, 177, 233, 153, 169, 230, 177, 135, 231, 130, 185,
     239, 188, 137]"

definition F0031b :: string where
  "F0031b = utf8 [230, 156, 170, 229, 135, 128, 229, 140, 150, 231, 154, 132, 229, 164, 150, 233,
     131, 168, 232, 190, 147, 229, 133, 165] @ '' %s '' @ utf8 [230, 181, 129, 229, 133, 165, 229,
     135, 189, 230, 149, 176] @ '' %s '' @ utf8 [231, 154, 132, 229, 143, 130, 230, 149, 176] @
     '' %s'' @ utf8 [239, 188, 136, 229, 141, 177, 233, 153, 169, 230, 177, 135, 231, 130, 185,
     239, 188, 137]"

definition F0032a :: string where
  "F0032a = utf8 [230, 149, 143, 230, 132, 159, 230, 149, 176, 230, 141, 174] @ '' %s '' @
     utf8 [228, 184, 141, 229, 143, 175, 230, 181, 129, 229, 133, 165] @ '' %s'' @ utf8 [239, 188,
     136, 232, 190, 147, 229, 135, 186, 228, 184, 138, 228, 184, 139, 230, 150, 135, 239, 188,
     137]"

definition F0032b :: string where
  "F0032b = utf8 [230, 149, 143, 230, 132, 159, 230, 149, 176, 230, 141, 174] @ '' %s '' @
     utf8 [230, 181, 129, 229, 133, 165, 229, 135, 189, 230, 149, 176] @ '' %s '' @ utf8 [231,
     154, 132, 229, 143, 130, 230, 149, 176] @ '' %s'' @ utf8 [239, 188, 136, 232, 190, 147, 229,
     135, 186, 228, 184, 138, 228, 184, 139, 230, 150, 135, 239, 188, 137]"

definition F0033 :: string where
  "F0033 = ''lock '' @ utf8 [229, 143, 152, 233, 135, 143] @ '' %s '' @ utf8 [230, 156, 170, 229,
     174, 154, 228, 185, 137]"

definition F0034 :: string where
  "F0034 = ''lock '' @ utf8 [229, 143, 152, 233, 135, 143] @ '' %s '' @ utf8 [228, 184, 141, 229,
     143, 175, 229, 136, 160, 233, 153, 164]"

definition F0035 :: string where
  "F0035 = ''lock '' @ utf8 [229, 143, 152, 233, 135, 143] @ '' %s '' @ utf8 [228, 184, 141, 229,
     143, 175, 229, 134, 141, 232, 181, 139, 229, 128, 188]"

definition F0036 :: string where
  "F0036 = ''lock '' @ utf8 [229, 143, 152, 233, 135, 143] @ '' %s '' @ utf8 [228, 184, 141, 229,
     143, 175, 233, 128, 154, 232, 191, 135, 229, 143, 141, 229, 176, 132, 228, 191, 174, 230,
     148, 185]"

definition F0037 :: string where
  "F0037 = ''lock '' @ utf8 [229, 143, 152, 233, 135, 143] @ '' %s '' @ utf8 [228, 184, 141, 229,
     143, 175, 233, 128, 154, 232, 191, 135] @ '' setattr '' @ utf8 [228, 191, 174, 230, 148,
     185]"

definition F0038 :: string where
  "F0038 = ''lock '' @ utf8 [229, 143, 152, 233, 135, 143] @ '' %s '' @ utf8 [228, 184, 141, 229,
     143, 175, 233, 128, 154, 232, 191, 135] @ '' %s() '' @ utf8 [229, 143, 141, 229, 176, 132,
     232, 175, 187, 229, 143, 150]"

definition F0039 :: string where
  "F0039 = ''guard '' @ utf8 [229, 143, 152, 233, 135, 143] @ '' %s '' @ utf8 [230, 156, 170, 229,
     174, 154, 228, 185, 137]"

definition F0040 :: string where
  "F0040 = ''guard '' @ utf8 [231, 177, 187, 229, 158, 139, 229, 191, 133, 233, 161, 187, 230,
     152, 175, 231, 174, 128, 229, 141, 149, 231, 177, 187, 229, 158, 139, 229, 144, 141, 239,
     188, 136, 229, 166, 130] @ '' int'' @ utf8 [227, 128, 129] @ ''str'' @ utf8 [239, 188, 137]"

definition F0041 :: string where
  "F0041 = ''guard '' @ utf8 [231, 177, 187, 229, 158, 139] @ '' %s '' @ utf8 [228, 184, 142, 229,
     143, 130, 230, 149, 176, 230, 179, 168, 232, 167, 163] @ '' %s '' @ utf8 [228, 184, 141, 228,
     184, 128, 232, 135, 180]"

definition F0042 :: string where
  "F0042 = ''guard '' @ utf8 [232, 135, 179, 229, 176, 145, 233, 156, 128, 232, 166, 129, 228,
     184, 128, 228, 184, 170, 231, 177, 187, 229, 158, 139, 230, 136, 150, 230, 157, 161, 228,
     187, 182]"

definition F0043 :: string where
  "F0043 = ''guard '' @ utf8 [230, 157, 161, 228, 187, 182, 228, 184, 173, 229, 188, 149, 231,
     148, 168, 228, 186, 134, 230, 156, 170, 229, 174, 154, 228, 185, 137, 231, 154, 132, 229,
     144, 141, 229, 173, 151] @ '' %s''"

definition F0044 :: string where
  "F0044 = ''only '' @ utf8 [231, 153, 189, 229, 144, 141, 229, 141, 149, 228, 184, 141, 232, 131,
     189, 228, 184, 186, 231, 169, 186, 239, 188, 136, 233, 156, 128, 232, 135, 179, 229, 176,
     145, 228, 184, 128, 228, 184, 170, 230, 168, 161, 229, 157, 151, 239, 188, 140, 229, 166,
     130] @ '' only (json):'' @ utf8 [239, 188, 137]"

definition F0045 :: string where
  "F0045 = ''only '' @ utf8 [229, 157, 151, 231, 166, 129, 230, 173, 162, 232, 174, 191, 233, 151,
     174] @ '' %s'' @ utf8 [239, 188, 136, 228, 184, 141, 229, 156, 168, 231, 153, 189, 229, 144,
     141, 229, 141, 149] @ '' %v'' @ utf8 [239, 188, 137]"

definition F0046 :: string where
  "F0046 = ''seal '' @ utf8 [231, 177, 187, 229, 174, 158, 228, 190, 139] @ '' %s '' @ utf8 [231,
     154, 132, 229, 177, 158, 230, 128, 167] @ '' %s '' @ utf8 [228, 184, 141, 229, 143, 175, 228,
     191, 174, 230, 148, 185]"

definition F0047 :: string where
  "F0047 = ''trace '' @ utf8 [231, 186, 167, 229, 136, 171] @ '' %s '' @ utf8 [233, 157, 158, 230,
     179, 149, 239, 188, 136, 230, 148, 175, 230, 140, 129] @
     '' DEBUG/INFO/WARNING/ERROR/CRITICAL'' @ utf8 [239, 188, 137]"

definition F0048 :: string where
  "F0048 = ''trace '' @ utf8 [229, 157, 151, 229, 134, 133, 229, 135, 189, 230, 149, 176, 229,
     144, 141] @ '' %s '' @ utf8 [228, 184, 141, 232, 131, 189, 228, 187, 165] @ '' _fly_ '' @
     utf8 [229, 188, 128, 229, 164, 180, 239, 188, 136, 228, 191, 157, 231, 149, 153, 229, 137,
     141, 231, 188, 128, 239, 188, 137]"

definition F0049 :: string where
  "F0049 = ''trace '' @ utf8 [229, 157, 151, 229, 134, 133, 229, 143, 130, 230, 149, 176, 229,
     144, 141] @ '' %s '' @ utf8 [228, 184, 141, 232, 131, 189, 228, 187, 165] @ '' _fly_ '' @
     utf8 [229, 188, 128, 229, 164, 180, 239, 188, 136, 228, 191, 157, 231, 149, 153, 229, 137,
     141, 231, 188, 128, 239, 188, 137]"

definition F0050 :: string where
  "F0050 = utf8 [230, 156, 170, 229, 174, 154, 228, 185, 137, 231, 154, 132, 229, 144, 141, 229,
     173, 151] @ '' %s'' @ utf8 [239, 188, 136] @ ''safe '' @ utf8 [233, 156, 128, 232, 166, 129,
     229, 133, 136, 232, 181, 139, 229, 128, 188, 239, 188, 137]"

definition F0051 :: string where
  "F0051 = utf8 [230, 156, 170, 229, 174, 154, 228, 185, 137, 231, 154, 132, 229, 144, 141, 229,
     173, 151] @ '' %s'' @ utf8 [239, 188, 136] @ ''mask '' @ utf8 [233, 156, 128, 232, 166, 129,
     229, 133, 136, 232, 181, 139, 229, 128, 188, 239, 188, 137]"

definition F0052 :: string where
  "F0052 = utf8 [230, 156, 170, 229, 174, 154, 228, 185, 137, 231, 154, 132, 229, 144, 141, 229,
     173, 151] @ '' %s''"

definition F0053 :: string where
  "F0053 = utf8 [229, 135, 189, 230, 149, 176] @ '' %s '' @ utf8 [233, 156, 128, 232, 166, 129,
     232, 135, 179, 229, 176, 145] @ '' %d '' @ utf8 [228, 184, 170, 229, 143, 130, 230, 149, 176,
     239, 188, 136, 229, 174, 158, 233, 153, 133] @ '' %d '' @ utf8 [228, 184, 170, 239, 188,
     137]"

definition F0054 :: string where
  "F0054 = utf8 [229, 135, 189, 230, 149, 176] @ '' %s '' @ utf8 [230, 156, 128, 229, 164, 154,
     230, 142, 165, 229, 143, 151] @ '' %d '' @ utf8 [228, 184, 170, 228, 189, 141, 231, 189, 174,
     229, 143, 130, 230, 149, 176, 239, 188, 136, 229, 174, 158, 233, 153, 133] @ '' %d '' @
     utf8 [228, 184, 170, 239, 188, 137]"

definition F0055 :: string where
  "F0055 = utf8 [229, 135, 189, 230, 149, 176] @ '' %s '' @ utf8 [230, 178, 161, 230, 156, 137,
     229, 144, 141, 228, 184, 186] @ '' %s '' @ utf8 [231, 154, 132, 229, 143, 130, 230, 149,
     176]"

definition F0056 :: string where
  "F0056 = utf8 [229, 135, 189, 230, 149, 176] @ '' %s '' @ utf8 [229, 143, 130, 230, 149, 176] @
     '' %s '' @ utf8 [233, 135, 141, 229, 164, 141, 228, 188, 160, 229, 128, 188]"

definition F0057 :: string where
  "F0057 = utf8 [229, 184, 184, 233, 135, 143, 232, 161, 168, 232, 190, 190, 229, 188, 143, 233,
     153, 164, 230, 149, 176, 228, 184, 186, 233, 155, 182]"

definition F0058 :: string where
  "F0058 = utf8 [232, 191, 144, 231, 174, 151, 231, 172, 166] @ '' %s '' @ utf8 [228, 184, 141,
     230, 148, 175, 230, 140, 129] @ '' %s '' @ utf8 [228, 184, 142] @ '' %s''"

definition F0059 :: string where
  "F0059 = utf8 [232, 191, 144, 231, 174, 151, 231, 172, 166] @ '' ~ '' @ utf8 [228, 184, 141,
     230, 148, 175, 230, 140, 129] @ '' %s''"

definition F0060 :: string where
  "F0060 = utf8 [232, 191, 144, 231, 174, 151, 231, 172, 166] @ '' %s '' @ utf8 [228, 184, 141,
     230, 148, 175, 230, 140, 129] @ '' %s''"

definition F0061 :: string where
  "F0061 = ''in '' @ utf8 [229, 143, 179, 228, 190, 167, 228, 184, 141, 230, 148, 175, 230, 140,
     129] @ '' %s''"

definition F0062 :: string where
  "F0062 = ''%s '' @ utf8 [228, 184, 141, 229, 143, 175, 228, 184, 139, 230, 160, 135, 232, 174,
     191, 233, 151, 174]"

definition F0063a :: string where
  "F0063a = utf8 [231, 166, 129, 230, 173, 162, 232, 176, 131, 231, 148, 168, 229, 134, 133, 229,
     187, 186] @ '' %s'' @ utf8 [239, 188, 136, 230, 178, 153, 231, 174, 177, 233, 128, 131, 233,
     128, 184, 233, 163, 142, 233, 153, 169, 239, 188, 137]"

definition F0064a :: string where
  "F0064a = utf8 [231, 166, 129, 230, 173, 162, 229, 143, 141, 229, 176, 132, 232, 174, 191, 233,
     151, 174, 229, 177, 158, 230, 128, 167] @ '' %s'' @ utf8 [239, 188, 136, 230, 178, 153, 231,
     174, 177, 233, 128, 131, 233, 128, 184, 233, 163, 142, 233, 153, 169, 239, 188, 137]"

definition F0064b :: string where
  "F0064b = utf8 [231, 166, 129, 230, 173, 162, 229, 143, 141, 229, 176, 132, 228, 184, 139, 230,
     160, 135, 232, 174, 191, 233, 151, 174] @ '' %s'' @ utf8 [239, 188, 136, 230, 178, 153, 231,
     174, 177, 233, 128, 131, 233, 128, 184, 233, 163, 142, 233, 153, 169, 239, 188, 137]"

definition F0064c :: string where
  "F0064c = utf8 [231, 166, 129, 230, 173, 162, 232, 174, 191, 233, 151, 174, 230, 168, 161, 229,
     157, 151, 229, 177, 158, 230, 128, 167] @ '' %s'' @ utf8 [239, 188, 136, 230, 178, 153, 231,
     174, 177, 233, 128, 131, 233, 128, 184, 233, 163, 142, 233, 153, 169, 239, 188, 137]"

definition F0064d :: string where
  "F0064d = ''f-string '' @ utf8 [229, 134, 133, 231, 166, 129, 230, 173, 162, 229, 143, 141, 229,
     176, 132, 232, 174, 191, 233, 151, 174] @ '' %s'' @ utf8 [239, 188, 136, 230, 178, 153, 231,
     174, 177, 233, 128, 131, 233, 128, 184, 233, 163, 142, 233, 153, 169, 239, 188, 137]"

definition F0063b :: string where
  "F0063b = ''f-string '' @ utf8 [229, 134, 133, 231, 166, 129, 230, 173, 162, 232, 174, 191, 233,
     151, 174, 229, 134, 133, 229, 187, 186] @ '' %s'' @ utf8 [239, 188, 136, 230, 178, 153, 231,
     174, 177, 233, 128, 131, 233, 128, 184, 233, 163, 142, 233, 153, 169, 239, 188, 137]"

definition F0065 :: string where
  "F0065 = utf8 [231, 166, 129, 230, 173, 162, 232, 174, 191, 233, 151, 174] @ '' __builtins__'' @
     utf8 [239, 188, 136, 230, 178, 153, 231, 174, 177, 233, 128, 131, 233, 128, 184, 233, 163,
     142, 233, 153, 169, 239, 188, 137]"

definition F0066 :: string where
  "F0066 = utf8 [231, 166, 129, 230, 173, 162, 229, 175, 188, 229, 133, 165, 229, 141, 177, 233,
     153, 169, 230, 168, 161, 229, 157, 151] @ '' %s'' @ utf8 [239, 188, 136, 230, 178, 153, 231,
     174, 177, 233, 128, 131, 233, 128, 184, 233, 163, 142, 233, 153, 169, 239, 188, 137]"

definition error_codes :: "(string \<times> string) list" where
  "error_codes = [(F0001, ''E0001''), (F0002, ''E0002''), (F0003, ''E0003''), (F0004, ''E0004''),
     (F0005, ''E0005''), (F0006, ''E0006''), (F0007, ''E0007''), (F0008, ''E0008''), (F0009,
     ''E0009''), (F0010, ''E0010''), (F0011, ''E0011''), (F0012, ''E0012''), (F0013, ''E0013''),
     (F0014, ''E0014''), (F0015, ''E0015''), (F0016, ''E0016''), (F0017, ''E0017''), (F0018,
     ''E0018''), (F0019, ''E0019''), (F0020, ''E0020''), (F0021, ''E0021''), (F0022, ''E0022''),
     (F0023, ''E0023''), (F0024, ''E0024''), (F0025, ''E0025''), (F0026, ''E0026''), (F0027a,
     ''E0027''), (F0027b, ''E0027''), (F0028a, ''E0028''), (F0028b, ''E0028''), (F0028c,
     ''E0028''), (F0028d, ''E0028''), (F0029, ''E0029''), (F0030, ''E0030''), (F0031a, ''E0031''),
     (F0031b, ''E0031''), (F0032a, ''E0032''), (F0032b, ''E0032''), (F0033, ''E0033''), (F0034,
     ''E0034''), (F0035, ''E0035''), (F0036, ''E0036''), (F0037, ''E0037''), (F0038, ''E0038''),
     (F0039, ''E0039''), (F0040, ''E0040''), (F0041, ''E0041''), (F0042, ''E0042''), (F0043,
     ''E0043''), (F0044, ''E0044''), (F0045, ''E0045''), (F0046, ''E0046''), (F0047, ''E0047''),
     (F0048, ''E0048''), (F0049, ''E0049''), (F0050, ''E0050''), (F0051, ''E0051''), (F0052,
     ''E0052''), (F0053, ''E0053''), (F0054, ''E0054''), (F0055, ''E0055''), (F0056, ''E0056''),
     (F0057, ''E0057''), (F0058, ''E0058''), (F0059, ''E0059''), (F0060, ''E0060''), (F0061,
     ''E0061''), (F0062, ''E0062''), (F0063a, ''E0063''), (F0064a, ''E0064''), (F0064b,
     ''E0064''), (F0064c, ''E0064''), (F0064d, ''E0064''), (F0063b, ''E0063''), (F0065,
     ''E0065''), (F0066, ''E0066'')]"


definition error_code :: "string \<Rightarrow> string" where
  "error_code format = (case map_of error_codes format of Some c \<Rightarrow> c | None \<Rightarrow> [])"

subsection \<open>Filling place holders\<close>

fun find_sub :: "string \<Rightarrow> string \<Rightarrow> nat option" where
  "find_sub pat [] = (if pat = [] then Some 0 else None)"
| "find_sub pat (c # s) =
     (if take (length pat) (c # s) = pat then Some 0 else map_option Suc (find_sub pat s))"

fun format_args :: "string \<Rightarrow> string list \<Rightarrow> string" where
  "format_args rest [] = rest"
| "format_args rest (a # args) =
     (case find_sub ''%s'' rest of
        Some p \<Rightarrow> take p rest @ a @ format_args (drop (p + 2) rest) args
      | None \<Rightarrow>
          (case find_sub ''%q'' rest of
             Some p \<Rightarrow> take p rest @ [single_quote] @ a @ [single_quote]
                       @ format_args (drop (p + 2) rest) args
           | None \<Rightarrow> rest))"

definition format_msg :: "string \<Rightarrow> string list \<Rightarrow> string" where
  "format_msg format args = (if args = [] then format else format_args format args)"

text \<open>\<open>Display\<close> of a position and of a diagnostic.\<close>

fun digits_of :: "nat \<Rightarrow> string" where
  "digits_of n = (if n < 10 then [char_of (48 + n)] else digits_of (n div 10) @ [char_of (48 + n mod 10)])"

declare digits_of.simps [simp del]

definition show_position :: "position \<Rightarrow> string" where
  "show_position p = digits_of (pos_line p) @ '':'' @ digits_of (pos_col p)"

definition show_diagnostic :: "diagnostic \<Rightarrow> string" where
  "show_diagnostic d =
     (if d_code d = [] then show_position (d_pos d) @ '': '' @ d_msg d
      else show_position (d_pos d) @ '': error['' @ d_code d @ '']: '' @ d_msg d)"

subsection \<open>The registry is functional and complete\<close>

lemmas format_defs =
  F0001_def F0002_def F0003_def F0004_def F0005_def F0006_def F0007_def F0008_def F0009_def F0010_def F0011_def F0012_def F0013_def F0014_def F0015_def F0016_def F0017_def F0018_def F0019_def F0020_def F0021_def F0022_def F0023_def F0024_def F0025_def F0026_def F0027a_def F0027b_def F0028a_def F0028b_def F0028c_def F0028d_def F0029_def F0030_def F0031a_def F0031b_def F0032a_def F0032b_def F0033_def F0034_def F0035_def F0036_def F0037_def F0038_def F0039_def F0040_def F0041_def F0042_def F0043_def F0044_def F0045_def F0046_def F0047_def F0048_def F0049_def F0050_def F0051_def F0052_def F0053_def F0054_def F0055_def F0056_def F0057_def F0058_def F0059_def F0060_def F0061_def F0062_def F0063a_def F0064a_def F0064b_def F0064c_def F0064d_def F0063b_def F0065_def F0066_def

text \<open>Distinctness by fingerprint: comparing 77 numbers is much cheaper than comparing 77 texts.\<close>

definition fingerprint :: "string \<Rightarrow> int" where
  "fingerprint s = foldl (\<lambda>a c. (a * 31 + ord c) mod 1000003) 7 s"

lemma distinct_fingerprints: "distinct (map (\<lambda>e. fingerprint (fst e)) error_codes)"
  by code_simp

lemma distinct_formats: "distinct (map fst error_codes)"
proof -
  have "distinct (map fingerprint (map fst error_codes))"
    using distinct_fingerprints by (simp add: o_def)
  then show ?thesis by (simp only: distinct_map)
qed

text \<open>
  Registry lookups agree with the table: whatever format a component reports with, the diagnostic
  carries exactly the code listed beside it.
\<close>

lemma error_code_registered: "(f, c) \<in> set error_codes \<Longrightarrow> error_code f = c"
  by (simp add: error_code_def distinct_formats)

end
