(* ===== verification/Fly_Lexer.thy ===== *)
theory Fly_Lexer
  imports Fly_Diagnostic
begin

text \<open>
  The lexer (\<^verbatim>\<open>src/lexer/lexer.rs\<close>): a byte scanner with an indentation stack, a bracket depth and a
  queue of layout tokens not yet delivered.  The record is the source's \<open>struct Lexer\<close> plus one ghost
  field, \<open>lx_panic\<close>, that is set where the Rust code would index out of range or unwrap \<open>None\<close>.

  Sources are Rust \<open>&str\<close>, so they are valid UTF-8; every slice the lexer takes starts and ends next to
  an ASCII byte, so \<open>from_utf8_lossy\<close> returns the slice unchanged and the model uses the bytes.
\<close>

record lexer =
  lx_src :: string
  lx_off :: nat
  lx_line :: nat
  lx_col :: nat
  lx_depth :: int
  lx_indents :: "nat list"
  lx_at_line_start :: bool
  lx_line_tok :: bool
  lx_pending :: "token list"
  lx_err :: "diagnostic option"
  lx_panic :: bool

definition lexer_new :: "string \<Rightarrow> lexer" where
  "lexer_new src =
     \<lparr>lx_src = src, lx_off = 0, lx_line = 1, lx_col = 1, lx_depth = 0, lx_indents = [0],
      lx_at_line_start = True, lx_line_tok = False, lx_pending = [], lx_err = None,
      lx_panic = False\<rparr>"

subsection \<open>Primitive operations\<close>

definition lexer_pos :: "lexer \<Rightarrow> position" where
  "lexer_pos l = \<lparr>pos_line = lx_line l, pos_col = lx_col l\<rparr>"

definition lexer_errorf :: "position \<Rightarrow> string \<Rightarrow> string list \<Rightarrow> lexer \<Rightarrow> lexer" where
  "lexer_errorf p format args l =
     (case lx_err l of
        None \<Rightarrow> l\<lparr>lx_err := Some \<lparr>d_pos = p, d_code = error_code format,
                                d_msg = format_msg format args\<rparr>\<rparr>
      | Some _ \<Rightarrow> l)"

text \<open>\<open>more_src l\<close> is the source's \<open>self.off < self.src.len()\<close>, \<open>cur l\<close> the byte read under that test.\<close>

definition more_src :: "lexer \<Rightarrow> bool" where
  "more_src l \<longleftrightarrow> lx_off l < length (lx_src l)"

definition cur :: "lexer \<Rightarrow> byte" where
  "cur l = lx_src l ! lx_off l"

definition advance :: "lexer \<Rightarrow> lexer" where
  "advance l =
     (if more_src l then
        (if cur l = newline
         then l\<lparr>lx_off := lx_off l + 1, lx_line := lx_line l + 1, lx_col := 1\<rparr>
         else l\<lparr>lx_off := lx_off l + 1, lx_col := lx_col l + 1\<rparr>)
      else l\<lparr>lx_panic := True\<rparr>)"

definition peek :: "nat \<Rightarrow> lexer \<Rightarrow> byte" where
  "peek k l = (if lx_off l + k < length (lx_src l) then lx_src l ! (lx_off l + k) else nul)"

definition mk_token :: "token_type \<Rightarrow> string \<Rightarrow> position \<Rightarrow> token" where
  "mk_token ty lit p = \<lparr>t_ty = ty, t_lit = lit, t_line = pos_line p, t_col = pos_col p\<rparr>"

definition push_pending :: "token_type \<Rightarrow> lexer \<Rightarrow> lexer" where
  "push_pending ty l = l\<lparr>lx_pending := lx_pending l @ [mk_token ty [] (lexer_pos l)]\<rparr>"

text \<open>\<open>self.pending.remove(0)\<close>, behind the source's \<open>is_empty\<close> test.\<close>

definition pop_pending :: "lexer \<Rightarrow> token \<times> lexer" where
  "pop_pending l = (hd (lx_pending l), l\<lparr>lx_pending := tl (lx_pending l)\<rparr>)"

text \<open>
  The scanning loops \<open>while off < len && p(src[off]) { advance() }\<close>, and the counting loop over
  leading spaces.
\<close>

lemma off_advance [simp]:
  "more_src l \<Longrightarrow> lx_off (advance l) = lx_off l + 1"
  by (simp add: advance_def)

lemma src_advance [simp]: "lx_src (advance l) = lx_src l"
  by (simp add: advance_def)

lemma off_advance_le [simp]: "lx_off l \<le> lx_off (advance l)"
  by (simp add: advance_def)

lemma off_advance_twice: "more_src l \<Longrightarrow> lx_off l < lx_off (advance (advance l))"
  using off_advance_le [of "advance l"] by simp

function skip_while :: "(byte \<Rightarrow> bool) \<Rightarrow> lexer \<Rightarrow> lexer" where
  "skip_while p l = (if more_src l \<and> p (cur l) then skip_while p (advance l) else l)"
  by pat_completeness auto
termination
  by (relation "measure (\<lambda>(p, l). length (lx_src l) - lx_off l)") (auto simp: more_src_def)

declare skip_while.simps [simp del]

definition skip_line :: "lexer \<Rightarrow> lexer" where
  "skip_line l = skip_while (\<lambda>c. c \<noteq> newline) l"

function count_spaces :: "nat \<Rightarrow> lexer \<Rightarrow> nat \<times> lexer" where
  "count_spaces n l = (if more_src l \<and> cur l = CHR '' '' then count_spaces (n + 1) (advance l) else (n, l))"
  by pat_completeness auto
termination
  by (relation "measure (\<lambda>(n, l). length (lx_src l) - lx_off l)") (auto simp: more_src_def)

declare count_spaces.simps [simp del]

subsection \<open>Layout\<close>

text \<open>\<open>while self.indents.len() > 1 { pop; push_pending(Dedent) }\<close>, at the end of the input.\<close>

function drain_indents :: "lexer \<Rightarrow> lexer" where
  "drain_indents l =
     (if 1 < length (lx_indents l)
      then drain_indents (push_pending T_Dedent (l\<lparr>lx_indents := butlast (lx_indents l)\<rparr>))
      else l)"
  by pat_completeness auto
termination
  by (relation "measure (\<lambda>l. length (lx_indents l))") (auto simp: push_pending_def)

declare drain_indents.simps [simp del]

text \<open>\<open>while !indents.is_empty() && last > n { pop; push_pending(Dedent) }\<close>, before a shallower line.\<close>

function dedent_to :: "nat \<Rightarrow> lexer \<Rightarrow> lexer" where
  "dedent_to n l =
     (if lx_indents l \<noteq> [] \<and> n < last (lx_indents l)
      then dedent_to n (push_pending T_Dedent (l\<lparr>lx_indents := butlast (lx_indents l)\<rparr>))
      else l)"
  by pat_completeness auto
termination
  by (relation "measure (\<lambda>(n, l). length (lx_indents l))") (auto simp: push_pending_def)

declare dedent_to.simps [simp del]

definition set_line_start :: "bool \<Rightarrow> lexer \<Rightarrow> lexer" where
  "set_line_start b l = l\<lparr>lx_at_line_start := b\<rparr>"

text \<open>The end-of-input branch of \<open>line_start\<close>.\<close>

definition line_start_eof :: "lexer \<Rightarrow> token option \<times> lexer" where
  "line_start_eof l =
     (let l1 = drain_indents (set_line_start False l) in
      if lx_pending l1 \<noteq> [] then (case pop_pending l1 of (t, l2) \<Rightarrow> (Some t, l2))
      else (Some (mk_token T_Eof [] (lexer_pos l1)), l1))"

text \<open>The branch for the first byte of a logical line, \<open>n\<close> columns in.\<close>

definition line_start_code :: "nat \<Rightarrow> lexer \<Rightarrow> token option \<times> lexer" where
  "line_start_code n l =
     (if lx_indents l = [] then (None, l\<lparr>lx_panic := True\<rparr>)
      else
        let top = last (lx_indents l);
            l1 = (if top < n then push_pending T_Indent (l\<lparr>lx_indents := lx_indents l @ [n]\<rparr>)
                  else if n < top then dedent_to n l
                  else l)
        in if n < top \<and> lx_indents l1 = [] then (None, l1\<lparr>lx_panic := True\<rparr>)
           else if n < top \<and> last (lx_indents l1) \<noteq> n then
             (let l2 = set_line_start False (lexer_errorf (lexer_pos l1) F0023 [] l1)
              in (Some (mk_token T_Illegal [] (lexer_pos l2)), l2))
           else
             (let l2 = set_line_start False l1
              in if lx_pending l2 \<noteq> [] then (case pop_pending l2 of (t, l3) \<Rightarrow> (Some t, l3))
                 else (None, l2)))"

lemma off_skip_while [simp]: "lx_off l \<le> lx_off (skip_while p l)"
  by (induction p l rule: skip_while.induct)
    (metis le_trans off_advance_le order_refl skip_while.simps)

lemma src_skip_while [simp]: "lx_src (skip_while p l) = lx_src l"
  by (induction p l rule: skip_while.induct) (metis skip_while.simps src_advance)

lemma skip_while_progress: "more_src l \<Longrightarrow> p (cur l) \<Longrightarrow> lx_off l < lx_off (skip_while p l)"
  by (subst skip_while.simps) (simp add: less_le_trans [OF _ off_skip_while])

lemma src_count_spaces [simp]: "lx_src (snd (count_spaces n l)) = lx_src l"
  by (induction n l rule: count_spaces.induct) (metis count_spaces.simps snd_conv src_advance)

lemma off_count_spaces [simp]: "lx_off l \<le> lx_off (snd (count_spaces n l))"
  by (induction n l rule: count_spaces.induct)
    (metis count_spaces.simps le_trans off_advance_le order_refl snd_conv)

definition lx_rest :: "lexer \<Rightarrow> nat" where
  "lx_rest l = length (lx_src l) - lx_off l"

lemma rest_decreases:
  "more_src l \<Longrightarrow> lx_src l = lx_src l0 \<Longrightarrow> lx_off l0 \<le> lx_off l \<Longrightarrow> lx_src l' = lx_src l0 \<Longrightarrow>
   lx_off l < lx_off l' \<Longrightarrow> lx_rest l' < lx_rest l0"
  by (auto simp: more_src_def lx_rest_def)

function line_start :: "lexer \<Rightarrow> token option \<times> lexer" where
  "line_start l0 =
     (let n = fst (count_spaces 0 l0); l = snd (count_spaces 0 l0) in
      if \<not> more_src l then line_start_eof l
      else if cur l = tab then
        (let l1 = set_line_start False (lexer_errorf (lexer_pos l) F0022 [] l)
         in (Some (mk_token T_Illegal [] (lexer_pos l1)), l1))
      else if cur l = newline then line_start (advance l)
      else if cur l = hash_sign then line_start (skip_line l)
      else if cur l = backslash \<and> peek 1 l = newline then line_start (advance (advance l))
      else line_start_code n l)"
  by pat_completeness auto
termination
proof (relation "measure lx_rest", goal_cases)
  case 1
  show ?case by simp
next
  case (2 l0 n l)
  then show ?case by (auto intro!: rest_decreases [of l])
next
  case (3 l0 n l)
  then show ?case
    by (auto intro!: rest_decreases [of l] skip_while_progress simp: skip_line_def)
next
  case (4 l0 n l)
  then show ?case
    by (auto intro!: rest_decreases [of l] off_advance_twice)
qed

declare line_start.simps [simp del]

subsection \<open>Identifiers and string literals\<close>

definition is_ident_start :: "byte \<Rightarrow> bool" where
  "is_ident_start c \<longleftrightarrow> c = CHR ''_'' \<or> is_lower c \<or> is_upper c"

definition is_ident_part :: "byte \<Rightarrow> bool" where
  "is_ident_part c \<longleftrightarrow> is_ident_start c \<or> is_digit c"

definition is_quote :: "byte \<Rightarrow> bool" where
  "is_quote c \<longleftrightarrow> c = single_quote \<or> c = double_quote"

text \<open>
  \<open>is_string_prefix\<close> reads the bytes from the cursor on; \<open>k\<close> is the source's \<open>i - self.off\<close> and
  \<open>seen\<close> the letters found so far (the source keeps four flags).
\<close>

fun string_prefix_loop :: "nat \<Rightarrow> byte list \<Rightarrow> string \<Rightarrow> bool" where
  "string_prefix_loop k seen [] = False"
| "string_prefix_loop k seen (ch # rest) =
     (if is_quote ch then True
      else if 2 \<le> k then False
      else let low = to_lower ch in
        if low \<notin> set ''frbu'' then False
        else if low \<in> set seen then False
        else string_prefix_loop (k + 1) (low # seen) rest)"

definition is_string_prefix :: "lexer \<Rightarrow> bool" where
  "is_string_prefix l = string_prefix_loop 0 [] (drop (lx_off l) (lx_src l))"

definition advance_n :: "nat \<Rightarrow> lexer \<Rightarrow> lexer" where
  "advance_n n l = (advance ^^ n) l"

text \<open>
  The body of a string literal, up to its closing quote: \<open>True\<close> with the cursor on the (first)
  closing quote, \<open>False\<close> where the source reports an unclosed string.
\<close>

function string_body :: "byte \<Rightarrow> bool \<Rightarrow> lexer \<Rightarrow> bool \<times> lexer" where
  "string_body q triple l =
     (if \<not> more_src l then (False, l)
      else if cur l = backslash then
        (let l1 = advance l in string_body q triple (if more_src l1 then advance l1 else l1))
      else if cur l = q then
        (if triple then
           (if peek 1 l = q \<and> peek 2 l = q then (True, l) else string_body q triple (advance l))
         else (True, l))
      else if cur l = newline \<and> \<not> triple then (False, l)
      else string_body q triple (advance l))"
  by pat_completeness auto
termination
  by (relation "measure (\<lambda>(q, triple, l). lx_rest l)")
    (auto intro!: rest_decreases off_advance_twice)

declare string_body.simps [simp del]

definition scan_string :: "string \<Rightarrow> lexer \<Rightarrow> token \<times> lexer" where
  "scan_string prefix l =
     (let start = lexer_pos l;
          q = cur l;
          l1 = advance l;
          triple = (peek 0 l1 = q \<and> peek 1 l1 = q);
          l2 = (if triple then advance_n 2 l1 else l1);
          begin = lx_off l2
      in case string_body q triple l2 of
           (True, l3) \<Rightarrow>
             (let lit = slice (lx_src l3) begin (lx_off l3);
                  qs = (if triple then [q, q, q] else [q])
              in (mk_token T_String (prefix @ qs @ lit @ qs) start,
                  advance_n (if triple then 3 else 1) l3))
         | (False, l3) \<Rightarrow>
             (mk_token T_Illegal [] start, lexer_errorf start F0024 [] l3))"

definition scan_string_prefix :: "lexer \<Rightarrow> token \<times> lexer" where
  "scan_string_prefix l =
     (let l1 = skip_while is_ident_part l;
          prefix = slice (lx_src l) (lx_off l) (lx_off l1)
      in scan_string (map to_lower prefix) l1)"

subsection \<open>Numbers\<close>

definition is_hex_part :: "byte \<Rightarrow> bool" where
  "is_hex_part c \<longleftrightarrow> is_digit c \<or> 97 \<le> ord c \<and> ord c \<le> 102 \<or> 65 \<le> ord c \<and> ord c \<le> 70 \<or> c = CHR ''_''"

definition is_dec_part :: "byte \<Rightarrow> bool" where
  "is_dec_part c \<longleftrightarrow> is_digit c \<or> c = CHR ''_''"

text \<open>
  The decimal branch of \<open>scan_number\<close>: whether the literal is a float and the cursor behind it, or
  \<open>None\<close> with the exponent letter where the digits of the exponent are missing.
\<close>

definition scan_fraction :: "lexer \<Rightarrow> bool \<times> lexer" where
  "scan_fraction l =
     (let l1 = skip_while is_dec_part l
      in if peek 0 l1 = CHR ''.'' then (True, skip_while is_dec_part (advance l1)) else (False, l1))"

definition scan_exponent :: "lexer \<Rightarrow> byte option \<times> bool \<times> lexer" where
  "scan_exponent l =
     (let pe = peek 0 l
      in if pe = CHR ''e'' \<or> pe = CHR ''E'' then
           (let l1 = advance l;
                l2 = (if peek 0 l1 = CHR ''+'' \<or> peek 0 l1 = CHR ''-'' then advance l1 else l1);
                l3 = skip_while is_dec_part l2;
                digits = lx_off l3 - lx_off l2
            in (if digits = 0 then Some pe else None, True, l3))
         else (None, False, l))"

definition finish_number :: "position \<Rightarrow> nat \<Rightarrow> bool \<Rightarrow> lexer \<Rightarrow> token \<times> lexer" where
  "finish_number start off is_float l =
     (let lit = slice (lx_src l) off (lx_off l)
      in if more_src l \<and> is_ident_part (cur l)
         then (mk_token T_Illegal [] start, lexer_errorf start F0026 [lit] l)
         else (mk_token (if is_float then T_Float else T_Int) lit start, l))"

definition scan_number :: "lexer \<Rightarrow> token \<times> lexer" where
  "scan_number l =
     (let start = lexer_pos l; off = lx_off l; p0 = peek 0 l; p1 = peek 1 l
      in if p0 = CHR ''0'' \<and> p1 \<in> set ''xXoObB''
         then finish_number start off False (skip_while is_hex_part (advance_n 2 l))
         else
           case scan_fraction l of (frac, l1) \<Rightarrow>
           (case scan_exponent l1 of
              (Some seen, _, l2) \<Rightarrow>
                (mk_token T_Illegal [] start, lexer_errorf start F0025 [byte_as_char seen] l2)
            | (None, ex, l2) \<Rightarrow> finish_number start off (frac \<or> ex) l2))"

subsection \<open>Operators and punctuation\<close>

definition op_tok :: "token_type \<Rightarrow> nat \<Rightarrow> lexer \<Rightarrow> token \<times> lexer" where
  "op_tok ty n l =
     (mk_token ty (slice (lx_src l) (lx_off l) (lx_off l + n)) (lexer_pos l), advance_n n l)"

definition add_depth :: "int \<Rightarrow> lexer \<Rightarrow> lexer" where
  "add_depth k l = l\<lparr>lx_depth := lx_depth l + k\<rparr>"

definition close_bracket :: "token_type \<Rightarrow> string \<Rightarrow> lexer \<Rightarrow> token \<times> lexer" where
  "close_bracket ty fmt l =
     (let l1 = add_depth (-1) l;
          l2 = (if lx_depth l1 < 0 then lexer_errorf (lexer_pos l) fmt [] l1 else l1)
      in op_tok ty 1 l2)"

definition unexpected :: "string \<Rightarrow> lexer \<Rightarrow> token \<times> lexer" where
  "unexpected s l =
     (mk_token T_Illegal [] (lexer_pos l), lexer_errorf (lexer_pos l) F0027a [s] l)"

definition scan_op :: "lexer \<Rightarrow> token \<times> lexer" where
  "scan_op l =
     (let c = cur l; p1 = peek 1 l; p2 = peek 2 l in
      if c = CHR ''+'' then
        (if p1 = CHR ''='' then op_tok T_PlusAssign 2 l else op_tok T_Plus 1 l)
      else if c = CHR ''-'' then
        (if p1 = CHR ''='' then op_tok T_MinusAssign 2 l
         else if p1 = CHR ''>'' then op_tok T_Arrow 2 l
         else op_tok T_Minus 1 l)
      else if c = CHR ''*'' then
        (if p1 = CHR ''*'' \<and> p2 = CHR ''='' then op_tok T_DoubleStarAssign 3 l
         else if p1 = CHR ''*'' then op_tok T_DoubleStar 2 l
         else if p1 = CHR ''='' then op_tok T_StarAssign 2 l
         else op_tok T_Star 1 l)
      else if c = CHR ''/'' then
        (if p1 = CHR ''/'' \<and> p2 = CHR ''='' then op_tok T_FloorDivAssign 3 l
         else if p1 = CHR ''/'' then op_tok T_FloorDiv 2 l
         else if p1 = CHR ''='' then op_tok T_SlashAssign 2 l
         else op_tok T_Slash 1 l)
      else if c = CHR ''%'' then
        (if p1 = CHR ''='' then op_tok T_PercentAssign 2 l else op_tok T_Percent 1 l)
      else if c = CHR ''<'' then
        (if p1 = CHR ''<'' \<and> p2 = CHR ''='' then op_tok T_ShlAssign 3 l
         else if p1 = CHR ''<'' then op_tok T_Shl 2 l
         else if p1 = CHR ''='' then op_tok T_Le 2 l
         else op_tok T_Lt 1 l)
      else if c = CHR ''>'' then
        (if p1 = CHR ''>'' \<and> p2 = CHR ''='' then op_tok T_ShrAssign 3 l
         else if p1 = CHR ''>'' then op_tok T_Shr 2 l
         else if p1 = CHR ''='' then op_tok T_Ge 2 l
         else op_tok T_Gt 1 l)
      else if c = CHR ''!'' then
        (if p1 = CHR ''='' then op_tok T_Ne 2 l else unexpected ''!'' l)
      else if c = CHR ''&'' then
        (if p1 = CHR ''='' then op_tok T_AmpAssign 2 l else op_tok T_Amp 1 l)
      else if c = CHR ''|'' then
        (if p1 = CHR ''='' then op_tok T_PipeAssign 2 l else op_tok T_Pipe 1 l)
      else if c = CHR ''^'' then
        (if p1 = CHR ''='' then op_tok T_CaretAssign 2 l else op_tok T_Caret 1 l)
      else if c = CHR ''~'' then op_tok T_Tilde 1 l
      else if c = CHR ''='' then
        (if p1 = CHR ''='' then op_tok T_EqEq 2 l else op_tok T_Assign 1 l)
      else if c = CHR '':'' then op_tok T_Colon 1 l
      else if c = CHR '','' then op_tok T_Comma 1 l
      else if c = CHR ''.'' then op_tok T_Dot 1 l
      else if c = CHR '';'' then op_tok T_Semicolon 1 l
      else if c = CHR ''@'' then op_tok T_At 1 l
      else if c = CHR ''('' then op_tok T_LParen 1 (add_depth 1 l)
      else if c = CHR '')'' then close_bracket T_RParen F0028b l
      else if c = CHR ''['' then op_tok T_LBracket 1 (add_depth 1 l)
      else if c = CHR '']'' then close_bracket T_RBracket F0028c l
      else if c = CHR ''{'' then op_tok T_LBrace 1 (add_depth 1 l)
      else if c = CHR ''}'' then close_bracket T_RBrace F0028d l
      else unexpected (byte_as_char c) l)"

subsection \<open>One token, and the driver\<close>

definition scan_ident :: "lexer \<Rightarrow> token \<times> lexer" where
  "scan_ident l =
     (let l1 = skip_while is_ident_part l;
          name = slice (lx_src l) (lx_off l) (lx_off l1)
      in (mk_token (case keyword name of Some tt \<Rightarrow> tt | None \<Rightarrow> T_Ident) name (lexer_pos l), l1))"

definition lex_token :: "lexer \<Rightarrow> token \<times> lexer" where
  "lex_token l =
     (if \<not> more_src l then (mk_token T_Illegal [] (lexer_pos l), l\<lparr>lx_panic := True\<rparr>)
      else let c = cur l in
        if c \<in> set ''fFrRbBuU'' \<and> is_string_prefix l then scan_string_prefix l
        else if is_ident_start c then scan_ident l
        else if is_digit c then scan_number l
        else if is_quote c then scan_string [] l
        else if c = CHR ''.'' \<and> peek 1 l = CHR ''.'' \<and> peek 2 l = CHR ''.''
        then (mk_token T_Ellipsis ''...'' (lexer_pos l), advance_n 3 l)
        else if c = CHR ''.'' \<and> is_digit (peek 1 l) then scan_number l
        else scan_op l)"

text \<open>The branch of \<open>next\<close> for an exhausted source, outside \<open>line_start\<close>.\<close>

definition next_eof :: "lexer \<Rightarrow> token \<times> lexer" where
  "next_eof l =
     (if lx_line_tok l then (mk_token T_Newline [] (lexer_pos l), l\<lparr>lx_line_tok := False\<rparr>)
      else
        let l1 = (if 0 < lx_depth l then lexer_errorf (lexer_pos l) F0021 [] l else l);
            l2 = drain_indents l1
        in if lx_pending l2 \<noteq> [] then pop_pending l2
           else (mk_token T_Eof [] (lexer_pos l2), l2))"


text \<open>Layout operations move neither the cursor nor the source.\<close>

lemma frame_errorf [simp]:
  "lx_src (lexer_errorf p f as l) = lx_src l" "lx_off (lexer_errorf p f as l) = lx_off l"
  "lx_line (lexer_errorf p f as l) = lx_line l" "lx_col (lexer_errorf p f as l) = lx_col l"
  "lx_depth (lexer_errorf p f as l) = lx_depth l" "lx_indents (lexer_errorf p f as l) = lx_indents l"
  "lx_pending (lexer_errorf p f as l) = lx_pending l"
  "lx_line_tok (lexer_errorf p f as l) = lx_line_tok l"
  "lx_at_line_start (lexer_errorf p f as l) = lx_at_line_start l"
  "lx_panic (lexer_errorf p f as l) = lx_panic l"
  by (simp_all add: lexer_errorf_def split: option.split)

lemma frame_set_line_start [simp]:
  "lx_src (set_line_start b l) = lx_src l" "lx_off (set_line_start b l) = lx_off l"
  "lx_line (set_line_start b l) = lx_line l" "lx_col (set_line_start b l) = lx_col l"
  "lx_depth (set_line_start b l) = lx_depth l" "lx_indents (set_line_start b l) = lx_indents l"
  "lx_pending (set_line_start b l) = lx_pending l" "lx_err (set_line_start b l) = lx_err l"
  "lx_line_tok (set_line_start b l) = lx_line_tok l" "lx_panic (set_line_start b l) = lx_panic l"
  "lx_at_line_start (set_line_start b l) = b"
  by (simp_all add: set_line_start_def)

lemma frame_push_pending [simp]:
  "lx_src (push_pending ty l) = lx_src l" "lx_off (push_pending ty l) = lx_off l"
  "lx_line (push_pending ty l) = lx_line l" "lx_col (push_pending ty l) = lx_col l"
  "lx_depth (push_pending ty l) = lx_depth l" "lx_indents (push_pending ty l) = lx_indents l"
  "lx_err (push_pending ty l) = lx_err l" "lx_line_tok (push_pending ty l) = lx_line_tok l"
  "lx_at_line_start (push_pending ty l) = lx_at_line_start l"
  "lx_panic (push_pending ty l) = lx_panic l"
  by (simp_all add: push_pending_def)

lemma frame_drain_indents [simp]:
  "lx_src (drain_indents l) = lx_src l" "lx_off (drain_indents l) = lx_off l"
  "lx_line (drain_indents l) = lx_line l" "lx_col (drain_indents l) = lx_col l"
  "lx_depth (drain_indents l) = lx_depth l" "lx_err (drain_indents l) = lx_err l"
  "lx_line_tok (drain_indents l) = lx_line_tok l" "lx_panic (drain_indents l) = lx_panic l"
  "lx_at_line_start (drain_indents l) = lx_at_line_start l"
  by (induction l rule: drain_indents.induct, subst drain_indents.simps, simp)+

lemma frame_dedent_to [simp]:
  "lx_src (dedent_to n l) = lx_src l" "lx_off (dedent_to n l) = lx_off l"
  "lx_line (dedent_to n l) = lx_line l" "lx_col (dedent_to n l) = lx_col l"
  "lx_depth (dedent_to n l) = lx_depth l" "lx_err (dedent_to n l) = lx_err l"
  "lx_line_tok (dedent_to n l) = lx_line_tok l" "lx_panic (dedent_to n l) = lx_panic l"
  "lx_at_line_start (dedent_to n l) = lx_at_line_start l"
  by (induction n l rule: dedent_to.induct, subst dedent_to.simps, simp)+

lemma line_start_eof_cursor:
  "lx_src (snd (line_start_eof l)) = lx_src l \<and> lx_off (snd (line_start_eof l)) = lx_off l"
  by (simp add: line_start_eof_def Let_def pop_pending_def)

lemma line_start_code_cursor:
  "lx_src (snd (line_start_code n l)) = lx_src l \<and> lx_off (snd (line_start_code n l)) = lx_off l"
  by (simp add: line_start_code_def Let_def pop_pending_def)

lemma line_start_cursor:
  "lx_src (snd (line_start l)) = lx_src l \<and> lx_off l \<le> lx_off (snd (line_start l))"
proof (induction l rule: line_start.induct)
  case (1 l0)
  define l where "l = snd (count_spaces 0 l0)"
  have l: "lx_src l = lx_src l0" "lx_off l0 \<le> lx_off l" by (simp_all add: l_def)
  note IH = "1.IH" [OF refl refl, folded l_def]
  have step: "lx_off l0 \<le> lx_off (snd (line_start l'))"
    if "lx_off l' \<le> lx_off (snd (line_start l'))" "lx_off l \<le> lx_off l'" for l'
    using that l(2) by linarith
  show ?case
    unfolding line_start.simps [of l0] Let_def l_def [symmetric]
    using l IH off_advance_twice [of l]
    by (auto simp: line_start_eof_cursor line_start_code_cursor skip_line_def less_imp_le
        intro!: step)
qed

lemma next_line_start_cursor:
  "(if lx_at_line_start l0 then line_start l0 else (None, l0)) = (r, l) \<Longrightarrow>
   lx_src l = lx_src l0 \<and> lx_off l0 \<le> lx_off l"
  using line_start_cursor [of l0] by (auto split: if_splits)

function next_loop :: "lexer \<Rightarrow> token \<times> lexer" where
  "next_loop l0 =
     (case (if lx_at_line_start l0 then line_start l0 else (None, l0)) of
        (Some t, l) \<Rightarrow> (t, l)
      | (None, l) \<Rightarrow>
          if \<not> more_src l then next_eof l
          else let c = cur l in
            if c = CHR '' '' \<or> c = carriage_return \<or> c = tab then next_loop (advance l)
            else if c = newline then
              (if 0 < lx_depth l then next_loop (advance l)
               else
                 let pos = lexer_pos l;
                     l1 = set_line_start True (advance l)
                 in if lx_line_tok l1 then (mk_token T_Newline [] pos, l1\<lparr>lx_line_tok := False\<rparr>)
                    else next_loop l1)
            else if c = hash_sign then next_loop (skip_line l)
            else if c = backslash \<and> peek 1 l = newline then next_loop (advance (advance l))
            else (case lex_token l of (t, l1) \<Rightarrow>
                    (t, if t_ty t \<noteq> T_Illegal then l1\<lparr>lx_line_tok := True\<rparr> else l1)))"
  by pat_completeness auto
termination
proof (relation "measure lx_rest", goal_cases)
  case 1
  show ?case by simp
next
  case (2 l0 r l c)
  from next_line_start_cursor [OF 2(1) [symmetric]] 2(3-) show ?case
    by (auto intro!: rest_decreases [of l])
next
  case (3 l0 r l c)
  from next_line_start_cursor [OF 3(1) [symmetric]] 3(3-) show ?case
    by (auto intro!: rest_decreases [of l])
next
  case (4 l0 r l c p l1)
  from next_line_start_cursor [OF 4(1) [symmetric]] 4(3-) show ?case
    by (auto intro!: rest_decreases [of l])
next
  case (5 l0 r l c)
  from next_line_start_cursor [OF 5(1) [symmetric]] 5(3-) show ?case
    by (auto intro!: rest_decreases [of l] skip_while_progress simp: skip_line_def)
next
  case (6 l0 r l c)
  from next_line_start_cursor [OF 6(1) [symmetric]] 6(3-) show ?case
    by (auto intro!: rest_decreases [of l] off_advance_twice)
qed

declare next_loop.simps [simp del]

definition lexer_next :: "lexer \<Rightarrow> token \<times> lexer" where
  "lexer_next l =
     (if lx_err l \<noteq> None then (mk_token T_Eof [] (lexer_pos l), l)
      else if lx_pending l \<noteq> [] then pop_pending l
      else next_loop l)"

end
