(* ===== verification/Fly_Lexer_Facts.thy ===== *)
theory Fly_Lexer_Facts
  imports Fly_Lexer
begin

text \<open>
  Facts about the lexer: where the cursor is (\<open>cursor_ok\<close>: line and column are those of the byte
  offset, and no out-of-range read has happened), the shape of the layout state (\<open>layout_ok\<close>: a
  strictly increasing indentation stack on top of 0, and only layout tokens queued), and the progress
  measure that makes every token stream finite.
\<close>

subsection \<open>The control part of the state\<close>

definition ctl :: "lexer \<Rightarrow> string \<times> int \<times> nat list \<times> bool \<times> bool \<times> token list \<times> diagnostic option" where
  "ctl l = (lx_src l, lx_depth l, lx_indents l, lx_at_line_start l, lx_line_tok l, lx_pending l, lx_err l)"

lemma ctl_eq_iff:
  "ctl l' = ctl l \<longleftrightarrow>
     lx_src l' = lx_src l \<and> lx_depth l' = lx_depth l \<and> lx_indents l' = lx_indents l \<and>
     lx_at_line_start l' = lx_at_line_start l \<and> lx_line_tok l' = lx_line_tok l \<and>
     lx_pending l' = lx_pending l \<and> lx_err l' = lx_err l"
  by (auto simp: ctl_def)

lemma ctl_advance [simp, lexer_frame]: "ctl (advance l) = ctl l"
  by (simp add: ctl_def advance_def)

lemma ctl_skip_while [simp, lexer_frame]: "ctl (skip_while p l) = ctl l"
  by (induction p l rule: skip_while.induct) (metis ctl_advance skip_while.simps)

lemma ctl_count_spaces [simp, lexer_frame]: "ctl (snd (count_spaces n l)) = ctl l"
  by (induction n l rule: count_spaces.induct) (metis count_spaces.simps ctl_advance snd_conv)

lemma ctl_advance_n [simp, lexer_frame]: "ctl (advance_n n l) = ctl l"
  by (induction n) (simp_all add: advance_n_def)

lemma ctl_string_body [simp, lexer_frame]: "ctl (snd (string_body q tr l)) = ctl l"
proof (induction q tr l rule: string_body.induct)
  case (1 q tr l)
  then show ?case by (subst string_body.simps) (auto simp: Let_def)
qed

lemmas ctl_fields = ctl_eq_iff [THEN iffD1]

subsection \<open>The cursor\<close>

definition line_of :: "string \<Rightarrow> nat \<Rightarrow> nat" where
  "line_of src o' = 1 + count_list (take o' src) newline"

definition col_of :: "string \<Rightarrow> nat \<Rightarrow> nat" where
  "col_of src o' = 1 + length (takeWhile (\<lambda>c. c \<noteq> newline) (rev (take o' src)))"

definition cursor_ok :: "lexer \<Rightarrow> bool" where
  "cursor_ok l \<longleftrightarrow>
     lx_off l \<le> length (lx_src l) \<and> \<not> lx_panic l \<and>
     lx_line l = line_of (lx_src l) (lx_off l) \<and> lx_col l = col_of (lx_src l) (lx_off l)"

lemma count_list_le_length: "count_list xs x \<le> length xs"
  by (induction xs) auto

lemma line_of_bound: "line_of src o' \<le> o' + 1"
  unfolding line_of_def using count_list_le_length [of "take o' src" newline] by simp

lemma col_of_bound: "col_of src o' \<le> o' + 1"
  unfolding col_of_def using length_takeWhile_le [of "\<lambda>c. c \<noteq> newline" "rev (take o' src)"] by simp

lemma cursor_ok_advance [simp, intro]: "cursor_ok l \<Longrightarrow> more_src l \<Longrightarrow> cursor_ok (advance l)"
  by (auto simp: cursor_ok_def advance_def more_src_def cur_def line_of_def col_of_def
      take_Suc_conv_app_nth)

lemma cursor_ok_skip_while [simp, intro]: "cursor_ok l \<Longrightarrow> cursor_ok (skip_while p l)"
proof (induction p l rule: skip_while.induct)
  case (1 p l)
  then show ?case by (subst skip_while.simps) auto
qed

lemma cursor_ok_count_spaces [simp, intro]: "cursor_ok l \<Longrightarrow> cursor_ok (snd (count_spaces n l))"
proof (induction n l rule: count_spaces.induct)
  case (1 n l)
  then show ?case by (subst count_spaces.simps) auto
qed

lemma cursor_ok_string_body [simp, intro]: "cursor_ok l \<Longrightarrow> cursor_ok (snd (string_body q tr l))"
proof (induction q tr l rule: string_body.induct)
  case (1 q tr l)
  then show ?case by (subst string_body.simps) (auto simp: Let_def)
qed

lemma off_advance_n:
  "lx_off l + n \<le> length (lx_src l) \<Longrightarrow> lx_off (advance_n n l) = lx_off l + n"
proof (induction n)
  case (Suc n)
  have "lx_src (advance_n n l) = lx_src l" using ctl_advance_n [of n l] by (simp add: ctl_def)
  with Suc show ?case by (simp add: advance_n_def more_src_def)
qed (simp add: advance_n_def)

lemma cursor_ok_advance_n:
  "cursor_ok l \<Longrightarrow> lx_off l + n \<le> length (lx_src l) \<Longrightarrow> cursor_ok (advance_n n l)"
proof (induction n)
  case (Suc n)
  have "lx_src (advance_n n l) = lx_src l" using ctl_advance_n [of n l] by (simp add: ctl_def)
  moreover have "lx_off (advance_n n l) = lx_off l + n" using Suc.prems by (intro off_advance_n) simp
  ultimately have "more_src (advance_n n l)" using Suc.prems by (simp add: more_src_def)
  with Suc show ?case by (auto simp: advance_n_def)
qed (simp add: advance_n_def)

text \<open>Reading a byte other than NUL ahead of the cursor means the byte is there.\<close>

lemma peek_in_range: "peek k l = c \<Longrightarrow> c \<noteq> nul \<Longrightarrow> lx_off l + k < length (lx_src l)"
  by (auto simp: peek_def split: if_splits)

lemma cursor_ok_ctl:
  "lx_src l' = lx_src l \<Longrightarrow> lx_off l' = lx_off l \<Longrightarrow> lx_line l' = lx_line l \<Longrightarrow>
   lx_col l' = lx_col l \<Longrightarrow> lx_panic l' = lx_panic l \<Longrightarrow> cursor_ok l' = cursor_ok l"
  by (simp add: cursor_ok_def)

lemma cursor_ok_frame [simp]:
  "cursor_ok (lexer_errorf p f as l) = cursor_ok l"
  "cursor_ok (set_line_start b l) = cursor_ok l"
  "cursor_ok (push_pending ty l) = cursor_ok l"
  "cursor_ok (drain_indents l) = cursor_ok l"
  "cursor_ok (dedent_to n l) = cursor_ok l"
  "cursor_ok (add_depth k l) = cursor_ok l"
  "cursor_ok (l\<lparr>lx_line_tok := b\<rparr>) = cursor_ok l"
  "cursor_ok (l\<lparr>lx_indents := is\<rparr>) = cursor_ok l"
  "cursor_ok (l\<lparr>lx_pending := ts\<rparr>) = cursor_ok l"
  by (rule cursor_ok_ctl; simp add: add_depth_def)+

subsection \<open>What one scanner may do\<close>

text \<open>Bracket and indentation weight of a token.\<close>

definition bracket_of :: "token_type \<Rightarrow> int" where
  "bracket_of ty =
     (if ty \<in> {T_LParen, T_LBracket, T_LBrace} then 1
      else if ty \<in> {T_RParen, T_RBracket, T_RBrace} then -1 else 0)"

definition bracket_weight :: "token \<Rightarrow> int" where
  "bracket_weight t = bracket_of (t_ty t)"

definition indent_weight :: "token \<Rightarrow> int" where
  "indent_weight t = (if t_ty t = T_Indent then 1 else if t_ty t = T_Dedent then -1 else 0)"

definition layout_types :: "token_type set" where
  "layout_types = {T_Eof, T_Newline, T_Indent, T_Dedent}"

text \<open>
  The contract of every scanner called by \<open>lex_token\<close>: it only moves the cursor forward, touches the
  bracket depth exactly by the weight of its token, reports an error whenever its token is illegal,
  and never makes up a layout token.
\<close>

definition scan_ok :: "lexer \<Rightarrow> token \<times> lexer \<Rightarrow> bool" where
  "scan_ok l r \<longleftrightarrow>
     (let t = fst r; l' = snd r in
      cursor_ok l' \<and> lx_src l' = lx_src l \<and> lx_off l \<le> lx_off l' \<and> lx_indents l' = lx_indents l \<and>
      lx_at_line_start l' = lx_at_line_start l \<and> lx_line_tok l' = lx_line_tok l \<and>
      lx_pending l' = lx_pending l \<and>
      lx_depth l' = lx_depth l + bracket_weight t \<and>
      (lx_err l' = None \<longrightarrow> 0 \<le> lx_depth l \<longrightarrow> 0 \<le> lx_depth l') \<and>
      (t_ty t = T_Illegal \<longrightarrow> lx_err l' \<noteq> None) \<and>
      (t_ty t \<noteq> T_Illegal \<longrightarrow> lx_off l < lx_off l') \<and>
      t_ty t \<notin> layout_types)"

lemma mk_token_sel [simp]:
  "t_ty (mk_token ty lit p) = ty" "t_lit (mk_token ty lit p) = lit"
  "t_line (mk_token ty lit p) = pos_line p" "t_col (mk_token ty lit p) = pos_col p"
  by (simp_all add: mk_token_def)

lemma err_errorf [simp]: "lx_err (lexer_errorf p f as l) \<noteq> None"
  by (simp add: lexer_errorf_def split: option.split)

lemma err_errorf_Some [simp]: "\<exists>d. lx_err (lexer_errorf p f as l) = Some d"
  using err_errorf by blast

text \<open>A token made without touching brackets, from a state reached by moving the cursor only.\<close>

lemma scan_ok_move:
  assumes "cursor_ok l'" "ctl l' = ctl l" "lx_off l < lx_off l'"
    and "bracket_weight t = 0" "t_ty t \<notin> layout_types" "t_ty t \<noteq> T_Illegal"
  shows "scan_ok l (t, l')"
  using assms ctl_fields [OF assms(2)] by (simp add: scan_ok_def)

lemma scan_ok_illegal:
  assumes "cursor_ok l'" "ctl l' = ctl l" "lx_off l \<le> lx_off l'"
  shows "scan_ok l (mk_token T_Illegal [] p, lexer_errorf q f as l')"
  using assms ctl_fields [OF assms(2)]
  by (simp add: scan_ok_def bracket_weight_def bracket_of_def layout_types_def)

lemma keyword_weight:
  "bracket_weight (mk_token (case keyword n of Some tt \<Rightarrow> tt | None \<Rightarrow> T_Ident) lit p) = 0"
  "(case keyword n of Some tt \<Rightarrow> tt | None \<Rightarrow> T_Ident) \<notin> insert T_Illegal layout_types"
proof -
  have "list_all (\<lambda>(k, t). case t of T_Kw _ \<Rightarrow> True | T_Fly _ \<Rightarrow> True | _ \<Rightarrow> False) keyword_table"
    by (simp add: keyword_table_def)
  then have "keyword n = Some tt \<Longrightarrow> (\<exists>k. tt = T_Kw k) \<or> (\<exists>k. tt = T_Fly k)" for tt
    by (fastforce simp: keyword_def list_all_iff dest!: map_of_SomeD split: token_type.splits)
  then show "bracket_weight (mk_token (case keyword n of Some tt \<Rightarrow> tt | None \<Rightarrow> T_Ident) lit p) = 0"
    "(case keyword n of Some tt \<Rightarrow> tt | None \<Rightarrow> T_Ident) \<notin> insert T_Illegal layout_types"
    by (auto simp: bracket_weight_def bracket_of_def layout_types_def split: option.splits)
qed

lemma scan_ok_ident:
  assumes "cursor_ok l" "more_src l" "is_ident_start (cur l)"
  shows "scan_ok l (scan_ident l)"
proof -
  have "lx_off l < lx_off (skip_while is_ident_part l)"
    using assms by (intro skip_while_progress) (simp_all add: is_ident_part_def)
  with assms keyword_weight show ?thesis
    unfolding scan_ident_def Let_def by (intro scan_ok_move) auto
qed

lemma rest_advance: "more_src l \<Longrightarrow> lx_rest (advance l) < lx_rest l"
  by (rule rest_decreases [of l]) simp_all

lemma rest_advance_twice: "more_src l \<Longrightarrow> lx_rest (advance (advance l)) < lx_rest l"
  by (rule rest_decreases [of l]) (simp_all add: off_advance_twice)

lemma off_string_body: "lx_off l \<le> lx_off (snd (string_body q tr l))"
proof (induction l rule: measure_induct_rule [of lx_rest])
  case (less l)
  have "lx_off l \<le> lx_off (snd (string_body q tr l'))"
    if "l' = advance l \<or> l' = advance (advance l)" "more_src l" for l'
    using that less.IH [of l'] rest_advance [of l] rest_advance_twice [of l]
      off_advance_le [of l] off_advance_le [of "advance l"]
    by (metis le_trans)
  then show ?case
    by (subst string_body.simps) (cases tr; simp add: Let_def)
qed

text \<open>Where the body of a string closes, the closing quotes are there.\<close>

lemma string_body_closed:
  assumes "q \<noteq> nul"
  shows "string_body q tr l = (True, l') \<Longrightarrow>
    more_src l' \<and> cur l' = q \<and> (tr \<longrightarrow> lx_off l' + 2 < length (lx_src l'))"
proof (induction l rule: measure_induct_rule [of lx_rest])
  case (less l)
  have IH: "more_src l' \<and> cur l' = q \<and> (tr \<longrightarrow> lx_off l' + 2 < length (lx_src l'))"
    if "l1 = advance l \<or> l1 = advance (advance l)" "more_src l" "string_body q tr l1 = (True, l')" for l1
    using that less.IH [of l1] rest_advance [of l] rest_advance_twice [of l] by metis
  from less.prems assms IH [of "advance l"] IH [of "advance (advance l)"] show ?case
    by (subst (asm) string_body.simps)
      (cases tr; auto simp: Let_def split: if_splits dest!: peek_in_range [of 2])
qed

text \<open>A scanning loop stops exactly behind the longest run of matching bytes.\<close>

lemma drop_more: "more_src l \<Longrightarrow> drop (lx_off l) (lx_src l) = cur l # drop (lx_off l + 1) (lx_src l)"
  by (simp add: more_src_def cur_def Cons_nth_drop_Suc)

lemma off_skip_while_eq:
  "lx_off (skip_while p l) = lx_off l + length (takeWhile p (drop (lx_off l) (lx_src l)))"
proof (induction p l rule: skip_while.induct)
  case (1 p l)
  show ?case
  proof (cases "more_src l")
    case True
    with 1 show ?thesis by (subst skip_while.simps) (simp add: drop_more)
  next
    case False
    then show ?thesis by (subst skip_while.simps) (simp add: more_src_def)
  qed
qed

lemma skip_while_lands:
  assumes "drop (lx_off l) (lx_src l) = pre @ c # post" "list_all p pre" "\<not> p c"
  shows "more_src (skip_while p l)" "cur (skip_while p l) = c"
proof -
  have off: "lx_off (skip_while p l) = lx_off l + length pre"
    using assms by (simp add: off_skip_while_eq list_all_iff)
  have len: "length (lx_src l) - lx_off l = length pre + 1 + length post"
    using arg_cong [OF assms(1), of length] by simp
  show "more_src (skip_while p l)" using off len by (simp add: more_src_def)
  have "lx_src l ! (lx_off l + length pre) = (pre @ c # post) ! length pre"
    using assms(1) len by (metis add_leD1 le_add_diff_inverse nth_drop nat_le_linear
        diff_is_0_eq add_is_0 zero_neq_one)
  then show "cur (skip_while p l) = c" using off by (simp add: cur_def)
qed

lemma string_prefix_loop_quote:
  "string_prefix_loop k seen bs \<Longrightarrow>
   \<exists>pre q post. bs = pre @ q # post \<and> is_quote q \<and> list_all is_ident_part pre"
proof (induction k seen bs rule: string_prefix_loop.induct)
  case (2 k seen ch rest)
  show ?case
  proof (cases "is_quote ch")
    case True
    then show ?thesis by (intro exI [of _ "[]"]) auto
  next
    case False
    with "2.prems" have c: "to_lower ch \<in> set ''frbu''"
      and r: "string_prefix_loop (k + 1) (to_lower ch # seen) rest"
      and k: "\<not> 2 \<le> k" and n: "to_lower ch \<notin> set seen"
      by (auto simp: Let_def split: if_splits)
    from c have "is_ident_part ch"
      by (cases "is_upper ch")
        (auto simp: is_ident_part_def is_ident_start_def to_lower_def is_lower_def ord_def)
    moreover from "2.IH" [OF False k refl _ _ r] c n obtain pre q post
      where "rest = pre @ q # post" "is_quote q" "list_all is_ident_part pre" by auto
    ultimately show ?thesis by (intro exI [of _ "ch # pre"]) auto
  qed
qed simp

lemma quote_facts: "is_quote q \<Longrightarrow> q \<noteq> nul \<and> \<not> is_ident_part q \<and> q \<noteq> newline"
  by (auto simp: is_quote_def is_ident_part_def is_ident_start_def is_digit_def is_lower_def
      is_upper_def ord_def)

lemma ctl_src: "ctl l' = ctl l \<Longrightarrow> lx_src l' = lx_src l"
  by (simp add: ctl_def)

lemma scan_ok_string:
  assumes ok: "cursor_ok l" "more_src l" "is_quote (cur l)"
  shows "scan_ok l (scan_string prefix l)"
proof -
  define q where "q = cur l"
  define l1 where "l1 = advance l"
  define triple where "triple = (peek 0 l1 = q \<and> peek 1 l1 = q)"
  define l2 where "l2 = (if triple then advance_n 2 l1 else l1)"
  have q: "q \<noteq> nul" using quote_facts ok(3) by (simp add: q_def)
  have l1: "cursor_ok l1" "ctl l1 = ctl l" "lx_off l < lx_off l1" using ok by (simp_all add: l1_def)
  have room: "triple \<Longrightarrow> lx_off l1 + 2 \<le> length (lx_src l1)"
    using q peek_in_range [of 1 l1 q] by (auto simp: triple_def)
  have l2: "cursor_ok l2" "ctl l2 = ctl l" "lx_off l < lx_off l2"
    using l1 room cursor_ok_advance_n [of l1 2] off_advance_n [of l1 2] by (auto simp: l2_def)
  obtain ok3 l3 where body: "string_body q triple l2 = (ok3, l3)" by fastforce
  have l3: "cursor_ok l3" "ctl l3 = ctl l" "lx_off l < lx_off l3"
    using l2 body cursor_ok_string_body [of l2 q triple] ctl_string_body [of q triple l2]
      off_string_body [of l2 q triple] by auto
  define k :: nat where "k = (if triple then 3 else 1)"
  have k: "ok3 \<Longrightarrow> lx_off l3 + k \<le> length (lx_src l3)"
    using string_body_closed [OF q, of triple l2 l3] body by (auto simp: k_def more_src_def)
  have fin: "ok3 \<Longrightarrow> cursor_ok (advance_n k l3) \<and> lx_off l < lx_off (advance_n k l3)"
    using k l3 cursor_ok_advance_n [of l3 k] off_advance_n [of l3 k] by auto
  note str = scan_string_def Let_def q_def [symmetric] l1_def [symmetric] triple_def [symmetric]
    l2_def [symmetric] k_def [symmetric]
  show ?thesis
  proof (cases ok3)
    case True
    have "scan_ok l (mk_token T_String lit p, advance_n k l3)" for lit p
      using fin [OF True] l3(2) by (intro scan_ok_move) (simp_all add: bracket_weight_def bracket_of_def layout_types_def)
    with True show ?thesis unfolding str body by simp
  next
    case False
    have "scan_ok l (mk_token T_Illegal [] (lexer_pos l), lexer_errorf (lexer_pos l) F0024 [] l3)"
      using l3 by (intro scan_ok_illegal) simp_all
    with False show ?thesis unfolding str body by simp
  qed
qed

text \<open>A scanner may first move the cursor.\<close>

lemma scan_ok_trans: "ctl l1 = ctl l \<Longrightarrow> lx_off l \<le> lx_off l1 \<Longrightarrow> scan_ok l1 r \<Longrightarrow> scan_ok l r"
  by (auto simp: scan_ok_def ctl_def Let_def)

lemma scan_ok_string_prefix:
  assumes ok: "cursor_ok l" "is_string_prefix l"
  shows "scan_ok l (scan_string_prefix l)"
proof -
  define l1 where "l1 = skip_while is_ident_part l"
  from string_prefix_loop_quote ok(2) obtain pre q post
    where d: "drop (lx_off l) (lx_src l) = pre @ q # post" "is_quote q" "list_all is_ident_part pre"
    unfolding is_string_prefix_def by blast
  have "more_src l1" "cur l1 = q"
    using skip_while_lands [OF d(1,3)] quote_facts [OF d(2)] by (simp_all add: l1_def)
  then have "scan_ok l1 (scan_string px l1)" for px
    using ok d(2) by (intro scan_ok_string) (simp_all add: l1_def)
  then have "scan_ok l (scan_string px l1)" for px
    by (rule scan_ok_trans [rotated 2]) (simp_all add: l1_def)
  then show ?thesis by (simp add: scan_string_prefix_def Let_def l1_def)
qed


lemma off_skip_while_trans:
  "n \<le> lx_off l \<Longrightarrow> n \<le> lx_off (skip_while p l)" "n < lx_off l \<Longrightarrow> n < lx_off (skip_while p l)"
  using off_skip_while [of l p] by linarith+

lemma scan_ok_number_finish:
  assumes "cursor_ok l1" "ctl l1 = ctl l" "lx_off l < lx_off l1"
  shows "scan_ok l (finish_number start off fl l1)"
proof -
  have "scan_ok l (mk_token (if fl then T_Float else T_Int) lit start, l1)" for lit
    using assms by (intro scan_ok_move) (simp_all add: bracket_weight_def bracket_of_def layout_types_def)
  moreover have "scan_ok l (mk_token T_Illegal [] start, lexer_errorf start F0026 [lit] l1)" for lit
    using assms by (intro scan_ok_illegal) simp_all
  ultimately show ?thesis by (simp add: finish_number_def Let_def)
qed

lemma peek_more: "peek 0 l \<noteq> nul \<Longrightarrow> more_src l"
  by (auto simp: peek_def more_src_def split: if_splits)

lemma peek_0_cur: "more_src l \<Longrightarrow> peek 0 l = cur l"
  by (simp add: peek_def more_src_def cur_def)

lemma scan_fraction_ok:
  assumes "cursor_ok l" "more_src l" "is_digit (cur l) \<or> cur l = CHR ''.''"
  shows "cursor_ok (snd (scan_fraction l)) \<and> ctl (snd (scan_fraction l)) = ctl l \<and>
    lx_off l < lx_off (snd (scan_fraction l))"
proof -
  define l1 where "l1 = skip_while is_dec_part l"
  have l1: "cursor_ok l1" "ctl l1 = ctl l" "lx_off l \<le> lx_off l1" using assms by (simp_all add: l1_def)
  show ?thesis
  proof (cases "peek 0 l1 = CHR ''.''")
    case True
    then have m: "more_src l1" by (intro peek_more) simp
    then have "lx_off l < lx_off (skip_while is_dec_part (advance l1))"
      using l1(3) off_skip_while [of "advance l1" is_dec_part] by simp
    with True m l1 show ?thesis by (simp add: scan_fraction_def Let_def l1_def [symmetric])
  next
    case False
    have "is_dec_part (cur l)"
    proof (rule ccontr)
      assume *: "\<not> is_dec_part (cur l)"
      then have "l1 = l" by (simp add: l1_def skip_while.simps)
      with * False assms show False by (auto simp: is_dec_part_def peek_0_cur)
    qed
    with assms have "lx_off l < lx_off l1" by (simp add: l1_def skip_while_progress)
    with False l1 show ?thesis by (simp add: scan_fraction_def Let_def l1_def [symmetric])
  qed
qed

lemma scan_exponent_ok:
  assumes "cursor_ok l" "scan_exponent l = (r, ex, l')"
  shows "cursor_ok l' \<and> ctl l' = ctl l \<and> lx_off l \<le> lx_off l'"
proof (cases "peek 0 l = CHR ''e'' \<or> peek 0 l = CHR ''E''")
  case True
  define l1 where "l1 = advance l"
  define l2 where "l2 = (if peek 0 l1 = CHR ''+'' \<or> peek 0 l1 = CHR ''-'' then advance l1 else l1)"
  from True have "more_src l" by (intro peek_more) auto
  then have l1: "cursor_ok l1" "ctl l1 = ctl l" "lx_off l \<le> lx_off l1"
    using assms by (simp_all add: l1_def)
  have "cursor_ok l2 \<and> ctl l2 = ctl l \<and> lx_off l \<le> lx_off l2"
    using l1 peek_more [of l1] by (auto simp: l2_def)
  moreover have "l' = skip_while is_dec_part l2"
    using assms(2) True by (simp add: scan_exponent_def Let_def l1_def [symmetric] l2_def [symmetric])
  ultimately show ?thesis by (auto intro: off_skip_while_trans)
next
  case False
  with assms show ?thesis by (simp add: scan_exponent_def Let_def)
qed

lemma scan_ok_number:
  assumes "cursor_ok l" "more_src l" "is_digit (cur l) \<or> cur l = CHR ''.''"
  shows "scan_ok l (scan_number l)"
proof (cases "peek 0 l = CHR ''0'' \<and> peek 1 l \<in> set ''xXoObB''")
  case True
  define l1 where "l1 = advance_n 2 l"
  from True have "lx_off l + 1 < length (lx_src l)" by (intro peek_in_range [OF refl]) auto
  then have "cursor_ok l1" "ctl l1 = ctl l" "lx_off l < lx_off l1"
    using assms cursor_ok_advance_n [of l 2] off_advance_n [of l 2] by (simp_all add: l1_def)
  then have "scan_ok l (finish_number s n b (skip_while is_hex_part l1))" for s n b
    by (intro scan_ok_number_finish) (auto intro: off_skip_while_trans)
  with True show ?thesis by (simp add: scan_number_def Let_def l1_def)
next
  case False
  obtain frac l1 where f: "scan_fraction l = (frac, l1)" by fastforce
  obtain r ex l2 where e: "scan_exponent l1 = (r, ex, l2)" by (metis prod_cases3)
  have "cursor_ok l1" "ctl l1 = ctl l" "lx_off l < lx_off l1" using scan_fraction_ok [OF assms] f by auto
  then have l2: "cursor_ok l2" "ctl l2 = ctl l" "lx_off l < lx_off l2"
    using scan_exponent_ok [OF _ e] by auto
  then have "scan_ok l (finish_number s n b l2)" for s n b by (rule scan_ok_number_finish)
  moreover have "scan_ok l (mk_token T_Illegal [] s, lexer_errorf s F0025 as l2)" for s as
    using l2 by (intro scan_ok_illegal) simp_all
  ultimately show ?thesis using False f e by (cases r) (auto simp: scan_number_def Let_def)
qed

subsection \<open>Operators\<close>

lemma scan_ok_op:
  assumes "cursor_ok l" "0 < n" "lx_off l + n \<le> length (lx_src l)"
    and "ty \<notin> layout_types" "ty \<noteq> T_Illegal" "bracket_of ty = 0"
  shows "scan_ok l (op_tok ty n l)"
  using assms unfolding op_tok_def
  by (intro scan_ok_move) (simp_all add: cursor_ok_advance_n off_advance_n bracket_weight_def)

lemma scan_ok_bracket:
  assumes "cursor_ok l1" "more_src l1" "lx_src l1 = lx_src l" "lx_off l1 = lx_off l"
    and "lx_indents l1 = lx_indents l" "lx_at_line_start l1 = lx_at_line_start l"
    and "lx_line_tok l1 = lx_line_tok l" "lx_pending l1 = lx_pending l"
    and "lx_depth l1 = lx_depth l + bracket_of ty"
    and "lx_err l1 = None \<longrightarrow> 0 \<le> lx_depth l \<longrightarrow> 0 \<le> lx_depth l1"
    and "ty \<notin> layout_types" "ty \<noteq> T_Illegal"
  shows "scan_ok l (op_tok ty 1 l1)"
proof -
  have "cursor_ok (advance l1)" "lx_off l < lx_off (advance l1)"
    using assms(1,2,4) by simp_all
  then show ?thesis
    using assms(3-) ctl_fields [OF ctl_advance, of l1]
    by (simp add: scan_ok_def op_tok_def advance_n_def Let_def bracket_weight_def)
qed

lemma scan_ok_open:
  assumes "cursor_ok l" "more_src l" "bracket_of ty = 1"
  shows "scan_ok l (op_tok ty 1 (add_depth 1 l))"
proof -
  have "ty \<notin> layout_types" "ty \<noteq> T_Illegal"
    using assms(3) by (auto simp: bracket_of_def layout_types_def)
  with assms show ?thesis
    by (intro scan_ok_bracket) (simp_all add: add_depth_def more_src_def cursor_ok_def)
qed

lemma scan_ok_close:
  assumes "cursor_ok l" "more_src l" "bracket_of ty = -1"
  shows "scan_ok l (close_bracket ty fmt l)"
proof -
  have "ty \<notin> layout_types" "ty \<noteq> T_Illegal"
    using assms(3) by (auto simp: bracket_of_def layout_types_def split: if_splits)
  with assms show ?thesis
    unfolding close_bracket_def Let_def
    by (intro scan_ok_bracket) (auto simp: add_depth_def more_src_def cursor_ok_def)
qed

lemma scan_ok_unexpected: "cursor_ok l \<Longrightarrow> scan_ok l (unexpected s l)"
  unfolding unexpected_def by (intro scan_ok_illegal) simp_all

lemma scan_ok_if:
  "(b \<Longrightarrow> scan_ok l x) \<Longrightarrow> (\<not> b \<Longrightarrow> scan_ok l y) \<Longrightarrow> scan_ok l (if b then x else y)"
  by simp

lemma scan_ok_scan_op:
  assumes ok: "cursor_ok l" "more_src l"
  shows "scan_ok l (scan_op l)"
proof -
  note types = layout_types_def bracket_of_def
  have one: "scan_ok l (op_tok ty 1 l)"
    if "ty \<notin> layout_types \<and> ty \<noteq> T_Illegal \<and> bracket_of ty = 0" for ty
    using that ok by (intro scan_ok_op) (simp_all add: more_src_def)
  have two: "scan_ok l (op_tok ty 2 l)"
    if "peek 1 l = c" "c \<noteq> nul \<and> ty \<notin> layout_types \<and> ty \<noteq> T_Illegal \<and> bracket_of ty = 0" for ty c
    using that ok peek_in_range [OF that(1)] by (intro scan_ok_op) simp_all
  have three: "scan_ok l (op_tok ty 3 l)"
    if "peek 1 l = c' \<and> peek 2 l = c"
      "c \<noteq> nul \<and> ty \<notin> layout_types \<and> ty \<noteq> T_Illegal \<and> bracket_of ty = 0" for ty c c'
    using that ok peek_in_range [of 2 l c] by (intro scan_ok_op) simp_all
  show ?thesis
    unfolding scan_op_def Let_def
    by (intro scan_ok_if)
      ((erule two three, simp (no_asm) add: types) |
        (rule one, simp (no_asm) add: types) |
        (rule scan_ok_open scan_ok_close, rule ok, rule ok, simp (no_asm) add: types) |
        (rule scan_ok_unexpected, rule ok))+
qed

lemma scan_ok_lex_token:
  assumes ok: "cursor_ok l" "more_src l"
  shows "scan_ok l (lex_token l)"
proof -
  have "scan_ok l (mk_token T_Ellipsis ''...'' p, advance_n 3 l)" if "peek 2 l = CHR ''.''" for p
    using peek_in_range [OF that] ok
    by (intro scan_ok_move) (simp_all add: cursor_ok_advance_n off_advance_n bracket_weight_def
        bracket_of_def layout_types_def)
  then show ?thesis
    using ok by (auto simp: lex_token_def Let_def intro!: scan_ok_string_prefix scan_ok_ident
        scan_ok_number scan_ok_string scan_ok_scan_op)
qed


subsection \<open>Layout\<close>

lemma drain_indents_eq:
  "lx_indents l \<noteq> [] \<Longrightarrow>
   drain_indents l = l\<lparr>lx_indents := [hd (lx_indents l)],
     lx_pending := lx_pending l @
       replicate (length (lx_indents l) - 1) (mk_token T_Dedent [] (lexer_pos l))\<rparr>"
proof (induction l rule: drain_indents.induct)
  case (1 l)
  show ?case
  proof (cases "1 < length (lx_indents l)")
    case True
    define l1 where "l1 = push_pending T_Dedent (l\<lparr>lx_indents := butlast (lx_indents l)\<rparr>)"
    have ne: "butlast (lx_indents l) \<noteq> []" "hd (butlast (lx_indents l)) = hd (lx_indents l)"
      using True by (cases "lx_indents l" rule: rev_cases; simp add: hd_append)+
    have "drain_indents l = drain_indents l1" using True by (subst drain_indents.simps) (simp add: l1_def)
    with 1(1) [OF True] ne True show ?thesis
      by (simp add: l1_def [symmetric])
        (simp add: l1_def push_pending_def lexer_pos_def replicate_app_Cons_same Suc_diff_Suc
          flip: replicate_Suc)
  next
    case False
    with 1(2) have "lx_indents l = [hd (lx_indents l)]"
      by (cases "lx_indents l") auto
    with False show ?thesis by (subst drain_indents.simps) (cases l, simp)
  qed
qed

definition keep_indents :: "nat \<Rightarrow> nat list \<Rightarrow> nat list" where
  "keep_indents n is = rev (dropWhile (\<lambda>i. n < i) (rev is))"

lemma keep_indents_snoc [simp]:
  "keep_indents n [] = []"
  "keep_indents n (is @ [i]) = (if n < i then keep_indents n is else is @ [i])"
  by (simp_all add: keep_indents_def)

lemma length_keep_indents: "length (keep_indents n is) \<le> length is"
  unfolding keep_indents_def by (metis length_dropWhile_le length_rev)

lemma dedent_to_eq:
  "dedent_to n l = l\<lparr>lx_indents := keep_indents n (lx_indents l),
     lx_pending := lx_pending l @
       replicate (length (lx_indents l) - length (keep_indents n (lx_indents l)))
         (mk_token T_Dedent [] (lexer_pos l))\<rparr>"
proof (induction n l rule: dedent_to.induct)
  case (1 n l)
  show ?case
  proof (cases "lx_indents l \<noteq> [] \<and> n < last (lx_indents l)")
    case True
    then obtain js i where js: "lx_indents l = js @ [i]" "n < i"
      by (metis append_butlast_last_id)
    define l1 where "l1 = push_pending T_Dedent (l\<lparr>lx_indents := butlast (lx_indents l)\<rparr>)"
    have "dedent_to n l = dedent_to n l1" using True by (subst dedent_to.simps) (simp add: l1_def)
    with 1 [OF True] js length_keep_indents [of n js] show ?thesis
      by (simp add: l1_def [symmetric])
        (simp add: l1_def push_pending_def lexer_pos_def Suc_diff_le)
  next
    case False
    then have "keep_indents n (lx_indents l) = lx_indents l"
      by (cases "lx_indents l" rule: rev_cases) auto
    with False show ?thesis by (subst dedent_to.simps) (cases l, auto)
  qed
qed

lemma keep_indents_prefix:
  "sorted_wrt (<) is \<Longrightarrow> keep_indents n is = takeWhile (\<lambda>i. i \<le> n) is"
proof (induction "is" rule: rev_induct)
  case (snoc i "is")
  show ?case
  proof (cases "n < i")
    case True
    with snoc show ?thesis by (simp add: sorted_wrt_append takeWhile_append)
  next
    case False
    with snoc.prems have "\<forall>j \<in> set (is @ [i]). j \<le> n" by (auto simp: sorted_wrt_append)
    then have "takeWhile (\<lambda>i. i \<le> n) (is @ [i]) = is @ [i]" by (simp only: takeWhile_eq_all_conv)
    with False show ?thesis by simp
  qed
qed simp


subsection \<open>The invariant of the lexer\<close>

definition pending_ok :: "lexer \<Rightarrow> bool" where
  "pending_ok l \<longleftrightarrow> list_all (\<lambda>t. t = mk_token T_Dedent [] (lexer_pos l)) (lx_pending l)"

definition indents_ok :: "lexer \<Rightarrow> bool" where
  "indents_ok l \<longleftrightarrow>
     lx_indents l \<noteq> [] \<and> hd (lx_indents l) = 0 \<and> sorted_wrt (<) (lx_indents l) \<and>
     list_all (\<lambda>i. i \<le> lx_off l) (lx_indents l)"

definition depth_ok :: "lexer \<Rightarrow> bool" where
  "depth_ok l \<longleftrightarrow>
     -1 \<le> lx_depth l \<and> lx_depth l \<le> int (lx_off l) \<and> (lx_err l = None \<longrightarrow> 0 \<le> lx_depth l) \<and>
     (lx_at_line_start l \<longrightarrow> lx_depth l \<le> 0 \<and> \<not> lx_line_tok l)"

definition lexer_inv :: "lexer \<Rightarrow> bool" where
  "lexer_inv l \<longleftrightarrow> cursor_ok l \<and> pending_ok l \<and> indents_ok l \<and> depth_ok l"

text \<open>
  \<open>open_level\<close> counts the blocks the consumer has seen opened and not yet closed; \<open>lx_measure\<close> bounds
  the tokens still to come.
\<close>

definition open_level :: "lexer \<Rightarrow> int" where
  "open_level l = int (length (lx_indents l)) - 1 + int (length (lx_pending l))"

definition lx_measure :: "lexer \<Rightarrow> nat" where
  "lx_measure l = 4 * lx_rest l + 2 * length (lx_indents l) + length (lx_pending l) +
     (if lx_line_tok l then 1 else 0) + (if lx_err l = None then 1 else 0)"

definition lx_done :: "lexer \<Rightarrow> bool" where
  "lx_done l \<longleftrightarrow> \<not> more_src l \<and> lx_pending l = [] \<and> lx_indents l = [0] \<and> lx_depth l = 0 \<and> \<not> lx_line_tok l"

definition lex_step :: "lexer \<Rightarrow> token \<times> lexer \<Rightarrow> bool" where
  "lex_step l r \<longleftrightarrow>
     (let t = fst r; l' = snd r in
      lexer_inv l' \<and> lx_src l' = lx_src l \<and> lx_off l \<le> lx_off l' \<and>
      open_level l' = open_level l + indent_weight t \<and>
      lx_depth l' = lx_depth l + bracket_weight t \<and>
      (t_ty t = T_Illegal \<longrightarrow> lx_err l' \<noteq> None) \<and>
      (t_ty t = T_Eof \<longrightarrow> lx_err l' = None \<longrightarrow> lx_done l') \<and>
      lx_measure l' \<le> lx_measure l \<and>
      (t_ty t \<noteq> T_Eof \<longrightarrow> lx_measure l' < lx_measure l))"

text \<open>\<open>moved l l'\<close>: only blank space was skipped between \<open>l\<close> and \<open>l'\<close>.\<close>

definition moved :: "lexer \<Rightarrow> lexer \<Rightarrow> bool" where
  "moved l l' \<longleftrightarrow>
     lexer_inv l' \<and> lx_src l' = lx_src l \<and> lx_off l \<le> lx_off l' \<and> lx_depth l' = lx_depth l \<and>
     lx_indents l' = lx_indents l \<and> lx_line_tok l' = lx_line_tok l \<and>
     lx_pending l' = lx_pending l \<and> lx_err l' = lx_err l"

lemma moved_refl: "lexer_inv l \<Longrightarrow> moved l l"
  by (simp add: moved_def)

lemma moved_trans: "moved l l1 \<Longrightarrow> moved l1 l2 \<Longrightarrow> moved l l2"
  by (simp add: moved_def)

lemma moved_measure: "moved l l' \<Longrightarrow> lx_measure l' \<le> lx_measure l"
  by (auto simp: moved_def lx_measure_def lx_rest_def)

lemma moved_then_step: "moved l l1 \<Longrightarrow> lex_step l1 r \<Longrightarrow> lex_step l r"
  using moved_measure [of l l1] by (auto simp: lex_step_def moved_def open_level_def Let_def)

lemma lexer_inv_moved:
  assumes "lexer_inv l" "lx_pending l = []" "cursor_ok l'" "ctl l' = ctl l" "lx_off l \<le> lx_off l'"
  shows "moved l l'"
  using assms ctl_fields [OF assms(4)]
  by (auto simp: moved_def lexer_inv_def pending_ok_def indents_ok_def depth_ok_def list_all_iff)

lemma lexer_inv_line_start:
  assumes "lexer_inv l" "b \<longrightarrow> lx_depth l \<le> 0 \<and> \<not> lx_line_tok l"
  shows "moved l (set_line_start b l)"
  using assms
  by (auto simp: moved_def lexer_inv_def pending_ok_def indents_ok_def depth_ok_def lexer_pos_def)

lemma moved_advance:
  "lexer_inv l \<Longrightarrow> lx_pending l = [] \<Longrightarrow> more_src l \<Longrightarrow> moved l (advance l)"
  by (rule lexer_inv_moved) (simp_all add: lexer_inv_def)

lemma moved_skip_line:
  "lexer_inv l \<Longrightarrow> lx_pending l = [] \<Longrightarrow> moved l (skip_line l)"
  by (rule lexer_inv_moved) (simp_all add: lexer_inv_def skip_line_def)

lemma moved_count_spaces:
  "lexer_inv l \<Longrightarrow> lx_pending l = [] \<Longrightarrow> moved l (snd (count_spaces n l))"
  by (rule lexer_inv_moved) (simp_all add: lexer_inv_def)

lemma moved_continuation:
  assumes "lexer_inv l" "lx_pending l = []" "more_src l" "peek 1 l = newline"
  shows "moved l (advance (advance l))"
proof (rule moved_trans)
  show l1: "moved l (advance l)" using assms by (intro moved_advance) simp_all
  have "more_src (advance l)" using peek_in_range [OF assms(4)] assms(3) by (simp add: more_src_def)
  with l1 assms(2) show "moved (advance l) (advance (advance l))"
    by (intro moved_advance) (simp_all add: moved_def)
qed

lemma count_spaces_fst: "fst (count_spaces n l) + lx_off l = n + lx_off (snd (count_spaces n l))"
proof (induction n l rule: count_spaces.induct)
  case (1 n l)
  then show ?case by (subst (1 2) count_spaces.simps) auto
qed


subsection \<open>Every step keeps the invariant and makes progress\<close>

lemma weights_layout [simp]:
  "bracket_weight (mk_token T_Dedent s p) = 0" "bracket_weight (mk_token T_Indent s p) = 0"
  "bracket_weight (mk_token T_Newline s p) = 0" "bracket_weight (mk_token T_Eof s p) = 0"
  "bracket_weight (mk_token T_Illegal s p) = 0"
  "indent_weight (mk_token T_Dedent s p) = -1" "indent_weight (mk_token T_Indent s p) = 1"
  "indent_weight (mk_token T_Newline s p) = 0" "indent_weight (mk_token T_Eof s p) = 0"
  "indent_weight (mk_token T_Illegal s p) = 0"
  by (simp_all add: bracket_weight_def bracket_of_def indent_weight_def)

lemma pop_pending_step:
  assumes "lexer_inv l" "lx_pending l \<noteq> []"
  shows "lex_step l (pop_pending l)"
proof -
  from assms obtain ts where p: "lx_pending l = mk_token T_Dedent [] (lexer_pos l) # ts"
    by (cases "lx_pending l") (auto simp: lexer_inv_def pending_ok_def)
  with assms(1) show ?thesis
    by (auto simp: lex_step_def pop_pending_def Let_def lexer_inv_def pending_ok_def indents_ok_def
        depth_ok_def open_level_def lx_measure_def lx_rest_def lexer_pos_def)
qed

lemma drain_step:
  assumes inv: "lexer_inv l" and empty: "lx_pending l = []"
    and eof: "\<not> more_src l" "\<not> lx_line_tok l" "lx_err l = None \<longrightarrow> lx_depth l = 0"
  shows "lex_step l (if lx_pending (drain_indents l) \<noteq> [] then pop_pending (drain_indents l)
    else (mk_token T_Eof [] (lexer_pos (drain_indents l)), drain_indents l))"
proof -
  have ne: "lx_indents l \<noteq> []" "hd (lx_indents l) = 0" using inv by (auto simp: lexer_inv_def indents_ok_def)
  define l1 where "l1 = drain_indents l"
  have l1: "lx_indents l1 = [0]"
    "lx_pending l1 = replicate (length (lx_indents l) - 1) (mk_token T_Dedent [] (lexer_pos l))"
    using drain_indents_eq [OF ne(1)] ne(2) empty by (simp_all add: l1_def)
  have frame: "lx_src l1 = lx_src l" "lx_off l1 = lx_off l" "lexer_pos l1 = lexer_pos l"
    "lx_depth l1 = lx_depth l" "lx_err l1 = lx_err l" "lx_line_tok l1 = lx_line_tok l"
    by (simp_all add: l1_def lexer_pos_def)
  have inv1: "lexer_inv l1"
    using inv l1 frame
    by (auto simp: lexer_inv_def pending_ok_def indents_ok_def depth_ok_def list_all_iff l1_def)
  obtain k where "length (lx_indents l) = Suc k" using ne by (cases "lx_indents l") auto
  then have le: "lx_measure l1 \<le> lx_measure l" "open_level l1 = open_level l"
    using l1 frame empty by (auto simp: lx_measure_def lx_rest_def open_level_def)
  show ?thesis
  proof (cases "lx_pending l1 = []")
    case True
    with l1 frame inv1 le eof show ?thesis
      by (auto simp: l1_def [symmetric] lex_step_def lx_done_def more_src_def)
  next
    case False
    with pop_pending_step [OF inv1] le frame show ?thesis
      by (auto simp: l1_def [symmetric] lex_step_def Let_def)
  qed
qed

lemma line_start_eof_step:
  assumes "lexer_inv l" "lx_pending l = []" "lx_err l = None" "lx_at_line_start l" "\<not> more_src l"
  shows "\<exists>t l'. line_start_eof l = (Some t, l') \<and> lex_step l (t, l')"
proof -
  define l1 where "l1 = set_line_start False l"
  have m: "moved l l1" using lexer_inv_line_start [of l False] assms(1) by (simp add: l1_def)
  have "lex_step l1 (if lx_pending (drain_indents l1) \<noteq> [] then pop_pending (drain_indents l1)
    else (mk_token T_Eof [] (lexer_pos (drain_indents l1)), drain_indents l1))" (is "lex_step l1 ?r")
    using m assms by (intro drain_step) (auto simp: moved_def l1_def more_src_def lexer_inv_def depth_ok_def)
  then have "lex_step l ?r" by (rule moved_then_step [OF m])
  moreover have "line_start_eof l = (Some (fst ?r), snd ?r)"
    by (simp add: line_start_eof_def Let_def l1_def [symmetric] pop_pending_def)
  ultimately show ?thesis by (metis prod.collapse)
qed

definition line_start_post :: "lexer \<Rightarrow> token option \<times> lexer \<Rightarrow> bool" where
  "line_start_post l r \<longleftrightarrow>
     (case r of (Some t, l') \<Rightarrow> lex_step l (t, l')
      | (None, l') \<Rightarrow> moved l l' \<and> \<not> lx_at_line_start l' \<and> more_src l')"

lemma line_start_post_trans: "moved l l1 \<Longrightarrow> line_start_post l1 r \<Longrightarrow> line_start_post l r"
  by (auto simp: line_start_post_def moved_then_step intro: moved_trans split: option.splits prod.splits)

lemma sorted_wrt_snoc:
  "sorted_wrt (<) xs \<Longrightarrow> last xs < n \<Longrightarrow> sorted_wrt (<) (xs @ [n])" for n :: nat
  by (cases xs rule: rev_cases) (auto simp: sorted_wrt_append intro: less_trans)

lemma line_start_code_indent:
  assumes inv: "moved l0 l" "lx_pending l = []" and n: "lx_off l0 < lx_off l" "n \<le> lx_off l"
    and more: "more_src l" and deeper: "last (lx_indents l) < n"
  shows "line_start_post l0 (line_start_code n l)"
proof -
  define l1 where "l1 = set_line_start False (l\<lparr>lx_indents := lx_indents l @ [n]\<rparr>)"
  have inv': "lexer_inv l" using inv by (simp add: moved_def)
  then have ne: "lx_indents l \<noteq> []" by (auto simp: lexer_inv_def indents_ok_def)
  have "line_start_code n l = (Some (mk_token T_Indent [] (lexer_pos l)), l1)"
    using ne deeper inv(2)
    by (simp add: line_start_code_def Let_def push_pending_def pop_pending_def l1_def
        set_line_start_def lexer_pos_def)
  moreover have "sorted_wrt (<) (lx_indents l @ [n])"
    using inv' deeper by (intro sorted_wrt_snoc) (simp_all add: lexer_inv_def indents_ok_def)
  then have "lexer_inv l1"
    using inv' inv(2) n
    by (simp add: lexer_inv_def pending_ok_def indents_ok_def depth_ok_def l1_def)
  ultimately show ?thesis
    using inv n more
    by (auto simp: line_start_post_def lex_step_def l1_def moved_def open_level_def lx_measure_def
        lx_rest_def more_src_def)
qed


lemma keep_indents_inv:
  assumes "indents_ok l" "n < last (lx_indents l)"
  shows "keep_indents n (lx_indents l) \<noteq> []" "hd (keep_indents n (lx_indents l)) = 0"
    "sorted_wrt (<) (keep_indents n (lx_indents l))"
    "list_all (\<lambda>i. i \<le> lx_off l) (keep_indents n (lx_indents l))"
    "length (keep_indents n (lx_indents l)) < length (lx_indents l)"
proof -
  from assms(1) obtain js where js: "lx_indents l = 0 # js" "sorted_wrt (<) (lx_indents l)"
    by (cases "lx_indents l") (auto simp: indents_ok_def)
  then have eq: "keep_indents n (lx_indents l) = 0 # takeWhile (\<lambda>i. i \<le> n) js"
    by (subst keep_indents_prefix) simp_all
  show "keep_indents n (lx_indents l) \<noteq> []" "hd (keep_indents n (lx_indents l)) = 0" by (simp_all add: eq)
  show "sorted_wrt (<) (keep_indents n (lx_indents l))"
    unfolding keep_indents_prefix [OF js(2)]
    by (subst takeWhile_eq_take) (rule sorted_wrt_take [OF js(2)])
  show "list_all (\<lambda>i. i \<le> lx_off l) (keep_indents n (lx_indents l))"
    using assms(1) js(1) unfolding eq by (auto simp: indents_ok_def list_all_iff dest: set_takeWhileD)
  have "js \<noteq> []" "\<not> last js \<le> n" using assms(2) js(1) by (auto split: if_splits)
  then have "dropWhile (\<lambda>i. i \<le> n) js \<noteq> []" by (metis dropWhile_eq_Nil_conv last_in_set)
  moreover have "length js = length (takeWhile (\<lambda>i. i \<le> n) js) + length (dropWhile (\<lambda>i. i \<le> n) js)"
    by (metis length_append takeWhile_dropWhile_id)
  ultimately have "length (takeWhile (\<lambda>i. i \<le> n) js) < length js" by simp
  then show "length (keep_indents n (lx_indents l)) < length (lx_indents l)" unfolding eq by (simp add: js(1))
qed

lemma dedent_to_step:
  assumes inv: "lexer_inv l" "lx_pending l = []" and n: "n < last (lx_indents l)"
  shows "lexer_inv (dedent_to n l)" "lx_indents (dedent_to n l) \<noteq> []" "lx_pending (dedent_to n l) \<noteq> []"
    "open_level (dedent_to n l) = open_level l" "lx_measure (dedent_to n l) \<le> lx_measure l"
proof -
  have io: "indents_ok l" using inv by (simp add: lexer_inv_def)
  note keep = keep_indents_inv [OF io n]
  show "lx_indents (dedent_to n l) \<noteq> []" "lx_pending (dedent_to n l) \<noteq> []"
    using keep by (simp_all add: dedent_to_eq)
  show "open_level (dedent_to n l) = open_level l" "lx_measure (dedent_to n l) \<le> lx_measure l"
    using keep(5) inv(2) by (simp_all add: dedent_to_eq open_level_def lx_measure_def lx_rest_def)
  show "lexer_inv (dedent_to n l)"
    using inv keep
    by (simp add: lexer_inv_def pending_ok_def indents_ok_def depth_ok_def)
      (simp add: dedent_to_eq list_all_iff lexer_pos_def)
qed

lemma line_start_code_dedent:
  assumes inv: "lexer_inv l" "lx_pending l = []" and n: "n < last (lx_indents l)"
    and err: "lx_err l = None"
  shows "line_start_post l (line_start_code n l)"
proof -
  define l1 where "l1 = set_line_start False (dedent_to n l)"
  note step = dedent_to_step [OF inv n]
  have ne: "lx_indents l \<noteq> []" using inv by (auto simp: lexer_inv_def indents_ok_def)
  have m: "moved (dedent_to n l) l1" using lexer_inv_line_start [OF step(1), of False] by (simp add: l1_def)
  then have inv1: "lexer_inv l1" by (simp add: moved_def)
  have le: "open_level l1 = open_level l" "lx_measure l1 \<le> lx_measure l" "lx_err l1 = lx_err l"
    "lx_src l1 = lx_src l" "lx_off l1 = lx_off l" "lx_depth l1 = lx_depth l"
    using step moved_measure [OF m] by (simp_all add: l1_def open_level_def)
  define l2 where "l2 = set_line_start False (lexer_errorf (lexer_pos (dedent_to n l)) F0023 [] (dedent_to n l))"
  have "lexer_inv l2"
    using inv1 by (simp add: l1_def l2_def lexer_inv_def pending_ok_def indents_ok_def depth_ok_def lexer_pos_def)
  moreover have "lx_measure l2 < lx_measure l" "open_level l2 = open_level l" "lx_err l2 \<noteq> None"
    using step(4,5) err
    by (simp_all add: l2_def open_level_def lx_measure_def lx_rest_def)
  ultimately have bad: "line_start_post l (Some (mk_token T_Illegal [] (lexer_pos l2)), l2)"
    by (simp add: line_start_post_def lex_step_def l2_def)
  have good: "line_start_post l (case pop_pending l1 of (t, l3) \<Rightarrow> (Some t, l3))"
    using pop_pending_step [OF inv1] step(3) le
    by (auto simp: line_start_post_def lex_step_def Let_def l1_def split: prod.splits)
  show ?thesis
    using good bad n ne step(2,3) unfolding line_start_code_def Let_def l1_def l2_def by simp
qed

lemma line_start_code_step:
  assumes inv: "moved l0 l" "lx_pending l = []" "lx_err l = None"
    and n: "0 < n \<longrightarrow> lx_off l0 < lx_off l" "n \<le> lx_off l" and more: "more_src l"
  shows "line_start_post l0 (line_start_code n l)"
proof (cases "last (lx_indents l)" n rule: linorder_cases)
  case less
  with assms show ?thesis by (intro line_start_code_indent) auto
next
  case equal
  have "lx_indents l \<noteq> []" "moved l (set_line_start False l)"
    using inv(1) lexer_inv_line_start [of l False]
    by (auto simp: moved_def lexer_inv_def indents_ok_def)
  with equal inv more show ?thesis
    by (auto simp: line_start_code_def line_start_post_def more_src_def intro: moved_trans)
next
  case greater
  have "line_start_post l (line_start_code n l)"
    using inv greater by (intro line_start_code_dedent) (auto simp: moved_def)
  with inv(1) show ?thesis by (rule line_start_post_trans)
qed

lemma line_start_step:
  "lexer_inv l \<Longrightarrow> lx_pending l = [] \<Longrightarrow> lx_err l = None \<Longrightarrow> lx_at_line_start l \<Longrightarrow>
   line_start_post l (line_start l)"
proof (induction l rule: line_start.induct)
  case (1 l0)
  define n where "n = fst (count_spaces 0 l0)"
  define l where "l = snd (count_spaces 0 l0)"
  have m: "moved l0 l" using 1 moved_count_spaces [of l0 0] by (simp add: l_def)
  have ls: "lx_at_line_start l" using ctl_count_spaces [of 0 l0] 1 by (simp add: l_def ctl_def)
  have l: "lexer_inv l" "lx_pending l = []" "lx_err l = None" using m 1 by (auto simp: moved_def)
  have off: "0 < n \<longrightarrow> lx_off l0 < lx_off l" "n \<le> lx_off l"
    using count_spaces_fst [of 0 l0] by (auto simp: n_def l_def)
  have again: "line_start_post l0 (line_start l')"
    if "moved l l'" "lx_at_line_start l'"
      "lexer_inv l' \<Longrightarrow> lx_pending l' = [] \<Longrightarrow> lx_err l' = None \<Longrightarrow> lx_at_line_start l' \<Longrightarrow>
       line_start_post l' (line_start l')" for l'
    using that l m by (metis line_start_post_trans moved_def)
  have same: "lx_at_line_start (advance l)" "lx_at_line_start (skip_line l)"
    "lx_at_line_start (advance (advance l))"
    using ls ctl_fields [OF ctl_advance] ctl_fields [OF ctl_skip_while]
    by (simp_all add: skip_line_def)
  note IH = "1.IH" [OF refl refl, folded l_def]
  define l1 where "l1 = set_line_start False (lexer_errorf (lexer_pos l) F0022 [] l)"
  have "lexer_inv l1" "lx_measure l1 < lx_measure l" "lx_err l1 \<noteq> None"
    using l by (auto simp: l1_def lexer_inv_def pending_ok_def indents_ok_def depth_ok_def
        lx_measure_def lx_rest_def)
  then have "line_start_post l (Some (mk_token T_Illegal [] (lexer_pos l1)), l1)"
    by (simp add: line_start_post_def lex_step_def l1_def open_level_def)
  then have tab: "line_start_post l0 (Some (mk_token T_Illegal [] (lexer_pos l1)), l1)"
    by (rule line_start_post_trans [OF m])
  have eof: "line_start_post l0 (line_start_eof l)" if "\<not> more_src l"
    using line_start_eof_step [OF l ls that] moved_then_step [OF m] by (auto simp: line_start_post_def)
  show ?case
    unfolding line_start.simps [of l0] Let_def l_def [symmetric] n_def [symmetric] l1_def [symmetric]
    using tab eof line_start_code_step [OF m l(2,3) off]
      again [OF moved_advance [OF l(1,2)] same(1)] again [OF moved_skip_line [OF l(1,2)] same(2)]
      again [OF moved_continuation [OF l(1,2)] same(3)] IH
    by (auto split del: if_split split: if_split)
qed


lemma next_eof_step:
  assumes inv: "lexer_inv l" "lx_pending l = []" "lx_err l = None" and eof: "\<not> more_src l"
  shows "lex_step l (next_eof l)"
proof (cases "lx_line_tok l")
  case True
  have "lexer_inv (l\<lparr>lx_line_tok := False\<rparr>)"
    using inv by (simp add: lexer_inv_def pending_ok_def indents_ok_def depth_ok_def lexer_pos_def)
  with True show ?thesis
    by (simp add: next_eof_def lex_step_def open_level_def lx_measure_def lx_rest_def)
next
  case False
  define l1 where "l1 = (if 0 < lx_depth l then lexer_errorf (lexer_pos l) F0021 [] l else l)"
  have l1: "lexer_inv l1" "lx_pending l1 = []" "\<not> more_src l1" "\<not> lx_line_tok l1"
    "lx_err l1 = None \<longrightarrow> lx_depth l1 = 0"
    using inv eof False
    by (auto simp: l1_def lexer_inv_def pending_ok_def indents_ok_def depth_ok_def more_src_def lexer_pos_def)
  have "lex_step l (if lx_pending (drain_indents l1) \<noteq> [] then pop_pending (drain_indents l1)
    else (mk_token T_Eof [] (lexer_pos (drain_indents l1)), drain_indents l1))" (is "lex_step l ?r")
  proof -
    have "lx_measure l1 \<le> lx_measure l" "open_level l1 = open_level l" "lx_src l1 = lx_src l"
      "lx_off l1 = lx_off l" "lx_depth l1 = lx_depth l"
      using inv by (auto simp: l1_def lx_measure_def lx_rest_def open_level_def)
    with drain_step [OF l1] show ?thesis by (auto simp: lex_step_def Let_def)
  qed
  with False show ?thesis by (simp add: next_eof_def Let_def l1_def [symmetric])
qed

lemma scan_step:
  assumes inv: "lexer_inv l" "lx_pending l = []" "lx_err l = None" "\<not> lx_at_line_start l" "more_src l"
  shows "lex_step l (case lex_token l of (t, l1) \<Rightarrow>
    (t, if t_ty t \<noteq> T_Illegal then l1\<lparr>lx_line_tok := True\<rparr> else l1))"
proof -
  obtain t l1 where lt: "lex_token l = (t, l1)" by fastforce
  have ok: "scan_ok l (t, l1)" using scan_ok_lex_token [of l] inv lt by (simp add: lexer_inv_def)
  define l2 where "l2 = (if t_ty t \<noteq> T_Illegal then l1\<lparr>lx_line_tok := True\<rparr> else l1)"
  have w: "bracket_weight t \<in> {-1, 0, 1}" "t_ty t = T_Illegal \<longrightarrow> bracket_weight t = 0"
    "indent_weight t = 0" "t_ty t \<noteq> T_Eof"
    using ok by (auto simp: bracket_weight_def bracket_of_def indent_weight_def scan_ok_def layout_types_def)
  have off: "lx_off l1 \<le> length (lx_src l)" "lx_off l \<le> lx_off l1"
    "t_ty t \<noteq> T_Illegal \<longrightarrow> lx_off l < lx_off l1"
    using ok by (auto simp: scan_ok_def cursor_ok_def)
  have "depth_ok l2"
    using inv ok w off by (cases "t_ty t = T_Illegal") (auto simp: lexer_inv_def depth_ok_def scan_ok_def l2_def)
  moreover have "cursor_ok l2" "pending_ok l2" "indents_ok l2"
    using inv ok off
    by (auto simp: lexer_inv_def pending_ok_def indents_ok_def scan_ok_def l2_def list_all_iff)
  moreover have "lx_measure l2 < lx_measure l"
    using ok off inv(3) by (auto simp: lx_measure_def lx_rest_def l2_def scan_ok_def)
  moreover have "open_level l2 = open_level l" using ok by (simp add: open_level_def scan_ok_def l2_def)
  ultimately show ?thesis
    using ok w by (auto simp: lt l2_def [symmetric] lex_step_def lexer_inv_def)
      (auto simp: l2_def scan_ok_def)
qed

lemma lex_step_if:
  "(b \<Longrightarrow> lex_step l x) \<Longrightarrow> (\<not> b \<Longrightarrow> lex_step l y) \<Longrightarrow> lex_step l (if b then x else y)"
  by simp

lemma newline_step:
  assumes inv: "lexer_inv l" "lx_pending l = []" "lx_err l = None" "more_src l" "\<not> 0 < lx_depth l"
  defines "l1 \<equiv> set_line_start True (advance l)"
  shows "lx_line_tok l1 \<Longrightarrow> lex_step l (mk_token T_Newline [] p, l1\<lparr>lx_line_tok := False\<rparr>)"
    and "\<not> lx_line_tok l1 \<Longrightarrow> moved l l1"
proof -
  have m: "moved l (advance l)" by (rule moved_advance [OF inv(1,2,4)])
  have inv': "lexer_inv (advance l)" "lx_depth (advance l) \<le> 0" "lx_pending (advance l) = []"
    using m inv by (auto simp: moved_def)
  show "moved l l1" if "\<not> lx_line_tok l1"
    using moved_trans [OF m lexer_inv_line_start [OF inv'(1), of True]] that inv'(2)
    by (simp add: l1_def)
  assume tok: "lx_line_tok l1"
  have "lexer_inv (l1\<lparr>lx_line_tok := False\<rparr>)"
    using inv' by (simp add: l1_def lexer_inv_def pending_ok_def indents_ok_def depth_ok_def)
  then show "lex_step l (mk_token T_Newline [] p, l1\<lparr>lx_line_tok := False\<rparr>)"
    using m moved_measure [OF m] tok
    by (auto simp: l1_def lex_step_def moved_def open_level_def lx_measure_def lx_rest_def)
qed

lemma next_loop_step:
  "lexer_inv l \<Longrightarrow> lx_pending l = [] \<Longrightarrow> lx_err l = None \<Longrightarrow> lex_step l (next_loop l)"
proof (induction l rule: next_loop.induct)
  case (1 l0)
  obtain r l where r: "(if lx_at_line_start l0 then line_start l0 else (None, l0)) = (r, l)"
    by fastforce
  have post: "line_start_post l0 (r, l) \<or> r = None \<and> l = l0 \<and> \<not> lx_at_line_start l0"
    using line_start_step [OF "1.prems"] r by (auto split: if_splits)
  show ?case
  proof (cases r)
    case (Some t)
    with post r show ?thesis by (subst next_loop.simps) (simp add: line_start_post_def)
  next
    case None
    then have m: "moved l0 l" and nls: "\<not> lx_at_line_start l"
      using post moved_refl [OF 1(6)] by (auto simp: line_start_post_def)
    then have l: "lexer_inv l" "lx_pending l = []" "lx_err l = None" using "1.prems" by (auto simp: moved_def)
    have again: "lex_step l0 (next_loop l')"
      if "moved l l'" "lexer_inv l' \<Longrightarrow> lx_pending l' = [] \<Longrightarrow> lx_err l' = None \<Longrightarrow> lex_step l' (next_loop l')"
      for l'
      using that l m by (metis moved_then_step moved_def)
    note IH = "1.IH" [OF r [symmetric] None]
    show ?thesis
    proof (cases "more_src l")
      case False
      with None moved_then_step [OF m next_eof_step [OF l False]] show ?thesis
        by (subst next_loop.simps) (simp add: r)
    next
      case True
      note IH' = IH [OF _ refl]
      have blank: "lex_step l0 (next_loop (advance l))"
        if "lexer_inv (advance l) \<Longrightarrow> lx_pending (advance l) = [] \<Longrightarrow> lx_err (advance l) = None \<Longrightarrow>
          lex_step (advance l) (next_loop (advance l))"
        using that True by (intro again moved_advance l)
      have nl: "cur l = newline \<Longrightarrow> \<not> 0 < lx_depth l \<Longrightarrow> lx_line_tok (set_line_start True (advance l)) \<Longrightarrow>
          lex_step l0 (mk_token T_Newline [] (lexer_pos l),
            (set_line_start True (advance l))\<lparr>lx_line_tok := False\<rparr>)"
        "cur l = newline \<Longrightarrow> \<not> 0 < lx_depth l \<Longrightarrow> \<not> lx_line_tok (set_line_start True (advance l)) \<Longrightarrow>
          lex_step l0 (next_loop (set_line_start True (advance l)))"
        using newline_step [OF l True] True IH'(3)
        by (auto intro: moved_then_step [OF m] again)
      have ws: "lex_step l0 (next_loop (advance l))"
        if "cur l = CHR '' '' \<or> cur l = carriage_return \<or> cur l = tab"
        using blank IH'(1) that True by blast
      have joined: "lex_step l0 (next_loop (advance l))" if "cur l = newline" "0 < lx_depth l"
        using blank IH'(2) that True by simp
      have comment: "lex_step l0 (next_loop (skip_line l))" if "cur l = hash_sign"
        using again [OF moved_skip_line [OF l(1,2)]] IH'(4) that True by simp
      have cont: "lex_step l0 (next_loop (advance (advance l)))"
        if "cur l = backslash \<and> peek 1 l = newline"
        using again [OF moved_continuation [OF l(1,2) True]] IH'(5) that True by simp
      show ?thesis
        unfolding next_loop.simps [of l0] r None prod.case option.case Let_def
        using True
        by (intro lex_step_if)
          (erule (1) notE | (rule ws joined nl comment cont; assumption) |
            rule moved_then_step [OF m scan_step [OF l nls True]])+
    qed
  qed
qed

theorem lexer_next_step: "lexer_inv l \<Longrightarrow> lex_step l (lexer_next l)"
  using pop_pending_step [of l] next_loop_step [of l]
  by (auto simp: lexer_next_def lex_step_def)

end
