(* ===== verification/Fly_Lexer_Text.thy ===== *)
theory Fly_Lexer_Text
  imports Fly_Lexer_Facts
begin

text \<open>
  The text of tokens: every token the lexer delivers carries the source bytes it was read from, and
  its line and column are those of its first byte (of its opening quote, for a string literal with a
  prefix).
\<close>

subsection \<open>Text of a scanned token\<close>

definition token_stands :: "string \<Rightarrow> nat \<Rightarrow> token \<Rightarrow> bool" where
  "token_stands src o' t \<longleftrightarrow> o' \<le> length src \<and> t_line t = line_of src o' \<and> t_col t = col_of src o'"

definition scan_text :: "lexer \<Rightarrow> token \<times> lexer \<Rightarrow> bool" where
  "scan_text l r \<longleftrightarrow>
     (let t = fst r; l' = snd r in
      \<exists>o'. lx_off l \<le> o' \<and> o' \<le> lx_off l' \<and> token_stands (lx_src l) o' t \<and>
        (t_ty t \<notin> {T_String, T_Illegal} \<longrightarrow> o' = lx_off l) \<and>
        (t_ty t \<noteq> T_Illegal \<longrightarrow>
           t_lit t = map to_lower (slice (lx_src l) (lx_off l) o') @ slice (lx_src l) o' (lx_off l')))"

lemma token_at_pos: "cursor_ok l \<Longrightarrow> token_stands (lx_src l) (lx_off l) (mk_token ty lit (lexer_pos l))"
  by (simp add: token_stands_def cursor_ok_def lexer_pos_def)

lemma scan_text_here:
  assumes "cursor_ok l" "lx_off l \<le> lx_off l'" "t_ty t = T_Illegal \<or> t_lit t = slice (lx_src l) (lx_off l) (lx_off l')"
    and "t_line t = lx_line l" "t_col t = lx_col l"
  shows "scan_text l (t, l')"
  using assms unfolding scan_text_def Let_def
  by (intro exI [of _ "lx_off l"]) (auto simp: token_stands_def cursor_ok_def)

lemma scan_text_ident: "cursor_ok l \<Longrightarrow> scan_text l (scan_ident l)"
  unfolding scan_ident_def Let_def by (intro scan_text_here) (auto simp: lexer_pos_def)

lemma panic_advance: "lx_panic l \<Longrightarrow> lx_panic (advance l)"
  by (simp add: advance_def)

lemma off_advance_n_no_panic: "\<not> lx_panic (advance_n n l) \<Longrightarrow> lx_off (advance_n n l) = lx_off l + n"
proof (induction n)
  case (Suc n)
  then have "\<not> lx_panic (advance (advance_n n l))" by (simp add: advance_n_def)
  then have "\<not> lx_panic (advance_n n l)" "more_src (advance_n n l)"
    using panic_advance by (auto simp: advance_def split: if_splits)
  with Suc.IH show ?case by (simp add: advance_n_def)
qed (simp add: advance_n_def)

text \<open>Operators: the literal is cut before the cursor moves, by the same number of bytes.\<close>

definition op_text :: "lexer \<Rightarrow> token \<times> lexer \<Rightarrow> bool" where
  "op_text l r \<longleftrightarrow> (cursor_ok l \<longrightarrow> \<not> lx_panic (snd r) \<longrightarrow> scan_text l r)"

lemma op_text_op:
  "lx_src l1 = lx_src l \<Longrightarrow> lx_off l1 = lx_off l \<Longrightarrow> lexer_pos l1 = lexer_pos l \<Longrightarrow>
   op_text l (op_tok ty n l1)"
  unfolding op_text_def op_tok_def
  by (auto intro!: scan_text_here simp: off_advance_n_no_panic) (simp_all add: lexer_pos_def)

lemma op_text_variants:
  "op_text l (op_tok ty n l)" "op_text l (op_tok ty n (add_depth k l))"
  "op_text l (close_bracket ty fmt l)" "op_text l (unexpected s l)"
  by (auto intro!: op_text_op simp: close_bracket_def Let_def add_depth_def lexer_pos_def)
    (simp add: op_text_def unexpected_def scan_text_here lexer_pos_def)

lemma op_text_if: "op_text l x \<Longrightarrow> op_text l y \<Longrightarrow> op_text l (if b then x else y)"
  by simp

lemma op_text_scan_op: "op_text l (scan_op l)"
  unfolding scan_op_def Let_def by (intro op_text_if op_text_variants)

lemma scan_text_number:
  assumes "cursor_ok l" "scan_ok l (scan_number l)"
  shows "scan_text l (scan_number l)"
proof -
  have fin: "scan_text l (finish_number (lexer_pos l) (lx_off l) b l1)"
    if "scan_ok l (finish_number (lexer_pos l) (lx_off l) b l1)" for b l1
    using assms(1) that unfolding finish_number_def Let_def
    by (auto intro!: scan_text_here simp: lexer_pos_def scan_ok_def split: if_splits)
  have ill: "scan_text l (mk_token T_Illegal [] (lexer_pos l), l1)"
    if "scan_ok l (mk_token T_Illegal [] (lexer_pos l), l1)" for l1
    using assms(1) that by (intro scan_text_here) (simp_all add: lexer_pos_def scan_ok_def)
  show ?thesis
    using assms(2) fin ill unfolding scan_number_def Let_def
    by (auto split: prod.splits option.splits if_splits)
qed

text \<open>String literals: the opening and closing quotes frame the body.\<close>

lemma slice_one: "i < length xs \<Longrightarrow> slice xs i (i + 1) = [xs ! i]"
  by (simp add: slice_def take_Suc_conv_app_nth)

lemma slice_three:
  "i + 2 < length xs \<Longrightarrow> slice xs i (i + 3) = [xs ! i, xs ! (i + 1), xs ! (i + 2)]"
  using slice_Suc [of i "i + 2" xs] slice_Suc [of i "i + 1" xs] slice_one [of i xs]
  by (simp add: numeral_3_eq_3)

lemma peek_is: "peek k l = c \<Longrightarrow> c \<noteq> nul \<Longrightarrow> lx_src l ! (lx_off l + k) = c"
  by (auto simp: peek_def split: if_splits)

lemma string_body_closed_text:
  assumes "q \<noteq> nul"
  shows "string_body q tr l = (True, l') \<Longrightarrow> tr \<Longrightarrow> peek 1 l' = q \<and> peek 2 l' = q"
proof (induction l rule: measure_induct_rule [of lx_rest])
  case (less l)
  have IH: "peek 1 l' = q \<and> peek 2 l' = q"
    if "l1 = advance l \<or> l1 = advance (advance l)" "more_src l" "string_body q tr l1 = (True, l')" for l1
    using that less.prems(2) less.IH [of l1] rest_advance [of l] rest_advance_twice [of l] by metis
  from less.prems assms IH [of "advance l"] IH [of "advance (advance l)"] show ?case
    by (subst (asm) string_body.simps) (auto simp: Let_def split: if_splits)
qed

lemma scan_string_text:
  assumes ok: "cursor_ok l" "more_src l" "is_quote (cur l)" and good: "scan_string px l = (t, l')"
    and ty: "t_ty t \<noteq> T_Illegal"
  shows "t_lit t = px @ slice (lx_src l) (lx_off l) (lx_off l')"
proof -
  define q where "q = cur l"
  define l1 where "l1 = advance l"
  define triple where "triple = (peek 0 l1 = q \<and> peek 1 l1 = q)"
  define l2 where "l2 = (if triple then advance_n 2 l1 else l1)"
  define k :: nat where "k = (if triple then 3 else 1)"
  define qs where "qs = (if triple then [q, q, q] else [q])"
  have q: "q \<noteq> nul" using quote_facts ok(3) by (simp add: q_def)
  obtain ok3 l3 where body: "string_body q triple l2 = (ok3, l3)" by fastforce
  note str = scan_string_def Let_def q_def [symmetric] l1_def [symmetric] triple_def [symmetric]
    l2_def [symmetric] k_def [symmetric] qs_def [symmetric]
  from good ty have ok3: "ok3" unfolding str body by (auto split: bool.splits)
  with good have t: "t = mk_token T_String (px @ qs @ slice (lx_src l3) (lx_off l2) (lx_off l3) @ qs) (lexer_pos l)"
    and l': "l' = advance_n k l3"
    unfolding str body by auto
  have src: "lx_src l1 = lx_src l" "lx_src l2 = lx_src l" "lx_src l3 = lx_src l"
    using ctl_src [OF ctl_string_body [of q triple l2]] ctl_src [OF ctl_advance_n [of 2 l1]] body
    by (simp_all add: l1_def l2_def)
  have off1: "lx_off l1 = lx_off l + 1" using ok by (simp add: l1_def)
  have p: "triple \<Longrightarrow> lx_off l + 2 < length (lx_src l)"
    using q peek_in_range [of 1 l1 q] by (simp add: triple_def src off1)
  have off2: "lx_off l2 = lx_off l + k" using p off_advance_n [of l1 2] src off1 by (auto simp: l2_def k_def)
  have closed: "more_src l3" "cur l3 = q" "triple \<Longrightarrow> lx_off l3 + 2 < length (lx_src l)"
    "triple \<Longrightarrow> peek 1 l3 = q \<and> peek 2 l3 = q"
    using string_body_closed [OF q, of triple l2 l3] string_body_closed_text [OF q, of triple l2 l3] body ok3 src
    by auto
  have off': "lx_off l' = lx_off l3 + k"
    using closed src off_advance_n [of l3 k] by (auto simp: l' k_def more_src_def)
  have open_q: "slice (lx_src l) (lx_off l) (lx_off l2) = qs"
    using q p ok(2) peek_is [of 0 l1 q] peek_is [of 1 l1 q] slice_one [of "lx_off l" "lx_src l"]
      slice_three [of "lx_off l" "lx_src l"]
    by (auto simp: off2 off1 k_def qs_def triple_def src more_src_def q_def cur_def)
  have close_q: "slice (lx_src l) (lx_off l3) (lx_off l') = qs"
    using q closed src peek_is [of 1 l3 q] peek_is [of 2 l3 q] slice_one [of "lx_off l3" "lx_src l"]
      slice_three [of "lx_off l3" "lx_src l"]
    by (auto simp: off' k_def qs_def more_src_def cur_def)
  have ord: "lx_off l \<le> lx_off l2" "lx_off l2 \<le> lx_off l3" "lx_off l3 \<le> lx_off l'"
    using off2 off' off_string_body [of l2 q triple] body by auto
  have "slice (lx_src l) (lx_off l) (lx_off l') = qs @ slice (lx_src l) (lx_off l2) (lx_off l3) @ qs"
    using ord by (metis open_q close_q le_trans slice_append)
  then show ?thesis by (simp add: t src)
qed

lemma scan_string_pos:
  "t_line (fst (scan_string px l)) = lx_line l \<and> t_col (fst (scan_string px l)) = lx_col l"
  by (simp add: scan_string_def Let_def lexer_pos_def split: prod.split bool.split)

lemma scan_string_ty: "t_ty (fst (scan_string px l)) \<in> {T_String, T_Illegal}"
  by (simp add: scan_string_def Let_def split: prod.split bool.split)

lemma scan_text_string:
  assumes "cursor_ok l" "more_src l" "is_quote (cur l)"
  shows "scan_text l (scan_string [] l)"
proof -
  obtain t l' where r: "scan_string [] l = (t, l')" by fastforce
  have "lx_off l \<le> lx_off l'" using scan_ok_string [OF assms, of "[]"] r by (simp add: scan_ok_def)
  moreover have "t_ty t = T_Illegal \<or> t_lit t = slice (lx_src l) (lx_off l) (lx_off l')"
    using scan_string_text [OF assms r] by auto
  ultimately show ?thesis
    unfolding r using assms(1) scan_string_pos [of "[]" l] r by (intro scan_text_here) simp_all
qed

lemma scan_text_string_prefix:
  assumes ok: "cursor_ok l" "is_string_prefix l"
  shows "scan_text l (scan_string_prefix l)"
proof -
  define l1 where "l1 = skip_while is_ident_part l"
  from string_prefix_loop_quote ok(2) obtain pre q post
    where d: "drop (lx_off l) (lx_src l) = pre @ q # post" "is_quote q" "list_all is_ident_part pre"
    unfolding is_string_prefix_def by blast
  have l1: "cursor_ok l1" "more_src l1" "is_quote (cur l1)" "lx_src l1 = lx_src l" "lx_off l \<le> lx_off l1"
    using skip_while_lands [OF d(1,3)] quote_facts [OF d(2)] d(2) ok(1) by (simp_all add: l1_def)
  define px where "px = map to_lower (slice (lx_src l) (lx_off l) (lx_off l1))"
  obtain t l' where r: "scan_string px l1 = (t, l')" by fastforce
  have "lx_off l1 \<le> lx_off l'" using scan_ok_string [OF l1(1-3), of px] r by (simp add: scan_ok_def)
  moreover have "t_ty t \<noteq> T_Illegal \<longrightarrow> t_lit t = px @ slice (lx_src l) (lx_off l1) (lx_off l')"
    using scan_string_text [OF l1(1-3) r] l1(4) by auto
  moreover have "token_stands (lx_src l) (lx_off l1) t" "t_ty t \<in> {T_String, T_Illegal}"
    using scan_string_pos [of px l1] scan_string_ty [of px l1] r l1(1,4)
    by (auto simp: token_stands_def cursor_ok_def)
  ultimately have "scan_text l (t, l')"
    unfolding scan_text_def Let_def using l1(5) by (intro exI [of _ "lx_off l1"]) (auto simp: px_def)
  then show ?thesis using r by (simp add: scan_string_prefix_def Let_def l1_def px_def)
qed

lemma scan_text_lex_token:
  assumes "cursor_ok l" "more_src l"
  shows "scan_text l (lex_token l)"
proof -
  have ok: "scan_ok l (lex_token l)" by (rule scan_ok_lex_token [OF assms])
  have dots: "scan_text l (mk_token T_Ellipsis ''...'' (lexer_pos l), advance_n 3 l)"
    if "cur l = CHR ''.'' \<and> peek 1 l = CHR ''.'' \<and> peek 2 l = CHR ''.''"
  proof -
    have b: "lx_off l + 2 < length (lx_src l)" using that by (intro peek_in_range [of 2 l "CHR ''.''"]) simp_all
    then have "slice (lx_src l) (lx_off l) (lx_off (advance_n 3 l)) = ''...''"
      using that slice_three [OF b] peek_is [of 1 l "CHR ''.''"] peek_is [of 2 l "CHR ''.''"]
      by (simp add: off_advance_n cur_def)
    with assms b show ?thesis by (intro scan_text_here) (simp_all add: lexer_pos_def off_advance_n)
  qed
  have "scan_text l (scan_op l)"
    using op_text_scan_op [of l] scan_ok_scan_op [OF assms] assms
    by (simp add: op_text_def scan_ok_def cursor_ok_def Let_def)
  moreover have "scan_text l (scan_number l)" if "is_digit (cur l) \<or> cur l = CHR ''.''"
    using scan_text_number scan_ok_number assms that by blast
  ultimately show ?thesis
    using assms dots
    by (auto simp: lex_token_def Let_def intro!: scan_text_string_prefix scan_text_ident scan_text_string)
qed


subsection \<open>The gaps between tokens\<close>

text \<open>
  What the lexer may skip: blanks, line ends, comments up to the end of the line, and a backslash
  directly before a line end.
\<close>

function blank_text :: "string \<Rightarrow> bool" where
  "blank_text [] = True"
| "blank_text (c # cs) =
     (if c \<in> {CHR '' '', carriage_return, tab, newline} then blank_text cs
      else if c = hash_sign then blank_text (dropWhile (\<lambda>b. b \<noteq> newline) cs)
      else if c = backslash then (case cs of d # ds \<Rightarrow> d = newline \<and> blank_text ds | [] \<Rightarrow> False)
      else False)"
  by pat_completeness auto
termination
  by (relation "measure length") (auto simp: length_dropWhile_le less_Suc_eq_le)

definition gap :: "lexer \<Rightarrow> lexer \<Rightarrow> bool" where
  "gap l l' \<longleftrightarrow> lx_src l' = lx_src l \<and> lx_off l \<le> lx_off l' \<and>
     (\<forall>s. lx_off l' \<le> s \<longrightarrow> s \<le> length (lx_src l) \<longrightarrow>
       blank_text (slice (lx_src l) (lx_off l') s) \<longrightarrow> blank_text (slice (lx_src l) (lx_off l) s))"

lemma gap_refl: "gap l l"
  by (simp add: gap_def)

lemma gap_trans: "gap l l1 \<Longrightarrow> gap l1 l2 \<Longrightarrow> gap l l2"
  by (auto simp: gap_def)

lemma gap_same: "lx_src l1 = lx_src l \<Longrightarrow> lx_off l1 = lx_off l \<Longrightarrow> gap l l1"
  by (simp add: gap_def)

lemma slice_Cons: "i < length xs \<Longrightarrow> i < j \<Longrightarrow> slice xs i j = xs ! i # slice xs (i + 1) j"
  using slice_append [of i "i + 1" j xs] slice_one [of i xs] by simp

lemma gap_blank:
  assumes "more_src l" "cur l \<in> {CHR '' '', carriage_return, tab, newline}"
  shows "gap l (advance l)"
  using assms by (auto simp: gap_def more_src_def cur_def slice_Cons)

lemma gap_count_spaces: "gap l (snd (count_spaces n l))"
proof (induction n l rule: count_spaces.induct)
  case (1 n l)
  show ?case
  proof (cases "more_src l \<and> cur l = CHR '' ''")
    case True
    with 1 gap_blank [of l] show ?thesis by (subst count_spaces.simps) (auto intro: gap_trans)
  next
    case False
    then show ?thesis by (subst count_spaces.simps) (auto simp: gap_refl)
  qed
qed

lemma gap_continuation:
  assumes "more_src l" "cur l = backslash" "peek 1 l = newline"
  shows "gap l (advance (advance l))"
proof -
  have b: "lx_off l + 1 < length (lx_src l)" using assms(3) by (rule peek_in_range) simp
  have "more_src (advance l)" using b assms(1) by (simp add: more_src_def)
  moreover have "lx_src l ! (lx_off l + 1) = newline" using peek_is [OF assms(3)] by simp
  ultimately show ?thesis
    using assms b by (auto simp: gap_def cur_def slice_Cons)
qed

lemma dropWhile_slice:
  assumes "i \<le> j" "j \<le> k" "k \<le> length xs" "\<forall>m. i \<le> m \<longrightarrow> m < j \<longrightarrow> P (xs ! m)"
    and "j < k \<longrightarrow> \<not> P (xs ! j)"
  shows "dropWhile P (slice xs i k) = slice xs j k"
proof -
  have "\<forall>x \<in> set (slice xs i j). P x"
    using assms by (auto simp: slice_def in_set_conv_nth)
  then have "dropWhile P (slice xs i j @ slice xs j k) = dropWhile P (slice xs j k)"
    by (simp add: dropWhile_append)
  also have "\<dots> = slice xs j k"
    using assms(3,5) slice_Cons [of j xs k] by (cases "j < k") (simp_all add: slice_def [of xs j k])
  finally show ?thesis using assms(1,2) by (simp add: slice_append)
qed

lemma skip_line_stops:
  "\<forall>m. lx_off l \<le> m \<longrightarrow> m < lx_off (skip_line l) \<longrightarrow> lx_src l ! m \<noteq> newline"
  "lx_off (skip_line l) < length (lx_src l) \<longrightarrow> lx_src l ! lx_off (skip_line l) = newline"
proof -
  define p where "p = (\<lambda>c. c \<noteq> newline)"
  define d where "d = drop (lx_off l) (lx_src l)"
  have off: "lx_off (skip_line l) = lx_off l + length (takeWhile p d)"
    by (simp add: skip_line_def off_skip_while_eq p_def d_def)
  have nth: "d ! i = lx_src l ! (lx_off l + i)" if "i < length d" for i
    using that by (simp add: d_def)
  have "lx_src l ! m \<noteq> newline" if "lx_off l \<le> m" "m < lx_off (skip_line l)" for m
  proof -
    have i: "m - lx_off l < length (takeWhile p d)" using that off by simp
    then have "takeWhile p d ! (m - lx_off l) \<in> set (takeWhile p d)" by (rule nth_mem)
    then have "p (d ! (m - lx_off l))" using i by (metis set_takeWhileD takeWhile_nth)
    with nth [of "m - lx_off l"] i that(1) length_takeWhile_le [of p d] show ?thesis by (simp add: p_def)
  qed
  then show "\<forall>m. lx_off l \<le> m \<longrightarrow> m < lx_off (skip_line l) \<longrightarrow> lx_src l ! m \<noteq> newline" by blast
  show "lx_off (skip_line l) < length (lx_src l) \<longrightarrow> lx_src l ! lx_off (skip_line l) = newline"
    using nth_length_takeWhile [of p d] nth [of "length (takeWhile p d)"] off
    by (auto simp: p_def d_def)
qed

lemma gap_comment:
  assumes "more_src l" "cur l = hash_sign"
  shows "gap l (skip_line l)"
proof -
  have lt: "lx_off l < lx_off (skip_line l)"
    using assms by (simp add: skip_line_def skip_while_progress)
  have "dropWhile (\<lambda>b. b \<noteq> newline) (slice (lx_src l) (lx_off l + 1) s) = slice (lx_src l) (lx_off (skip_line l)) s"
    if "lx_off (skip_line l) \<le> s" "s \<le> length (lx_src l)" for s
    using that lt skip_line_stops [of l] by (intro dropWhile_slice) auto
  then show ?thesis
    using assms lt by (auto simp: gap_def more_src_def cur_def slice_Cons skip_line_def)
qed


subsection \<open>Text of a delivered token\<close>

definition no_text :: "token_type \<Rightarrow> bool" where
  "no_text ty \<longleftrightarrow> ty = T_Indent \<or> ty = T_Dedent \<or> ty = T_Eof"

text \<open>
  \<open>next_text l (t, l')\<close>: the token starts at \<open>s\<close> behind a gap of blank text; a newline token stands for
  one line end (or for the end of the file), an indent, dedent or end-of-file token for nothing, any
  other token for the bytes up to the new cursor (string prefixes in lower case).
\<close>

definition text_of :: "string \<Rightarrow> nat \<Rightarrow> nat \<Rightarrow> nat \<Rightarrow> token \<Rightarrow> bool" where
  "text_of src s o' e t \<longleftrightarrow>
     (if no_text (t_ty t) then t_lit t = [] \<and> s = e
      else if t_ty t = T_Newline then t_lit t = [] \<and> o' = s \<and> slice src s e \<in> {[newline], []}
      else t_lit t = map to_lower (slice src s o') @ slice src o' e \<and> (t_ty t \<noteq> T_String \<longrightarrow> o' = s))"

definition next_text :: "lexer \<Rightarrow> token \<times> lexer \<Rightarrow> bool" where
  "next_text l r \<longleftrightarrow>
     (let t = fst r; l' = snd r; src = lx_src l in
      \<exists>s o'. lx_off l \<le> s \<and> s \<le> o' \<and> o' \<le> lx_off l' \<and> token_stands src o' t \<and>
        (lx_err l' = None \<longrightarrow> blank_text (slice src (lx_off l) s) \<and> text_of src s o' (lx_off l') t))"

lemma next_text_gap:
  assumes "gap l l1" "cursor_ok (snd r)" "lx_src (snd r) = lx_src l" "next_text l1 r"
  shows "next_text l r"
proof -
  obtain t l' where r: "r = (t, l')" by fastforce
  from assms(4) r obtain s o' where s: "lx_off l1 \<le> s" "s \<le> o'" "o' \<le> lx_off l'"
    "token_stands (lx_src l1) o' t" and g: "lx_err l' = None \<longrightarrow>
      blank_text (slice (lx_src l1) (lx_off l1) s) \<and> text_of (lx_src l1) s o' (lx_off l') t"
    by (auto simp: next_text_def Let_def)
  have "s \<le> length (lx_src l)" using s assms(2,3) r by (simp add: cursor_ok_def)
  with s g assms(1) show ?thesis
    unfolding next_text_def Let_def r by (intro exI [of _ s] exI [of _ o']) (auto simp: gap_def)
qed

lemma next_text_same:
  "next_text l1 r \<Longrightarrow> lx_src l1 = lx_src l \<Longrightarrow> lx_off l1 = lx_off l \<Longrightarrow> next_text l r"
  by (simp add: next_text_def)

lemma next_text_here:
  assumes "cursor_ok l" "lx_off l' = lx_off l" "t_line t = lx_line l" "t_col t = lx_col l"
    and "lx_err l' = None \<longrightarrow> no_text (t_ty t) \<and> t_lit t = []"
  shows "next_text l (t, l')"
  using assms unfolding next_text_def Let_def
  by (intro exI [of _ "lx_off l"]) (auto simp: token_stands_def cursor_ok_def text_of_def)

lemma next_text_pop:
  assumes "lexer_inv l" "lx_pending l \<noteq> []"
  shows "next_text l (pop_pending l)"
proof -
  from assms obtain ts where p: "lx_pending l = mk_token T_Dedent [] (lexer_pos l) # ts"
    by (cases "lx_pending l") (auto simp: lexer_inv_def pending_ok_def)
  with assms(1) show ?thesis
    unfolding pop_pending_def
    by (intro next_text_here) (auto simp: lexer_inv_def lexer_pos_def no_text_def)
qed

lemma next_text_drain:
  assumes "cursor_ok l" "lx_indents l \<noteq> []" "lx_pending l = []"
  shows "next_text l (if lx_pending (drain_indents l) \<noteq> [] then pop_pending (drain_indents l)
    else (mk_token T_Eof [] (lexer_pos (drain_indents l)), drain_indents l))"
  using assms drain_indents_eq [OF assms(2)]
  by (auto intro!: next_text_here simp: pop_pending_def no_text_def lexer_pos_def hd_replicate
      split: if_splits)


definition line_text :: "lexer \<Rightarrow> token option \<times> lexer \<Rightarrow> bool" where
  "line_text l r \<longleftrightarrow> (case r of (Some t, l') \<Rightarrow> next_text l (t, l') | (None, l') \<Rightarrow> gap l l')"

lemma line_text_gap:
  "gap l l1 \<Longrightarrow> cursor_ok (snd r) \<Longrightarrow> lx_src (snd r) = lx_src l \<Longrightarrow> line_text l1 r \<Longrightarrow> line_text l r"
  by (cases r) (auto simp: line_text_def intro: next_text_gap gap_trans split: option.splits)

lemma line_text_if:
  "(b \<Longrightarrow> line_text l x) \<Longrightarrow> (\<not> b \<Longrightarrow> line_text l y) \<Longrightarrow> line_text l (if b then x else y)"
  by simp

lemma line_start_code_text:
  assumes "lexer_inv l" "lx_pending l = []"
  shows "line_text l (line_start_code n l)"
proof -
  have ok: "cursor_ok l" "indents_ok l" "lx_indents l \<noteq> []"
    using assms(1) by (auto simp: lexer_inv_def indents_ok_def)
  show ?thesis
  proof (cases "n < last (lx_indents l)")
    case True
    note keep = keep_indents_inv [OF ok(2) True]
    define k where "k = length (lx_indents l) - length (keep_indents n (lx_indents l)) - 1"
    have p: "lx_pending (dedent_to n l) = replicate (Suc k) (mk_token T_Dedent [] (lexer_pos l))"
      using keep(5) assms(2) by (simp add: dedent_to_eq k_def Suc_diff_Suc)
    have ne: "lx_indents (dedent_to n l) \<noteq> []" using keep by (simp add: dedent_to_eq)
    show ?thesis
      using True ok ne p
      by (auto simp: line_start_code_def line_text_def Let_def pop_pending_def lexer_pos_def no_text_def
          intro!: next_text_here)
  next
    case False
    with ok assms(2) show ?thesis
      by (auto simp: line_start_code_def line_text_def Let_def pop_pending_def push_pending_def lexer_pos_def
          no_text_def intro!: next_text_here gap_same)
  qed
qed

lemma line_start_post_cursor:
  "line_start_post l r \<Longrightarrow> cursor_ok (snd r) \<and> lx_src (snd r) = lx_src l"
  by (auto simp: line_start_post_def lex_step_def moved_def lexer_inv_def split: prod.splits option.splits)

lemma line_start_text:
  "lexer_inv l \<Longrightarrow> lx_pending l = [] \<Longrightarrow> lx_err l = None \<Longrightarrow> lx_at_line_start l \<Longrightarrow>
   line_text l (line_start l)"
proof (induction l rule: line_start.induct)
  case (1 l0)
  define l where "l = snd (count_spaces 0 l0)"
  have m: "moved l0 l" using 1 moved_count_spaces [of l0 0] by (simp add: l_def)
  have ls: "lx_at_line_start l" using ctl_count_spaces [of 0 l0] 1 by (simp add: l_def ctl_def)
  have l: "lexer_inv l" "lx_pending l = []" "lx_err l = None" using m 1 by (auto simp: moved_def)
  have g: "gap l0 l" by (simp add: l_def gap_count_spaces)
  have c: "cursor_ok (snd (line_start l0)) \<and> lx_src (snd (line_start l0)) = lx_src l0"
    by (rule line_start_post_cursor [OF line_start_step [OF "1.prems"]])
  note IH = "1.IH" [OF refl refl, folded l_def]
  have again: "line_text l (line_start l')"
    if "gap l l'" "moved l l'" "lx_at_line_start l'" and
      "lexer_inv l' \<Longrightarrow> lx_pending l' = [] \<Longrightarrow> lx_err l' = None \<Longrightarrow> lx_at_line_start l' \<Longrightarrow> line_text l' (line_start l')"
    for l'
  proof -
    have l': "lexer_inv l'" "lx_pending l' = []" "lx_err l' = None" "lx_src l' = lx_src l"
      using that(2) l by (auto simp: moved_def)
    with that line_start_post_cursor [OF line_start_step [OF l'(1-3) that(3)]] show ?thesis
      by (intro line_text_gap [OF that(1)]) auto
  qed
  have same: "lx_at_line_start (advance l)" "lx_at_line_start (skip_line l)"
    "lx_at_line_start (advance (advance l))"
    using ls ctl_fields [OF ctl_advance] ctl_fields [OF ctl_skip_while]
    by (simp_all add: skip_line_def)
  have "next_text l (if lx_pending (drain_indents (set_line_start False l)) \<noteq> []
      then pop_pending (drain_indents (set_line_start False l))
      else (mk_token T_Eof [] (lexer_pos (drain_indents (set_line_start False l))),
        drain_indents (set_line_start False l)))"
    using l by (intro next_text_same [OF next_text_drain]) (auto simp: lexer_inv_def indents_ok_def)
  then have eof: "line_text l (line_start_eof l)"
    by (auto simp: line_text_def line_start_eof_def Let_def pop_pending_def split: if_splits)
  have tabs: "line_text l (Some (mk_token T_Illegal [] (lexer_pos l1)), l1)"
    if "l1 = set_line_start False (lexer_errorf (lexer_pos l) F0022 [] l)" for l1
    using that l by (auto simp: line_text_def lexer_pos_def lexer_inv_def intro!: next_text_here)
  have nl: "line_text l (line_start (advance l))" if "more_src l" "cur l = newline"
    using that l by (intro again gap_blank moved_advance same IH) auto
  have comment: "line_text l (line_start (skip_line l))" if "more_src l" "cur l = hash_sign"
    using that l by (intro again gap_comment moved_skip_line same IH) auto
  have cont: "line_text l (line_start (advance (advance l)))"
    if "more_src l" "cur l = backslash \<and> peek 1 l = newline"
    using that l by (intro again gap_continuation moved_continuation same IH) auto
  have "line_text l (line_start l0)"
    unfolding line_start.simps [of l0] Let_def l_def [symmetric]
    by (intro line_text_if eof tabs refl nl comment cont line_start_code_text l) simp_all
  with c show ?case by (intro line_text_gap [OF g]) auto
qed

lemma next_text_lex_token:
  assumes "lexer_inv l" "more_src l"
  shows "next_text l (case lex_token l of (t, l1) \<Rightarrow>
    (t, if t_ty t \<noteq> T_Illegal then l1\<lparr>lx_line_tok := True\<rparr> else l1))"
proof -
  obtain t l1 where lt: "lex_token l = (t, l1)" by fastforce
  have c: "cursor_ok l" using assms by (simp add: lexer_inv_def)
  have ok: "t_ty t \<notin> layout_types" "t_ty t = T_Illegal \<longrightarrow> lx_err l1 \<noteq> None"
    using scan_ok_lex_token [OF c assms(2)] lt by (auto simp: scan_ok_def)
  from scan_text_lex_token [OF c assms(2)] lt obtain o' where o: "lx_off l \<le> o'" "o' \<le> lx_off l1"
    "token_stands (lx_src l) o' t" "t_ty t \<notin> {T_String, T_Illegal} \<longrightarrow> o' = lx_off l"
    "t_ty t \<noteq> T_Illegal \<longrightarrow>
       t_lit t = map to_lower (slice (lx_src l) (lx_off l) o') @ slice (lx_src l) o' (lx_off l1)"
    by (auto simp: scan_text_def Let_def)
  with ok have "lx_err l1 = None \<longrightarrow> text_of (lx_src l) (lx_off l) o' (lx_off l1) t"
    by (auto simp: text_of_def layout_types_def no_text_def)
  with o show ?thesis
    unfolding next_text_def Let_def lt
    by (intro exI [of _ "lx_off l"] exI [of _ o']) auto
qed

lemma next_text_newline:
  assumes "lexer_inv l" "more_src l" "cur l = newline"
  shows "next_text l (mk_token T_Newline [] (lexer_pos l), (set_line_start True (advance l))\<lparr>lx_line_tok := False\<rparr>)"
  using assms slice_one [of "lx_off l" "lx_src l"] unfolding next_text_def Let_def
  by (intro exI [of _ "lx_off l"])
    (auto simp: lexer_inv_def more_src_def cur_def text_of_def no_text_def intro: token_at_pos)

lemma next_text_eof:
  assumes "lexer_inv l" "lx_pending l = []"
  shows "next_text l (next_eof l)"
proof (cases "lx_line_tok l")
  case True
  with assms show ?thesis
    unfolding next_text_def Let_def next_eof_def
    by (intro exI [of _ "lx_off l"])
      (auto simp: lexer_inv_def text_of_def no_text_def intro: token_at_pos)
next
  case False
  define l1 where "l1 = (if 0 < lx_depth l then lexer_errorf (lexer_pos l) F0021 [] l else l)"
  have "next_text l (if lx_pending (drain_indents l1) \<noteq> [] then pop_pending (drain_indents l1)
    else (mk_token T_Eof [] (lexer_pos (drain_indents l1)), drain_indents l1))"
    using assms by (intro next_text_same [OF next_text_drain]) (auto simp: l1_def lexer_inv_def indents_ok_def)
  with False show ?thesis unfolding next_eof_def Let_def l1_def [symmetric] by simp
qed


lemma next_text_if:
  "(b \<Longrightarrow> next_text l x) \<Longrightarrow> (\<not> b \<Longrightarrow> next_text l y) \<Longrightarrow> next_text l (if b then x else y)"
  by simp

lemma next_loop_text:
  "lexer_inv l \<Longrightarrow> lx_pending l = [] \<Longrightarrow> lx_err l = None \<Longrightarrow> next_text l (next_loop l)"
proof (induction l rule: next_loop.induct)
  case (1 l0)
  obtain r l where r: "(if lx_at_line_start l0 then line_start l0 else (None, l0)) = (r, l)"
    by fastforce
  have c: "cursor_ok (snd (next_loop l0)) \<and> lx_src (snd (next_loop l0)) = lx_src l0"
    using next_loop_step [OF "1.prems"] by (simp add: lex_step_def lexer_inv_def Let_def)
  have post: "line_start_post l0 (r, l) \<and> line_text l0 (r, l) \<or> r = None \<and> l = l0"
    using line_start_step [OF "1.prems"] line_start_text [OF "1.prems"] r by (auto split: if_splits)
  show ?case
  proof (cases r)
    case (Some t)
    with post r show ?thesis by (subst next_loop.simps) (simp add: line_text_def)
  next
    case None
    then have m: "moved l0 l" and g: "gap l0 l"
      using post moved_refl [OF 1(6)] gap_refl [of l0] by (auto simp: line_start_post_def line_text_def)
    then have l: "lexer_inv l" "lx_pending l = []" "lx_err l = None" using "1.prems" by (auto simp: moved_def)
    have again: "next_text l (next_loop l')"
      if "gap l l'" "moved l l'"
        "lexer_inv l' \<Longrightarrow> lx_pending l' = [] \<Longrightarrow> lx_err l' = None \<Longrightarrow> next_text l' (next_loop l')" for l'
    proof -
      have l': "lexer_inv l'" "lx_pending l' = []" "lx_err l' = None" "lx_src l' = lx_src l"
        using that(2) l by (auto simp: moved_def)
      with that next_loop_step [OF l'(1-3)] show ?thesis
        by (intro next_text_gap [OF that(1)]) (auto simp: lex_step_def lexer_inv_def Let_def)
    qed
    note IH = "1.IH" [OF r [symmetric] None _ refl]
    have nl: "gap l (set_line_start True (advance l))" if "more_src l" "cur l = newline"
      using gap_blank [of l] that by (auto simp: gap_def)
    have nlm: "moved l (set_line_start True (advance l))"
      if "more_src l" "\<not> 0 < lx_depth l" "\<not> lx_line_tok (set_line_start True (advance l))"
      using newline_step(2) l that by blast
    have "next_text l (next_loop l0)"
      unfolding next_loop.simps [of l0] r None prod.case option.case Let_def
    proof (intro next_text_if, goal_cases)
      case 1
      show ?case by (rule next_text_eof [OF l(1,2)])
    next
      case 2
      then show ?case by (intro again gap_blank moved_advance l IH(1)) auto
    next
      case 3
      then show ?case by (intro again gap_blank moved_advance l IH(2)) auto
    next
      case 4
      then show ?case by (intro next_text_newline l) auto
    next
      case 5
      then show ?case by (intro again nl nlm IH(3)) auto
    next
      case 6
      then show ?case by (intro again gap_comment moved_skip_line l IH(4)) auto
    next
      case 7
      then show ?case by (intro again gap_continuation moved_continuation l IH(5)) auto
    next
      case 8
      then show ?case by (intro next_text_lex_token l) auto
    qed
    with c show ?thesis by (intro next_text_gap [OF g]) auto
  qed
qed

lemma lexer_next_text: "lexer_inv l \<Longrightarrow> next_text l (lexer_next l)"
  using next_text_pop [of l] next_loop_text [of l]
  by (auto simp: lexer_next_def lexer_inv_def lexer_pos_def intro!: next_text_here)

end
