(* ===== verification/Fly_Token_Stream.thy ===== *)
theory Fly_Token_Stream
  imports Fly_Token
begin

text \<open>
  The interface between a producer of tokens and its consumers: a state machine that delivers one
  token per call, keeps an invariant, and makes progress until it delivers \<open>Eof\<close>.  The lexer and the
  token reading of the parser are instances; \<open>read_all\<close> is the consumer's loop.
\<close>

text \<open>\<open>loop { t = next(); toks.push(t); if t.ty == Eof { break } }\<close>, with fuel for the iterations.\<close>

primrec read_all :: "('s \<Rightarrow> token \<times> 's) \<Rightarrow> nat \<Rightarrow> 's \<Rightarrow> (token list \<times> 's) option" where
  "read_all nx 0 s = None"
| "read_all nx (Suc n) s =
     (case nx s of (t, s1) \<Rightarrow>
        if t_ty t = T_Eof then Some ([t], s1)
        else (case read_all nx n s1 of None \<Rightarrow> None | Some (ts, s2) \<Rightarrow> Some (t # ts, s2)))"

locale token_stream =
  fixes nx :: "'s \<Rightarrow> token \<times> 's"
    and inv :: "'s \<Rightarrow> bool"
    and mu :: "'s \<Rightarrow> nat"
  assumes next_inv: "inv s \<Longrightarrow> inv (snd (nx s))"
    and next_progress: "inv s \<Longrightarrow> t_ty (fst (nx s)) \<noteq> T_Eof \<Longrightarrow> mu (snd (nx s)) < mu s"
begin

lemma iterate_inv: "inv s \<Longrightarrow> inv (((\<lambda>s. snd (nx s)) ^^ n) s)"
  by (induction n) (simp_all add: next_inv)

lemma read_all_total:
  "inv s \<Longrightarrow> mu s < n \<Longrightarrow>
   \<exists>ts e s1. read_all nx n s = Some (ts @ [e], s1) \<and> t_ty e = T_Eof \<and>
     (\<forall>t \<in> set ts. t_ty t \<noteq> T_Eof) \<and> length ts \<le> mu s \<and> inv s1"
proof (induction n arbitrary: s)
  case (Suc n)
  obtain t s1 where nx: "nx s = (t, s1)" by fastforce
  have inv1: "inv s1" using next_inv [OF Suc.prems(1)] nx by simp
  show ?case
  proof (cases "t_ty t = T_Eof")
    case True
    with nx inv1 show ?thesis by (intro exI [of _ "[]"] exI [of _ t] exI [of _ s1]) simp
  next
    case False
    then have less: "mu s1 < mu s" using next_progress [OF Suc.prems(1)] nx by simp
    with Suc.prems(2) Suc.IH [OF inv1] obtain ts e s2 where
      "read_all nx n s1 = Some (ts @ [e], s2)" "t_ty e = T_Eof" "\<forall>t \<in> set ts. t_ty t \<noteq> T_Eof"
      "length ts \<le> mu s1" "inv s2" by auto
    with False nx less show ?thesis
      by (intro exI [of _ "t # ts"] exI [of _ e] exI [of _ s2]) simp
  qed
qed simp

text \<open>A property of single steps, carried along the whole run.\<close>

lemma read_all_trace:
  assumes step: "\<And>s t s1. inv s \<Longrightarrow> nx s = (t, s1) \<Longrightarrow> R s t s1"
    and run: "read_all nx n s = Some (ts, s')" and inv: "inv s"
  shows "\<exists>ss. length ss = Suc (length ts) \<and> ss ! 0 = s \<and> last ss = s' \<and>
    (\<forall>i < length ts. inv (ss ! i) \<and> R (ss ! i) (ts ! i) (ss ! Suc i))"
  using run inv
proof (induction n arbitrary: s ts)
  case (Suc n)
  obtain t s1 where nx: "nx s = (t, s1)" by fastforce
  have inv1: "inv s1" using next_inv [OF Suc.prems(2)] nx by simp
  have R: "R s t s1" using step [OF Suc.prems(2) nx] .
  show ?case
  proof (cases "t_ty t = T_Eof")
    case True
    with nx R Suc.prems show ?thesis by (intro exI [of _ "[s, s1]"]) auto
  next
    case False
    with Suc.prems nx obtain us where us: "read_all nx n s1 = Some (us, s')" "ts = t # us"
      by (auto split: option.splits)
    with Suc.IH [OF us(1) inv1] obtain ss where ss: "length ss = Suc (length us)" "ss ! 0 = s1"
      "last ss = s'" "\<forall>i < length us. inv (ss ! i) \<and> R (ss ! i) (us ! i) (ss ! Suc i)" by blast
    have "\<forall>i < length ts. inv ((s # ss) ! i) \<and> R ((s # ss) ! i) (ts ! i) ((s # ss) ! Suc i)"
      using ss us R Suc.prems(2) by (auto simp: nth_Cons less_Suc_eq_0_disj split: nat.splits)
    with ss us show ?thesis by (intro exI [of _ "s # ss"]) (auto simp: last.simps)
  qed
qed simp

end

text \<open>
  A stream whose state carries a level that each token changes by its weight: the nesting of blocks,
  or of brackets.
\<close>

locale weighted_stream = token_stream nx inv mu
  for nx :: "'s \<Rightarrow> token \<times> 's" and inv :: "'s \<Rightarrow> bool" and mu :: "'s \<Rightarrow> nat" +
  fixes level :: "'s \<Rightarrow> int"
    and weight :: "token \<Rightarrow> int"
  assumes next_level: "inv s \<Longrightarrow> level (snd (nx s)) = level s + weight (fst (nx s))"
begin

lemma read_all_level:
  "read_all nx n s = Some (ts, s') \<Longrightarrow> inv s \<Longrightarrow> level s' = level s + sum_list (map weight ts)"
proof (induction n arbitrary: s ts)
  case (Suc n)
  then show ?case using next_inv [OF Suc.prems(2)] next_level [OF Suc.prems(2)]
    by (fastforce split: prod.splits if_splits option.splits)
qed simp

lemma read_all_prefix_level:
  assumes "read_all nx n s = Some (ts, s')" "inv s" "i \<le> length ts"
  shows "\<exists>s1. inv s1 \<and> level s1 = level s + sum_list (map weight (take i ts))"
  using assms
proof (induction n arbitrary: s ts i)
  case (Suc n)
  obtain t s1 where nx: "nx s = (t, s1)" by fastforce
  have s1: "inv s1" "level s1 = level s + weight t"
    using next_inv [OF Suc.prems(2)] next_level [OF Suc.prems(2)] nx by simp_all
  show ?case
  proof (cases i)
    case 0
    with Suc.prems show ?thesis by (intro exI [of _ s]) simp
  next
    case (Suc j)
    show ?thesis
    proof (cases "t_ty t = T_Eof")
      case True
      with nx Suc Suc.prems s1 show ?thesis by (intro exI [of _ s1]) auto
    next
      case False
      with Suc.prems nx obtain us where us: "read_all nx n s1 = Some (us, s')" "ts = t # us"
        by (auto split: option.splits)
      with Suc.IH [OF us(1) s1(1), of j] Suc Suc.prems(3) s1(2) show ?thesis by force
    qed
  qed
qed simp

end

end
