(* ===== verification/Fly_Lexer_Spec.thy ===== *)
theory Fly_Lexer_Spec
  imports Fly_Lexer_Text Fly_Token_Stream
begin

text \<open>
  What the lexer promises its consumers, for every source text: it never panics, its counters fit
  their machine types, every run ends with \<open>Eof\<close> after a number of tokens linear in the source,
  blocks and brackets of an accepted source are balanced, and the tokens together with blank text
  account for every byte of it.
\<close>

subsection \<open>The lexer as a token stream\<close>

lemma lexer_new_inv: "lexer_inv (lexer_new src)"
  by (simp add: lexer_new_def lexer_inv_def cursor_ok_def line_of_def col_of_def pending_ok_def
      indents_ok_def depth_ok_def)

lemma lex_stepD:
  assumes "lexer_inv l"
  shows "lexer_inv (snd (lexer_next l))"
    "t_ty (fst (lexer_next l)) \<noteq> T_Eof \<Longrightarrow> lx_measure (snd (lexer_next l)) < lx_measure l"
    "open_level (snd (lexer_next l)) = open_level l + indent_weight (fst (lexer_next l))"
    "lx_depth (snd (lexer_next l)) = lx_depth l + bracket_weight (fst (lexer_next l))"
    "t_ty (fst (lexer_next l)) = T_Eof \<Longrightarrow> lx_err (snd (lexer_next l)) = None \<Longrightarrow> lx_done (snd (lexer_next l))"
    "lx_src (snd (lexer_next l)) = lx_src l" "lx_off l \<le> lx_off (snd (lexer_next l))"
    "lx_measure (snd (lexer_next l)) \<le> lx_measure l"
  using lexer_next_step [OF assms] by (simp_all add: lex_step_def Let_def)

interpretation blocks: weighted_stream lexer_next lexer_inv lx_measure open_level indent_weight
  by unfold_locales (simp_all add: lex_stepD)

interpretation brackets: weighted_stream lexer_next lexer_inv lx_measure lx_depth bracket_weight
  by unfold_locales (simp_all add: lex_stepD)

text \<open>
  \<open>lex_all\<close> (\<^verbatim>\<open>src/fmt.rs\<close>) reads a source to the end; \<open>lex_run\<close> also returns the final state of the
  lexer.  Four tokens per byte and a few more for layout are always enough.
\<close>

definition lex_fuel :: "string \<Rightarrow> nat" where
  "lex_fuel src = 4 * length src + 4"

definition lex_run :: "string \<Rightarrow> (token list \<times> lexer) option" where
  "lex_run src = read_all lexer_next (lex_fuel src) (lexer_new src)"

definition lex_all :: "string \<Rightarrow> token list option" where
  "lex_all src = map_option fst (lex_run src)"

lemma lx_measure_new: "lx_measure (lexer_new src) = 4 * length src + 3"
  by (simp add: lx_measure_def lexer_new_def lx_rest_def)

subsection \<open>Errors are final\<close>

text \<open>The first error is kept, and nothing but \<open>Eof\<close> follows it.\<close>

lemma lexer_next_after_error:
  "lx_err l \<noteq> None \<Longrightarrow> lexer_next l = (mk_token T_Eof [] (lexer_pos l), l)"
  by (simp add: lexer_next_def)

text \<open>The lexer after \<open>n\<close> calls of \<open>next\<close>.\<close>

definition lexer_after :: "nat \<Rightarrow> string \<Rightarrow> lexer" where
  "lexer_after n src = ((\<lambda>l. snd (lexer_next l)) ^^ n) (lexer_new src)"

lemma lexer_after_inv: "lexer_inv (lexer_after n src) \<and> lx_src (lexer_after n src) = src"
proof (induction n)
  case (Suc n)
  then show ?case using lex_stepD [of "lexer_after n src"] by (simp add: lexer_after_def)
qed (simp add: lexer_after_def lexer_new_inv, simp add: lexer_new_def)

text \<open>
  C16: the lexer never panics, for any input and after any number of calls: every index it
  computes is inside the source, the indentation stack is never empty when it is read, and
  line, column and bracket depth stay within the length of the source, so that they fit
  \<open>u32\<close> and \<open>i32\<close> for every source shorter than 2 GiB.
\<close>

theorem lexer_safe:
  "\<not> lx_panic (lexer_after n src) \<and> lx_indents (lexer_after n src) \<noteq> [] \<and>
   lx_off (lexer_after n src) \<le> length src \<and> lx_line (lexer_after n src) \<le> length src + 1 \<and>
   lx_col (lexer_after n src) \<le> length src + 1 \<and> \<bar>lx_depth (lexer_after n src)\<bar> \<le> int (length src) + 1"
proof -
  define l where "l = lexer_after n src"
  have l: "cursor_ok l" "indents_ok l" "depth_ok l" "lx_src l = src"
    using lexer_after_inv [of n src] by (simp_all add: l_def lexer_inv_def)
  moreover have "lx_line l \<le> lx_off l + 1" "lx_col l \<le> lx_off l + 1"
    using l(1) line_of_bound [of "lx_src l" "lx_off l"] col_of_bound [of "lx_src l" "lx_off l"]
    by (simp_all add: cursor_ok_def)
  ultimately show ?thesis
    unfolding l_def [symmetric] by (auto simp: cursor_ok_def indents_ok_def depth_ok_def)
qed

text \<open>
  C27: reading any source to the end terminates: \<open>lex_all\<close> delivers finitely many tokens, exactly
  one \<open>Eof\<close>, as the last one, and at most four tokens per byte plus three.
\<close>

theorem lex_all_terminates:
  "\<exists>ts e. lex_all src = Some (ts @ [e]) \<and> t_ty e = T_Eof \<and> T_Eof \<notin> t_ty ` set ts \<and>
     length ts \<le> 4 * length src + 3"
proof -
  have "lx_measure (lexer_new src) < lex_fuel src" by (simp add: lex_fuel_def lx_measure_new)
  from blocks.read_all_total [OF lexer_new_inv this] show ?thesis
    by (fastforce simp: lex_all_def lex_run_def lx_measure_new)
qed

text \<open>What a source without lexical errors gives.\<close>

definition lexes :: "string \<Rightarrow> token list \<Rightarrow> bool" where
  "lexes src ts \<longleftrightarrow> (case lex_run src of Some (us, l) \<Rightarrow> us = ts \<and> lx_err l = None | None \<Rightarrow> False)"

lemma read_all_last:
  "read_all lexer_next n l = Some (ts, l') \<Longrightarrow> lexer_inv l \<Longrightarrow> lx_err l' = None \<Longrightarrow> lx_done l'"
proof (induction n arbitrary: l ts)
  case (Suc n)
  then show ?case using lex_stepD(1,5) [OF Suc.prems(2)]
    by (fastforce split: prod.splits if_splits option.splits)
qed simp

lemma levels_nonneg: "lexer_inv l \<Longrightarrow> 0 \<le> open_level l"
  by (cases "lx_indents l") (auto simp: lexer_inv_def indents_ok_def open_level_def)

lemma read_all_error_stays:
  "read_all lexer_next n l = Some (ts, l') \<Longrightarrow> lx_err l' = None \<Longrightarrow> lx_err l = None"
proof (cases n)
  case (Suc k)
  assume "read_all lexer_next n l = Some (ts, l')" "lx_err l' = None"
  with Suc show ?thesis by (cases "lx_err l") (auto simp: lexer_next_after_error)
qed simp

lemma read_all_depth:
  "read_all lexer_next n l = Some (ts, l') \<Longrightarrow> lexer_inv l \<Longrightarrow> lx_err l' = None \<Longrightarrow>
   0 \<le> lx_depth l + sum_list (map bracket_weight (take i ts))"
proof (induction n arbitrary: l ts i)
  case (Suc n)
  obtain t l1 where nx: "lexer_next l = (t, l1)" by fastforce
  have l1: "lexer_inv l1" "lx_depth l1 = lx_depth l + bracket_weight t"
    using lex_stepD(1,4) [OF Suc.prems(2)] nx by simp_all
  have here: "0 \<le> lx_depth l"
    using read_all_error_stays [OF Suc.prems(1,3)] Suc.prems(2) by (simp add: lexer_inv_def depth_ok_def)
  show ?case
  proof (cases i)
    case (Suc j)
    show ?thesis
    proof (cases "t_ty t = T_Eof")
      case True
      with nx Suc Suc.prems here show ?thesis by (auto simp: bracket_weight_def bracket_of_def)
    next
      case False
      with Suc.prems nx obtain us where us: "read_all lexer_next n l1 = Some (us, l')" "ts = t # us"
        by (auto split: option.splits)
      with Suc.IH [OF us(1) l1(1) Suc.prems(3), of j] Suc l1(2) show ?thesis by simp
    qed
  qed (simp add: here)
qed simp

text \<open>
  C13: in a source without lexical errors blocks nest properly: every \<open>Dedent\<close> closes an
  \<open>Indent\<close> delivered before it, and at \<open>Eof\<close> all of them are closed; and no closing bracket
  comes before its opening one, with opening and closing brackets equally many at the end.
\<close>

theorem lexes_balanced:
  "lexes src ts \<Longrightarrow>
     sum_list (map indent_weight ts) = 0 \<and> (\<forall>i. 0 \<le> sum_list (map indent_weight (take i ts))) \<and>
     sum_list (map bracket_weight ts) = 0 \<and> (\<forall>i. 0 \<le> sum_list (map bracket_weight (take i ts)))"
proof -
  assume "lexes src ts"
  then obtain l where run: "read_all lexer_next (lex_fuel src) (lexer_new src) = Some (ts, l)"
    and err: "lx_err l = None"
    by (auto simp: lexes_def lex_run_def split: option.splits)
  have e: "lx_done l" by (rule read_all_last [OF run lexer_new_inv err])
  have new: "open_level (lexer_new src) = 0" "lx_depth (lexer_new src) = 0"
    by (simp_all add: open_level_def lexer_new_def)
  have "0 \<le> sum_list (map indent_weight (take i ts))" for i
  proof -
    have "\<exists>l1. lexer_inv l1 \<and> open_level l1 = open_level (lexer_new src) +
        sum_list (map indent_weight (take (min i (length ts)) ts))"
      by (rule blocks.read_all_prefix_level [OF run lexer_new_inv]) simp
    then show ?thesis using levels_nonneg new by (metis add_0 take_all_iff min_def nle_le order_refl)
  qed
  moreover have "open_level l = 0" "lx_depth l = 0" using e by (simp_all add: lx_done_def open_level_def)
  ultimately show ?thesis
    using blocks.read_all_level [OF run lexer_new_inv] brackets.read_all_level [OF run lexer_new_inv] new
      read_all_depth [OF run lexer_new_inv err] by simp
qed

theorem lexes_balanced_witness:
  "\<exists>ts. lexes ''if x:\<newline>  f(1)\<newline>'' ts \<and> sum_list (map indent_weight ts) = 0"
proof -
  have "case lex_run ''if x:\<newline>  f(1)\<newline>'' of Some (_, l) \<Rightarrow> lx_err l = None | None \<Rightarrow> False"
    by code_simp
  then obtain ts where "lexes ''if x:\<newline>  f(1)\<newline>'' ts"
    by (auto simp: lexes_def split: option.splits)
  with lexes_balanced show ?thesis by blast
qed

text \<open>
  \<open>covers src i ts\<close>: from byte \<open>i\<close> on, the source is the texts of the tokens with blank text in
  between, up to its end.
\<close>

primrec covers :: "string \<Rightarrow> nat \<Rightarrow> token list \<Rightarrow> bool" where
  "covers src i [] \<longleftrightarrow> i = length src"
| "covers src i (t # ts) \<longleftrightarrow>
     (\<exists>s o' e. i \<le> s \<and> s \<le> o' \<and> o' \<le> e \<and> e \<le> length src \<and> blank_text (slice src i s) \<and>
        token_stands src o' t \<and> text_of src s o' e t \<and> covers src e ts)"

lemma read_all_covers:
  "read_all lexer_next n l = Some (ts, l') \<Longrightarrow> lexer_inv l \<Longrightarrow> lx_err l' = None \<Longrightarrow>
   covers (lx_src l) (lx_off l) ts"
proof (induction n arbitrary: l ts)
  case (Suc n)
  obtain t l1 where nx: "lexer_next l = (t, l1)" by fastforce
  have l1: "lexer_inv l1" "lx_src l1 = lx_src l" using lex_stepD(1,6) [OF Suc.prems(2)] nx by simp_all
  then have len: "lx_off l1 \<le> length (lx_src l)" by (auto simp: lexer_inv_def cursor_ok_def)
  have err1: "lx_err l1 = None \<Longrightarrow> covers (lx_src l) (lx_off l1) us \<Longrightarrow> covers (lx_src l) (lx_off l) (t # us)" for us
    using lexer_next_text [OF Suc.prems(2)] nx len by (auto simp: next_text_def Let_def)
  show ?case
  proof (cases "t_ty t = T_Eof")
    case True
    with Suc.prems nx have "ts = [t]" "l' = l1" by simp_all
    moreover have "lx_done l1" using lex_stepD(5) [OF Suc.prems(2)] True nx Suc.prems \<open>l' = l1\<close> by simp
    then have "lx_off l1 = length (lx_src l)" using len l1(2) by (simp add: lx_done_def more_src_def)
    ultimately show ?thesis using err1 [of "[]"] Suc.prems(3) by simp
  next
    case False
    with Suc.prems nx obtain us where us: "read_all lexer_next n l1 = Some (us, l')" "ts = t # us"
      by (auto split: option.splits)
    with Suc.IH [OF us(1) l1(1) Suc.prems(3)] read_all_error_stays [OF us(1) Suc.prems(3)] l1(2) err1
    show ?thesis by simp
  qed
qed simp

text \<open>
  C8: lexing loses nothing: a source without lexical errors is, byte for byte, the sequence of
  its tokens' literals (string prefixes in lower case) and line ends, with only blanks, comments
  and line continuations in between, and every token carries the line and column of its place.
\<close>

theorem lexes_covers: "lexes src ts \<Longrightarrow> covers src 0 ts"
proof -
  assume "lexes src ts"
  then obtain l where run: "read_all lexer_next (lex_fuel src) (lexer_new src) = Some (ts, l)"
    and err: "lx_err l = None"
    by (auto simp: lexes_def lex_run_def split: option.splits)
  from read_all_covers [OF run lexer_new_inv err] show ?thesis by (simp add: lexer_new_def)
qed

theorem lexes_covers_witness: "\<exists>ts. lexes ''x = 1  # c'' ts \<and> covers ''x = 1  # c'' 0 ts"
proof -
  have "case lex_run ''x = 1  # c'' of Some (_, l) \<Rightarrow> lx_err l = None | None \<Rightarrow> False"
    by code_simp
  then obtain ts where "lexes ''x = 1  # c'' ts"
    by (auto simp: lexes_def split: option.splits)
  with lexes_covers show ?thesis by blast
qed


subsection \<open>Operators and keywords\<close>

text \<open>The operator spellings of the language, a reference for \<open>scan_op\<close>.\<close>

definition op_types :: "token_type list" where
  "op_types =
     [T_Plus, T_Minus, T_Star, T_Slash, T_Percent, T_DoubleStar, T_FloorDiv, T_Shl, T_Shr, T_Amp,
      T_Pipe, T_Caret, T_Tilde, T_Lt, T_Gt, T_Le, T_Ge, T_EqEq, T_Ne, T_Assign, T_PlusAssign,
      T_MinusAssign, T_StarAssign, T_SlashAssign, T_PercentAssign, T_DoubleStarAssign,
      T_FloorDivAssign, T_ShlAssign, T_ShrAssign, T_AmpAssign, T_PipeAssign, T_CaretAssign, T_Colon,
      T_Comma, T_Dot, T_Semicolon, T_Arrow, T_LParen, T_RParen, T_LBracket, T_RBracket, T_LBrace,
      T_RBrace, T_At]"

definition spelled :: "lexer \<Rightarrow> string \<Rightarrow> bool" where
  "spelled l w \<longleftrightarrow> take (length w) (drop (lx_off l) (lx_src l)) = w"

lemma spelled_bytes:
  assumes "more_src l"
  shows "spelled l [a] \<longleftrightarrow> cur l = a"
    "b \<noteq> nul \<Longrightarrow> spelled l [a, b] \<longleftrightarrow> cur l = a \<and> peek 1 l = b"
    "b \<noteq> nul \<Longrightarrow> c \<noteq> nul \<Longrightarrow> spelled l [a, b, c] \<longleftrightarrow> cur l = a \<and> peek 1 l = b \<and> peek 2 l = c"
proof -
  define d where "d = drop (lx_off l) (lx_src l)"
  have d: "cur l = d ! 0" "peek 1 l = (if 1 < length d then d ! 1 else nul)"
    "peek 2 l = (if 2 < length d then d ! 2 else nul)" "0 < length d"
    using assms by (auto simp: d_def cur_def peek_def more_src_def)
  show "spelled l [a] \<longleftrightarrow> cur l = a"
    "b \<noteq> nul \<Longrightarrow> spelled l [a, b] \<longleftrightarrow> cur l = a \<and> peek 1 l = b"
    "b \<noteq> nul \<Longrightarrow> c \<noteq> nul \<Longrightarrow> spelled l [a, b, c] \<longleftrightarrow> cur l = a \<and> peek 1 l = b \<and> peek 2 l = c"
    unfolding spelled_def d_def [symmetric] d
    by (cases d; cases "tl d"; cases "tl (tl d)"; use d(4) in auto)+
qed

definition munch :: "lexer \<Rightarrow> token \<times> lexer \<Rightarrow> bool" where
  "munch l r \<longleftrightarrow>
     (let ty = t_ty (fst r) in
      if ty = T_Illegal then \<forall>ty' \<in> set op_types. \<not> spelled l (symbol_name ty')
      else ty \<in> set op_types \<and> t_lit (fst r) = symbol_name ty \<and> spelled l (symbol_name ty) \<and>
        (\<forall>ty' \<in> set op_types. spelled l (symbol_name ty') \<longrightarrow> length (symbol_name ty') \<le> length (symbol_name ty)))"

lemma munch_if: "(b \<Longrightarrow> munch l x) \<Longrightarrow> (\<not> b \<Longrightarrow> munch l y) \<Longrightarrow> munch l (if b then x else y)"
  by simp

lemma munch_op:
  assumes "spelled l (symbol_name ty)" "n = length (symbol_name ty)" "ty \<in> set op_types"
    and "lx_src l1 = lx_src l" "lx_off l1 = lx_off l"
    and "\<forall>ty' \<in> set op_types. spelled l (symbol_name ty') \<longrightarrow> length (symbol_name ty') \<le> n"
  shows "munch l (op_tok ty n l1)"
proof -
  have "ty \<noteq> T_Illegal" using assms(3) by (auto simp: op_types_def)
  with assms show ?thesis by (simp add: munch_def op_tok_def spelled_def slice_def)
qed

lemma munch_scan_op: "more_src l \<Longrightarrow> munch l (scan_op l)"
  unfolding scan_op_def Let_def close_bracket_def unexpected_def
  by (intro munch_if)
    ((rule munch_op, (simp add: op_types_def spelled_bytes add_depth_def; fail)+) |
      (simp add: munch_def op_types_def spelled_bytes; fail))+

text \<open>
  C28: operators are read by longest match: where any operator is spelled at the cursor, \<open>scan_op\<close>
  returns the longest one, with its spelling as the literal, and it reports an illegal character
  only where no operator is spelled.
\<close>

theorem scan_op_longest_match:
  "more_src l \<Longrightarrow> scan_op l = (t, l') \<Longrightarrow>
     (if t_ty t = T_Illegal then (\<forall>ty. ty \<in> set op_types \<longrightarrow> \<not> spelled l (symbol_name ty)) \<and> lx_err l' \<noteq> None
      else t_ty t \<in> set op_types \<and> t_lit t = symbol_name (t_ty t) \<and> spelled l (t_lit t) \<and>
        (\<forall>ty. ty \<in> set op_types \<longrightarrow> spelled l (symbol_name ty) \<longrightarrow> length (symbol_name ty) \<le> length (t_lit t)))"
proof -
  assume more: "more_src l" and s: "scan_op l = (t, l')"
  have "t_ty t = T_Illegal \<Longrightarrow> lx_err l' \<noteq> None"
  proof -
    have "t_ty (fst (scan_op l)) = T_Illegal \<longrightarrow> lx_err (snd (scan_op l)) \<noteq> None"
      unfolding scan_op_def Let_def op_tok_def close_bracket_def unexpected_def by simp
    then show "t_ty t = T_Illegal \<Longrightarrow> lx_err l' \<noteq> None" using s by simp
  qed
  with munch_scan_op [OF more] s show ?thesis by (auto simp: munch_def Let_def)
qed

theorem scan_op_longest_match_witness:
  "t_ty (fst (scan_op (lexer_new ''**=''))) = T_DoubleStarAssign \<and>
   t_lit (fst (scan_op (lexer_new ''**=''))) = ''**=''"
proof -
  define l where "l = lexer_new ''**=''"
  have m: "more_src l" by (simp add: l_def lexer_new_def more_src_def)
  have t: "t_ty (fst (scan_op l)) = T_DoubleStarAssign" unfolding l_def by code_simp
  with scan_op_longest_match [OF m prod.collapse [symmetric]] show ?thesis
    unfolding l_def [symmetric] by simp
qed

text \<open>
  Note: the keyword table and the keyword names are inverse to each other: a token type has the
  keyword name \<open>k\<close> exactly when the identifier \<open>k\<close> lexes as that token.
\<close>

theorem keyword_roundtrip: "keyword k = Some ty \<longleftrightarrow> keyword_name ty = Some k"
proof
  have "list_all (\<lambda>(k, ty). keyword_name ty = Some k) keyword_table"
    by (simp add: keyword_table_def)
  then show "keyword k = Some ty \<Longrightarrow> keyword_name ty = Some k"
    by (auto simp: keyword_def list_all_iff dest!: map_of_SomeD)
  have "keyword_name ty = Some k \<Longrightarrow> (k, ty) \<in> set keyword_table"
    by (cases ty rule: keyword_name.cases) (auto simp: keyword_table_def)
  moreover have "distinct (map fst keyword_table)" by code_simp
  ultimately show "keyword_name ty = Some k \<Longrightarrow> keyword k = Some ty"
    by (simp add: keyword_def)
qed


subsection \<open>Blank lines with a carriage return\<close>

text \<open>
  Inside a block, a blank line that ends in CR LF is taken for code at column 0 (\<open>line_start\<close> knows
  only LF as a blank line): the block is closed and opened again around it, where the same text with
  LF line ends stays one block.
\<close>

lemma crlf_blank_line_splits_block:
  "map_option (map t_ty) (lex_all (''if x:'' @ [newline] @ '' a'' @ [newline] @ [newline] @ '' b'')) =
     Some [T_If, T_Ident, T_Colon, T_Newline, T_Indent, T_Ident, T_Newline, T_Ident, T_Newline,
           T_Dedent, T_Eof]"
  "map_option (map t_ty) (lex_all (''if x:'' @ [newline] @ '' a'' @ [newline] @ [carriage_return, newline] @ '' b'')) =
     Some [T_If, T_Ident, T_Colon, T_Newline, T_Indent, T_Ident, T_Newline, T_Dedent, T_Indent,
           T_Ident, T_Newline, T_Dedent, T_Eof]"
  by code_simp+

end
