(* ===== verification/Fly_Ast.thy ===== *)
theory Fly_Ast
  imports Fly_Token
begin

text \<open>
  The syntax tree (\<^verbatim>\<open>src/ast.rs\<close>).  Each \<open>struct\<close> and each variant of \<open>enum Stmt\<close> and \<open>enum Expr\<close> is a
  constructor with the fields in the order of the source; \<open>Box\<close> is transparent.

  A finite \<open>f64\<close> is \<open>F64 m e\<close>, the number \<open>m \<cdot> 2\<^sup>e\<close>; the only \<open>f64\<close> of the tree is the time limit
  of a \<open>cage\<close>.
\<close>

datatype f64 = F64 int int | F64_Inf

datatype import_item = ImportItem (imp_name: string) (imp_alias: string)

datatype expr =
    Name position string
  | IntLit position string
  | FloatLit position string
  | StringLit position string
  | EllipsisLit position
  | ListLit position "expr list"
  | TupleLit position "expr list" bool
  | DictLit position "expr list" "expr list"
  | SetLit position "expr list"
  | Call position expr "expr list" "kwarg list" "expr option" "expr option"
  | Attr position expr string
  | Slice position "expr option" "expr option" "expr option"
  | Subscript position expr expr
  | BinOp position string expr expr
  | UnaryOp position string expr
  | BoolOp position string expr expr
  | Compare position expr "string list" "expr list"
  | Cond position expr expr expr
  | ListComp position expr "comp_clause list"
and kwarg = KwArg position string expr
and comp_clause = CompClause expr expr "expr list"

record param =
  prm_name :: string
  prm_anno :: "expr option"
  prm_default :: "expr option"
  prm_star :: bool
  prm_dbl_star :: bool

datatype stmt =
    Import position "import_item list"
  | FromImport position string "import_item list"
  | Lock position string "expr option"
  | Safe position "string list"
  | Mask position "string list"
  | Guard position string "expr option" "expr list"
  | Assign position "expr list" string expr
  | ExprStmt position expr
  | FuncDef position string "param list" "expr option" "stmt list" "expr list"
  | ClassDef position string "expr list" "stmt list" "expr list" bool
  | Only position "string list" "stmt list"
  | Trace position string bool bool "stmt list"
  | Cage position bool f64 bool int "stmt list"
  | If position expr "stmt list" "elif_clause list" "stmt list"
  | For position expr expr "stmt list" "stmt list"
  | While position expr "stmt list" "stmt list"
  | Return position "expr option"
  | Raise position "expr option" "expr option"
  | Try position "stmt list" "except_clause list" "stmt list" "stmt list"
  | Pass position
  | Break position
  | Continue position
  | Delete position "expr list"
and elif_clause = ElifClause position expr "stmt list"
and except_clause = ExceptClause position "expr option" string "stmt list"

datatype module = Module (mod_pos: position) (mod_stmts: "stmt list")

text \<open>\<open>match s.find('.') { Some(i) => &s[..i], None => s }\<close>\<close>

definition before_dot :: "string \<Rightarrow> string" where
  "before_dot s = takeWhile (\<lambda>c. c \<noteq> CHR ''.'') s"

definition import_module :: "import_item \<Rightarrow> string" where
  "import_module it = before_dot (imp_name it)"

definition top_name :: "import_item \<Rightarrow> string" where
  "top_name it = before_dot (if imp_alias it = [] then imp_name it else imp_alias it)"

fun expr_pos :: "expr \<Rightarrow> position" where
  "expr_pos (Name p _) = p"
| "expr_pos (IntLit p _) = p"
| "expr_pos (FloatLit p _) = p"
| "expr_pos (StringLit p _) = p"
| "expr_pos (EllipsisLit p) = p"
| "expr_pos (ListLit p _) = p"
| "expr_pos (TupleLit p _ _) = p"
| "expr_pos (DictLit p _ _) = p"
| "expr_pos (SetLit p _) = p"
| "expr_pos (Call p _ _ _ _ _) = p"
| "expr_pos (Attr p _ _) = p"
| "expr_pos (Slice p _ _ _) = p"
| "expr_pos (Subscript p _ _) = p"
| "expr_pos (BinOp p _ _ _) = p"
| "expr_pos (UnaryOp p _ _) = p"
| "expr_pos (BoolOp p _ _ _) = p"
| "expr_pos (Compare p _ _ _) = p"
| "expr_pos (Cond p _ _ _) = p"
| "expr_pos (ListComp p _ _) = p"

end
