(* ===== verification/Fly_Units.thy ===== *)
theory Fly_Units
  imports Fly_Ast Fly_Diagnostic "HOL-Library.Log_Nat"
begin

text \<open>
  The limits of a \<open>cage\<close> block (\<^verbatim>\<open>src/parser.rs\<close>, \<open>unquote_str\<close>, \<open>parse_time_spec\<close>,
  \<open>parse_mem_spec\<close>), with the arithmetic of \<open>f64\<close> and \<open>i64\<close> they use: correctly rounded binary64
  (ties to even, gradual underflow, overflow to infinity) and two's complement wrap-around.
\<close>

definition unquote_str :: "string \<Rightarrow> string" where
  "unquote_str s =
     (if 2 \<le> length s \<and> (hd s = double_quote \<or> hd s = single_quote) \<and> last s = hd s
      then butlast (tl s) else s)"

subsection \<open>Decimal and binary numbers\<close>

definition dec_value :: "string \<Rightarrow> int" where
  "dec_value s = foldl (\<lambda>v c. v * 10 + (ord c - 48)) 0 s"

text \<open>\<open>p / q\<close> to the nearest integer, ties to even.\<close>

definition half_even_div :: "int \<Rightarrow> int \<Rightarrow> int" where
  "half_even_div p q =
     (let d = p div q; r = p mod q in if 2 * r < q \<or> 2 * r = q \<and> even d then d else d + 1)"

text \<open>\<open>scale p k\<close> is \<open>p \<cdot> 2\<^sup>k\<close> for \<open>k \<ge> 0\<close> and \<open>p\<close> otherwise.\<close>

definition scale :: "int \<Rightarrow> int \<Rightarrow> int" where
  "scale p k = p * 2 ^ nat k"

text \<open>
  The binary64 number nearest to \<open>p / q\<close>, for \<open>p \<ge> 0\<close> and \<open>q > 0\<close>; every number has one
  representation, with a mantissa below \<open>2\<^sup>5\<^sup>3\<close>.
\<close>

definition f64_of_ratio :: "int \<Rightarrow> int \<Rightarrow> f64" where
  "f64_of_ratio p q =
     (if p = 0 then F64 0 0
      else
        let k = bitlen p - bitlen q;
            lg = (if scale q k \<le> scale p (- k) then k else k - 1);
            e = max (lg - 52) (-1074);
            m = half_even_div (scale p (- e)) (scale q e)
        in if 971 < e \<or> e = 971 \<and> 2 ^ 53 \<le> m then F64_Inf
           else if m = 2 ^ 53 then F64 (2 ^ 52) (e + 1)
           else if m = 0 then F64 0 0
           else F64 m e)"

text \<open>Multiplication; the right factor is one of the four positive unit constants.\<close>

fun f64_mul :: "f64 \<Rightarrow> f64 \<Rightarrow> f64" where
  "f64_mul (F64 m e) (F64 m' e') = f64_of_ratio (scale (m * m') (e + e')) (scale 1 (- (e + e')))"
| "f64_mul _ _ = F64_Inf"

fun f64_le_zero :: "f64 \<Rightarrow> bool" where
  "f64_le_zero (F64 m e) \<longleftrightarrow> m \<le> 0"
| "f64_le_zero F64_Inf \<longleftrightarrow> False"

text \<open>\<open>str::parse::<f64>\<close> on a text of digits and dots.\<close>

definition parse_f64 :: "string \<Rightarrow> f64 option" where
  "parse_f64 s =
     (let ip = takeWhile is_digit s in
      case dropWhile is_digit s of
        [] \<Rightarrow> if ip = [] then None else Some (f64_of_ratio (dec_value ip) 1)
      | c # fp \<Rightarrow>
          if c = CHR ''.'' \<and> list_all is_digit fp \<and> (ip \<noteq> [] \<or> fp \<noteq> [])
          then Some (f64_of_ratio (dec_value (ip @ fp)) (10 ^ length fp)) else None)"

text \<open>\<open>str::parse::<i64>\<close> on a text of digits, and the wrap-around of \<open>i64\<close> arithmetic.\<close>

definition i64_max :: int where
  "i64_max = 9223372036854775807"

definition parse_i64 :: "string \<Rightarrow> int option" where
  "parse_i64 s = (if s = [] \<or> i64_max < dec_value s then None else Some (dec_value s))"

definition wrap_i64 :: "int \<Rightarrow> int" where
  "wrap_i64 x = (x + 9223372036854775808) mod 18446744073709551616 - 9223372036854775808"

subsection \<open>Printing numbers\<close>

text \<open>
  \<open>Display\<close> of an \<open>f64\<close>: the shortest decimal number that is read back as the same \<open>f64\<close>, the
  nearest to it among those of that length, without an exponent.  \<open>p / q\<close> is the number to print,
  \<open>k\<close> the place of its first digit (\<open>10\<^sup>k\<^sup>-\<^sup>1 \<le> p / q < 10\<^sup>k\<close>) and \<open>n\<close> the number of digits; 17 are always
  enough.
\<close>

definition scale10 :: "int \<Rightarrow> int \<Rightarrow> int" where
  "scale10 p k = p * 10 ^ nat k"

primrec first_place :: "nat \<Rightarrow> int \<Rightarrow> int \<Rightarrow> int \<Rightarrow> int" where
  "first_place 0 p q k = k"
| "first_place (Suc n) p q k =
     (if scale10 p (- k) < scale10 q k then (if scale10 q (k - 1) \<le> scale10 p (1 - k) then k else first_place n p q (k - 1))
      else first_place n p q (k + 1))"

definition decimal_candidates :: "f64 \<Rightarrow> int \<Rightarrow> int \<Rightarrow> int \<Rightarrow> int \<Rightarrow> int list" where
  "decimal_candidates x p q k n =
     (let num = scale10 p (n - k); den = scale10 q (k - n); d = num div den;
          ok = (\<lambda>c. f64_of_ratio (scale10 c (k - n)) (scale10 1 (n - k)) = x)
      in filter ok (if 2 * (num mod den) \<le> den then [d, d + 1] else [d + 1, d]))"

definition place_point :: "int \<Rightarrow> int \<Rightarrow> string" where
  "place_point c e =
     (if 0 \<le> e then digits_of (nat (scale10 c e))
      else let ds = digits_of (nat c); frac = nat (- e);
               ds = replicate (frac + 1 - length ds) (CHR ''0'') @ ds
           in take (length ds - frac) ds @ ''.'' @ drop (length ds - frac) ds)"

primrec shortest_decimal :: "nat \<Rightarrow> f64 \<Rightarrow> int \<Rightarrow> int \<Rightarrow> int \<Rightarrow> int \<Rightarrow> string" where
  "shortest_decimal 0 x p q k n = []"
| "shortest_decimal (Suc fuel) x p q k n =
     (case decimal_candidates x p q k n of
        c # _ \<Rightarrow> if c = scale10 1 n then place_point 1 k else place_point c (k - n)
      | [] \<Rightarrow> shortest_decimal fuel x p q k (n + 1))"

fun show_f64 :: "f64 \<Rightarrow> string" where
  "show_f64 (F64 m e) =
     (if m = 0 then ''0''
      else let p = scale m e; q = scale 1 (- e) in
        shortest_decimal 17 (F64 m e) p q (first_place 700 p q 1) 1)"
| "show_f64 F64_Inf = ''inf''"

definition show_int :: "int \<Rightarrow> string" where
  "show_int n = (if n < 0 then ''-'' @ digits_of (nat (- n)) else digits_of (nat n))"

subsection \<open>The two kinds of limits\<close>

definition parse_time_spec :: "string \<Rightarrow> f64 option" where
  "parse_time_spec v =
     (let num_s = takeWhile (\<lambda>c. is_digit c \<or> c = CHR ''.'') v;
          u = dropWhile (\<lambda>c. is_digit c \<or> c = CHR ''.'') v
      in if num_s = [] then None
         else do {
           num \<leftarrow> parse_f64 num_s;
           mult \<leftarrow> (if u = [] \<or> u = ''s'' then Some (f64_of_ratio 1 1)
                   else if u = ''ms'' then Some (f64_of_ratio 1 1000)
                   else if u = ''m'' then Some (f64_of_ratio 60 1)
                   else if u = ''h'' then Some (f64_of_ratio 3600 1)
                   else None);
           let secs = f64_mul num mult in if f64_le_zero secs then None else Some secs
         })"

definition parse_mem_spec :: "string \<Rightarrow> int option" where
  "parse_mem_spec v =
     (let num_s = takeWhile is_digit v; u = dropWhile is_digit v
      in if num_s = [] then None
         else do {
           num \<leftarrow> parse_i64 num_s;
           if num \<le> 0 then None
           else do {
             mult \<leftarrow> (if u = [] \<or> u = ''B'' then Some 1
                     else if u = ''KB'' \<or> u = ''KiB'' then Some 1024
                     else if u = ''MB'' \<or> u = ''MiB'' then Some 1048576
                     else if u = ''GB'' \<or> u = ''GiB'' then Some 1073741824
                     else None);
             Some (wrap_i64 (num * mult))
           }
         })"

end
