(* ===== verification/Fly_Parser.thy ===== *)
theory Fly_Parser
  imports Fly_Units Fly_Lexer "HOL-Library.State_Monad"
begin

text \<open>
  The recursive-descent parser (\<^verbatim>\<open>src/parser.rs\<close>), one definition per method, in the state monad over
  the source's \<open>struct Parser\<close>.

  Recursion.  The methods that parse expressions call one another in a cycle that always consumes a
  token before it closes; each definition takes the recursive calls as a parameter \<open>rc\<close> (one entry
  point per \<open>ekind\<close>) and the fuel of its own loops as \<open>n\<close>, and \<open>parse_k\<close> ties the knot by recursion
  on fuel; \<open>statement_k\<close> does the same for statements and suites.  Running out of fuel sets the ghost
  field \<open>p_stuck\<close>; that this never happens with \<open>parse_fuel\<close> is proved for every source.
\<close>

record parser =
  p_lex :: lexer
  p_tok :: token
  p_peeked :: "token option"
  p_err :: "diagnostic option"
  p_stuck :: bool

type_synonym 'a pm = "(parser, 'a) state"

abbreviation ret :: "'a \<Rightarrow> 'a pm" where
  "ret \<equiv> State_Monad.return"

definition gets :: "(parser \<Rightarrow> 'a) \<Rightarrow> 'a pm" where
  "gets f = State (\<lambda>p. (f p, p))"

definition modify :: "(parser \<Rightarrow> parser) \<Rightarrow> unit pm" where
  "modify f = State (\<lambda>p. ((), f p))"

definition stuck :: "'a \<Rightarrow> 'a pm" where
  "stuck a = State (\<lambda>p. (a, p\<lparr>p_stuck := True\<rparr>))"

text \<open>
  Loops: \<open>pwhile n c body a\<close> is \<open>while c { a = body(a) }\<close>; \<open>ploop n d body a\<close> is \<open>loop { ... }\<close> whose
  body goes on with \<open>Inl\<close> or leaves the loop with \<open>Inr\<close> (\<open>d\<close> is the value of a loop out of fuel).
\<close>

primrec pwhile :: "nat \<Rightarrow> (parser \<Rightarrow> bool) \<Rightarrow> ('a \<Rightarrow> 'a pm) \<Rightarrow> 'a \<Rightarrow> 'a pm" where
  "pwhile 0 c body a = stuck a"
| "pwhile (Suc n) c body a = do {
     go \<leftarrow> gets c;
     if go then do { a' \<leftarrow> body a; pwhile n c body a' } else ret a }"

primrec ploop :: "nat \<Rightarrow> 'b \<Rightarrow> ('a \<Rightarrow> ('a + 'b) pm) \<Rightarrow> 'a \<Rightarrow> 'b pm" where
  "ploop 0 d body a = stuck d"
| "ploop (Suc n) d body a = do {
     r \<leftarrow> body a;
     case r of Inl a' \<Rightarrow> ploop n d body a' | Inr b \<Rightarrow> ret b }"

subsection \<open>Tokens and errors\<close>

definition next_tok :: "parser \<Rightarrow> parser" where
  "next_tok p =
     (case p_peeked p of
        Some t \<Rightarrow> p\<lparr>p_tok := t, p_peeked := None\<rparr>
      | None \<Rightarrow> (case lexer_next (p_lex p) of (t, l) \<Rightarrow> p\<lparr>p_lex := l, p_tok := t\<rparr>))"

definition peek_tok :: "parser \<Rightarrow> token \<times> parser" where
  "peek_tok p =
     (case p_peeked p of
        Some t \<Rightarrow> (t, p)
      | None \<Rightarrow> (case lexer_next (p_lex p) of (t, l) \<Rightarrow> (t, p\<lparr>p_lex := l, p_peeked := Some t\<rparr>)))"

definition p_next :: "unit pm" where
  "p_next = modify next_tok"

definition p_peek :: "token pm" where
  "p_peek = State peek_tok"

definition set_err :: "position \<Rightarrow> string \<Rightarrow> string list \<Rightarrow> parser \<Rightarrow> parser" where
  "set_err pos fmt args p =
     (case p_err p of
        None \<Rightarrow> p\<lparr>p_err := Some \<lparr>d_pos = pos, d_code = error_code fmt, d_msg = format_msg fmt args\<rparr>\<rparr>
      | Some _ \<Rightarrow> p)"

definition p_errorf :: "position \<Rightarrow> string \<Rightarrow> string list \<Rightarrow> unit pm" where
  "p_errorf pos fmt args = modify (set_err pos fmt args)"

definition parser_err :: "parser \<Rightarrow> diagnostic option" where
  "parser_err p = (case p_err p of Some d \<Rightarrow> Some d | None \<Rightarrow> lx_err (p_lex p))"

definition cur_tok :: "token pm" where
  "cur_tok = gets p_tok"

definition tok_ty :: "token_type pm" where
  "tok_ty = gets (\<lambda>p. t_ty (p_tok p))"

definition tok_lit :: "string pm" where
  "tok_lit = gets (\<lambda>p. t_lit (p_tok p))"

definition tok_pos :: "position pm" where
  "tok_pos = gets (\<lambda>p. token_pos (p_tok p))"

definition at_ty :: "token_type \<Rightarrow> parser \<Rightarrow> bool" where
  "at_ty tt p \<longleftrightarrow> t_ty (p_tok p) = tt"

text \<open>\<open>expect\<close> formats its message with \<open>format!\<close>; the text is the one of the registered format.\<close>

definition expect :: "token_type \<Rightarrow> token pm" where
  "expect tt = do {
     t \<leftarrow> cur_tok;
     if t_ty t \<noteq> tt then do {
       p_errorf (token_pos t) F0001 [token_name tt, t_lit t];
       ret \<lparr>t_ty = T_Illegal, t_lit = [], t_line = t_line t, t_col = t_col t\<rparr>
     } else do { p_next; ret t } }"

definition parser_new :: "string \<Rightarrow> parser" where
  "parser_new src =
     next_tok \<lparr>p_lex = lexer_new src, p_tok = mk_token T_Illegal [] \<lparr>pos_line = 0, pos_col = 0\<rparr>,
               p_peeked = None, p_err = None, p_stuck = False\<rparr>"

subsection \<open>Expressions\<close>

datatype ekind = KTest | KTestList | KExprList | KOrTest | KNotTest | KFactor

type_synonym erec = "ekind \<Rightarrow> expr pm"

definition at_end :: "parser \<Rightarrow> bool" where
  "at_end p \<longleftrightarrow> at_ty T_Newline p \<or> at_ty T_Eof p \<or> at_ty T_Semicolon p"

text \<open>
  \<open>while tok == Comma { next(); if stop { break } elems.push(item()) }\<close>, the loop behind tuples,
  lists, sets and multi-dimensional indices.
\<close>

definition comma_loop :: "nat \<Rightarrow> (parser \<Rightarrow> bool) \<Rightarrow> expr pm \<Rightarrow> expr list \<Rightarrow> expr list pm" where
  "comma_loop n stop item elems = ploop n [] (\<lambda>elems. do {
     comma \<leftarrow> gets (at_ty T_Comma);
     if \<not> comma then ret (Inr elems)
     else do {
       p_next;
       s \<leftarrow> gets stop;
       if s then ret (Inr elems) else do { e \<leftarrow> item; ret (Inl (elems @ [e])) } } }) elems"

definition subscript_index :: "nat \<Rightarrow> erec \<Rightarrow> expr pm" where
  "subscript_index n rc = do {
     pos \<leftarrow> tok_pos;
     ty \<leftarrow> tok_ty;
     lo \<leftarrow> (if ty \<notin> {T_Colon, T_RBracket, T_Comma} then do { e \<leftarrow> rc KTest; ret (Some e) } else ret None);
     ty \<leftarrow> tok_ty;
     if ty = T_Colon then do {
       p_next;
       ty \<leftarrow> tok_ty;
       hi \<leftarrow> (if ty \<notin> {T_Colon, T_RBracket, T_Comma} then do { e \<leftarrow> rc KTest; ret (Some e) } else ret None);
       ty \<leftarrow> tok_ty;
       step \<leftarrow> (if ty = T_Colon then do {
            p_next;
            ty \<leftarrow> tok_ty;
            if ty \<notin> {T_RBracket, T_Comma} then do { e \<leftarrow> rc KTest; ret (Some e) } else ret None
          } else ret None);
       ret (Slice pos lo hi step)
     } else if ty = T_Comma then do {
       elems \<leftarrow> comma_loop n (at_ty T_RBracket) (rc KTest) (case lo of Some e \<Rightarrow> [e] | None \<Rightarrow> []);
       ret (TupleLit pos elems False)
     } else case lo of Some e \<Rightarrow> ret e | None \<Rightarrow> do { here \<leftarrow> tok_pos; ret (Name here []) } }"

definition subscript :: "nat \<Rightarrow> erec \<Rightarrow> expr \<Rightarrow> expr pm" where
  "subscript n rc x = do {
     pos \<leftarrow> tok_pos;
     p_next;
     index \<leftarrow> subscript_index n rc;
     expect T_RBracket;
     ret (Subscript pos x index) }"

text \<open>
  The arguments read so far: positional, keyword, \<open>*\<close> and \<open>**\<close>.  One step of the loop of
  \<open>call_args\<close> reads one argument; \<open>True\<close> is the source's \<open>continue\<close> after a bad keyword name.
\<close>

type_synonym call_acc = "expr list \<times> kwarg list \<times> expr option \<times> expr option"

definition call_arg :: "erec \<Rightarrow> call_acc \<Rightarrow> (bool \<times> call_acc) pm" where
  "call_arg rc acc = (case acc of (args, kwargs, star, dbl_star) \<Rightarrow> do {
     ty \<leftarrow> tok_ty;
     if ty = T_Star then do { p_next; e \<leftarrow> rc KTest; ret (False, args, kwargs, Some e, dbl_star) }
     else if ty = T_DoubleStar then do { p_next; e \<leftarrow> rc KTest; ret (False, args, kwargs, star, Some e) }
     else do {
       e \<leftarrow> rc KTest;
       kw \<leftarrow> gets (at_ty T_Assign);
       if kw then
         (case e of
            Name kpos kname \<Rightarrow> do {
              p_next;
              v \<leftarrow> rc KTest;
              ret (False, args, kwargs @ [KwArg kpos kname v], star, dbl_star) }
          | _ \<Rightarrow> do { p_errorf (expr_pos e) F0005 []; p_next; ret (True, acc) })
       else ret (False, args @ [e], kwargs, star, dbl_star) } })"

definition call_args :: "nat \<Rightarrow> erec \<Rightarrow> expr \<Rightarrow> expr pm" where
  "call_args n rc f = do {
     pos \<leftarrow> tok_pos;
     p_next;
     acc \<leftarrow> ploop n ([], [], None, None) (\<lambda>acc. do {
         close \<leftarrow> gets (at_ty T_RParen);
         if close then ret (Inr acc)
         else do {
           r \<leftarrow> call_arg rc acc;
           if fst r then ret (Inl (snd r))
           else do {
             comma \<leftarrow> gets (at_ty T_Comma);
             if \<not> comma then ret (Inr (snd r)) else do { p_next; ret (Inl (snd r)) } } } })
       ([], [], None, None);
     expect T_RParen;
     (case acc of (args, kwargs, star, dbl_star) \<Rightarrow> ret (Call pos f args kwargs star dbl_star)) }"

definition comp_clause_step :: "nat \<Rightarrow> erec \<Rightarrow> comp_clause list \<Rightarrow> comp_clause list pm" where
  "comp_clause_step n rc clauses = do {
     p_next;
     target \<leftarrow> rc KExprList;
     expect T_In;
     iter \<leftarrow> rc KOrTest;
     ifs \<leftarrow> pwhile n (at_ty T_If) (\<lambda>ifs. do { p_next; e \<leftarrow> rc KOrTest; ret (ifs @ [e]) }) [];
     ret (clauses @ [CompClause target iter ifs]) }"

definition list_atom :: "nat \<Rightarrow> erec \<Rightarrow> position \<Rightarrow> expr pm" where
  "list_atom n rc pos = do {
     p_next;
     close \<leftarrow> gets (at_ty T_RBracket);
     if close then do { p_next; ret (ListLit pos []) }
     else do {
       first \<leftarrow> rc KTest;
       comp \<leftarrow> gets (at_ty T_For);
       if comp then do {
         clauses \<leftarrow> pwhile n (at_ty T_For) (comp_clause_step n rc) [];
         expect T_RBracket;
         ret (ListComp pos first clauses)
       } else do {
         elems \<leftarrow> comma_loop n (at_ty T_RBracket) (rc KTest) [first];
         expect T_RBracket;
         ret (ListLit pos elems) } } }"

definition dict_items :: "nat \<Rightarrow> erec \<Rightarrow> expr list \<times> expr list \<Rightarrow> (expr list \<times> expr list) pm" where
  "dict_items n rc kvs = ploop n ([], []) (\<lambda>kvs. do {
     more \<leftarrow> gets (at_ty T_Comma);
     if \<not> more then ret (Inr kvs)
     else do {
       p_next;
       c \<leftarrow> gets (at_ty T_RBrace);
       if c then ret (Inr kvs)
       else do {
         k \<leftarrow> rc KTest;
         expect T_Colon;
         v \<leftarrow> rc KTest;
         ret (Inl (fst kvs @ [k], snd kvs @ [v])) } } }) kvs"

definition dict_set_atom :: "nat \<Rightarrow> erec \<Rightarrow> position \<Rightarrow> expr pm" where
  "dict_set_atom n rc pos = do {
     p_next;
     ty \<leftarrow> tok_ty;
     if ty = T_RBrace then do { p_next; ret (DictLit pos [] []) }
     else if ty = T_DoubleStar then do {
       here \<leftarrow> tok_pos;
       p_errorf here F0009 [];
       p_next;
       rc KTest;
       expect T_RBrace;
       ret (DictLit pos [] [])
     } else do {
       first \<leftarrow> rc KTest;
       ty \<leftarrow> tok_ty;
       if ty = T_For then do {
         here \<leftarrow> tok_pos;
         p_errorf here F0008 [];
         pwhile n (\<lambda>p. \<not> at_ty T_RBrace p \<and> \<not> at_ty T_Eof p) (\<lambda>u. p_next) ();
         expect T_RBrace;
         ret (SetLit pos [first])
       } else if ty = T_Colon then do {
         p_next;
         v \<leftarrow> rc KTest;
         kvs \<leftarrow> dict_items n rc ([first], [v]);
         expect T_RBrace;
         ret (DictLit pos (fst kvs) (snd kvs))
       } else do {
         elems \<leftarrow> comma_loop n (at_ty T_RBrace) (rc KTest) [first];
         expect T_RBrace;
         ret (SetLit pos elems) } } }"

definition paren_atom :: "erec \<Rightarrow> position \<Rightarrow> expr pm" where
  "paren_atom rc pos = do {
     p_next;
     close \<leftarrow> gets (at_ty T_RParen);
     e \<leftarrow> (if close then ret (TupleLit pos [] True)
          else do {
            x \<leftarrow> rc KTestList;
            ret (case x of TupleLit tp elems _ \<Rightarrow> TupleLit tp elems True | _ \<Rightarrow> x) });
     expect T_RParen;
     ret e }"

definition parse_atom :: "nat \<Rightarrow> erec \<Rightarrow> expr pm" where
  "parse_atom n rc = do {
     t \<leftarrow> cur_tok;
     let ty = t_ty t;
     let pos = token_pos t;
     if ty = T_Ident then do { p_next; ret (Name pos (t_lit t)) }
     else if ty = T_Int then do { p_next; ret (IntLit pos (t_lit t)) }
     else if ty = T_Float then do { p_next; ret (FloatLit pos (t_lit t)) }
     else if ty = T_String then do {
       parts \<leftarrow> pwhile n (at_ty T_String)
         (\<lambda>parts. do { lit \<leftarrow> tok_lit; p_next; ret (parts @ [lit]) }) [];
       ret (StringLit pos (join '' '' parts))
     } else if ty = T_None then do { p_next; ret (Name pos ''None'') }
     else if ty = T_True then do { p_next; ret (Name pos ''True'') }
     else if ty = T_False then do { p_next; ret (Name pos ''False'') }
     else if ty = T_Ellipsis then do { p_next; ret (EllipsisLit pos) }
     else if ty = T_LParen then paren_atom rc pos
     else if ty = T_LBracket then list_atom n rc pos
     else if ty = T_LBrace then dict_set_atom n rc pos
     else do {
       p_errorf pos F0002 [t_lit t];
       ret (Name pos []) } }"

definition parse_atom_expr :: "nat \<Rightarrow> erec \<Rightarrow> expr pm" where
  "parse_atom_expr n rc = do {
     x \<leftarrow> parse_atom n rc;
     ploop n x (\<lambda>x. do {
       ty \<leftarrow> tok_ty;
       if ty = T_LParen then do { y \<leftarrow> call_args n rc x; ret (Inl y) }
       else if ty = T_LBracket then do { y \<leftarrow> subscript n rc x; ret (Inl y) }
       else if ty = T_Dot then do {
         p_next;
         name \<leftarrow> expect T_Ident;
         ret (Inl (Attr (token_pos name) x (t_lit name)))
       } else ret (Inr x) }) x }"

definition parse_power :: "nat \<Rightarrow> erec \<Rightarrow> expr pm" where
  "parse_power n rc = do {
     x \<leftarrow> parse_atom_expr n rc;
     ty \<leftarrow> tok_ty;
     if ty = T_DoubleStar then do {
       pos \<leftarrow> tok_pos;
       p_next;
       y \<leftarrow> rc KFactor;
       ret (BinOp pos ''**'' x y)
     } else ret x }"

definition parse_factor :: "nat \<Rightarrow> erec \<Rightarrow> expr pm" where
  "parse_factor n rc = do {
     ty \<leftarrow> tok_ty;
     if ty \<in> {T_Plus, T_Minus, T_Tilde} then do {
       pos \<leftarrow> tok_pos;
       op \<leftarrow> tok_lit;
       p_next;
       x \<leftarrow> rc KFactor;
       ret (UnaryOp pos op x)
     } else parse_power n rc }"

text \<open>
  The seven levels of left-associative binary operators have the same text in the source up to the
  operators, the operand parser and the node built.  \<open>binary_level n ops lit mk sub\<close> is that text;
  where the source writes the operator as a literal, \<open>lit\<close> gives it.
\<close>

definition binary_level ::
  "nat \<Rightarrow> token_type list \<Rightarrow> string option \<Rightarrow> (position \<Rightarrow> string \<Rightarrow> expr \<Rightarrow> expr \<Rightarrow> expr) \<Rightarrow>
   expr pm \<Rightarrow> expr pm" where
  "binary_level n ops lit mk sub = do {
     x \<leftarrow> sub;
     pwhile n (\<lambda>p. t_ty (p_tok p) \<in> set ops) (\<lambda>x. do {
       pos \<leftarrow> tok_pos;
       op \<leftarrow> (case lit of Some s \<Rightarrow> ret s | None \<Rightarrow> tok_lit);
       p_next;
       y \<leftarrow> sub;
       ret (mk pos op x y) }) x }"

definition parse_term :: "nat \<Rightarrow> erec \<Rightarrow> expr pm" where
  "parse_term n rc = binary_level n [T_Star, T_Slash, T_FloorDiv, T_Percent] None BinOp (parse_factor n rc)"

definition parse_arith :: "nat \<Rightarrow> erec \<Rightarrow> expr pm" where
  "parse_arith n rc = binary_level n [T_Plus, T_Minus] None BinOp (parse_term n rc)"

definition parse_shift :: "nat \<Rightarrow> erec \<Rightarrow> expr pm" where
  "parse_shift n rc = binary_level n [T_Shl, T_Shr] None BinOp (parse_arith n rc)"

definition parse_bit_and :: "nat \<Rightarrow> erec \<Rightarrow> expr pm" where
  "parse_bit_and n rc = binary_level n [T_Amp] (Some ''&'') BinOp (parse_shift n rc)"

definition parse_bit_xor :: "nat \<Rightarrow> erec \<Rightarrow> expr pm" where
  "parse_bit_xor n rc = binary_level n [T_Caret] (Some ''^'') BinOp (parse_bit_and n rc)"

definition parse_bit_or :: "nat \<Rightarrow> erec \<Rightarrow> expr pm" where
  "parse_bit_or n rc = binary_level n [T_Pipe] (Some ''|'') BinOp (parse_bit_xor n rc)"

definition is_comp_op :: "parser \<Rightarrow> bool" where
  "is_comp_op p \<longleftrightarrow> t_ty (p_tok p) \<in> {T_Lt, T_Gt, T_Le, T_Ge, T_EqEq, T_Ne, T_In, T_Is, T_Not}"

definition comp_op :: "string pm" where
  "comp_op = do {
     ty \<leftarrow> tok_ty;
     if ty = T_Lt then do { p_next; ret ''<'' }
     else if ty = T_Gt then do { p_next; ret ''>'' }
     else if ty = T_Le then do { p_next; ret ''<='' }
     else if ty = T_Ge then do { p_next; ret ''>='' }
     else if ty = T_EqEq then do { p_next; ret ''=='' }
     else if ty = T_Ne then do { p_next; ret ''!='' }
     else if ty = T_In then do { p_next; ret ''in'' }
     else if ty = T_Is then do {
       p_next;
       neg \<leftarrow> gets (at_ty T_Not);
       if neg then do { p_next; ret ''is not'' } else ret ''is''
     } else if ty = T_Not then do { p_next; expect T_In; ret ''not in'' }
     else ret [] }"

definition parse_comparison :: "nat \<Rightarrow> erec \<Rightarrow> expr pm" where
  "parse_comparison n rc = do {
     x \<leftarrow> parse_bit_or n rc;
     cmp \<leftarrow> gets is_comp_op;
     if \<not> cmp then ret x
     else do {
       r \<leftarrow> pwhile n is_comp_op (\<lambda>r. do {
         op \<leftarrow> comp_op;
         y \<leftarrow> parse_bit_or n rc;
         ret (fst r @ [op], snd r @ [y]) }) ([], []);
       ret (Compare (expr_pos x) x (fst r) (snd r)) } }"

definition parse_not_test :: "nat \<Rightarrow> erec \<Rightarrow> expr pm" where
  "parse_not_test n rc = do {
     ty \<leftarrow> tok_ty;
     if ty = T_Not then do {
       pos \<leftarrow> tok_pos;
       p_next;
       x \<leftarrow> rc KNotTest;
       ret (UnaryOp pos ''not'' x)
     } else parse_comparison n rc }"

definition parse_and_test :: "nat \<Rightarrow> erec \<Rightarrow> expr pm" where
  "parse_and_test n rc = binary_level n [T_And] None BoolOp (parse_not_test n rc)"

definition parse_or_test :: "nat \<Rightarrow> erec \<Rightarrow> expr pm" where
  "parse_or_test n rc = binary_level n [T_Or] None BoolOp (parse_and_test n rc)"

definition parse_expr :: "nat \<Rightarrow> erec \<Rightarrow> expr pm" where
  "parse_expr n rc = parse_bit_or n rc"

definition parse_test :: "nat \<Rightarrow> erec \<Rightarrow> expr pm" where
  "parse_test n rc = do {
     x \<leftarrow> parse_or_test n rc;
     ty \<leftarrow> tok_ty;
     if ty = T_If then do {
       p_next;
       c \<leftarrow> parse_or_test n rc;
       expect T_Else;
       els \<leftarrow> rc KTest;
       ret (Cond (expr_pos x) c x els)
     } else ret x }"

text \<open>\<open>test_item\<close> and \<open>expr_item\<close>: an optional star before the operand.\<close>

definition star_item :: "expr pm \<Rightarrow> expr pm" where
  "star_item sub = do {
     ty \<leftarrow> tok_ty;
     if ty = T_Star then do {
       pos \<leftarrow> tok_pos;
       p_next;
       x \<leftarrow> sub;
       ret (UnaryOp pos ''*'' x)
     } else sub }"

definition item_list :: "nat \<Rightarrow> (parser \<Rightarrow> bool) \<Rightarrow> expr pm \<Rightarrow> expr pm" where
  "item_list n stop item = do {
     pos \<leftarrow> tok_pos;
     first \<leftarrow> item;
     comma \<leftarrow> gets (at_ty T_Comma);
     if \<not> comma then ret first
     else do {
       elems \<leftarrow> comma_loop n stop item [first];
       ret (TupleLit pos elems False) } }"

definition test_list_stop :: "parser \<Rightarrow> bool" where
  "test_list_stop p \<longleftrightarrow> at_end p \<or> at_ty T_Colon p \<or> at_ty T_RParen p \<or> at_ty T_RBracket p \<or> at_ty T_RBrace p"

definition parse_test_list :: "nat \<Rightarrow> erec \<Rightarrow> expr pm" where
  "parse_test_list n rc = item_list n test_list_stop (star_item (parse_test n rc))"

definition parse_expr_list :: "nat \<Rightarrow> erec \<Rightarrow> expr pm" where
  "parse_expr_list n rc = item_list n (\<lambda>p. at_end p \<or> at_ty T_Colon p) (star_item (parse_expr n rc))"

text \<open>The knot: one level of fuel per nesting of expressions.\<close>

primrec parse_k :: "nat \<Rightarrow> ekind \<Rightarrow> expr pm" where
  "parse_k 0 k = stuck (Name \<lparr>pos_line = 0, pos_col = 0\<rparr> [])"
| "parse_k (Suc n) k =
     (case k of
        KTest \<Rightarrow> parse_test (Suc n) (parse_k n)
      | KTestList \<Rightarrow> parse_test_list (Suc n) (parse_k n)
      | KExprList \<Rightarrow> parse_expr_list (Suc n) (parse_k n)
      | KOrTest \<Rightarrow> parse_or_test (Suc n) (parse_k n)
      | KNotTest \<Rightarrow> parse_not_test (Suc n) (parse_k n)
      | KFactor \<Rightarrow> parse_factor (Suc n) (parse_k n))"


subsection \<open>Statement ends, targets and simple statements\<close>

definition stmt_end :: "nat \<Rightarrow> unit pm" where
  "stmt_end n = do {
     pwhile n (at_ty T_Semicolon) (\<lambda>u. p_next) ();
     t \<leftarrow> cur_tok;
     (if t_ty t \<noteq> T_Newline \<and> t_ty t \<noteq> T_Eof then p_errorf (token_pos t) F0003 [t_lit t] else ret ());
     nl \<leftarrow> gets (at_ty T_Newline);
     if nl then p_next else ret () }"

definition is_aug_assign :: "parser \<Rightarrow> bool" where
  "is_aug_assign p \<longleftrightarrow> t_ty (p_tok p) \<in> {T_PlusAssign, T_MinusAssign, T_StarAssign, T_SlashAssign,
     T_PercentAssign, T_DoubleStarAssign, T_FloorDivAssign, T_ShlAssign, T_ShrAssign, T_AmpAssign,
     T_PipeAssign, T_CaretAssign}"

fun check_target :: "expr \<Rightarrow> bool" where
  "check_target (Name _ _) \<longleftrightarrow> True"
| "check_target (Attr _ _ _) \<longleftrightarrow> True"
| "check_target (Subscript _ _ _) \<longleftrightarrow> True"
| "check_target (TupleLit _ elems _) \<longleftrightarrow> list_all check_target elems"
| "check_target (ListLit _ elems) \<longleftrightarrow> list_all check_target elems"
| "check_target (UnaryOp _ op x) \<longleftrightarrow> op = ''*'' \<and> (case x of Name _ _ \<Rightarrow> True | _ \<Rightarrow> False)"
| "check_target _ \<longleftrightarrow> False"

definition require_target :: "expr \<Rightarrow> unit pm" where
  "require_target e = (if check_target e then ret () else p_errorf (expr_pos e) F0006 [])"

text \<open>
  The assignment branch of \<open>simple_stmt\<close>: the state of the loop over chained targets is the list of
  targets, the operator and the right-hand side read last.
\<close>

definition assign_stmt :: "nat \<Rightarrow> expr \<Rightarrow> stmt pm" where
  "assign_stmt n exprs = do {
     op \<leftarrow> tok_lit;
     p_next;
     right \<leftarrow> parse_k n KTestList;
     r \<leftarrow> pwhile n (at_ty T_Assign) (\<lambda>r. case r of (left, op, right) \<Rightarrow> do {
         require_target right;
         p_next;
         right' \<leftarrow> parse_k n KTestList;
         ret (left @ [right], ''='', right') }) ([exprs], op, right);
     (case r of (left, op, right) \<Rightarrow> do {
        require_target (hd left);
        ret (Assign (expr_pos (hd left)) left op right) }) }"

text \<open>
  \<open>simple_stmt\<close>: the loop leaves with \<open>None\<close> where the source returns early on a failed expression
  (a name with an empty text), with \<open>Some first\<close> where it breaks; only the first statement is kept.
\<close>

definition failed_expr :: "expr \<Rightarrow> bool" where
  "failed_expr e \<longleftrightarrow> (case e of Name _ name \<Rightarrow> name = [] | _ \<Rightarrow> False)"

definition simple_stmt :: "nat \<Rightarrow> stmt option pm" where
  "simple_stmt n = do {
     r \<leftarrow> ploop n None (\<lambda>first. do {
         exprs \<leftarrow> parse_k n KTestList;
         if failed_expr exprs then ret (Inr None)
         else do {
           asg \<leftarrow> gets (\<lambda>p. at_ty T_Assign p \<or> is_aug_assign p);
           s \<leftarrow> (if asg then assign_stmt n exprs else ret (ExprStmt (expr_pos exprs) exprs));
           let first = (case first of None \<Rightarrow> Some s | Some f \<Rightarrow> Some f);
           semi \<leftarrow> gets (at_ty T_Semicolon);
           if \<not> semi then ret (Inr (Some first))
           else do {
             p_next;
             fin \<leftarrow> gets at_end;
             ret (if fin then Inr (Some first) else Inl first) } } }) None;
     (case r of None \<Rightarrow> ret None | Some first \<Rightarrow> do { stmt_end n; ret first }) }"

definition opt_test_list :: "nat \<Rightarrow> expr option pm" where
  "opt_test_list n = do {
     fin \<leftarrow> gets at_end;
     if \<not> fin then do { e \<leftarrow> parse_k n KTestList; ret (Some e) } else ret None }"

definition return_stmt :: "nat \<Rightarrow> stmt option pm" where
  "return_stmt n = do {
     pos \<leftarrow> tok_pos;
     p_next;
     value \<leftarrow> opt_test_list n;
     stmt_end n;
     ret (Some (Return pos value)) }"

definition raise_stmt :: "nat \<Rightarrow> stmt option pm" where
  "raise_stmt n = do {
     pos \<leftarrow> tok_pos;
     p_next;
     exc \<leftarrow> opt_test_list n;
     fr \<leftarrow> gets (at_ty T_From);
     cause \<leftarrow> (if fr then do { p_next; e \<leftarrow> parse_k n KTestList; ret (Some e) } else ret None);
     stmt_end n;
     ret (Some (Raise pos exc cause)) }"

text \<open>\<open>pass\<close>, \<open>break\<close> and \<open>continue\<close>.\<close>

definition keyword_stmt :: "nat \<Rightarrow> (position \<Rightarrow> stmt) \<Rightarrow> stmt option pm" where
  "keyword_stmt n mk = do {
     pos \<leftarrow> tok_pos;
     p_next;
     stmt_end n;
     ret (Some (mk pos)) }"

definition del_stmt :: "nat \<Rightarrow> stmt option pm" where
  "del_stmt n = do {
     pos \<leftarrow> tok_pos;
     p_next;
     targets \<leftarrow> ploop n [] (\<lambda>targets. do {
         e \<leftarrow> parse_k n KTestList;
         comma \<leftarrow> gets (at_ty T_Comma);
         if \<not> comma then ret (Inr (targets @ [e])) else do { p_next; ret (Inl (targets @ [e])) } }) [];
     stmt_end n;
     ret (Some (Delete pos targets)) }"

definition unsupported_stmt :: "stmt option pm" where
  "unsupported_stmt = do {
     t \<leftarrow> cur_tok;
     p_errorf (token_pos t) F0004 [t_lit t];
     ret None }"

subsection \<open>Declarations of the Fly extensions\<close>

definition lock_stmt :: "nat \<Rightarrow> stmt option pm" where
  "lock_stmt n = do {
     pos \<leftarrow> tok_pos;
     p_next;
     t \<leftarrow> cur_tok;
     name \<leftarrow> (if t_ty t = T_Ident then do { p_next; ret (t_lit t) } else ret []);
     asg \<leftarrow> gets (at_ty T_Assign);
     value \<leftarrow> (if asg then do {
           p_next;
           v \<leftarrow> parse_k n KTestList;
           (if name = [] then p_errorf pos F0010 [] else ret ());
           ret (Some v)
         } else do {
           (if name = [] then p_errorf pos F0010 [] else ret ());
           ret None });
     stmt_end n;
     ret (Some (Lock pos name value)) }"

definition taint_decl_stmt :: "nat \<Rightarrow> bool \<Rightarrow> stmt option pm" where
  "taint_decl_stmt n safe = do {
     pos \<leftarrow> tok_pos;
     p_next;
     names \<leftarrow> ploop n [] (\<lambda>names. do {
         t \<leftarrow> expect T_Ident;
         comma \<leftarrow> gets (at_ty T_Comma);
         if \<not> comma then ret (Inr (names @ [t_lit t])) else do { p_next; ret (Inl (names @ [t_lit t])) } }) [];
     stmt_end n;
     ret (Some (if safe then Safe pos names else Mask pos names)) }"

definition guard_stmt :: "nat \<Rightarrow> stmt option pm" where
  "guard_stmt n = do {
     pos \<leftarrow> tok_pos;
     p_next;
     t \<leftarrow> cur_tok;
     typed \<leftarrow> (if t_ty t = T_Ident then do { nx \<leftarrow> p_peek; ret (t_ty nx = T_Colon) } else ret False);
     if typed then do {
       p_next;
       p_next;
       ty \<leftarrow> parse_k n KTest;
       conds \<leftarrow> pwhile n (at_ty T_Comma) (\<lambda>conds. do { p_next; e \<leftarrow> parse_k n KTest; ret (conds @ [e]) }) [];
       stmt_end n;
       ret (Some (Guard pos (t_lit t) (Some ty) conds))
     } else do {
       exprs \<leftarrow> parse_k n KTestList;
       stmt_end n;
       ret (Some (Guard pos [] None (case exprs of TupleLit _ elems _ \<Rightarrow> elems | _ \<Rightarrow> [exprs]))) } }"

subsection \<open>Imports\<close>

definition dotted_name :: "nat \<Rightarrow> string pm" where
  "dotted_name n = do {
     t \<leftarrow> expect T_Ident;
     parts \<leftarrow> pwhile n (at_ty T_Dot)
       (\<lambda>parts. do { p_next; t \<leftarrow> expect T_Ident; ret (parts @ [t_lit t]) }) [t_lit t];
     ret (join ''.'' parts) }"

definition opt_alias :: "string pm" where
  "opt_alias = do {
     as_kw \<leftarrow> gets (at_ty T_As);
     if as_kw then do { p_next; t \<leftarrow> expect T_Ident; ret (t_lit t) } else ret [] }"

definition import_stmt :: "nat \<Rightarrow> stmt option pm" where
  "import_stmt n = do {
     pos \<leftarrow> tok_pos;
     p_next;
     items \<leftarrow> ploop n [] (\<lambda>items. do {
         name \<leftarrow> dotted_name n;
         alias \<leftarrow> opt_alias;
         let items = items @ [ImportItem name alias];
         comma \<leftarrow> gets (at_ty T_Comma);
         if \<not> comma then ret (Inr items) else do { p_next; ret (Inl items) } }) [];
     stmt_end n;
     ret (Some (Import pos items)) }"

definition from_items :: "nat \<Rightarrow> import_item list pm" where
  "from_items n = ploop n [] (\<lambda>items. do {
     star \<leftarrow> gets (at_ty T_Star);
     if star then do { p_next; ret (Inr (items @ [ImportItem ''*'' []])) }
     else do {
       t \<leftarrow> expect T_Ident;
       alias \<leftarrow> opt_alias;
       let items = items @ [ImportItem (t_lit t) alias];
       comma \<leftarrow> gets (at_ty T_Comma);
       if \<not> comma then ret (Inr items) else do { p_next; ret (Inl items) } } }) []"

definition from_import_stmt :: "nat \<Rightarrow> stmt option pm" where
  "from_import_stmt n = do {
     pos \<leftarrow> tok_pos;
     p_next;
     dots \<leftarrow> pwhile n (at_ty T_Dot) (\<lambda>m. do { p_next; ret (m @ ''.'') }) [];
     named \<leftarrow> gets (at_ty T_Ident);
     module \<leftarrow> (if named then do { d \<leftarrow> dotted_name n; ret (dots @ d) } else ret dots);
     expect T_Import;
     star \<leftarrow> gets (at_ty T_Star);
     items \<leftarrow> (if star then do { p_next; ret [ImportItem ''*'' []] } else from_items n);
     stmt_end n;
     ret (Some (FromImport pos module items)) }"


subsection \<open>Compound statements\<close>

text \<open>\<open>sr\<close> is the recursive call of \<open>statement\<close>.\<close>

definition stmt_block :: "nat \<Rightarrow> stmt option pm \<Rightarrow> (parser \<Rightarrow> bool) \<Rightarrow> stmt list pm" where
  "stmt_block n sr going = pwhile n going (\<lambda>stmts. do {
     s \<leftarrow> sr;
     ret (case s of Some st \<Rightarrow> stmts @ [st] | None \<Rightarrow> stmts) }) []"

definition suite :: "nat \<Rightarrow> stmt option pm \<Rightarrow> stmt list pm" where
  "suite n sr = do {
     expect T_Colon;
     nl \<leftarrow> gets (at_ty T_Newline);
     if nl then do {
       p_next;
       expect T_Indent;
       stmts \<leftarrow> stmt_block n sr (\<lambda>p. \<not> at_ty T_Dedent p \<and> \<not> at_ty T_Eof p \<and> p_err p = None);
       expect T_Dedent;
       ret stmts
     } else ploop n [] (\<lambda>stmts. do {
       s \<leftarrow> simple_stmt n;
       let stmts = (case s of Some st \<Rightarrow> stmts @ [st] | None \<Rightarrow> stmts);
       semi \<leftarrow> gets (at_ty T_Semicolon);
       if \<not> semi then ret (Inr stmts)
       else do {
         p_next;
         fin \<leftarrow> gets at_end;
         ret (if fin then Inr stmts else Inl stmts) } }) [] }"

text \<open>\<open>if tok == kw { next(); suite() } else { Vec::new() }\<close>\<close>

definition opt_suite :: "nat \<Rightarrow> stmt option pm \<Rightarrow> token_type \<Rightarrow> stmt list pm" where
  "opt_suite n sr kw = do {
     here \<leftarrow> gets (at_ty kw);
     if here then do { p_next; suite n sr } else ret [] }"

definition param_step :: "nat \<Rightarrow> param pm" where
  "param_step n = do {
     ty \<leftarrow> tok_ty;
     r \<leftarrow> (if ty = T_Star then do {
           p_next;
           named \<leftarrow> gets (at_ty T_Ident);
           if named then do { t \<leftarrow> expect T_Ident; ret (t_lit t, True, False) } else ret ([], True, False)
         } else if ty = T_DoubleStar then do { p_next; t \<leftarrow> expect T_Ident; ret (t_lit t, False, True) }
         else do { t \<leftarrow> expect T_Ident; ret (t_lit t, False, False) });
     colon \<leftarrow> gets (at_ty T_Colon);
     anno \<leftarrow> (if colon then do { p_next; e \<leftarrow> parse_k n KTest; ret (Some e) } else ret None);
     asg \<leftarrow> gets (at_ty T_Assign);
     dflt \<leftarrow> (if asg then do { p_next; e \<leftarrow> parse_k n KTest; ret (Some e) } else ret None);
     (case r of (name, star, dbl) \<Rightarrow>
        ret \<lparr>prm_name = name, prm_anno = anno, prm_default = dflt, prm_star = star, prm_dbl_star = dbl\<rparr>) }"

definition params :: "nat \<Rightarrow> param list pm" where
  "params n = do {
     close \<leftarrow> gets (at_ty T_RParen);
     if close then ret []
     else ploop n [] (\<lambda>ps. do {
       prm \<leftarrow> param_step n;
       comma \<leftarrow> gets (at_ty T_Comma);
       if \<not> comma then ret (Inr (ps @ [prm]))
       else do {
         p_next;
         close \<leftarrow> gets (at_ty T_RParen);
         ret (if close then Inr (ps @ [prm]) else Inl (ps @ [prm])) } }) [] }"

definition func_def :: "nat \<Rightarrow> stmt option pm \<Rightarrow> expr list \<Rightarrow> stmt option pm" where
  "func_def n sr decorators = do {
     pos \<leftarrow> tok_pos;
     p_next;
     name \<leftarrow> expect T_Ident;
     expect T_LParen;
     ps \<leftarrow> params n;
     expect T_RParen;
     arrow \<leftarrow> gets (at_ty T_Arrow);
     rty \<leftarrow> (if arrow then do { p_next; e \<leftarrow> parse_k n KTest; ret (Some e) } else ret None);
     body \<leftarrow> suite n sr;
     ret (Some (FuncDef pos (t_lit name) ps rty body decorators)) }"

definition class_bases :: "nat \<Rightarrow> expr list pm" where
  "class_bases n = ploop n [] (\<lambda>bases. do {
     e \<leftarrow> parse_k n KTest;
     comma \<leftarrow> gets (at_ty T_Comma);
     if \<not> comma then ret (Inr (bases @ [e])) else do { p_next; ret (Inl (bases @ [e])) } }) []"

definition class_def :: "nat \<Rightarrow> stmt option pm \<Rightarrow> expr list \<Rightarrow> bool \<Rightarrow> stmt option pm" where
  "class_def n sr decorators seal = do {
     pos \<leftarrow> tok_pos;
     p_next;
     name \<leftarrow> expect T_Ident;
     paren \<leftarrow> gets (at_ty T_LParen);
     bases \<leftarrow> (if paren then do {
           p_next;
           close \<leftarrow> gets (at_ty T_RParen);
           bs \<leftarrow> (if \<not> close then class_bases n else ret []);
           expect T_RParen;
           ret bs
         } else ret []);
     body \<leftarrow> suite n sr;
     ret (Some (ClassDef pos (t_lit name) bases body decorators seal)) }"

definition decorators_loop :: "nat \<Rightarrow> expr list pm" where
  "decorators_loop n = ploop n [] (\<lambda>decs. do {
     at_sign \<leftarrow> gets (at_ty T_At);
     if \<not> at_sign then ret (Inr decs)
     else do {
       p_next;
       e \<leftarrow> parse_k n KTestList;
       nl \<leftarrow> gets (at_ty T_Newline);
       if nl then do { p_next; ret (Inl (decs @ [e])) }
       else do { stmt_end n; ret (Inr (decs @ [e])) } } }) []"

definition decorated_stmt :: "nat \<Rightarrow> stmt option pm \<Rightarrow> stmt option pm" where
  "decorated_stmt n sr = do {
     decs \<leftarrow> decorators_loop n;
     t \<leftarrow> cur_tok;
     if t_ty t = T_Def then func_def n sr decs
     else if t_ty t = T_Class then class_def n sr decs False
     else do { p_errorf (token_pos t) F0007 []; ret None } }"

definition only_stmt :: "nat \<Rightarrow> stmt option pm \<Rightarrow> stmt option pm" where
  "only_stmt n sr = do {
     pos \<leftarrow> tok_pos;
     p_next;
     expect T_LParen;
     modules \<leftarrow> ploop n [] (\<lambda>ms. do {
         close \<leftarrow> gets (at_ty T_RParen);
         if close then ret (Inr ms)
         else do {
           t \<leftarrow> expect T_Ident;
           comma \<leftarrow> gets (at_ty T_Comma);
           if \<not> comma then ret (Inr (ms @ [t_lit t])) else do { p_next; ret (Inl (ms @ [t_lit t])) } } }) [];
     expect T_RParen;
     body \<leftarrow> suite n sr;
     ret (Some (Only pos modules body)) }"

definition seal_stmt :: "nat \<Rightarrow> stmt option pm \<Rightarrow> stmt option pm" where
  "seal_stmt n sr = do {
     p_next;
     t \<leftarrow> cur_tok;
     if t_ty t \<noteq> T_Class then do { p_errorf (token_pos t) F0011 []; ret None }
     else class_def n sr [] True }"

text \<open>
  One argument of \<open>trace(...)\<close> or \<open>cage(...)\<close>; \<open>None\<close> is the source's early \<open>return None\<close>.
\<close>

type_synonym trace_acc = "string \<times> bool \<times> bool"

definition bool_arg :: "string \<Rightarrow> (bool \<Rightarrow> 'a) \<Rightarrow> 'a option pm" where
  "bool_arg fmt mk = do {
     t \<leftarrow> cur_tok;
     if t_ty t \<noteq> T_True \<and> t_ty t \<noteq> T_False then do { p_errorf (token_pos t) fmt []; ret None }
     else do { p_next; ret (Some (mk (t_ty t = T_True))) } }"

definition trace_arg :: "trace_acc \<Rightarrow> trace_acc option pm" where
  "trace_arg acc = (case acc of (level, args, rt) \<Rightarrow> do {
     name \<leftarrow> expect T_Ident;
     expect T_Assign;
     t \<leftarrow> cur_tok;
     if t_lit name = ''level'' then
       (if t_ty t \<noteq> T_String then do { p_errorf (token_pos t) F0012 []; ret None }
        else do { p_next; ret (Some (unquote_str (t_lit t), args, rt)) })
     else if t_lit name = ''args'' then bool_arg F0013 (\<lambda>b. (level, b, rt))
     else if t_lit name = ''ret'' then bool_arg F0014 (\<lambda>b. (level, args, b))
     else do { p_errorf (token_pos t) F0015 [t_lit name]; ret None } })"

definition arg_loop :: "nat \<Rightarrow> ('a \<Rightarrow> 'a option pm) \<Rightarrow> 'a \<Rightarrow> 'a option pm" where
  "arg_loop n arg acc = ploop n None (\<lambda>acc. do {
     close \<leftarrow> gets (at_ty T_RParen);
     if close then ret (Inr (Some acc))
     else do {
       r \<leftarrow> arg acc;
       (case r of
          None \<Rightarrow> ret (Inr None)
        | Some acc' \<Rightarrow> do {
            comma \<leftarrow> gets (at_ty T_Comma);
            if \<not> comma then ret (Inr (Some acc')) else do { p_next; ret (Inl acc') } }) } }) acc"

definition trace_stmt :: "nat \<Rightarrow> stmt option pm \<Rightarrow> stmt option pm" where
  "trace_stmt n sr = do {
     pos \<leftarrow> tok_pos;
     p_next;
     expect T_LParen;
     r \<leftarrow> arg_loop n trace_arg (''WARNING'', True, True);
     (case r of
        None \<Rightarrow> ret None
      | Some (level, args, rt) \<Rightarrow> do {
          expect T_RParen;
          body \<leftarrow> suite n sr;
          ret (Some (Trace pos level args rt body)) }) }"

type_synonym cage_acc = "f64 option \<times> int option"

definition cage_arg :: "cage_acc \<Rightarrow> cage_acc option pm" where
  "cage_arg acc = do {
     name \<leftarrow> expect T_Ident;
     expect T_Assign;
     t \<leftarrow> cur_tok;
     if t_ty t \<noteq> T_String then do { p_errorf (token_pos t) F0016 [t_lit name]; ret None }
     else do {
       let v = unquote_str (t_lit t);
       p_next;
       here \<leftarrow> tok_pos;
       if t_lit name = ''max_time'' then
         (case parse_time_spec v of
            Some secs \<Rightarrow> ret (Some (Some secs, snd acc))
          | None \<Rightarrow> do { p_errorf here F0017 [v]; ret None })
       else if t_lit name = ''max_memory'' then
         (case parse_mem_spec v of
            Some bytes \<Rightarrow> ret (Some (fst acc, Some bytes))
          | None \<Rightarrow> do { p_errorf here F0018 [v]; ret None })
       else do { p_errorf here F0019 [t_lit name]; ret None } } }"

definition cage_stmt :: "nat \<Rightarrow> stmt option pm \<Rightarrow> stmt option pm" where
  "cage_stmt n sr = do {
     pos \<leftarrow> tok_pos;
     p_next;
     expect T_LParen;
     r \<leftarrow> arg_loop n cage_arg (None, None);
     (case r of
        None \<Rightarrow> ret None
      | Some (time, mem) \<Rightarrow> do {
          expect T_RParen;
          if time = None \<and> mem = None then do { p_errorf pos F0020 []; ret None }
          else do {
            body \<leftarrow> suite n sr;
            ret (Some (Cage pos (time \<noteq> None) (case time of Some s \<Rightarrow> s | None \<Rightarrow> F64 0 0)
                            (mem \<noteq> None) (case mem of Some b \<Rightarrow> b | None \<Rightarrow> 0) body)) } }) }"

definition if_stmt :: "nat \<Rightarrow> stmt option pm \<Rightarrow> stmt option pm" where
  "if_stmt n sr = do {
     pos \<leftarrow> tok_pos;
     p_next;
     c \<leftarrow> parse_k n KTestList;
     thn \<leftarrow> suite n sr;
     elifs \<leftarrow> pwhile n (at_ty T_Elif) (\<lambda>elifs. do {
         epos \<leftarrow> tok_pos;
         p_next;
         ec \<leftarrow> parse_k n KTestList;
         body \<leftarrow> suite n sr;
         ret (elifs @ [ElifClause epos ec body]) }) [];
     els \<leftarrow> opt_suite n sr T_Else;
     ret (Some (If pos c thn elifs els)) }"

definition for_stmt :: "nat \<Rightarrow> stmt option pm \<Rightarrow> stmt option pm" where
  "for_stmt n sr = do {
     pos \<leftarrow> tok_pos;
     p_next;
     target \<leftarrow> parse_k n KExprList;
     expect T_In;
     iter \<leftarrow> parse_k n KTestList;
     body \<leftarrow> suite n sr;
     els \<leftarrow> opt_suite n sr T_Else;
     ret (Some (For pos target iter body els)) }"

definition while_stmt :: "nat \<Rightarrow> stmt option pm \<Rightarrow> stmt option pm" where
  "while_stmt n sr = do {
     pos \<leftarrow> tok_pos;
     p_next;
     c \<leftarrow> parse_k n KTestList;
     body \<leftarrow> suite n sr;
     els \<leftarrow> opt_suite n sr T_Else;
     ret (Some (While pos c body els)) }"

definition except_step :: "nat \<Rightarrow> stmt option pm \<Rightarrow> except_clause list \<Rightarrow> except_clause list pm" where
  "except_step n sr handlers = do {
     pos \<leftarrow> tok_pos;
     p_next;
     colon \<leftarrow> gets (at_ty T_Colon);
     r \<leftarrow> (if \<not> colon then do {
           ty \<leftarrow> parse_k n KTest;
           name \<leftarrow> opt_alias;
           ret (Some ty, name)
         } else ret (None, []));
     body \<leftarrow> suite n sr;
     ret (handlers @ [ExceptClause pos (fst r) (snd r) body]) }"

definition try_stmt :: "nat \<Rightarrow> stmt option pm \<Rightarrow> stmt option pm" where
  "try_stmt n sr = do {
     pos \<leftarrow> tok_pos;
     p_next;
     body \<leftarrow> suite n sr;
     handlers \<leftarrow> pwhile n (at_ty T_Except) (except_step n sr) [];
     els \<leftarrow> opt_suite n sr T_Else;
     fin \<leftarrow> opt_suite n sr T_Finally;
     ret (Some (Try pos body handlers els fin)) }"

definition statement :: "nat \<Rightarrow> stmt option pm \<Rightarrow> stmt option pm" where
  "statement n sr = do {
     ty \<leftarrow> tok_ty;
     if ty = T_Newline then do { p_next; ret None }
     else if ty = T_Semicolon then do { pwhile n (at_ty T_Semicolon) (\<lambda>u. p_next) (); ret None }
     else if ty = T_Def then func_def n sr []
     else if ty = T_Class then class_def n sr [] False
     else if ty = T_If then if_stmt n sr
     else if ty = T_For then for_stmt n sr
     else if ty = T_While then while_stmt n sr
     else if ty = T_Return then return_stmt n
     else if ty = T_Raise then raise_stmt n
     else if ty = T_Try then try_stmt n sr
     else if ty = T_Pass then keyword_stmt n Pass
     else if ty = T_Break then keyword_stmt n Break
     else if ty = T_Continue then keyword_stmt n Continue
     else if ty = T_Del then del_stmt n
     else if ty = T_Import then import_stmt n
     else if ty = T_From then from_import_stmt n
     else if ty = T_At then decorated_stmt n sr
     else if ty \<in> {T_Assert, T_With, T_Yield, T_Global, T_Nonlocal, T_Lambda, T_Async, T_Await}
     then unsupported_stmt
     else if ty = T_Lock then lock_stmt n
     else if ty = T_Guard then guard_stmt n
     else if ty = T_Safe \<or> ty = T_Mask then taint_decl_stmt n (ty = T_Safe)
     else if ty = T_Only then only_stmt n sr
     else if ty = T_Seal then seal_stmt n sr
     else if ty = T_Trace then trace_stmt n sr
     else if ty = T_Cage then cage_stmt n sr
     else simple_stmt n }"

primrec statement_k :: "nat \<Rightarrow> stmt option pm" where
  "statement_k 0 = stuck None"
| "statement_k (Suc n) = statement (Suc n) (statement_k n)"

definition parse_module :: "nat \<Rightarrow> module option pm" where
  "parse_module n = do {
     lerr \<leftarrow> gets (\<lambda>p. lx_err (p_lex p));
     if lerr \<noteq> None then ret None
     else do {
       stmts \<leftarrow> stmt_block n (statement_k n) (\<lambda>p. \<not> at_ty T_Eof p \<and> p_err p = None);
       pos \<leftarrow> tok_pos;
       ret (Some (Module pos stmts)) } }"

text \<open>
  \<open>parse\<close> with explicit fuel, and with a fuel that is enough for every source (each token takes at
  most two units, each byte gives at most four tokens).
\<close>

definition parse_with :: "nat \<Rightarrow> string \<Rightarrow> (module option \<times> diagnostic option) \<times> parser" where
  "parse_with n src =
     (case run_state (parse_module n) (parser_new src) of (m, p) \<Rightarrow> ((m, parser_err p), p))"

definition parse_fuel :: "string \<Rightarrow> nat" where
  "parse_fuel src = 8 * length src + 8"

definition parse :: "string \<Rightarrow> module option \<times> diagnostic option" where
  "parse src = fst (parse_with (parse_fuel src) src)"

end
