(* ===== verification/Fly_Wf.thy ===== *)
theory Fly_Wf
  imports Fly_Parser Fly_Lexer_Spec
begin

text \<open>
  Well-formed tokens and syntax trees: what the lexer guarantees of each token, and what the parser
  guarantees of each node of an accepted module and the code generator relies on.
\<close>

subsection \<open>Tokens\<close>

definition ident_ok :: "string \<Rightarrow> bool" where
  "ident_ok s \<longleftrightarrow> s \<noteq> [] \<and> is_ident_start (hd s) \<and> list_all is_ident_part s"

fun token_ok_ty :: "token_type \<Rightarrow> string \<Rightarrow> bool" where
  "token_ok_ty T_Ident lit \<longleftrightarrow> ident_ok lit \<and> keyword lit = None"
| "token_ok_ty (T_Kw k) lit \<longleftrightarrow> keyword_name (T_Kw k) = Some lit"
| "token_ok_ty (T_Fly k) lit \<longleftrightarrow> keyword_name (T_Fly k) = Some lit"
| "token_ok_ty (T_Op k) lit \<longleftrightarrow> lit = symbol_name (T_Op k)"
| "token_ok_ty (T_Asg k) lit \<longleftrightarrow> lit = symbol_name (T_Asg k)"
| "token_ok_ty (T_Punct k) lit \<longleftrightarrow> lit = symbol_name (T_Punct k)"
| "token_ok_ty T_Int lit \<longleftrightarrow> lit \<noteq> []"
| "token_ok_ty T_Float lit \<longleftrightarrow> lit \<noteq> []"
| "token_ok_ty T_String lit \<longleftrightarrow> 2 \<le> length lit \<and> is_quote (last lit)"
| "token_ok_ty _ lit \<longleftrightarrow> True"

definition token_ok :: "token \<Rightarrow> bool" where
  "token_ok t \<longleftrightarrow> token_ok_ty (t_ty t) (t_lit t)"

lemma ident_ok_slice:
  assumes "more_src l" "is_ident_start (cur l)"
  shows "ident_ok (slice (lx_src l) (lx_off l) (lx_off (skip_while is_ident_part l)))"
proof -
  define d where "d = drop (lx_off l) (lx_src l)"
  have "slice (lx_src l) (lx_off l) (lx_off (skip_while is_ident_part l)) = takeWhile is_ident_part d"
    by (simp add: slice_def off_skip_while_eq d_def takeWhile_eq_take [symmetric])
  moreover obtain ds where "d = cur l # ds" using drop_more [OF assms(1)] by (simp add: d_def)
  moreover have "is_ident_part (cur l)" using assms(2) by (simp add: is_ident_part_def)
  ultimately show ?thesis using assms(2) by (auto simp: ident_ok_def list_all_iff dest: set_takeWhileD)
qed

lemma token_ok_keyword: "keyword lit = Some ty \<Longrightarrow> token_ok_ty ty lit"
proof -
  assume k: "keyword lit = Some ty"
  have "list_all (\<lambda>(k, ty). token_ok_ty ty k) keyword_table" by (simp add: keyword_table_def)
  with k show ?thesis by (auto simp: keyword_def list_all_iff dest!: map_of_SomeD)
qed

lemma token_ok_scan_ident:
  "more_src l \<Longrightarrow> is_ident_start (cur l) \<Longrightarrow> token_ok (fst (scan_ident l))"
  using ident_ok_slice [of l]
  by (auto simp: scan_ident_def Let_def token_ok_def token_ok_keyword split: option.split)

lemma token_ok_op_types: "ty \<in> set op_types \<Longrightarrow> token_ok_ty ty (symbol_name ty)"
  by (auto simp: op_types_def)

lemma token_ok_scan_op: "more_src l \<Longrightarrow> token_ok (fst (scan_op l))"
  using munch_scan_op [of l] by (auto simp: munch_def Let_def token_ok_def token_ok_op_types split: if_splits)

lemma token_ok_scan_string:
  assumes "cursor_ok l" "more_src l" "is_quote (cur l)"
  shows "token_ok (fst (scan_string px l))"
  using assms(3) by (auto simp: scan_string_def Let_def token_ok_def split: prod.splits bool.splits)

lemma token_ok_scan_string_prefix:
  assumes ok: "cursor_ok l" "is_string_prefix l"
  shows "token_ok (fst (scan_string_prefix l))"
proof -
  from string_prefix_loop_quote ok(2) obtain pre q post
    where d: "drop (lx_off l) (lx_src l) = pre @ q # post" "is_quote q" "list_all is_ident_part pre"
    unfolding is_string_prefix_def by blast
  show ?thesis
    unfolding scan_string_prefix_def Let_def
    using skip_while_lands [OF d(1,3)] quote_facts [OF d(2)] d(2) ok(1)
    by (intro token_ok_scan_string) simp_all
qed

lemma token_ok_scan_number:
  assumes "cursor_ok l" "more_src l" "is_digit (cur l) \<or> cur l = CHR ''.''"
  shows "token_ok (fst (scan_number l))"
proof -
  obtain t l' where r: "scan_number l = (t, l')" by fastforce
  have ok: "scan_ok l (t, l')" and tx: "scan_text l (t, l')"
    using scan_ok_number [OF assms] scan_text_number [OF assms(1)] r by auto
  have ty: "t_ty t \<in> {T_Int, T_Float, T_Illegal}"
    using r by (auto simp: scan_number_def Let_def finish_number_def split: if_splits prod.splits option.splits)
  have "lx_off l' \<le> length (lx_src l)" using ok by (auto simp: scan_ok_def cursor_ok_def)
  then have "t_ty t \<noteq> T_Illegal \<Longrightarrow> t_lit t \<noteq> []"
    using ok tx ty by (auto simp: scan_ok_def scan_text_def Let_def slice_def)
  with ty show ?thesis by (auto simp: r token_ok_def)
qed

lemma token_ok_lex_token: "cursor_ok l \<Longrightarrow> more_src l \<Longrightarrow> token_ok (fst (lex_token l))"
  using token_ok_scan_op [of l] token_ok_scan_ident [of l] token_ok_scan_number [of l]
    token_ok_scan_string [of l "[]"] token_ok_scan_string_prefix [of l]
  by (auto simp: lex_token_def Let_def token_ok_def [of "mk_token _ _ _"])

lemma token_ok_layout:
  "ty \<in> {T_Eof, T_Newline, T_Indent, T_Dedent, T_Illegal} \<Longrightarrow> token_ok (mk_token ty lit p)"
  by (auto simp: token_ok_def)

lemma token_ok_pending: "lexer_inv l \<Longrightarrow> lx_pending l \<noteq> [] \<Longrightarrow> token_ok (fst (pop_pending l))"
  by (cases "lx_pending l") (auto simp: lexer_inv_def pending_ok_def pop_pending_def token_ok_layout)

lemma token_ok_drain:
  assumes "lx_indents l \<noteq> []" "lx_pending l = []"
  shows "token_ok (fst (if lx_pending (drain_indents l) \<noteq> [] then pop_pending (drain_indents l)
    else (mk_token T_Eof [] (lexer_pos (drain_indents l)), drain_indents l)))"
  using drain_indents_eq [OF assms(1)] assms(2) by (auto simp: pop_pending_def token_ok_layout)

definition line_ok :: "token option \<times> lexer \<Rightarrow> bool" where
  "line_ok r \<longleftrightarrow> pred_option token_ok (fst r)"

lemma line_ok_code:
  assumes "lexer_inv l" "lx_pending l = []"
  shows "line_ok (line_start_code n l)"
proof -
  have "lx_pending (dedent_to n l) \<noteq> [] \<Longrightarrow> token_ok (hd (lx_pending (dedent_to n l)))"
    using assms(2) by (simp add: dedent_to_eq token_ok_layout)
  then show ?thesis
    using assms(2)
    by (auto simp: line_ok_def line_start_code_def Let_def pop_pending_def push_pending_def token_ok_layout)
qed

lemma line_ok_line_start:
  "lexer_inv l \<Longrightarrow> lx_pending l = [] \<Longrightarrow> line_ok (line_start l)"
proof (induction l rule: line_start.induct)
  case (1 l0)
  define l where "l = snd (count_spaces 0 l0)"
  have m: "moved l0 l" using 1 moved_count_spaces [of l0 0] by (simp add: l_def)
  then have l: "lexer_inv l" "lx_pending l = []" using 1 by (auto simp: moved_def)
  note IH = "1.IH" [OF refl refl, folded l_def]
  have again: "lexer_inv l' \<and> lx_pending l' = []" if "moved l l'" for l'
    using that l by (simp add: moved_def)
  have "line_ok (line_start_eof l)"
    using token_ok_drain [of "set_line_start False l"] l
    by (auto simp: line_ok_def line_start_eof_def Let_def lexer_inv_def indents_ok_def split: prod.splits)
  then show ?case
    unfolding line_start.simps [of l0] Let_def l_def [symmetric]
    using IH line_ok_code [OF l] again [OF moved_advance [OF l]] again [OF moved_skip_line [OF l]]
      again [OF moved_continuation [OF l]]
    by (simp add: line_ok_def token_ok_layout)
qed

lemma token_ok_next_loop:
  "lexer_inv l \<Longrightarrow> lx_pending l = [] \<Longrightarrow> lx_err l = None \<Longrightarrow> token_ok (fst (next_loop l))"
proof (induction l rule: next_loop.induct)
  case (1 l0)
  obtain r l where r: "(if lx_at_line_start l0 then line_start l0 else (None, l0)) = (r, l)"
    by fastforce
  have post: "line_start_post l0 (r, l) \<and> line_ok (r, l) \<or> r = None \<and> l = l0"
    using line_start_step [OF "1.prems"] line_ok_line_start [OF "1.prems"(1,2)] r
    by (auto split: if_splits)
  show ?case
  proof (cases r)
    case (Some t)
    with post r show ?thesis by (subst next_loop.simps) (simp add: line_ok_def)
  next
    case None
    then have "moved l0 l"
      using post moved_refl [OF 1(6)] by (auto simp: line_start_post_def)
    then have l: "lexer_inv l" "lx_pending l = []" "lx_err l = None" using "1.prems" by (auto simp: moved_def)
    have again: "lexer_inv l' \<and> lx_pending l' = [] \<and> lx_err l' = None" if "moved l l'" for l'
      using that l by (simp add: moved_def)
    note IH = "1.IH" [OF r [symmetric] None _ refl]
    have eof: "token_ok (fst (next_eof l))"
      using token_ok_drain [of l] token_ok_drain [of "lexer_errorf (lexer_pos l) F0021 [] l"] l
      by (auto simp: next_eof_def Let_def token_ok_layout lexer_inv_def indents_ok_def)
    have tok: "more_src l \<Longrightarrow> token_ok (fst (case lex_token l of (t, l1) \<Rightarrow>
        (t, if t_ty t \<noteq> T_Illegal then l1\<lparr>lx_line_tok := True\<rparr> else l1)))"
      using token_ok_lex_token [of l] l by (cases "lex_token l") (simp add: lexer_inv_def)
    show ?thesis
      unfolding next_loop.simps [of l0] r None prod.case option.case Let_def
      using eof tok IH again [OF moved_advance [OF l(1,2)]] again [OF moved_skip_line [OF l(1,2)]]
        again [OF moved_continuation [OF l(1,2)]] again [OF newline_step(2) [OF l]]
      by (auto simp: token_ok_layout split del: if_split split: if_split)
  qed
qed

lemma token_ok_next: "lexer_inv l \<Longrightarrow> token_ok (fst (lexer_next l))"
  using token_ok_pending [of l] token_ok_next_loop [of l] by (auto simp: lexer_next_def token_ok_layout)

subsection \<open>Expressions\<close>

definition bin_ops :: "string list" where
  "bin_ops = [''|'', ''^'', ''&'', ''<<'', ''>>'', ''+'', ''-'', ''*'', ''/'', ''//'', ''%'', ''**'']"

definition unary_ops :: "string list" where
  "unary_ops = [''+'', ''-'', ''~'', ''not'', ''*'']"

definition comp_ops :: "string list" where
  "comp_ops = [''<'', ''>'', ''<='', ''>='', ''=='', ''!='', ''in'', ''is'', ''is not'', ''not in'']"

definition assign_ops :: "string list" where
  "assign_ops = [''='', ''+='', ''-='', ''*='', ''/='', ''%='', ''**='', ''//='', ''<<='', ''>>='', ''&='',
     ''|='', ''^='']"

text \<open>
  Slices occur only as the index of a subscript, and the one name that may be empty is the missing
  index of \<open>x[]\<close>.
\<close>

definition pred_opt :: "('a \<Rightarrow> bool) \<Rightarrow> 'a option \<Rightarrow> bool" where
  "pred_opt f x \<longleftrightarrow> (case x of None \<Rightarrow> True | Some a \<Rightarrow> f a)"

lemma pred_opt_simps [simp]: "pred_opt f None" "pred_opt f (Some a) = f a"
  by (simp_all add: pred_opt_def)

lemma pred_opt_cong [fundef_cong]:
  "x = y \<Longrightarrow> (\<And>a. y = Some a \<Longrightarrow> f a = g a) \<Longrightarrow> pred_opt f x = pred_opt g y"
  by (cases y) auto

fun wf_expr :: "expr \<Rightarrow> bool"
  and wf_kwarg :: "kwarg \<Rightarrow> bool"
  and wf_comp :: "comp_clause \<Rightarrow> bool" where
  "wf_expr (Name _ n) \<longleftrightarrow> ident_ok n"
| "wf_expr (IntLit _ v) \<longleftrightarrow> v \<noteq> []"
| "wf_expr (FloatLit _ v) \<longleftrightarrow> v \<noteq> []"
| "wf_expr (StringLit _ v) \<longleftrightarrow> 2 \<le> length v \<and> is_quote (last v)"
| "wf_expr (EllipsisLit _) \<longleftrightarrow> True"
| "wf_expr (ListLit _ es) \<longleftrightarrow> list_all wf_expr es"
| "wf_expr (TupleLit _ es _) \<longleftrightarrow> list_all wf_expr es"
| "wf_expr (DictLit _ ks vs) \<longleftrightarrow> length ks = length vs \<and> list_all wf_expr ks \<and> list_all wf_expr vs"
| "wf_expr (SetLit _ es) \<longleftrightarrow> es \<noteq> [] \<and> list_all wf_expr es"
| "wf_expr (Call _ f as ks s d) \<longleftrightarrow> wf_expr f \<and> list_all wf_expr as \<and> list_all wf_kwarg ks \<and>
     pred_opt wf_expr s \<and> pred_opt wf_expr d"
| "wf_expr (Attr _ x n) \<longleftrightarrow> wf_expr x \<and> ident_ok n"
| "wf_expr (Slice _ lo hi st) \<longleftrightarrow> False"
| "wf_expr (Subscript _ x i) \<longleftrightarrow> wf_expr x \<and>
     (case i of
        Slice _ lo hi st \<Rightarrow> pred_opt wf_expr lo \<and> pred_opt wf_expr hi \<and> pred_opt wf_expr st
      | Name _ n \<Rightarrow> n = [] \<or> ident_ok n
      | _ \<Rightarrow> wf_expr i)"
| "wf_expr (BinOp _ op x y) \<longleftrightarrow> op \<in> set bin_ops \<and> wf_expr x \<and> wf_expr y"
| "wf_expr (UnaryOp _ op x) \<longleftrightarrow> op \<in> set unary_ops \<and> wf_expr x"
| "wf_expr (BoolOp _ op x y) \<longleftrightarrow> op \<in> {''and'', ''or''} \<and> wf_expr x \<and> wf_expr y"
| "wf_expr (Compare _ x ops ys) \<longleftrightarrow> wf_expr x \<and> ops \<noteq> [] \<and> length ops = length ys \<and>
     set ops \<subseteq> set comp_ops \<and> list_all wf_expr ys"
| "wf_expr (Cond _ c t e) \<longleftrightarrow> wf_expr c \<and> wf_expr t \<and> wf_expr e"
| "wf_expr (ListComp _ e cs) \<longleftrightarrow> wf_expr e \<and> cs \<noteq> [] \<and> list_all wf_comp cs"
| "wf_kwarg (KwArg _ n e) \<longleftrightarrow> ident_ok n \<and> wf_expr e"
| "wf_comp (CompClause t i ifs) \<longleftrightarrow> wf_expr t \<and> wf_expr i \<and> list_all wf_expr ifs"

definition wf_index :: "expr \<Rightarrow> bool" where
  "wf_index i \<longleftrightarrow>
     (case i of
        Slice _ lo hi st \<Rightarrow> pred_opt wf_expr lo \<and> pred_opt wf_expr hi \<and> pred_opt wf_expr st
      | Name _ n \<Rightarrow> n = [] \<or> ident_ok n
      | _ \<Rightarrow> wf_expr i)"

lemma wf_subscript [simp]: "wf_expr (Subscript p x i) \<longleftrightarrow> wf_expr x \<and> wf_index i"
  by (cases i) (simp_all add: wf_index_def)

declare wf_expr.simps(13) [simp del]

lemma wf_index_expr: "wf_expr e \<Longrightarrow> wf_index e"
  by (cases e) (simp_all add: wf_index_def)

lemma wf_index_simps [simp]:
  "wf_index (Slice p lo hi st) \<longleftrightarrow> pred_opt wf_expr lo \<and> pred_opt wf_expr hi \<and> pred_opt wf_expr st"
  "wf_index (Name p n) \<longleftrightarrow> n = [] \<or> ident_ok n"
  "wf_index (TupleLit p es b) \<longleftrightarrow> list_all wf_expr es"
  by (simp_all add: wf_index_def)

subsection \<open>Statements\<close>

definition wf_param :: "param \<Rightarrow> bool" where
  "wf_param prm \<longleftrightarrow> (ident_ok (prm_name prm) \<or> prm_star prm \<and> prm_name prm = []) \<and>
     pred_opt wf_expr (prm_anno prm) \<and> pred_opt wf_expr (prm_default prm)"

definition dotted_ok :: "string \<Rightarrow> bool" where
  "dotted_ok s \<longleftrightarrow> (\<exists>parts. parts \<noteq> [] \<and> list_all ident_ok parts \<and> s = join ''.'' parts)"

definition wf_import :: "import_item \<Rightarrow> bool" where
  "wf_import it \<longleftrightarrow> (imp_name it = ''*'' \<or> dotted_ok (imp_name it)) \<and>
     (imp_alias it = [] \<or> ident_ok (imp_alias it))"

fun wf_stmt :: "stmt \<Rightarrow> bool"
  and wf_elif :: "elif_clause \<Rightarrow> bool"
  and wf_except :: "except_clause \<Rightarrow> bool" where
  "wf_stmt (Import _ its) \<longleftrightarrow> its \<noteq> [] \<and> list_all wf_import its"
| "wf_stmt (FromImport _ m its) \<longleftrightarrow> its \<noteq> [] \<and> list_all wf_import its"
| "wf_stmt (Lock _ n v) \<longleftrightarrow> ident_ok n \<and> pred_opt wf_expr v"
| "wf_stmt (Safe _ ns) \<longleftrightarrow> ns \<noteq> [] \<and> list_all ident_ok ns"
| "wf_stmt (Mask _ ns) \<longleftrightarrow> ns \<noteq> [] \<and> list_all ident_ok ns"
| "wf_stmt (Guard _ n t cs) \<longleftrightarrow> (n = [] \<and> t = None \<or> ident_ok n \<and> t \<noteq> None) \<and> pred_opt wf_expr t \<and>
     list_all wf_expr cs"
| "wf_stmt (Assign _ left op right) \<longleftrightarrow> left \<noteq> [] \<and> list_all wf_expr left \<and> list_all check_target left \<and>
     op \<in> set assign_ops \<and> wf_expr right"
| "wf_stmt (ExprStmt _ x) \<longleftrightarrow> wf_expr x"
| "wf_stmt (FuncDef _ n ps r b ds) \<longleftrightarrow> ident_ok n \<and> list_all wf_param ps \<and> pred_opt wf_expr r \<and>
     list_all wf_stmt b \<and> list_all wf_expr ds"
| "wf_stmt (ClassDef _ n bs b ds _) \<longleftrightarrow> ident_ok n \<and> list_all wf_expr bs \<and> list_all wf_stmt b \<and>
     list_all wf_expr ds"
| "wf_stmt (Only _ ms b) \<longleftrightarrow> list_all ident_ok ms \<and> list_all wf_stmt b"
| "wf_stmt (Trace _ _ _ _ b) \<longleftrightarrow> list_all wf_stmt b"
| "wf_stmt (Cage _ ht t hm m b) \<longleftrightarrow> (ht \<or> hm) \<and> (ht \<longrightarrow> \<not> f64_le_zero t) \<and> list_all wf_stmt b"
| "wf_stmt (If _ c t els e) \<longleftrightarrow> wf_expr c \<and> list_all wf_stmt t \<and> list_all wf_elif els \<and> list_all wf_stmt e"
| "wf_stmt (For _ t i b e) \<longleftrightarrow> wf_expr t \<and> wf_expr i \<and> list_all wf_stmt b \<and> list_all wf_stmt e"
| "wf_stmt (While _ c b e) \<longleftrightarrow> wf_expr c \<and> list_all wf_stmt b \<and> list_all wf_stmt e"
| "wf_stmt (Return _ v) \<longleftrightarrow> pred_opt wf_expr v"
| "wf_stmt (Raise _ x f) \<longleftrightarrow> pred_opt wf_expr x \<and> pred_opt wf_expr f"
| "wf_stmt (Try _ b hs e f) \<longleftrightarrow> list_all wf_stmt b \<and> list_all wf_except hs \<and> list_all wf_stmt e \<and>
     list_all wf_stmt f"
| "wf_stmt (Pass _) \<longleftrightarrow> True"
| "wf_stmt (Break _) \<longleftrightarrow> True"
| "wf_stmt (Continue _) \<longleftrightarrow> True"
| "wf_stmt (Delete _ ts) \<longleftrightarrow> ts \<noteq> [] \<and> list_all wf_expr ts"
| "wf_elif (ElifClause _ c b) \<longleftrightarrow> wf_expr c \<and> list_all wf_stmt b"
| "wf_except (ExceptClause _ t n b) \<longleftrightarrow> pred_opt wf_expr t \<and> (n = [] \<or> ident_ok n) \<and> list_all wf_stmt b"

definition wf_module :: "module \<Rightarrow> bool" where
  "wf_module m \<longleftrightarrow> list_all wf_stmt (mod_stmts m)"

end
