(* ===== verification/Fly_Parser_Facts.thy ===== *)
theory Fly_Parser_Facts
  imports Fly_Wf
begin

text \<open>
  Total correctness of the parser: from every state each method returns without running out of fuel,
  never moves backwards in the token stream, keeps errors, consumes a token or reports an error, and
  builds well-formed trees as long as no error is reported.

  \<open>wp f Q p\<close> says that running \<open>f\<close> from \<open>p\<close> ends in a result and a state related by \<open>Q\<close>; the rules
  of \<open>wp_intro\<close> follow the structure of the programs.
\<close>

subsection \<open>Weakest preconditions\<close>

definition wp :: "'a pm \<Rightarrow> ('a \<Rightarrow> parser \<Rightarrow> bool) \<Rightarrow> parser \<Rightarrow> bool" where
  "wp f Q p \<longleftrightarrow> (case run_state f p of (a, p') \<Rightarrow> Q a p')"

lemma wp_ret [wp_intro]: "Q a p \<Longrightarrow> wp (ret a) Q p"
  by (simp add: wp_def)

lemma wp_bind [wp_intro]: "wp f (\<lambda>a. wp (g a) Q) p \<Longrightarrow> wp (State_Monad.bind f g) Q p"
  by (simp add: wp_def split: prod.splits)

lemma wp_gets [wp_intro]: "Q (f p) p \<Longrightarrow> wp (gets f) Q p"
  by (simp add: wp_def gets_def)

lemma wp_modify: "wp (modify f) Q p \<longleftrightarrow> Q () (f p)"
  by (simp add: wp_def modify_def)

lemma wp_tok [wp_intro]:
  "Q1 (p_tok p) p \<Longrightarrow> wp cur_tok Q1 p" "Q2 (t_ty (p_tok p)) p \<Longrightarrow> wp tok_ty Q2 p"
  "Q3 (t_lit (p_tok p)) p \<Longrightarrow> wp tok_lit Q3 p" "Q4 (token_pos (p_tok p)) p \<Longrightarrow> wp tok_pos Q4 p"
  by (simp_all add: cur_tok_def tok_ty_def tok_lit_def tok_pos_def wp_gets)

lemma wp_if [wp_intro]: "(b \<Longrightarrow> wp f Q p) \<Longrightarrow> (\<not> b \<Longrightarrow> wp g Q p) \<Longrightarrow> wp (if b then f else g) Q p"
  by simp

lemma wp_let [wp_intro]: "wp (f a) Q p \<Longrightarrow> wp (Let a f) Q p"
  by simp

lemma wp_case_option [wp_intro]:
  "(x = None \<Longrightarrow> wp f Q p) \<Longrightarrow> (\<And>a. x = Some a \<Longrightarrow> wp (g a) Q p) \<Longrightarrow>
   wp (case x of None \<Rightarrow> f | Some a \<Rightarrow> g a) Q p"
  by (cases x) simp_all

lemma wp_case_prod [wp_intro]:
  "(\<And>a b. x = (a, b) \<Longrightarrow> wp (f a b) Q p) \<Longrightarrow> wp (case x of (a, b) \<Rightarrow> f a b) Q p"
  by (cases x) simp

lemma wp_mono: "wp f Q p \<Longrightarrow> (\<And>a p'. Q a p' \<Longrightarrow> Q' a p') \<Longrightarrow> wp f Q' p"
  by (auto simp: wp_def)

subsection \<open>The state of the parser\<close>

definition good :: "parser \<Rightarrow> bool" where
  "good p \<longleftrightarrow> lexer_inv (p_lex p) \<and> token_ok (p_tok p) \<and> pred_option token_ok (p_peeked p) \<and> \<not> p_stuck p"

text \<open>The tokens left to read, twice; a token looked at but not yet taken counts half.\<close>

definition pmu :: "parser \<Rightarrow> nat" where
  "pmu p = 2 * lx_measure (p_lex p) +
     (case p_peeked p of Some t \<Rightarrow> if t_ty t = T_Eof then 0 else 2 | None \<Rightarrow> 0) +
     (if t_ty (p_tok p) = T_Eof then 0 else 1)"

lemma good_next_tok: "good p \<Longrightarrow> good (next_tok p)"
  using lex_stepD(1) [of "p_lex p"] token_ok_next [of "p_lex p"]
  by (auto simp: good_def next_tok_def split: option.splits prod.splits)

lemma pmu_next_tok:
  "good p \<Longrightarrow> pmu (next_tok p) \<le> pmu p"
  "good p \<Longrightarrow> t_ty (p_tok p) \<noteq> T_Eof \<Longrightarrow> pmu (next_tok p) < pmu p"
proof -
  assume g: "good p"
  then have "lexer_inv (p_lex p)" by (simp add: good_def)
  note m = lex_stepD(2,8) [OF this]
  obtain t l where nx: "lexer_next (p_lex p) = (t, l)" by fastforce
  show "pmu (next_tok p) \<le> pmu p"
    using m by (cases "p_peeked p") (auto simp: nx next_tok_def pmu_def split: if_splits)
  show "pmu (next_tok p) < pmu p" if "t_ty (p_tok p) \<noteq> T_Eof"
    using m that by (cases "p_peeked p") (auto simp: nx next_tok_def pmu_def split: if_splits)
qed

lemma next_tok_err [simp]: "p_err (next_tok p) = p_err p"
  by (simp add: next_tok_def split: option.split prod.split)

lemma set_err_frame [simp]:
  "good (set_err pos f as p) = good p" "pmu (set_err pos f as p) = pmu p"
  "p_tok (set_err pos f as p) = p_tok p"
  "\<exists>d. p_err (set_err pos f as p) = Some d"
  by (auto simp: set_err_def good_def pmu_def split: option.split)

text \<open>\<open>fwd p p'\<close>: the parser went on from \<open>p\<close> to \<open>p'\<close>; \<open>prog\<close>: it took a token or reported an error.\<close>

definition fwd :: "parser \<Rightarrow> parser \<Rightarrow> bool" where
  "fwd p p' \<longleftrightarrow> good p' \<and> pmu p' \<le> pmu p \<and> (p_err p' = None \<longrightarrow> p_err p = None)"

definition prog :: "parser \<Rightarrow> parser \<Rightarrow> bool" where
  "prog p p' \<longleftrightarrow> fwd p p' \<and> (p_err p' = None \<longrightarrow> pmu p' < pmu p)"

definition adv :: "parser \<Rightarrow> parser \<Rightarrow> bool" where
  "adv p p' \<longleftrightarrow> good p' \<and> pmu p' < pmu p \<and> (p_err p' = None \<longrightarrow> p_err p = None)"

lemma wp_next:
  assumes "good p" "t_ty (p_tok p) \<noteq> T_Eof" "\<And>p'. adv p p' \<Longrightarrow> Q () p'"
  shows "wp p_next Q p"
  using assms good_next_tok [OF assms(1)] pmu_next_tok(2) [OF assms(1,2)] by (simp add: p_next_def adv_def wp_modify)

lemma wp_errorf:
  assumes "good p" "\<And>p'. good p' \<Longrightarrow> pmu p' = pmu p \<Longrightarrow> p_tok p' = p_tok p \<Longrightarrow> p_err p' \<noteq> None \<Longrightarrow> Q () p'"
  shows "wp (p_errorf pos f as) Q p"
  using assms set_err_frame [of pos f as p] by (simp add: p_errorf_def wp_modify)

lemma wp_expect:
  assumes "good p" "tt \<noteq> T_Eof"
    and "\<And>t p'. fwd p p' \<Longrightarrow> (p_err p' = None \<Longrightarrow> pmu p' < pmu p \<and> t_ty t = tt \<and> token_ok t) \<Longrightarrow> Q t p'"
  shows "wp (expect tt) Q p"
proof (cases "t_ty (p_tok p) = tt")
  case True
  have "token_ok (p_tok p)" using assms(1) by (simp add: good_def)
  with True assms show ?thesis unfolding expect_def
    by (intro wp_intro wp_next assms(3)) (auto simp: adv_def fwd_def)
next
  case False
  with assms show ?thesis unfolding expect_def
    by (intro wp_intro wp_errorf assms(3)) (auto simp: fwd_def)
qed

subsection \<open>Loops\<close>

lemma wp_pwhile:
  assumes "I a p" "M p < n"
    and step: "\<And>a p. I a p \<Longrightarrow> c p \<Longrightarrow> wp (body a) (\<lambda>a' p'. I a' p' \<and> M p' < M p) p"
    and exit: "\<And>a p. I a p \<Longrightarrow> \<not> c p \<Longrightarrow> Q a p"
  shows "wp (pwhile n c body a) Q p"
  using assms(1,2)
proof (induction n arbitrary: a p)
  case (Suc n)
  show ?case
  proof (cases "c p")
    case True
    have "wp (body a) (\<lambda>a' p'. wp (pwhile n c body a') Q p') p"
      by (rule wp_mono [OF step [OF Suc.prems(1) True]]) (use Suc.prems(2) Suc.IH in auto)
    with True show ?thesis by (auto intro!: wp_intro)
  next
    case False
    with exit Suc.prems show ?thesis by (auto intro!: wp_intro)
  qed
qed simp

lemma wp_ploop:
  assumes "I a p" "M p < n"
    and step: "\<And>a p. I a p \<Longrightarrow>
      wp (body a) (\<lambda>r p'. case r of Inl a' \<Rightarrow> I a' p' \<and> M p' < M p | Inr b \<Rightarrow> Q b p') p"
  shows "wp (ploop n d body a) Q p"
  using assms(1,2)
proof (induction n arbitrary: a p)
  case (Suc n)
  have "wp (body a) (\<lambda>r p'. wp (case r of Inl a' \<Rightarrow> ploop n d body a' | Inr b \<Rightarrow> ret b) Q p') p"
    by (rule wp_mono [OF step [OF Suc.prems(1)]])
      (use Suc.prems(2) Suc.IH in \<open>auto split: sum.splits intro!: wp_ret\<close>)
  then show ?case by (auto intro!: wp_intro)
qed simp

subsection \<open>Expression parsers\<close>

definition espec :: "nat \<Rightarrow> expr pm \<Rightarrow> bool" where
  "espec n f \<longleftrightarrow> (\<forall>p. good p \<longrightarrow> pmu p < n \<longrightarrow>
     wp f (\<lambda>e p'. prog p p' \<and> (p_err p' = None \<longrightarrow> wf_expr e)) p)"

lemma especD:
  assumes "espec n f" "good p" "pmu p < n"
    and "\<And>e p'. prog p p' \<Longrightarrow> (p_err p' = None \<Longrightarrow> wf_expr e) \<Longrightarrow> Q e p'"
  shows "wp f Q p"
proof -
  have "wp f (\<lambda>e p'. prog p p' \<and> (p_err p' = None \<longrightarrow> wf_expr e)) p"
    using assms(1-3) by (simp add: espec_def)
  then show ?thesis by (rule wp_mono) (use assms(4) in auto)
qed

lemma espec_mono: "espec n f \<Longrightarrow> m \<le> n \<Longrightarrow> espec m f"
  by (auto simp: espec_def)

lemmas steps = fwd_def prog_def adv_def at_ty_def

lemma wp_comma_loop:
  assumes item: "espec m item" and p: "good p" "pmu p \<le> m" "pmu p < n"
    and init: "p_err p = None \<Longrightarrow> list_all wf_expr init"
    and Q: "\<And>es p'. fwd p p' \<Longrightarrow> (p_err p' = None \<Longrightarrow> list_all wf_expr es) \<Longrightarrow>
      length init \<le> length es \<Longrightarrow> Q es p'"
  shows "wp (comma_loop n stop item init) Q p"
  unfolding comma_loop_def
  by (rule wp_ploop [where M = pmu and I = "\<lambda>es p'. fwd p p' \<and> (p_err p' = None \<longrightarrow> list_all wf_expr es) \<and>
        length init \<le> length es"])
    (use p init in \<open>auto simp: steps intro!: wp_intro wp_next especD [OF item] Q\<close>)

definition str_ok :: "string \<Rightarrow> bool" where
  "str_ok v \<longleftrightarrow> 2 \<le> length v \<and> is_quote (last v)"

lemma str_ok_join: "parts \<noteq> [] \<Longrightarrow> list_all str_ok parts \<Longrightarrow> str_ok (join sep parts)"
proof (induction sep parts rule: join.induct)
  case (3 sep x y zs)
  then have "str_ok (join sep (y # zs))" by simp
  then show ?case by (cases "join sep (y # zs) = []") (auto simp: str_ok_def)
qed simp_all

lemma ident_ok_consts: "ident_ok ''None''" "ident_ok ''True''" "ident_ok ''False''"
  by code_simp+

lemma good_tokenD: "good p \<Longrightarrow> token_ok (p_tok p)"
  by (simp add: good_def)

definition wf_call_acc :: "call_acc \<Rightarrow> bool" where
  "wf_call_acc acc \<longleftrightarrow> (case acc of (args, kwargs, star, dbl) \<Rightarrow>
     list_all wf_expr args \<and> list_all wf_kwarg kwargs \<and> pred_opt wf_expr star \<and> pred_opt wf_expr dbl)"

text \<open>
  The contract of the recursive calls: what \<open>parse_k n\<close> promises for states with less than \<open>n\<close> units
  left.  Every method keeps it one level higher.
\<close>

locale expr_calls =
  fixes n :: nat and rc :: erec
  assumes rec_spec: "espec n (rc k)"
begin

lemmas rec_wp = especD [OF rec_spec]
lemmas rec_loop = wp_comma_loop [OF rec_spec]
lemmas calls = wp_intro wp_next wp_expect wp_errorf rec_wp

lemma wp_subscript_index:
  assumes "good p" "pmu p < n" "\<And>e p'. fwd p p' \<Longrightarrow> (p_err p' = None \<Longrightarrow> wf_index e) \<Longrightarrow> Q e p'"
  shows "wp (subscript_index (Suc n) rc) Q p"
  unfolding subscript_index_def
  apply (intro calls rec_loop assms(3))
  apply (use assms(1,2) in \<open>auto simp: steps wf_index_expr split: option.splits\<close>)
  done

lemma wp_subscript:
  assumes "good p" "pmu p < Suc n" "t_ty (p_tok p) = T_LBracket"
    and "\<And>e p'. adv p p' \<Longrightarrow> (p_err p' = None \<Longrightarrow> wf_expr x \<Longrightarrow> wf_expr e) \<Longrightarrow> Q e p'"
  shows "wp (subscript (Suc n) rc x) Q p"
  unfolding subscript_def
  by (intro calls wp_subscript_index assms(4)) (use assms(1-3) in \<open>auto simp: steps\<close>)

lemma wp_call_arg:
  assumes "good p" "pmu p < n" "p_err p = None \<Longrightarrow> wf_call_acc acc"
    and "\<And>r p'. prog p p' \<Longrightarrow> (p_err p' = None \<Longrightarrow> wf_call_acc (snd r)) \<Longrightarrow> (fst r \<Longrightarrow> pmu p' < pmu p) \<Longrightarrow> Q r p'"
  shows "wp (call_arg rc acc) Q p"
proof -
  have kw: "wp (case e of
            Name kpos kname \<Rightarrow> do {
              p_next;
              v \<leftarrow> rc KTest;
              ret (False, args, kwargs @ [KwArg kpos kname v], star, dbl_star) }
          | _ \<Rightarrow> do { p_errorf (expr_pos e) F0005 []; p_next; ret (True, acc) }) Q p1"
    if "acc = (args, kwargs, star, dbl_star)" "prog p p1" "p_err p1 = None \<Longrightarrow> wf_expr e" "at_ty T_Assign p1"
    for e p1 args kwargs star dbl_star
    using assms that
    by (cases e; simp only: expr.case; intro calls assms(4)) (auto simp: steps wf_call_acc_def)
  show ?thesis
    unfolding call_arg_def
    by (intro calls kw assms(4)) (use assms(1-3) in \<open>auto simp: steps wf_call_acc_def\<close>)
qed

lemma wp_call_args:
  assumes "good p" "pmu p < Suc n" "t_ty (p_tok p) = T_LParen"
    and "\<And>e p'. adv p p' \<Longrightarrow> (p_err p' = None \<Longrightarrow> wf_expr x \<Longrightarrow> wf_expr e) \<Longrightarrow> Q e p'"
  shows "wp (call_args (Suc n) rc x) Q p"
  unfolding call_args_def
  apply (intro calls)
  apply (use assms(1-3) in \<open>auto simp: steps\<close>)[2]
  subgoal for p1
    apply (rule wp_ploop [where M = pmu and I = "\<lambda>acc p'. adv p p' \<and> (p_err p' = None \<longrightarrow> wf_call_acc acc)"])
    apply (use assms(1-3) in \<open>auto simp: steps wf_call_acc_def\<close>)[2]
    apply (intro calls wp_call_arg assms(4))
    apply (use assms(1-3) in \<open>auto simp: steps wf_call_acc_def intro!: calls assms(4)\<close>)
    done
  done

lemma wp_comp_ifs:
  assumes "good p" "pmu p < n"
    and "\<And>ifs p'. fwd p p' \<Longrightarrow> (p_err p' = None \<Longrightarrow> list_all wf_expr ifs) \<Longrightarrow> Q ifs p'"
  shows "wp (pwhile (Suc n) (at_ty T_If) (\<lambda>ifs. do { p_next; e \<leftarrow> rc KOrTest; ret (ifs @ [e]) }) []) Q p"
  by (rule wp_pwhile [where M = pmu and I = "\<lambda>ifs p'. fwd p p' \<and> (p_err p' = None \<longrightarrow> list_all wf_expr ifs)"])
    (use assms(1,2) in \<open>auto simp: steps intro!: calls assms(3)\<close>)

lemma wp_comp_clause_step:
  assumes "good p" "pmu p < Suc n" "at_ty T_For p"
    and "\<And>cs p'. adv p p' \<Longrightarrow> (p_err p' = None \<Longrightarrow> list_all wf_comp clauses \<Longrightarrow> list_all wf_comp cs) \<Longrightarrow> cs \<noteq> [] \<Longrightarrow> Q cs p'"
  shows "wp (comp_clause_step (Suc n) rc clauses) Q p"
  unfolding comp_clause_step_def
  by (intro calls wp_comp_ifs assms(4)) (use assms(1-3) in \<open>auto simp: steps\<close>)

lemma wp_comp_clauses:
  assumes "good p" "pmu p < n" "at_ty T_For p"
    and "\<And>cs p'. fwd p p' \<Longrightarrow> (p_err p' = None \<Longrightarrow> list_all wf_comp cs) \<Longrightarrow> cs \<noteq> [] \<Longrightarrow> Q cs p'"
  shows "wp (pwhile (Suc n) (at_ty T_For) (comp_clause_step (Suc n) rc) []) Q p"
  by (rule wp_pwhile [where M = pmu and I = "\<lambda>cs p'. fwd p p' \<and> (p_err p' = None \<longrightarrow> list_all wf_comp cs) \<and>
        (at_ty T_For p' \<or> cs \<noteq> [])"])
    (use assms(1-3) in \<open>auto simp: steps intro!: wp_comp_clause_step assms(4)\<close>)

definition opens :: "token_type \<Rightarrow> expr pm \<Rightarrow> bool" where
  "opens ty f \<longleftrightarrow> (\<forall>p. good p \<longrightarrow> pmu p < Suc n \<longrightarrow> t_ty (p_tok p) = ty \<longrightarrow>
     wp f (\<lambda>e p'. adv p p' \<and> (p_err p' = None \<longrightarrow> wf_expr e)) p)"

lemma opens_list_atom: "opens T_LBracket (list_atom (Suc n) rc pos)"
  unfolding opens_def list_atom_def
  by (intro allI impI calls wp_comp_clauses rec_loop) (auto simp: steps)

lemma wp_dict_items:
  assumes "good p" "pmu p < n" "length (fst kvs) = length (snd kvs)"
    and "p_err p = None \<Longrightarrow> list_all wf_expr (fst kvs) \<and> list_all wf_expr (snd kvs)"
    and "\<And>kvs p'. fwd p p' \<Longrightarrow> length (fst kvs) = length (snd kvs) \<Longrightarrow>
      (p_err p' = None \<Longrightarrow> list_all wf_expr (fst kvs) \<and> list_all wf_expr (snd kvs)) \<Longrightarrow> Q kvs p'"
  shows "wp (dict_items (Suc n) rc kvs) Q p"
  unfolding dict_items_def
  apply (rule wp_ploop [where M = pmu and I = "\<lambda>kvs p'. fwd p p' \<and> length (fst kvs) = length (snd kvs) \<and>
      (p_err p' = None \<longrightarrow> list_all wf_expr (fst kvs) \<and> list_all wf_expr (snd kvs))"])
  apply (use assms(1-4) in \<open>auto simp: steps\<close>)[2]
  apply (intro calls)
  apply (use assms(1-4) in \<open>auto simp: steps intro!: assms(5)\<close>)
  done

lemma wp_skip_braces:
  assumes "good p" "pmu p < m" "p_err p \<noteq> None" "\<And>p'. fwd p p' \<Longrightarrow> p_err p' \<noteq> None \<Longrightarrow> Q () p'"
  shows "wp (pwhile m (\<lambda>p. \<not> at_ty T_RBrace p \<and> \<not> at_ty T_Eof p) (\<lambda>u. p_next) ()) Q p"
  by (rule wp_pwhile [where M = pmu and I = "\<lambda>u p'. fwd p p' \<and> p_err p' \<noteq> None"])
    (use assms(1-3) in \<open>auto simp: steps intro!: wp_next assms(4)\<close>)

lemma opens_dict_set_atom: "opens T_LBrace (dict_set_atom (Suc n) rc pos)"
  unfolding opens_def dict_set_atom_def
  by (intro allI impI calls wp_dict_items wp_skip_braces rec_loop) (auto simp: steps)

lemma opens_paren_atom: "opens T_LParen (paren_atom rc pos)"
  unfolding opens_def paren_atom_def
  by (intro allI impI calls) (auto simp: steps split: expr.split)

lemma wp_strings:
  assumes "good p" "pmu p < m" "at_ty T_String p"
    and "\<And>parts p'. adv p p' \<Longrightarrow> str_ok (join '' '' parts) \<Longrightarrow> Q parts p'"
  shows "wp (pwhile m (at_ty T_String) (\<lambda>parts. do { lit \<leftarrow> tok_lit; p_next; ret (parts @ [lit]) }) []) Q p"
  apply (rule wp_pwhile [where M = pmu and I = "\<lambda>parts p'. fwd p p' \<and> list_all str_ok parts \<and>
      (if parts = [] then at_ty T_String p' else adv p p')"])
  apply (use assms(1-3) in \<open>auto simp: steps\<close>)[2]
  apply (intro calls)
  apply (auto simp: steps str_ok_def good_def token_ok_def split: if_splits)[3]
  apply (auto simp: steps intro!: assms(4) str_ok_join split: if_splits)
  done

lemma opensD:
  assumes "opens ty f" "good p" "pmu p < Suc n" "t_ty (p_tok p) = ty"
    and "\<And>e p'. adv p p' \<Longrightarrow> (p_err p' = None \<Longrightarrow> wf_expr e) \<Longrightarrow> Q e p'"
  shows "wp f Q p"
proof -
  have "wp f (\<lambda>e p'. adv p p' \<and> (p_err p' = None \<longrightarrow> wf_expr e)) p"
    using assms(1-4) by (simp add: opens_def)
  then show ?thesis by (rule wp_mono) (use assms(5) in auto)
qed

lemma espec_parse_atom: "espec (Suc n) (parse_atom (Suc n) rc)"
  unfolding espec_def parse_atom_def
  apply (intro allI impI calls wp_strings opensD [OF opens_paren_atom] opensD [OF opens_list_atom] opensD [OF opens_dict_set_atom])
  apply (auto simp: steps ident_ok_consts str_ok_def token_ok_def dest: good_tokenD)
  done

lemma espec_parse_atom_expr: "espec (Suc n) (parse_atom_expr (Suc n) rc)"
  unfolding espec_def parse_atom_expr_def
proof (intro allI impI wp_intro especD [OF espec_parse_atom], goal_cases)
  case (3 p x p1)
  then show ?case
    apply (intro wp_ploop [where M = pmu and I = "\<lambda>e p'. prog p p' \<and> (p_err p' = None \<longrightarrow> wf_expr e)"])
    apply (auto simp: steps)[2]
    apply (intro calls wp_call_args wp_subscript)
    apply (auto simp: steps token_ok_def)
    done
qed simp_all

lemma espec_parse_power: "espec (Suc n) (parse_power (Suc n) rc)"
  unfolding espec_def parse_power_def
  by (intro allI impI calls especD [OF espec_parse_atom_expr]) (auto simp: steps bin_ops_def)

lemma espec_parse_factor: "espec (Suc n) (parse_factor (Suc n) rc)"
  unfolding espec_def parse_factor_def
  by (intro allI impI calls especD [OF espec_parse_power])
    (auto simp: steps unary_ops_def token_ok_def dest: good_tokenD)

lemma espec_binary_level:
  assumes sub: "espec (Suc n) sub"
    and mk: "\<And>t pos x y. t_ty t \<in> set ops \<Longrightarrow> token_ok t \<Longrightarrow> wf_expr x \<Longrightarrow> wf_expr y \<Longrightarrow>
      wf_expr (mk pos (case lit of Some s \<Rightarrow> s | None \<Rightarrow> t_lit t) x y)"
    and eof: "T_Eof \<notin> set ops"
  shows "espec (Suc n) (binary_level (Suc n) ops lit mk sub)"
  unfolding espec_def binary_level_def
proof (intro allI impI wp_intro especD [OF sub], goal_cases)
  case (3 p x p1)
  then show ?case
    apply (intro wp_pwhile [where M = pmu and I = "\<lambda>e p'. prog p p' \<and> (p_err p' = None \<longrightarrow> wf_expr e)"])
    apply (auto simp: steps)[2]
    apply (intro calls especD [OF sub])
    apply (use mk eof in \<open>auto simp: steps dest: good_tokenD\<close>)
    done
qed simp_all

lemma espec_levels:
  "espec (Suc n) (parse_term (Suc n) rc)" "espec (Suc n) (parse_arith (Suc n) rc)"
  "espec (Suc n) (parse_shift (Suc n) rc)" "espec (Suc n) (parse_bit_and (Suc n) rc)"
  "espec (Suc n) (parse_bit_xor (Suc n) rc)" "espec (Suc n) (parse_bit_or (Suc n) rc)"
  unfolding parse_term_def parse_arith_def parse_shift_def parse_bit_and_def parse_bit_xor_def parse_bit_or_def
  by (intro espec_binary_level espec_parse_factor; auto simp: bin_ops_def token_ok_def)+

lemma wp_comp_op:
  assumes "good p" "is_comp_op p"
    and "\<And>op p'. adv p p' \<Longrightarrow> op \<in> set comp_ops \<Longrightarrow> Q op p'"
  shows "wp comp_op Q p"
  unfolding comp_op_def
  by (intro calls assms(3)) (use assms(1,2) in \<open>auto simp: steps comp_ops_def is_comp_op_def\<close>)

lemma espec_parse_comparison: "espec (Suc n) (parse_comparison (Suc n) rc)"
  unfolding espec_def parse_comparison_def
proof (intro allI impI wp_intro especD [OF espec_levels(6)], goal_cases)
  case (4 p x p1)
  then show ?case
    apply (intro wp_pwhile [where M = pmu and I = "\<lambda>r p'. prog p p' \<and> length (fst r) = length (snd r) \<and>
        (fst r \<noteq> [] \<or> is_comp_op p') \<and> set (fst r) \<subseteq> set comp_ops \<and> (p_err p' = None \<longrightarrow> list_all wf_expr (snd r) \<and> wf_expr x)"])
    apply (auto simp: steps)[2]
    apply (intro calls wp_comp_op especD [OF espec_levels(6)])
    apply (auto simp: steps intro!: wp_intro)
    done
qed (simp_all add: steps)

lemma espec_parse_not_test: "espec (Suc n) (parse_not_test (Suc n) rc)"
  unfolding espec_def parse_not_test_def
  by (intro allI impI calls especD [OF espec_parse_comparison]) (auto simp: steps unary_ops_def)

lemma espec_bool_levels:
  "espec (Suc n) (parse_and_test (Suc n) rc)" "espec (Suc n) (parse_or_test (Suc n) rc)"
  unfolding parse_and_test_def parse_or_test_def
  by (intro espec_binary_level espec_parse_not_test; auto simp: token_ok_def)+

lemma espec_parse_test: "espec (Suc n) (parse_test (Suc n) rc)"
  unfolding espec_def parse_test_def
  by (intro allI impI calls especD [OF espec_bool_levels(2)]) (auto simp: steps)

lemma espec_star_item:
  assumes sub: "espec (Suc n) sub"
  shows "espec (Suc n) (star_item sub)"
  unfolding espec_def star_item_def
  by (intro allI impI calls especD [OF sub]) (auto simp: steps unary_ops_def)

lemma espec_item_list:
  assumes item: "espec (Suc n) item"
  shows "espec (Suc n) (item_list (Suc n) stop item)"
  unfolding espec_def item_list_def
  by (intro allI impI calls especD [OF item] wp_comma_loop [OF item]) (auto simp: steps)

lemma espec_lists:
  "espec (Suc n) (parse_test_list (Suc n) rc)" "espec (Suc n) (parse_expr_list (Suc n) rc)"
  unfolding parse_test_list_def parse_expr_list_def parse_expr_def
  by (intro espec_item_list espec_star_item espec_parse_test espec_levels)+

end

lemma expr_calls_parse_k: "expr_calls n (parse_k n)"
proof (induction n)
  case 0
  show ?case by unfold_locales (simp add: espec_def)
next
  case (Suc n)
  note spec = expr_calls.espec_parse_test [OF Suc.IH] expr_calls.espec_lists [OF Suc.IH]
    expr_calls.espec_bool_levels [OF Suc.IH] expr_calls.espec_parse_not_test [OF Suc.IH]
    expr_calls.espec_parse_factor [OF Suc.IH]
  show ?case by unfold_locales (auto simp: spec split: ekind.split)
qed

interpretation parse_calls: expr_calls n "parse_k n" for n
  by (rule expr_calls_parse_k)

end
