(* ===== verification/Fly_Parser_Stmts.thy ===== *)
theory Fly_Parser_Stmts
  imports Fly_Parser_Facts
begin

text \<open>
  Total correctness of the statement parsers, on top of the expression parsers: termination,
  progress, and well-formed statements.
\<close>

subsection \<open>Simple statements\<close>

lemmas k_wp = especD [OF parse_calls.rec_spec]
lemmas scalls = wp_intro wp_next wp_expect wp_errorf k_wp

definition sspec :: "nat \<Rightarrow> stmt option pm \<Rightarrow> bool" where
  "sspec n f \<longleftrightarrow> (\<forall>p. good p \<longrightarrow> pmu p + 1 < n \<longrightarrow>
     wp f (\<lambda>s p'. prog p p' \<and> (p_err p' = None \<longrightarrow> pred_opt wf_stmt s)) p)"

lemma sspecD:
  assumes "sspec n f" "good p" "pmu p + 1 < n"
    and "\<And>s p'. prog p p' \<Longrightarrow> (p_err p' = None \<Longrightarrow> pred_opt wf_stmt s) \<Longrightarrow> Q s p'"
  shows "wp f Q p"
proof -
  have "wp f (\<lambda>s p'. prog p p' \<and> (p_err p' = None \<longrightarrow> pred_opt wf_stmt s)) p"
    using assms(1-3) by (simp add: sspec_def)
  then show ?thesis by (rule wp_mono) (use assms(4) in auto)
qed

lemma wp_semicolons:
  assumes "good p" "pmu p < n" "\<And>p'. fwd p p' \<Longrightarrow> (at_ty T_Semicolon p \<Longrightarrow> adv p p') \<Longrightarrow> Q () p'"
  shows "wp (pwhile n (at_ty T_Semicolon) (\<lambda>u. p_next) ()) Q p"
  apply (rule wp_pwhile [where M = pmu and I = "\<lambda>u p'. fwd p p' \<and> (p' = p \<or> adv p p')"])
  apply (use assms(1,2) in \<open>auto simp: steps\<close>)[2]
  apply (intro wp_next)
  apply (use assms(1,2) in \<open>auto simp: steps intro!: assms(3)\<close>)
  done

lemma wp_stmt_end:
  assumes "good p" "pmu p < n" "\<And>p'. fwd p p' \<Longrightarrow> Q () p'"
  shows "wp (stmt_end n) Q p"
  unfolding stmt_end_def
  by (intro scalls wp_semicolons) (use assms(1,2) in \<open>auto simp: steps intro!: assms(3) wp_next\<close>)

lemma wp_require_target:
  assumes "good p" "\<And>p'. fwd p p' \<Longrightarrow> p_tok p' = p_tok p \<Longrightarrow> pmu p' = pmu p \<Longrightarrow>
    (p_err p' = None \<Longrightarrow> check_target e) \<Longrightarrow> Q () p'"
  shows "wp (require_target e) Q p"
  unfolding require_target_def
  by (intro scalls assms(2)) (use assms(1) in \<open>auto simp: steps\<close>)

lemma wp_assign_stmt:
  assumes "good p" "pmu p < n" "at_ty T_Assign p \<or> is_aug_assign p" "p_err p = None \<Longrightarrow> wf_expr e"
    and "\<And>s p'. adv p p' \<Longrightarrow> (p_err p' = None \<Longrightarrow> wf_stmt s) \<Longrightarrow> Q s p'"
  shows "wp (assign_stmt n e) Q p"
proof -
  have op: "t_lit (p_tok p) \<in> set assign_ops" "t_ty (p_tok p) \<noteq> T_Eof"
    using assms(3) good_tokenD [OF assms(1)] by (auto simp: at_ty_def is_aug_assign_def token_ok_def assign_ops_def)
  have eq: "''='' \<in> set assign_ops" by (simp add: assign_ops_def)
  define I where "I = (\<lambda>(left, op, right) p'. adv p p' \<and> left \<noteq> [] \<and> hd left = e \<and> op \<in> set assign_ops \<and>
    (p_err p' = None \<longrightarrow> list_all wf_expr left \<and> list_all check_target (tl left) \<and> wf_expr right))"
  have step: "wp (case r of (left, op, right) \<Rightarrow> do {
         require_target right;
         p_next;
         right' \<leftarrow> parse_k n KTestList;
         ret (left @ [right], ''='', right') }) (\<lambda>r' p'. I r' p' \<and> pmu p' < pmu p1) p1"
    if "I r p1" "at_ty T_Assign p1" for r p1
    by (intro scalls wp_require_target) (use that assms(2) eq in \<open>auto simp: steps I_def\<close>)
  have loop: "wp (pwhile n (at_ty T_Assign) (\<lambda>r. case r of (left, op, right) \<Rightarrow> do {
         require_target right;
         p_next;
         right' \<leftarrow> parse_k n KTestList;
         ret (left @ [right], ''='', right') }) r) Q' p1"
    if "I r p1" "\<And>r p'. I r p' \<Longrightarrow> Q' r p'" for r p1 Q'
    by (rule wp_pwhile [where M = pmu and I = I]) (use that step assms(2) in \<open>auto simp: I_def adv_def\<close>)
  show ?thesis
    unfolding assign_stmt_def
    by (intro scalls loop wp_require_target assms(5))
      (use assms(1,2,4) op in \<open>auto simp: steps I_def neq_Nil_conv\<close>)
qed

lemma sspec_simple_stmt: "sspec n (simple_stmt n)"
  unfolding sspec_def
proof (intro allI impI)
  fix p
  assume p: "good p" "pmu p + 1 < n"
  define I where "I = (\<lambda>first p'. fwd p p' \<and> (p_err p' = None \<longrightarrow> pred_opt wf_stmt first))"
  define Q where "Q = (\<lambda>r p'. prog p p' \<and> (p_err p' = None \<longrightarrow> pred_opt (pred_opt wf_stmt) r))"
  show "wp (simple_stmt n) (\<lambda>s p'. prog p p' \<and> (p_err p' = None \<longrightarrow> pred_opt wf_stmt s)) p"
    unfolding simple_stmt_def
  proof (rule wp_bind, rule wp_mono [where Q = Q], rule wp_ploop [where M = pmu and I = I], goal_cases)
    case (3 first p1)
    then show ?case
      apply (intro scalls wp_assign_stmt)
      apply (use p in \<open>auto simp: steps I_def Q_def split: option.splits\<close>)
      done
  next
    case (4 r p1)
    then show ?case
      by (intro wp_intro wp_stmt_end) (use p in \<open>auto simp: Q_def steps\<close>)
  qed (use p in \<open>auto simp: I_def steps\<close>)
qed

text \<open>Statements that begin with a keyword: the keyword is taken first.\<close>

definition kwspec :: "nat \<Rightarrow> stmt option pm \<Rightarrow> bool" where
  "kwspec n f \<longleftrightarrow> (\<forall>p. good p \<longrightarrow> pmu p < n \<longrightarrow> t_ty (p_tok p) \<noteq> T_Eof \<longrightarrow>
     wp f (\<lambda>s p'. prog p p' \<and> (p_err p' = None \<longrightarrow> pred_opt wf_stmt s)) p)"

lemma wp_opt_test_list:
  assumes "good p" "pmu p < n" "\<And>e p'. fwd p p' \<Longrightarrow> (p_err p' = None \<Longrightarrow> pred_opt wf_expr e) \<Longrightarrow> Q e p'"
  shows "wp (opt_test_list n) Q p"
  unfolding opt_test_list_def
  by (intro scalls assms(3)) (use assms(1,2) in \<open>auto simp: steps\<close>)

lemma kwspec_return: "kwspec n (return_stmt n)"
  unfolding kwspec_def return_stmt_def
  by (intro allI impI scalls wp_opt_test_list wp_stmt_end) (auto simp: steps)

lemma kwspec_raise: "kwspec n (raise_stmt n)"
  unfolding kwspec_def raise_stmt_def
  by (intro allI impI scalls wp_opt_test_list wp_stmt_end) (auto simp: steps)

lemma kwspec_keyword: "(\<And>pos. wf_stmt (mk pos)) \<Longrightarrow> kwspec n (keyword_stmt n mk)"
  unfolding kwspec_def keyword_stmt_def
  by (intro allI impI scalls wp_stmt_end) (auto simp: steps)

lemma kwspec_del: "kwspec n (del_stmt n)"
  unfolding kwspec_def del_stmt_def
proof (intro allI impI scalls, goal_cases)
  case (3 p p1)
  then show ?case
    by (intro wp_ploop [where M = pmu and I = "\<lambda>ts p'. adv p p' \<and> (p_err p' = None \<longrightarrow> list_all wf_expr ts)"]
        scalls wp_stmt_end) (auto simp: steps intro!: scalls wp_stmt_end)
qed simp_all

lemma sspec_unsupported: "sspec n unsupported_stmt"
  unfolding sspec_def unsupported_stmt_def
  by (intro allI impI scalls) (auto simp: steps)

lemma kwspec_lock: "kwspec n (lock_stmt n)"
  unfolding kwspec_def lock_stmt_def
  by (intro allI impI scalls wp_stmt_end)
    (auto simp: steps token_ok_def dest: good_tokenD)

lemma kwspec_taint: "kwspec n (taint_decl_stmt n safe)"
  unfolding kwspec_def taint_decl_stmt_def
proof (intro allI impI scalls, goal_cases)
  case (3 p p1)
  then show ?case
    by (intro wp_ploop [where M = pmu and I = "\<lambda>ns p'. adv p p' \<and> (p_err p' = None \<longrightarrow> list_all ident_ok ns)"]
        scalls wp_stmt_end) (auto simp: steps token_ok_def intro!: scalls wp_stmt_end)
qed simp_all

lemma wp_peek:
  assumes "good p" "\<And>t p'. good p' \<Longrightarrow> pmu p' \<le> pmu p \<Longrightarrow> p_tok p' = p_tok p \<Longrightarrow> p_err p' = p_err p \<Longrightarrow>
    p_peeked p' = Some t \<Longrightarrow> Q t p'"
  shows "wp p_peek Q p"
proof -
  have inv: "lexer_inv (p_lex p)" using assms(1) by (simp add: good_def)
  obtain t l where nx: "lexer_next (p_lex p) = (t, l)" by fastforce
  note l = lex_stepD(1,2,8) [OF inv] token_ok_next [OF inv]
  show ?thesis
  proof (cases "p_peeked p")
    case None
    with assms(1) l nx show ?thesis
      unfolding wp_def p_peek_def peek_tok_def
      by (auto intro!: assms(2) simp: good_def pmu_def split: if_splits)
  next
    case (Some t)
    with assms show ?thesis by (simp add: wp_def p_peek_def peek_tok_def)
  qed
qed

lemma wp_next_peeked:
  assumes "good p" "p_peeked p = Some t" "t_ty (p_tok p) \<noteq> T_Eof"
    and "\<And>p'. adv p p' \<Longrightarrow> p_tok p' = t \<Longrightarrow> Q () p'"
  shows "wp p_next Q p"
proof -
  have "adv p (next_tok p)"
    using good_next_tok [OF assms(1)] pmu_next_tok(2) [OF assms(1,3)] by (simp add: adv_def)
  with assms show ?thesis by (simp add: p_next_def wp_modify next_tok_def)
qed

lemma wp_guard_conds:
  assumes "good p" "pmu p < n" "\<And>cs p'. fwd p p' \<Longrightarrow> (p_err p' = None \<Longrightarrow> list_all wf_expr cs) \<Longrightarrow> Q cs p'"
  shows "wp (pwhile n (at_ty T_Comma) (\<lambda>conds. do { p_next; e \<leftarrow> parse_k n KTest; ret (conds @ [e]) }) []) Q p"
  by (rule wp_pwhile [where M = pmu and I = "\<lambda>cs p'. fwd p p' \<and> (p_err p' = None \<longrightarrow> list_all wf_expr cs)"])
    (use assms(1,2) in \<open>auto simp: steps intro!: scalls assms(3)\<close>)

lemma wp_next_next:
  assumes "good p" "p_peeked p = Some t" "t_ty (p_tok p) \<noteq> T_Eof" "t_ty t \<noteq> T_Eof"
    and "\<And>p'. adv p p' \<Longrightarrow> wp g Q p'"
  shows "wp (do { p_next; p_next; g }) Q p"
  by (intro wp_bind wp_next_peeked [OF assms(1-3)] wp_next) (use assms(4,5) in \<open>auto simp: adv_def\<close>)

lemma kwspec_guard: "kwspec n (guard_stmt n)"
proof -
  have typed: "wp (do {
       p_next; p_next;
       ty \<leftarrow> parse_k n KTest;
       conds \<leftarrow> pwhile n (at_ty T_Comma) (\<lambda>conds. do { p_next; e \<leftarrow> parse_k n KTest; ret (conds @ [e]) }) [];
       stmt_end n;
       ret (Some (Guard pos lit (Some ty) conds)) })
     (\<lambda>s p'. prog p p' \<and> (p_err p' = None \<longrightarrow> pred_opt wf_stmt s)) p1"
    if "prog p p1" "pmu p < n" "p_peeked p1 = Some nx" "t_ty nx = T_Colon" "t_ty (p_tok p1) = T_Ident" "ident_ok lit"
    for p p1 nx pos lit
    by (rule wp_next_next) (use that in \<open>auto simp: steps intro!: wp_intro k_wp wp_guard_conds wp_stmt_end\<close>)
  have bare: "wp (do {
       exprs \<leftarrow> parse_k n KTestList;
       stmt_end n;
       ret (Some (Guard pos [] None (case exprs of TupleLit _ elems _ \<Rightarrow> elems | _ \<Rightarrow> [exprs]))) })
     (\<lambda>s p'. prog p p' \<and> (p_err p' = None \<longrightarrow> pred_opt wf_stmt s)) p1"
    if "prog p p1" "pmu p < n" for p p1 pos
    by (intro wp_intro k_wp wp_stmt_end) (use that in \<open>auto simp: steps split: expr.splits\<close>)
  show ?thesis
    unfolding kwspec_def guard_stmt_def
  proof (intro allI impI wp_bind wp_tok wp_next, goal_cases)
    case (3 p p1)
    then have ok: "ident_ok (t_lit (p_tok p1))" if "t_ty (p_tok p1) = T_Ident"
      using that good_tokenD [of p1] by (auto simp: adv_def token_ok_def)
    show ?case
      apply (rule wp_if)
      apply (rule wp_bind, rule wp_peek, use 3 in \<open>simp add: adv_def\<close>, rule wp_ret, rule wp_if)
      apply (rule typed; use 3 ok in \<open>force simp: steps\<close>)
      apply (rule bare; use 3 in \<open>force simp: steps\<close>)
      apply (rule wp_ret, rule wp_if, simp, rule bare; use 3 in \<open>force simp: steps\<close>)
      done
  qed simp_all
qed

subsection \<open>Imports\<close>

lemma wp_dotted_name:
  assumes "good p" "pmu p < n" "\<And>s p'. prog p p' \<Longrightarrow> (p_err p' = None \<Longrightarrow> dotted_ok s) \<Longrightarrow> Q s p'"
  shows "wp (dotted_name n) Q p"
  unfolding dotted_name_def
proof (intro scalls, goal_cases)
  case (3 t p1)
  show ?case
    by (rule wp_pwhile [where M = pmu and I = "\<lambda>ps p'. prog p p' \<and> ps \<noteq> [] \<and> (p_err p' = None \<longrightarrow> list_all ident_ok ps)"])
      (use 3 assms in \<open>auto simp: steps token_ok_def dotted_ok_def intro!: scalls assms(3)\<close>)
qed (use assms in simp_all)

lemma wp_opt_alias:
  assumes "good p" "\<And>s p'. fwd p p' \<Longrightarrow> (p_err p' = None \<Longrightarrow> s = [] \<or> ident_ok s) \<Longrightarrow> Q s p'"
  shows "wp opt_alias Q p"
  unfolding opt_alias_def
  by (intro scalls assms(2)) (use assms(1) in \<open>auto simp: steps token_ok_def\<close>)

lemma kwspec_import: "kwspec n (import_stmt n)"
  unfolding kwspec_def import_stmt_def
proof (intro allI impI scalls, goal_cases)
  case (3 p p1)
  then show ?case
    by (intro wp_ploop [where M = pmu and I = "\<lambda>its p'. adv p p' \<and> (p_err p' = None \<longrightarrow> list_all wf_import its)"]
        scalls wp_dotted_name wp_opt_alias wp_stmt_end)
      (auto simp: steps wf_import_def intro!: scalls wp_stmt_end)
qed simp_all

lemma dotted_ok_ident: "ident_ok s \<Longrightarrow> dotted_ok s"
  unfolding dotted_ok_def by (intro exI [of _ "[s]"]) simp

lemma wp_from_items:
  assumes "good p" "pmu p < n"
    and "\<And>its p'. fwd p p' \<Longrightarrow> (p_err p' = None \<Longrightarrow> list_all wf_import its) \<Longrightarrow> its \<noteq> [] \<Longrightarrow> Q its p'"
  shows "wp (from_items n) Q p"
  unfolding from_items_def
  by (intro wp_ploop [where M = pmu and I = "\<lambda>its p'. fwd p p' \<and> (p_err p' = None \<longrightarrow> list_all wf_import its)"]
      scalls wp_opt_alias)
    (use assms(1,2) in \<open>auto simp: steps wf_import_def token_ok_def dotted_ok_ident intro!: scalls assms(3)\<close>)

lemma wp_dots:
  assumes "good p" "pmu p < n" "\<And>s p'. fwd p p' \<Longrightarrow> Q s p'"
  shows "wp (pwhile n (at_ty T_Dot) (\<lambda>m. do { p_next; ret (m @ ''.'') }) []) Q p"
  by (rule wp_pwhile [where M = pmu and I = "\<lambda>s p'. fwd p p'"])
    (use assms(1,2) in \<open>auto simp: steps intro!: scalls assms(3)\<close>)

lemma kwspec_from_import: "kwspec n (from_import_stmt n)"
  unfolding kwspec_def from_import_stmt_def
  by (intro allI impI scalls wp_dots wp_dotted_name wp_from_items wp_stmt_end)
    (auto simp: steps wf_import_def)

end
