(* ===== verification/Fly_Parser_Total.thy ===== *)
theory Fly_Parser_Total
  imports Fly_Parser_Stmts
begin

text \<open>
  The compound statements, the knot of the statement parser, and the correctness of \<open>parse\<close> for every
  source: it terminates, and an accepted module is well-formed.
\<close>

declare parse_k.simps [simp del] statement_k.simps [simp del]

lemma wp_stmt_block:
  assumes sr: "sspec m sr" and p: "good p" "pmu p + 1 < m" "pmu p + 1 < k"
    and going: "\<And>p. going p \<Longrightarrow> p_err p = None"
    and Q: "\<And>ss p'. fwd p p' \<Longrightarrow> (p_err p' = None \<Longrightarrow> list_all wf_stmt ss) \<Longrightarrow> \<not> going p' \<Longrightarrow> Q ss p'"
  shows "wp (stmt_block k sr going) Q p"
  unfolding stmt_block_def
proof (rule wp_pwhile [where M = "\<lambda>p. if going p then Suc (pmu p) else 0"
      and I = "\<lambda>ss p'. fwd p p' \<and> (p_err p' = None \<longrightarrow> list_all wf_stmt ss)"], goal_cases)
  case (3 ss p1)
  then show ?case
    using p going by (intro wp_intro sspecD [OF sr]) (auto simp: steps split: option.splits)
qed (use p Q in \<open>auto simp: fwd_def\<close>)

text \<open>The contract of the recursive call of \<open>statement\<close>; every compound statement keeps it.\<close>

locale stmt_calls =
  fixes n :: nat and sr :: "stmt option pm"
  assumes rec_spec: "sspec n sr"
begin

lemma wp_suite:
  assumes "good p" "pmu p < n"
    and Q: "\<And>ss p'. fwd p p' \<Longrightarrow> (p_err p' = None \<Longrightarrow> list_all wf_stmt ss) \<Longrightarrow> Q ss p'"
  shows "wp (suite (Suc n) sr) Q p"
proof -
  have line: "wp (ploop (Suc n) [] (\<lambda>stmts. do {
       s \<leftarrow> simple_stmt (Suc n);
       let stmts = (case s of Some st \<Rightarrow> stmts @ [st] | None \<Rightarrow> stmts);
       semi \<leftarrow> gets (at_ty T_Semicolon);
       if \<not> semi then ret (Inr stmts)
       else do {
         p_next;
         fin \<leftarrow> gets at_end;
         ret (if fin then Inr stmts else Inl stmts) } }) []) Q p1" if "fwd p p1" for p1
  proof (rule wp_ploop [where M = pmu and I = "\<lambda>ss p'. fwd p p' \<and> (p_err p' = None \<longrightarrow> list_all wf_stmt ss)"], goal_cases)
    case (3 ss p2)
    then show ?case
      by (intro wp_intro wp_next sspecD [OF sspec_simple_stmt])
        (use assms(1,2) in \<open>auto simp: steps intro!: Q split: option.splits\<close>)
  qed (use that assms(2) in \<open>auto simp: fwd_def\<close>)
  show ?thesis
    unfolding suite_def
    by (intro wp_bind wp_if wp_gets wp_next wp_ret wp_expect wp_stmt_block [OF rec_spec] line Q)
      (use assms(1,2) in \<open>auto simp: steps\<close>)
qed

lemma wp_opt_suite:
  assumes "good p" "pmu p < n" "kw \<noteq> T_Eof"
    and "\<And>ss p'. fwd p p' \<Longrightarrow> (p_err p' = None \<Longrightarrow> list_all wf_stmt ss) \<Longrightarrow> Q ss p'"
  shows "wp (opt_suite (Suc n) sr kw) Q p"
  unfolding opt_suite_def
  by (intro wp_intro wp_next wp_suite assms(4)) (use assms(1-3) in \<open>auto simp: steps\<close>)

lemmas ccalls = scalls wp_suite wp_opt_suite

lemma wp_param_step:
  assumes "good p" "pmu p < n"
    and "\<And>prm p'. fwd p p' \<Longrightarrow> (p_err p' = None \<Longrightarrow> wf_param prm) \<Longrightarrow> Q prm p'"
  shows "wp (param_step (Suc n)) Q p"
  unfolding param_step_def
  by (intro scalls assms(3)) (use assms(1,2) in \<open>auto simp: steps wf_param_def token_ok_def\<close>)

lemma wp_params:
  assumes "good p" "pmu p < n"
    and "\<And>ps p'. fwd p p' \<Longrightarrow> (p_err p' = None \<Longrightarrow> list_all wf_param ps) \<Longrightarrow> Q ps p'"
  shows "wp (params (Suc n)) Q p"
  unfolding params_def
proof (intro wp_intro, goal_cases)
  case 1
  show ?case by (rule assms(3)) (use assms(1) in \<open>auto simp: steps\<close>)
next
  case 2
  show ?case
  proof (rule wp_ploop [where M = pmu and I = "\<lambda>ps p'. fwd p p' \<and> (p_err p' = None \<longrightarrow> list_all wf_param ps)"], goal_cases)
    case (3 ps p1)
    then show ?case
      by (intro wp_intro wp_next wp_param_step)
        (use assms(1,2) in \<open>auto simp: steps intro!: assms(3)\<close>)
  qed (use assms in \<open>auto simp: fwd_def\<close>)
qed

lemma wp_func_def:
  assumes "good p" "pmu p < Suc n" "t_ty (p_tok p) \<noteq> T_Eof" "p_err p = None \<Longrightarrow> list_all wf_expr ds"
    and "\<And>s p'. prog p p' \<Longrightarrow> (p_err p' = None \<Longrightarrow> pred_opt wf_stmt s) \<Longrightarrow> Q s p'"
  shows "wp (func_def (Suc n) sr ds) Q p"
  unfolding func_def_def
  by (intro ccalls wp_params assms(5)) (use assms(1-4) in \<open>auto simp: steps token_ok_def\<close>)

lemma wp_class_bases:
  assumes "good p" "pmu p < n"
    and "\<And>bs p'. fwd p p' \<Longrightarrow> (p_err p' = None \<Longrightarrow> list_all wf_expr bs) \<Longrightarrow> Q bs p'"
  shows "wp (class_bases (Suc n)) Q p"
  unfolding class_bases_def
  by (rule wp_ploop [where M = pmu and I = "\<lambda>bs p'. fwd p p' \<and> (p_err p' = None \<longrightarrow> list_all wf_expr bs)"])
    (use assms(1,2) in \<open>auto simp: steps intro!: scalls assms(3)\<close>)

lemma wp_class_def:
  assumes "good p" "pmu p < Suc n" "t_ty (p_tok p) \<noteq> T_Eof" "p_err p = None \<Longrightarrow> list_all wf_expr ds"
    and "\<And>s p'. prog p p' \<Longrightarrow> (p_err p' = None \<Longrightarrow> pred_opt wf_stmt s) \<Longrightarrow> Q s p'"
  shows "wp (class_def (Suc n) sr ds sealed) Q p"
  unfolding class_def_def
  by (intro ccalls wp_class_bases assms(5)) (use assms(1-4) in \<open>auto simp: steps token_ok_def\<close>)

lemma wp_decorators_loop:
  assumes "good p" "pmu p < Suc n"
    and "\<And>ds p'. fwd p p' \<Longrightarrow> (p_err p' = None \<Longrightarrow> list_all wf_expr ds) \<Longrightarrow> Q ds p'"
  shows "wp (decorators_loop (Suc n)) Q p"
  unfolding decorators_loop_def
  by (rule wp_ploop [where M = pmu and I = "\<lambda>ds p'. fwd p p' \<and> (p_err p' = None \<longrightarrow> list_all wf_expr ds)"])
    (use assms(1,2) in \<open>auto simp: steps intro!: scalls wp_stmt_end assms(3)\<close>)

lemma kwspec_decorated: "kwspec (Suc n) (decorated_stmt (Suc n) sr)"
  unfolding kwspec_def decorated_stmt_def
  by (intro allI impI wp_intro wp_errorf wp_decorators_loop wp_func_def wp_class_def) (auto simp: steps)

lemma kwspec_only: "kwspec (Suc n) (only_stmt (Suc n) sr)"
  unfolding kwspec_def only_stmt_def
proof (intro allI impI wp_intro wp_next wp_expect, goal_cases)
  case (5 p p1 t p2)
  then show ?case
    by (intro wp_ploop [where M = pmu and I = "\<lambda>ms p'. fwd p2 p' \<and> (p_err p' = None \<longrightarrow> list_all ident_ok ms)"])
      (auto simp: steps token_ok_def intro!: ccalls)
qed (auto simp: steps)

lemma kwspec_seal: "kwspec (Suc n) (seal_stmt (Suc n) sr)"
  unfolding kwspec_def seal_stmt_def
  by (intro allI impI wp_intro wp_next wp_errorf wp_class_def) (auto simp: steps)

lemma wp_bool_arg:
  assumes "good p"
    and "\<And>r p'. fwd p p' \<Longrightarrow> (p_err p' = None \<Longrightarrow> \<exists>x. r = Some x) \<Longrightarrow> Q r p'"
  shows "wp (bool_arg fmt mk) Q p"
  unfolding bool_arg_def
  by (intro scalls assms(2)) (use assms(1) in \<open>auto simp: steps\<close>)

lemma wp_trace_arg:
  assumes "good p"
    and "\<And>r p'. fwd p p' \<Longrightarrow> (p_err p' = None \<Longrightarrow> pmu p' < pmu p \<and> (\<exists>x. r = Some x)) \<Longrightarrow> Q r p'"
  shows "wp (trace_arg acc) Q p"
  unfolding trace_arg_def
  by (intro scalls wp_bool_arg assms(2)) (use assms(1) in \<open>auto simp: steps\<close>)

text \<open>A time limit that is accepted is positive.\<close>

definition cage_ok :: "cage_acc \<Rightarrow> bool" where
  "cage_ok acc \<longleftrightarrow> (case fst acc of Some t \<Rightarrow> \<not> f64_le_zero t | None \<Rightarrow> True)"

lemma parse_time_spec_pos: "parse_time_spec v = Some t \<Longrightarrow> \<not> f64_le_zero t"
  by (auto simp: parse_time_spec_def Let_def split: if_splits bind_splits)

lemma wp_cage_arg:
  assumes "good p" "p_err p = None \<Longrightarrow> cage_ok acc"
    and "\<And>r p'. fwd p p' \<Longrightarrow> (p_err p' = None \<Longrightarrow> pmu p' < pmu p \<and> (\<exists>acc'. r = Some acc' \<and> cage_ok acc')) \<Longrightarrow> Q r p'"
  shows "wp (cage_arg acc) Q p"
  unfolding cage_arg_def
  by (intro scalls assms(3)) (use assms(1,2) in \<open>auto simp: steps cage_ok_def parse_time_spec_pos\<close>)

lemma wp_arg_loop:
  assumes "good p" "pmu p < Suc n" "p_err p = None \<Longrightarrow> ok acc"
    and arg: "\<And>p acc Q. good p \<Longrightarrow> (p_err p = None \<Longrightarrow> ok acc) \<Longrightarrow>
      (\<And>r p'. fwd p p' \<Longrightarrow> (p_err p' = None \<Longrightarrow> pmu p' < pmu p \<and> (\<exists>acc'. r = Some acc' \<and> ok acc')) \<Longrightarrow> Q r p') \<Longrightarrow>
      wp (arg acc) Q p"
    and "\<And>r p'. fwd p p' \<Longrightarrow> (p_err p' = None \<Longrightarrow> \<exists>acc'. r = Some acc' \<and> ok acc') \<Longrightarrow> Q r p'"
  shows "wp (arg_loop (Suc n) arg acc) Q p"
  unfolding arg_loop_def
  by (rule wp_ploop [where M = pmu and I = "\<lambda>acc p'. fwd p p' \<and> (p_err p' = None \<longrightarrow> ok acc)"])
    (use assms(1-3) in \<open>auto simp: steps intro!: wp_intro arg wp_next assms(5)\<close>)

lemma kwspec_trace: "kwspec (Suc n) (trace_stmt (Suc n) sr)"
  unfolding kwspec_def trace_stmt_def
  by (intro allI impI ccalls wp_arg_loop [where ok = "\<lambda>_. True"] wp_trace_arg) (auto simp: steps)

lemma kwspec_cage: "kwspec (Suc n) (cage_stmt (Suc n) sr)"
  unfolding kwspec_def cage_stmt_def
  by (intro allI impI ccalls wp_arg_loop [where ok = cage_ok] wp_cage_arg)
    (auto simp: steps cage_ok_def)

lemma kwspec_if: "kwspec (Suc n) (if_stmt (Suc n) sr)"
proof -
  have elifs: "wp (pwhile (Suc n) (at_ty T_Elif) (\<lambda>elifs. do {
         epos \<leftarrow> tok_pos;
         p_next;
         ec \<leftarrow> parse_k (Suc n) KTestList;
         body \<leftarrow> suite (Suc n) sr;
         ret (elifs @ [ElifClause epos ec body]) }) []) Q p"
    if "good p" "pmu p < Suc n"
      "\<And>es p'. fwd p p' \<Longrightarrow> (p_err p' = None \<Longrightarrow> list_all wf_elif es) \<Longrightarrow> Q es p'" for Q p
    by (rule wp_pwhile [where M = pmu and I = "\<lambda>es p'. fwd p p' \<and> (p_err p' = None \<longrightarrow> list_all wf_elif es)"])
      (use that(1,2) in \<open>auto simp: steps intro!: ccalls that(3)\<close>)
  show ?thesis
    unfolding kwspec_def if_stmt_def
    by (intro allI impI ccalls elifs) (auto simp: steps)
qed

lemma kwspec_for: "kwspec (Suc n) (for_stmt (Suc n) sr)"
  unfolding kwspec_def for_stmt_def
  by (intro allI impI ccalls) (auto simp: steps)

lemma kwspec_while: "kwspec (Suc n) (while_stmt (Suc n) sr)"
  unfolding kwspec_def while_stmt_def
  by (intro allI impI ccalls) (auto simp: steps)

lemma wp_except_step:
  assumes "good p" "pmu p < Suc n" "t_ty (p_tok p) \<noteq> T_Eof" "p_err p = None \<Longrightarrow> list_all wf_except hs"
    and "\<And>hs p'. adv p p' \<Longrightarrow> (p_err p' = None \<Longrightarrow> list_all wf_except hs) \<Longrightarrow> Q hs p'"
  shows "wp (except_step (Suc n) sr hs) Q p"
  unfolding except_step_def
  by (intro ccalls wp_opt_alias assms(5)) (use assms(1-4) in \<open>auto simp: steps\<close>)

lemma kwspec_try: "kwspec (Suc n) (try_stmt (Suc n) sr)"
proof -
  have handlers: "wp (pwhile (Suc n) (at_ty T_Except) (except_step (Suc n) sr) []) Q p"
    if "good p" "pmu p < Suc n"
      "\<And>hs p'. fwd p p' \<Longrightarrow> (p_err p' = None \<Longrightarrow> list_all wf_except hs) \<Longrightarrow> Q hs p'" for Q p
    by (rule wp_pwhile [where M = pmu and I = "\<lambda>hs p'. fwd p p' \<and> (p_err p' = None \<longrightarrow> list_all wf_except hs)"])
      (use that(1,2) in \<open>auto simp: steps intro!: wp_except_step that(3)\<close>)
  show ?thesis
    unfolding kwspec_def try_stmt_def
    by (intro allI impI ccalls handlers) (auto simp: steps)
qed

lemma kwspecD:
  assumes "kwspec (Suc n) f" "good p" "pmu p < Suc n" "t_ty (p_tok p) \<noteq> T_Eof"
  shows "wp f (\<lambda>s p'. prog p p' \<and> (p_err p' = None \<longrightarrow> pred_opt wf_stmt s)) p"
  using assms by (simp add: kwspec_def)

lemma func_class_stmts: "kwspec (Suc n) (func_def (Suc n) sr [])" "kwspec (Suc n) (class_def (Suc n) sr [] False)"
  unfolding kwspec_def by (auto intro!: wp_func_def wp_class_def)

lemmas compound_stmts = kwspec_return kwspec_raise kwspec_keyword kwspec_del kwspec_lock kwspec_taint
  kwspec_guard kwspec_import kwspec_from_import kwspec_decorated kwspec_only kwspec_seal kwspec_trace
  kwspec_cage kwspec_if kwspec_for kwspec_while kwspec_try func_class_stmts

lemma sspec_statement: "sspec (Suc n) (statement (Suc n) sr)"
  unfolding sspec_def
proof (intro allI impI)
  fix p
  assume p: "good p" "pmu p + 1 < Suc n"
  let ?Q = "\<lambda>s p'. prog p p' \<and> (p_err p' = None \<longrightarrow> pred_opt wf_stmt s)"
  have kw: "wp f ?Q p" if "kwspec (Suc n) f" "t_ty (p_tok p) \<noteq> T_Eof" for f
    using kwspecD [OF that(1)] p that(2) by simp
  have s: "wp f ?Q p" if "sspec (Suc n) f" for f
    using that p by (simp add: sspec_def)
  have nl: "wp (do { p_next; ret None }) ?Q p" if "t_ty (p_tok p) = T_Newline"
    by (intro wp_intro wp_next) (use p that in \<open>auto simp: steps\<close>)
  have semis: "wp (do { pwhile (Suc n) (at_ty T_Semicolon) (\<lambda>u. p_next) (); ret None }) ?Q p"
    if "t_ty (p_tok p) = T_Semicolon"
    by (intro wp_intro wp_semicolons) (use p that in \<open>auto simp: steps\<close>)
  have taint: "wp (taint_decl_stmt (Suc n) safe) ?Q p" if "t_ty (p_tok p) = T_Safe \<or> t_ty (p_tok p) = T_Mask" for safe
    using kw [OF kwspec_taint] that by auto
  show "wp (statement (Suc n) sr) ?Q p"
    unfolding statement_def
    by (rule wp_bind, rule wp_tok, intro wp_if nl semis taint)
      (simp_all add: nl semis kw compound_stmts s sspec_unsupported sspec_simple_stmt)
qed

end

lemma stmt_calls_statement_k: "stmt_calls n (statement_k n)"
proof (induction n)
  case 0
  then show ?case by (simp add: stmt_calls_def sspec_def)
next
  case (Suc n)
  then show ?case
    using stmt_calls.sspec_statement by (simp add: stmt_calls_def statement_k.simps)
qed

interpretation statement_calls: stmt_calls n "statement_k n" for n
  by (rule stmt_calls_statement_k)

subsection \<open>Modules\<close>

lemma parser_new_good: "good (parser_new src)" and parser_new_pmu: "pmu (parser_new src) + 1 < parse_fuel src"
proof -
  define p where "p = \<lparr>p_lex = lexer_new src, p_tok = mk_token T_Illegal [] \<lparr>pos_line = 0, pos_col = 0\<rparr>,
    p_peeked = None, p_err = None, p_stuck = False\<rparr>"
  have p: "good p" "pmu p = 8 * length src + 7" "t_ty (p_tok p) \<noteq> T_Eof"
    by (simp_all add: p_def good_def lexer_new_inv token_ok_def mk_token_def pmu_def lx_measure_new)
  have new: "parser_new src = next_tok p" by (simp add: parser_new_def p_def)
  show "good (parser_new src)" "pmu (parser_new src) + 1 < parse_fuel src"
    using good_next_tok [OF p(1)] pmu_next_tok(2) [OF p(1,3)] p(2) by (simp_all add: new parse_fuel_def)
qed

definition parsed :: "module option \<Rightarrow> parser \<Rightarrow> bool" where
  "parsed m p \<longleftrightarrow> good p \<and> (m = None \<longrightarrow> lx_err (p_lex p) \<noteq> None) \<and>
     (p_err p = None \<longrightarrow> pred_opt wf_module m \<and> (m \<noteq> None \<longrightarrow> at_ty T_Eof p))"

lemma wp_parse_module:
  assumes "good p" "pmu p + 1 < n"
  shows "wp (parse_module n) parsed p"
  unfolding parse_module_def
  by (intro wp_intro wp_stmt_block [OF statement_calls.rec_spec])
    (use assms in \<open>auto simp: parsed_def steps wf_module_def\<close>)

lemma parse_with_parsed:
  assumes "parse_fuel src \<le> n" "parse_with n src = ((m, e), p)"
  shows "parsed m p" "e = parser_err p"
proof -
  have "wp (parse_module n) parsed (parser_new src)"
    using parser_new_good parser_new_pmu [of src] assms(1) by (intro wp_parse_module) auto
  with assms(2) show "parsed m p" "e = parser_err p"
    by (auto simp: wp_def parse_with_def split: prod.splits)
qed

text \<open>A run on a small source: \<open>pass\<close>.\<close>

lemma run_gets: "run_state (gets f) p = (f p, p)" by (simp add: gets_def)
lemma run_modify: "run_state (modify f) p = ((), f p)" by (simp add: modify_def)

lemma pass_tokens:
  "map (\<lambda>n. t_ty (p_tok ((next_tok ^^ n) (parser_new ''pass'')))) [0, 1, 2] = [T_Pass, T_Newline, T_Eof]"
  "map (\<lambda>n. p_err ((next_tok ^^ n) (parser_new ''pass''))) [0, 1, 2] = [None, None, None]"
  "map (\<lambda>n. lx_err (p_lex ((next_tok ^^ n) (parser_new ''pass'')))) [0, 1, 2] = [None, None, None]"
  by code_simp+

lemma parse_pass: "parse ''pass'' = (Some (Module (token_pos (p_tok (next_tok (next_tok (parser_new ''pass'')))))
   [Pass (token_pos (p_tok (parser_new ''pass'')))]), None)"
proof -
  define p where "p = parser_new ''pass''"
  note tok = pass_tokens [folded p_def, simplified, simplified numeral_2_eq_2, simplified] 
  obtain k where fuel: "parse_fuel ''pass'' = Suc (Suc (Suc k))"
    by (rule that [of 37]) (simp add: parse_fuel_def)
  show ?thesis
    by (simp add: parse_def parse_with_def parse_module_def run_gets run_modify p_def [symmetric] tok fuel
      stmt_block_def statement_k.simps statement_def tok_ty_def keyword_stmt_def tok_pos_def p_next_def
      stmt_end_def at_ty_def parser_err_def cur_tok_def)
qed

text \<open>
  C15: the parser terminates on every source: with the fuel of \<open>parse\<close> no loop and no recursion of
  the parser is ever cut off, so \<open>parse\<close> is what the source's unbounded loops compute.\<close>

theorem parse_terminates: "\<not> p_stuck (snd (parse_with (parse_fuel src) src))"
proof -
  obtain m e p where "parse_with (parse_fuel src) src = ((m, e), p)" by (metis surj_pair)
  with parse_with_parsed(1) [of src "parse_fuel src"] show ?thesis by (simp add: parsed_def good_def)
qed

text \<open>
  C3: an accepted source gives a well-formed module: identifiers are identifiers, assignment
  targets are targets, operators are operators of the language, a \<open>cage\<close> has a limit and a positive
  time, and no clause that the grammar requires is missing.\<close>

theorem parse_accepts_wf:
  assumes "parse src = (Some m, None)"
  shows "wf_module m"
proof -
  obtain p where "parse_with (parse_fuel src) src = ((Some m, None), p)"
    using assms by (metis parse_def prod.collapse)
  from parse_with_parsed [OF order_refl this] show ?thesis
    by (simp add: parsed_def parser_err_def split: option.splits)
qed

theorem parse_accepts_wf_witness:
  "wf_module (Module (token_pos (p_tok (next_tok (next_tok (parser_new ''pass'')))))
     [Pass (token_pos (p_tok (parser_new ''pass'')))])"
  by (rule parse_accepts_wf [OF parse_pass])

text \<open>
  C29: the parser never gives up silently: it returns a module or a diagnostic, and without a
  diagnostic it has read the source to its end.\<close>

theorem parse_module_or_diagnostic:
  "case parse_with (parse_fuel src) src of ((m, e), p) \<Rightarrow>
     if e = None then m \<noteq> None \<and> t_ty (p_tok p) = T_Eof else True"
proof -
  obtain m e p where r: "parse_with (parse_fuel src) src = ((m, e), p)" by (metis surj_pair)
  from parse_with_parsed [OF order_refl this] show ?thesis
    by (auto simp: r parsed_def parser_err_def at_ty_def split: option.splits)
qed

end
