(* ===== verification/Fly_Units_Spec.thy ===== *)
theory Fly_Units_Spec
  imports Fly_Units
begin

text \<open>
  What the limits of a \<open>cage\<close> block mean: a memory limit is the product of its number and its unit
  as long as that product is an \<open>i64\<close>; beyond, the product wraps around.
\<close>

definition mem_unit :: "string \<Rightarrow> int option" where
  "mem_unit u = map_of [([], 1), (''B'', 1), (''KB'', 2 ^ 10), (''KiB'', 2 ^ 10), (''MB'', 2 ^ 20), (''MiB'', 2 ^ 20),
     (''GB'', 2 ^ 30), (''GiB'', 2 ^ 30)] u"

lemma mem_unit_bounds: "mem_unit u = Some k \<Longrightarrow> 1 \<le> k \<and> k \<le> 2 ^ 30"
  by (auto simp: mem_unit_def split: if_splits)

lemma mem_unit_no_digit: "mem_unit u = Some k \<Longrightarrow> u = [] \<or> \<not> is_digit (hd u)"
  by (auto simp: mem_unit_def is_digit_def ord_def of_char_def split: if_splits)

lemma split_number:
  assumes "list_all is_digit ds" "u = [] \<or> \<not> is_digit (hd u)"
  shows "takeWhile is_digit (ds @ u) = ds" "dropWhile is_digit (ds @ u) = u"
  using assms by (cases u; simp add: list_all_iff takeWhile_append2)+

lemma parse_mem_spec_unit:
  "parse_mem_spec v = (let ds = takeWhile is_digit v in
     if ds = [] \<or> i64_max < dec_value ds \<or> dec_value ds \<le> 0 then None
     else map_option (\<lambda>k. wrap_i64 (dec_value ds * k)) (mem_unit (dropWhile is_digit v)))"
  by (simp add: parse_mem_spec_def parse_i64_def mem_unit_def Let_def)

lemma wrap_i64_id: "- i64_max - 1 \<le> x \<Longrightarrow> x \<le> i64_max \<Longrightarrow> wrap_i64 x = x"
  by (simp add: wrap_i64_def i64_max_def)

lemma wrap_i64_mod: "wrap_i64 x mod 2 ^ 64 = x mod 2 ^ 64"
  by (simp add: wrap_i64_def mod_simps)

lemma wrap_i64_range: "- i64_max - 1 \<le> wrap_i64 x" "wrap_i64 x \<le> i64_max"
  using pos_mod_bound [of "2 ^ 64" "x + 2 ^ 63"] by (simp_all add: wrap_i64_def i64_max_def)

text \<open>
  C31: a memory limit whose value fits \<open>i64\<close> is accepted with exactly that value, for every number
  and every unit.\<close>

theorem parse_mem_spec_exact:
  assumes "ds \<noteq> []" "list_all is_digit ds" "mem_unit u = Some k"
    and "0 < dec_value ds" "dec_value ds * k \<le> i64_max"
  shows "parse_mem_spec (ds @ u) = Some (dec_value ds * k)"
proof -
  have k: "1 \<le> k" using mem_unit_bounds assms(3) by blast
  then have le: "dec_value ds \<le> dec_value ds * k" using assms(4) by simp
  have "0 \<le> dec_value ds * k" using assms(4) k by simp
  then have "wrap_i64 (dec_value ds * k) = dec_value ds * k"
    using assms(5) by (intro wrap_i64_id) (simp_all add: i64_max_def)
  then show ?thesis
    using assms order_trans [OF le assms(5)] split_number [OF assms(2) mem_unit_no_digit [OF assms(3)]]
    by (simp add: parse_mem_spec_unit Let_def)
qed

theorem parse_mem_spec_exact_witness: "parse_mem_spec ''512MB'' = Some 536870912"
  using parse_mem_spec_exact [of "''512''" "''MB''" "2 ^ 20"]
  by (simp add: is_digit_def ord_def of_char_def mem_unit_def dec_value_def i64_max_def)

text \<open>
  Note: what \<open>parse_mem_spec\<close> accepts is a positive number in digits followed by a unit, and the limit
  it returns is their product modulo \<open>2\<^sup>6\<^sup>4\<close>, as an \<open>i64\<close>.\<close>

theorem parse_mem_spec_range:
  assumes "parse_mem_spec v = Some b"
  shows "(\<exists>ds u k. v = ds @ u \<and> list_all is_digit ds \<and> mem_unit u = Some k \<and> 0 < dec_value ds \<and>
    b mod 2 ^ 64 = (dec_value ds * k) mod 2 ^ 64) \<and> - i64_max - 1 \<le> b \<and> b \<le> i64_max"
proof -
  let ?ds = "takeWhile is_digit v" and ?u = "dropWhile is_digit v"
  from assms obtain k where k: "0 < dec_value ?ds" "mem_unit ?u = Some k" and b: "b = wrap_i64 (dec_value ?ds * k)"
    by (auto simp: parse_mem_spec_unit Let_def split: if_splits)
  have "b mod 2 ^ 64 = (dec_value ?ds * k) mod 2 ^ 64" "- i64_max - 1 \<le> b" "b \<le> i64_max"
    unfolding b by (rule wrap_i64_mod wrap_i64_range)+
  moreover have "list_all is_digit ?ds" by (auto simp: list_all_iff dest: set_takeWhileD)
  ultimately show ?thesis using k by (metis takeWhile_dropWhile_id)
qed

theorem parse_mem_spec_range_witness: "parse_mem_spec ''1GiB'' = Some 1073741824 \<and> (1073741824::int) \<le> i64_max"
proof -
  have v: "parse_mem_spec ''1GiB'' = Some 1073741824" by code_simp
  with parse_mem_spec_range [OF v] show ?thesis by blast
qed

text \<open>
  Note: the product of number and unit is not checked for overflow: \<open>max_memory="17179869184GB"\<close> is
  accepted and means no bytes at all, and \<open>8589934592GB\<close> is accepted as a negative limit.\<close>

theorem parse_mem_spec_overflow:
  "parse_mem_spec ''17179869184GB'' = Some 0 \<and> parse_mem_spec ''8589934592GB'' = Some (- i64_max - 1)"
  by code_simp

end
