(* ===== verification/Fly_Types.thy ===== *)
theory Fly_Types
  imports Fly_Ast "HOL-Library.Char_ord" "HOL-Library.List_Lexorder"
begin

text \<open>
  Static type inference (\<^verbatim>\<open>src/typeinfer.rs\<close>): five rounds over the module that guess the types of
  variables, parameters and results, and the predicates \<open>plain_*\<close> by which the code generator leaves
  out a runtime check.

  A \<open>HashMap\<close> is a map; \<open>fn_defs\<close>, whose keys are enumerated, is an association list.  \<open>fn_defs\<close>
  keeps the parameters and the body of a definition, which is all that is read of it.
\<close>

datatype ty = TUnknown | TInt | TFloat | TStr | TBool | TNone | TList | TDict | TSet | TTuple

type_synonym tymap = "string \<rightharpoonup> ty"
type_synonym fn_def = "param list \<times> stmt list"

record type_infer =
  ti_m :: module
  ti_module_vars :: tymap
  ti_fn_vars :: "string \<rightharpoonup> tymap"
  ti_param_types :: "string \<rightharpoonup> ty list"
  ti_arg_set :: "string \<rightharpoonup> bool"
  ti_ret_types :: tymap
  ti_fn_defs :: "(string \<times> fn_def) list"

text \<open>\<open>m.insert(k, v)\<close> on an association list, and \<open>m.get(k).unwrap_or(d)\<close>.\<close>

definition assoc_insert :: "'k \<Rightarrow> 'v \<Rightarrow> ('k \<times> 'v) list \<Rightarrow> ('k \<times> 'v) list" where
  "assoc_insert k v m = (k, v) # filter (\<lambda>(k', _). k' \<noteq> k) m"

definition get_or :: "('k \<rightharpoonup> 'v) \<Rightarrow> 'k \<Rightarrow> 'v \<Rightarrow> 'v" where
  "get_or m k d = (case m k of Some v \<Rightarrow> v | None \<Rightarrow> d)"

fun walk_defs :: "stmt list \<Rightarrow> (string \<times> fn_def) list \<Rightarrow> (string \<times> fn_def) list" where
  "walk_defs [] out = out"
| "walk_defs (FuncDef _ name ps _ body _ # ss) out = walk_defs ss (assoc_insert name (ps, body) out)"
| "walk_defs (ClassDef _ _ _ body _ _ # ss) out = walk_defs ss (walk_defs body out)"
| "walk_defs (_ # ss) out = walk_defs ss out"

definition type_infer_new :: "module \<Rightarrow> type_infer" where
  "type_infer_new m =
     \<lparr>ti_m = m, ti_module_vars = Map.empty, ti_fn_vars = Map.empty, ti_param_types = Map.empty,
      ti_arg_set = Map.empty, ti_ret_types = Map.empty, ti_fn_defs = walk_defs (mod_stmts m) []\<rparr>"

subsection \<open>Types of expressions\<close>

definition merge_type :: "ty \<Rightarrow> ty \<Rightarrow> ty" where
  "merge_type a b = (if a = TUnknown \<or> b = TUnknown \<or> a \<noteq> b then TUnknown else a)"

definition set_type :: "tymap \<Rightarrow> string \<Rightarrow> ty \<Rightarrow> tymap" where
  "set_type m name t = (case m name of Some cur \<Rightarrow> m(name \<mapsto> merge_type cur t) | None \<Rightarrow> m(name \<mapsto> t))"

definition callable_ret :: "string \<Rightarrow> ty" where
  "callable_ret name =
     (if name \<in> {''int'', ''len'', ''hash'', ''ord'', ''abs'', ''sum'', ''round'', ''pow''} then TInt
      else if name \<in> {''str'', ''repr'', ''chr'', ''format'', ''hex'', ''oct'', ''bin''} then TStr
      else if name = ''float'' then TFloat
      else if name \<in> {''bool'', ''isinstance'', ''callable'', ''hasattr'', ''issubclass''} then TBool
      else if name = ''input'' then TStr
      else if name = ''range'' then TInt
      else if name \<in> {''list'', ''sorted'', ''reversed'', ''filter'', ''map'', ''zip''} then TList
      else if name \<in> {''dict'', ''enumerate''} then TDict
      else if name \<in> {''set'', ''frozenset''} then TSet
      else if name = ''tuple'' then TTuple
      else TUnknown)"

definition name_type :: "type_infer \<Rightarrow> tymap option \<Rightarrow> string \<Rightarrow> string \<Rightarrow> ty" where
  "name_type ti scope fn_name name =
     (case (case scope of Some sc \<Rightarrow> sc name | None \<Rightarrow> None) of
        Some t \<Rightarrow> t
      | None \<Rightarrow>
          case (if fn_name \<noteq> [] then (case ti_fn_vars ti fn_name of Some fv \<Rightarrow> fv name | None \<Rightarrow> None) else None) of
            Some t \<Rightarrow> t
          | None \<Rightarrow> get_or (ti_module_vars ti) name TUnknown)"

definition bin_expr_type :: "string \<Rightarrow> ty \<Rightarrow> ty \<Rightarrow> ty" where
  "bin_expr_type op xt yt =
     (if op = ''+'' then (if xt = TInt \<and> yt = TInt \<or> xt = TStr \<and> yt = TStr then xt else TUnknown)
      else if op \<in> {''-'', ''*'', ''//'', ''%'', ''<<'', ''>>'', ''&'', ''|'', ''^''} then
        (if xt = TInt \<and> yt = TInt then TInt else TUnknown)
      else if op = ''/'' then TFloat
      else if op = ''**'' then (if xt = TInt \<and> yt = TInt then TInt else TUnknown)
      else TUnknown)"

definition call_type :: "type_infer \<Rightarrow> expr \<Rightarrow> ty" where
  "call_type ti func =
     (case func of
        Name _ name \<Rightarrow>
          if name \<in> fst ` set (ti_fn_defs ti) then get_or (ti_ret_types ti) name TUnknown
          else callable_ret name
      | _ \<Rightarrow> TUnknown)"

fun expr_type :: "type_infer \<Rightarrow> expr \<Rightarrow> tymap option \<Rightarrow> string \<Rightarrow> ty" where
  "expr_type ti (IntLit _ _) scope fn_name = TInt"
| "expr_type ti (FloatLit _ _) scope fn_name = TFloat"
| "expr_type ti (StringLit _ _) scope fn_name = TStr"
| "expr_type ti (Name _ name) scope fn_name = name_type ti scope fn_name name"
| "expr_type ti (ListLit _ _) scope fn_name = TList"
| "expr_type ti (DictLit _ _ _) scope fn_name = TDict"
| "expr_type ti (SetLit _ _) scope fn_name = TSet"
| "expr_type ti (BinOp _ op x y) scope fn_name =
     bin_expr_type op (expr_type ti x scope fn_name) (expr_type ti y scope fn_name)"
| "expr_type ti (UnaryOp _ op x) scope fn_name =
     (if op = ''not'' then TBool
      else let xt = expr_type ti x scope fn_name in
        if xt = TInt then TInt else if xt = TFloat then TFloat else TUnknown)"
| "expr_type ti (BoolOp _ _ x y) scope fn_name =
     merge_type (expr_type ti x scope fn_name) (expr_type ti y scope fn_name)"
| "expr_type ti (Cond _ _ thn els) scope fn_name =
     merge_type (expr_type ti thn scope fn_name) (expr_type ti els scope fn_name)"
| "expr_type ti (Call _ func _ _ _ _) scope fn_name = call_type ti func"
| "expr_type ti (ListComp _ _ _) scope fn_name = TList"
| "expr_type ti (Subscript _ _ _) scope fn_name = TUnknown"
| "expr_type ti (Attr _ _ _) scope fn_name = TUnknown"
| "expr_type ti (Slice _ _ _ _) scope fn_name = TUnknown"
| "expr_type ti (EllipsisLit _) scope fn_name = TUnknown"
| "expr_type ti (TupleLit _ _ _) scope fn_name = TUnknown"
| "expr_type ti (Compare _ _ _ _) scope fn_name = TUnknown"

definition bin_op_type :: "string \<Rightarrow> ty \<Rightarrow> ty \<Rightarrow> ty" where
  "bin_op_type op a b =
     (if op = ''+'' then (if a = TInt \<and> b = TInt \<or> a = TStr \<and> b = TStr then a else TUnknown)
      else if op \<in> {''-'', ''*'', ''//'', ''%''} then (if a = TInt \<and> b = TInt then TInt else TUnknown)
      else TUnknown)"

definition is_range_call :: "expr \<Rightarrow> bool" where
  "is_range_call e = (case e of Call _ (Name _ name) _ _ _ _ \<Rightarrow> name = ''range'' | _ \<Rightarrow> False)"

definition iter_elem_type :: "type_infer \<Rightarrow> expr \<Rightarrow> tymap option \<Rightarrow> string \<Rightarrow> ty" where
  "iter_elem_type ti iter scope fn_name =
     (if is_range_call iter then TInt else expr_type ti iter scope fn_name)"

definition trim_aug :: "string \<Rightarrow> string" where
  "trim_aug op = (if 1 < length op \<and> last op = CHR ''='' then butlast op else op)"

subsection \<open>Variables and results\<close>

type_synonym collect = "type_infer \<times> tymap"

definition collect_assign :: "expr list \<Rightarrow> string \<Rightarrow> expr \<Rightarrow> string \<Rightarrow> collect \<Rightarrow> collect" where
  "collect_assign left op right fn_name st =
     (case st of (ti, scope) \<Rightarrow>
        let rt = expr_type ti right (Some scope) fn_name in
        case left of
          [Name _ name] \<Rightarrow>
            (if op = ''='' then (ti, set_type scope name rt)
             else let lt = get_or scope name TUnknown in
               (ti, set_type scope name (bin_op_type (trim_aug op) lt rt)))
        | _ \<Rightarrow> (ti, scope))"

definition collect_target :: "expr \<Rightarrow> expr \<Rightarrow> string \<Rightarrow> collect \<Rightarrow> collect" where
  "collect_target target iter fn_name st =
     (case st of (ti, scope) \<Rightarrow>
        let elem = iter_elem_type ti iter (Some scope) fn_name in
        case target of Name _ name \<Rightarrow> (ti, set_type scope name elem) | _ \<Rightarrow> (ti, scope))"

definition collect_return :: "expr option \<Rightarrow> string \<Rightarrow> collect \<Rightarrow> collect" where
  "collect_return val fn_name st =
     (case st of (ti, scope) \<Rightarrow>
        case val of
          None \<Rightarrow> (ti, scope)
        | Some v \<Rightarrow>
            let rt = expr_type ti v (Some scope) fn_name in
            (ti\<lparr>ti_ret_types := (ti_ret_types ti)(fn_name \<mapsto>
               (case ti_ret_types ti fn_name of Some cur \<Rightarrow> merge_type cur rt | None \<Rightarrow> rt))\<rparr>, scope))"

text \<open>A loop that runs one action per element, in order.\<close>

definition in_order :: "('s \<Rightarrow> 's) list \<Rightarrow> 's \<Rightarrow> 's" where
  "in_order = fold (\<lambda>g. g)"

lemma in_order_simps [simp]: "in_order [] st = st" "in_order (g # gs) st = in_order gs (g st)"
  by (simp_all add: in_order_def)

primrec collect_stmt :: "string \<Rightarrow> stmt \<Rightarrow> collect \<Rightarrow> collect"
  and collect_elif :: "string \<Rightarrow> elif_clause \<Rightarrow> collect \<Rightarrow> collect"
  and collect_handler :: "string \<Rightarrow> except_clause \<Rightarrow> collect \<Rightarrow> collect" where
  "collect_stmt f (Assign _ left op right) = collect_assign left op right f"
| "collect_stmt f (For _ target iter body els) = (\<lambda>st.
     in_order (map (collect_stmt f) els) (in_order (map (collect_stmt f) body) (collect_target target iter f st)))"
| "collect_stmt f (While _ _ body els) = (\<lambda>st.
     in_order (map (collect_stmt f) els) (in_order (map (collect_stmt f) body) st))"
| "collect_stmt f (If _ _ thn elifs els) = (\<lambda>st.
     in_order (map (collect_stmt f) els) (in_order (map (collect_stmt f) thn)
       (in_order (map (collect_elif f) elifs) st)))"
| "collect_stmt f (Try _ body handlers els fin) = (\<lambda>st.
     in_order (map (collect_stmt f) fin) (in_order (map (collect_stmt f) els)
       (in_order (map (collect_handler f) handlers) (in_order (map (collect_stmt f) body) st))))"
| "collect_stmt f (Return _ val) = collect_return val f"
| "collect_stmt f (Import _ _) = (\<lambda>st. st)"
| "collect_stmt f (FromImport _ _ _) = (\<lambda>st. st)"
| "collect_stmt f (Lock _ _ _) = (\<lambda>st. st)"
| "collect_stmt f (Safe _ _) = (\<lambda>st. st)"
| "collect_stmt f (Mask _ _) = (\<lambda>st. st)"
| "collect_stmt f (Guard _ _ _ _) = (\<lambda>st. st)"
| "collect_stmt f (ExprStmt _ _) = (\<lambda>st. st)"
| "collect_stmt f (FuncDef _ _ _ _ _ _) = (\<lambda>st. st)"
| "collect_stmt f (ClassDef _ _ _ _ _ _) = (\<lambda>st. st)"
| "collect_stmt f (Only _ _ _) = (\<lambda>st. st)"
| "collect_stmt f (Trace _ _ _ _ _) = (\<lambda>st. st)"
| "collect_stmt f (Cage _ _ _ _ _ _) = (\<lambda>st. st)"
| "collect_stmt f (Raise _ _ _) = (\<lambda>st. st)"
| "collect_stmt f (Pass _) = (\<lambda>st. st)"
| "collect_stmt f (Break _) = (\<lambda>st. st)"
| "collect_stmt f (Continue _) = (\<lambda>st. st)"
| "collect_stmt f (Delete _ _) = (\<lambda>st. st)"
| "collect_elif f (ElifClause _ _ body) = in_order (map (collect_stmt f) body)"
| "collect_handler f (ExceptClause _ _ _ body) = in_order (map (collect_stmt f) body)"

definition collect_stmts :: "string \<Rightarrow> stmt list \<Rightarrow> collect \<Rightarrow> collect" where
  "collect_stmts f ss = in_order (map (collect_stmt f) ss)"

subsection \<open>Calls\<close>

fun bind_args :: "string \<Rightarrow> tymap option \<Rightarrow> string \<Rightarrow> expr list \<Rightarrow> ty list \<Rightarrow> type_infer \<Rightarrow> ty list \<times> type_infer" where
  "bind_args name scope fn_name (a # as) (c # cs) ti =
     (let t = expr_type ti a scope fn_name;
          first = (c = TUnknown \<and> \<not> get_or (ti_arg_set ti) name False);
          (cs', ti') = bind_args name scope fn_name as cs
            (if first then ti\<lparr>ti_arg_set := (ti_arg_set ti)(name \<mapsto> True)\<rparr> else ti)
      in ((if first then t else merge_type c t) # cs', ti'))"
| "bind_args name scope fn_name _ cs ti = (cs, ti)"

definition note_call :: "tymap option \<Rightarrow> string \<Rightarrow> expr \<Rightarrow> expr list \<Rightarrow> type_infer \<Rightarrow> type_infer" where
  "note_call scope fn_name func args ti =
     (case func of
        Name _ name \<Rightarrow>
          if name \<in> fst ` set (ti_fn_defs ti) then
            let cur = get_or (ti_param_types ti) name [];
                cur = cur @ replicate (length args - length cur) TUnknown;
                (cur, ti) = bind_args name scope fn_name args cur ti
            in ti\<lparr>ti_param_types := (ti_param_types ti)(name \<mapsto> cur)\<rparr>
          else ti
      | _ \<Rightarrow> ti)"

text \<open>\<open>for (i, k) in keys { f(k); if i < vals.len() { f(vals[i]) } }\<close>\<close>

fun interleave :: "'a list \<Rightarrow> 'a list \<Rightarrow> 'a list" where
  "interleave (k # ks) (v # vs) = k # v # interleave ks vs"
| "interleave ks [] = ks"
| "interleave [] vs = []"

definition opt_action :: "('s \<Rightarrow> 's) option \<Rightarrow> 's \<Rightarrow> 's" where
  "opt_action g = (case g of Some h \<Rightarrow> h | None \<Rightarrow> (\<lambda>st. st))"

primrec collect_calls :: "tymap option \<Rightarrow> string \<Rightarrow> expr \<Rightarrow> type_infer \<Rightarrow> type_infer"
  and collect_calls_clause :: "tymap option \<Rightarrow> string \<Rightarrow> comp_clause \<Rightarrow> type_infer \<Rightarrow> type_infer" where
  "collect_calls sc f (Name _ _) = (\<lambda>ti. ti)"
| "collect_calls sc f (IntLit _ _) = (\<lambda>ti. ti)"
| "collect_calls sc f (FloatLit _ _) = (\<lambda>ti. ti)"
| "collect_calls sc f (StringLit _ _) = (\<lambda>ti. ti)"
| "collect_calls sc f (Call _ func args _ _ _) = (\<lambda>ti.
     in_order (map (collect_calls sc f) args) (note_call sc f func args ti))"
| "collect_calls sc f (BinOp _ _ x y) = (\<lambda>ti. collect_calls sc f y (collect_calls sc f x ti))"
| "collect_calls sc f (UnaryOp _ _ x) = collect_calls sc f x"
| "collect_calls sc f (BoolOp _ _ x y) = (\<lambda>ti. collect_calls sc f y (collect_calls sc f x ti))"
| "collect_calls sc f (Cond _ c t e) = (\<lambda>ti.
     collect_calls sc f e (collect_calls sc f t (collect_calls sc f c ti)))"
| "collect_calls sc f (Attr _ x _) = collect_calls sc f x"
| "collect_calls sc f (Subscript _ x i) = (\<lambda>ti. collect_calls sc f i (collect_calls sc f x ti))"
| "collect_calls sc f (Slice _ lo hi step) = (\<lambda>ti.
     opt_action (map_option (collect_calls sc f) step) (opt_action (map_option (collect_calls sc f) hi)
       (opt_action (map_option (collect_calls sc f) lo) ti)))"
| "collect_calls sc f (ListLit _ es) = in_order (map (collect_calls sc f) es)"
| "collect_calls sc f (DictLit _ ks vs) =
     in_order (interleave (map (collect_calls sc f) ks) (map (collect_calls sc f) vs))"
| "collect_calls sc f (SetLit _ es) = in_order (map (collect_calls sc f) es)"
| "collect_calls sc f (ListComp _ e cls) = (\<lambda>ti.
     in_order (map (collect_calls_clause sc f) cls) (collect_calls sc f e ti))"
| "collect_calls sc f (TupleLit _ es _) = in_order (map (collect_calls sc f) es)"
| "collect_calls sc f (EllipsisLit _) = (\<lambda>ti. ti)"
| "collect_calls sc f (Compare _ _ _ _) = (\<lambda>ti. ti)"
| "collect_calls_clause sc f (CompClause _ iter ifs) = (\<lambda>ti.
     in_order (map (collect_calls sc f) ifs) (collect_calls sc f iter ti))"

primrec collect_calls_stmt :: "tymap \<Rightarrow> string \<Rightarrow> stmt \<Rightarrow> type_infer \<Rightarrow> type_infer"
  and collect_calls_elif :: "tymap \<Rightarrow> string \<Rightarrow> elif_clause \<Rightarrow> type_infer \<Rightarrow> type_infer"
  and collect_calls_handler :: "tymap \<Rightarrow> string \<Rightarrow> except_clause \<Rightarrow> type_infer \<Rightarrow> type_infer" where
  "collect_calls_stmt sc f (ExprStmt _ x) = collect_calls (Some sc) f x"
| "collect_calls_stmt sc f (Assign _ left _ right) = (\<lambda>ti.
     in_order (map (collect_calls (Some sc) f) left) (collect_calls (Some sc) f right ti))"
| "collect_calls_stmt sc f (Return _ val) = opt_action (map_option (collect_calls (Some sc) f) val)"
| "collect_calls_stmt sc f (If _ c thn elifs els) = (\<lambda>ti.
     in_order (map (collect_calls_stmt sc f) els) (in_order (map (collect_calls_stmt sc f) thn)
       (collect_calls (Some sc) f c (in_order (map (collect_calls_elif sc f) elifs) ti))))"
| "collect_calls_stmt sc f (For _ _ iter body _) = (\<lambda>ti.
     in_order (map (collect_calls_stmt sc f) body) (collect_calls (Some sc) f iter ti))"
| "collect_calls_stmt sc f (While _ c body _) = (\<lambda>ti.
     in_order (map (collect_calls_stmt sc f) body) (collect_calls (Some sc) f c ti))"
| "collect_calls_stmt sc f (Try _ body handlers _ _) = (\<lambda>ti.
     in_order (map (collect_calls_handler sc f) handlers) (in_order (map (collect_calls_stmt sc f) body) ti))"
| "collect_calls_stmt sc f (Import _ _) = (\<lambda>ti. ti)"
| "collect_calls_stmt sc f (FromImport _ _ _) = (\<lambda>ti. ti)"
| "collect_calls_stmt sc f (Lock _ _ _) = (\<lambda>ti. ti)"
| "collect_calls_stmt sc f (Safe _ _) = (\<lambda>ti. ti)"
| "collect_calls_stmt sc f (Mask _ _) = (\<lambda>ti. ti)"
| "collect_calls_stmt sc f (Guard _ _ _ _) = (\<lambda>ti. ti)"
| "collect_calls_stmt sc f (FuncDef _ _ _ _ _ _) = (\<lambda>ti. ti)"
| "collect_calls_stmt sc f (ClassDef _ _ _ _ _ _) = (\<lambda>ti. ti)"
| "collect_calls_stmt sc f (Only _ _ _) = (\<lambda>ti. ti)"
| "collect_calls_stmt sc f (Trace _ _ _ _ _) = (\<lambda>ti. ti)"
| "collect_calls_stmt sc f (Cage _ _ _ _ _ _) = (\<lambda>ti. ti)"
| "collect_calls_stmt sc f (Raise _ _ _) = (\<lambda>ti. ti)"
| "collect_calls_stmt sc f (Pass _) = (\<lambda>ti. ti)"
| "collect_calls_stmt sc f (Break _) = (\<lambda>ti. ti)"
| "collect_calls_stmt sc f (Continue _) = (\<lambda>ti. ti)"
| "collect_calls_stmt sc f (Delete _ _) = (\<lambda>ti. ti)"
| "collect_calls_elif sc f (ElifClause _ c body) = (\<lambda>ti.
     in_order (map (collect_calls_stmt sc f) body) (collect_calls (Some sc) f c ti))"
| "collect_calls_handler sc f (ExceptClause _ _ _ body) = in_order (map (collect_calls_stmt sc f) body)"

definition collect_calls_stmts :: "tymap \<Rightarrow> string \<Rightarrow> stmt list \<Rightarrow> type_infer \<Rightarrow> type_infer" where
  "collect_calls_stmts sc f ss = in_order (map (collect_calls_stmt sc f) ss)"

subsection \<open>Rounds\<close>

definition only_unknown :: "tymap \<Rightarrow> tymap" where
  "only_unknown m = (\<lambda>k. if m k = Some TUnknown then Some TUnknown else None)"

text \<open>
  \<open>self.m.stmts\<close> and \<open>self.module_vars\<close> are taken out while the module is walked: what looks
  them up in between sees them empty.
\<close>

definition module_round :: "type_infer \<Rightarrow> type_infer" where
  "module_round ti =
     (let stmts = mod_stmts (ti_m ti);
          mv = only_unknown (ti_module_vars ti);
          (ti, mv) = collect_stmts [] stmts (ti\<lparr>ti_module_vars := Map.empty\<rparr>, mv);
          ti = collect_calls_stmts mv [] stmts ti
      in ti\<lparr>ti_module_vars := mv\<rparr>)"

fun param_scope :: "param list \<Rightarrow> ty list \<Rightarrow> tymap \<Rightarrow> tymap" where
  "param_scope (p # ps) (t # ts) sc = param_scope ps ts (if prm_name p \<noteq> [] then sc(prm_name p \<mapsto> t) else sc)"
| "param_scope _ _ sc = sc"

definition merge_scope :: "tymap \<Rightarrow> tymap \<Rightarrow> tymap" where
  "merge_scope prev scope = (\<lambda>k. case (scope k, prev k) of
     (Some v, Some pv) \<Rightarrow> Some (merge_type pv v) | (r, _) \<Rightarrow> r)"

definition fn_round :: "string \<Rightarrow> fn_def \<Rightarrow> type_infer \<Rightarrow> type_infer" where
  "fn_round name def ti =
     (let scope = param_scope (fst def) (get_or (ti_param_types ti) name []) Map.empty;
          prev = get_or (ti_fn_vars ti) name Map.empty;
          ti = ti\<lparr>ti_fn_vars := (ti_fn_vars ti)(name \<mapsto> only_unknown prev)\<rparr>;
          (ti, scope) = collect_stmts name (snd def) (ti, scope);
          ti = ti\<lparr>ti_fn_vars := (ti_fn_vars ti)(name \<mapsto> merge_scope prev scope)\<rparr>
      in collect_calls_stmts (get_or (ti_fn_vars ti) name Map.empty) name (snd def) ti)"

definition fn_rounds :: "type_infer \<Rightarrow> type_infer" where
  "fn_rounds ti =
     (let defs = ti_fn_defs ti in
      fold (\<lambda>name ti. case map_of defs name of Some def \<Rightarrow> fn_round name def ti | None \<Rightarrow> ti)
        (sort (map fst defs)) ti)"

definition run_round :: "type_infer \<Rightarrow> type_infer" where
  "run_round ti = fn_rounds (module_round ti)"

definition ti_run :: "type_infer \<Rightarrow> type_infer" where
  "ti_run ti = (run_round ^^ 5) ti"

subsection \<open>When a runtime check is left out\<close>

definition FLY_SB_REFLECT :: "string list" where
  "FLY_SB_REFLECT = [
    ''__class__'', ''__bases__'', ''__base__'', ''__mro__'', ''__subclasses__'',
    ''__globals__'', ''__code__'', ''__closure__'', ''__dict__'', ''__reduce__'',
    ''__reduce_ex__'', ''__getattribute__'', ''__setattr__'', ''__delattr__'',
    ''__init_subclass__'', ''__prepare__'', ''__builtins__'', ''__traceback__'',
    ''gi_frame'', ''ag_frame'', ''cr_frame'', ''f_globals'', ''f_locals'', ''__loader__'']"

definition plain_bin_op :: "type_infer \<Rightarrow> string \<Rightarrow> expr \<Rightarrow> expr \<Rightarrow> string \<Rightarrow> bool" where
  "plain_bin_op ti op x y fn_name =
     (let xt = expr_type ti x None fn_name; yt = expr_type ti y None fn_name in
      if xt = TUnknown \<or> yt = TUnknown then False
      else if op = ''+'' then xt = yt \<and> (xt = TInt \<or> xt = TStr)
      else if op \<in> {''-'', ''*'', ''//'', ''%''} then xt = TInt \<and> yt = TInt
      else if op \<in> {''<'', ''<='', ''>'', ''>=''} then xt = yt \<and> (xt = TInt \<or> xt = TStr)
      else False)"

definition plain_attr :: "type_infer \<Rightarrow> expr \<Rightarrow> string \<Rightarrow> string \<Rightarrow> bool" where
  "plain_attr ti x name fn_name \<longleftrightarrow>
     expr_type ti x None fn_name \<noteq> TUnknown \<and> \<not> list_ex (\<lambda>r. r = name) FLY_SB_REFLECT"

definition plain_subscr :: "type_infer \<Rightarrow> expr \<Rightarrow> expr \<Rightarrow> string \<Rightarrow> bool" where
  "plain_subscr ti x index fn_name =
     (let kt = expr_type ti index None fn_name in kt \<noteq> TUnknown \<and> kt \<noteq> TStr)"

definition plain_iter :: "type_infer \<Rightarrow> expr \<Rightarrow> string \<Rightarrow> bool" where
  "plain_iter ti iter fn_name \<longleftrightarrow>
     expr_type ti iter None fn_name \<in> {TList, TDict, TSet, TTuple, TStr} \<or> is_range_call iter"

end
