(* ===== verification/Fly_Types_Facts.thy ===== *)
theory Fly_Types_Facts
  imports Fly_Types
begin

text \<open>
  What the type inference guarantees.  The walks over statements and calls are handled once, in two
  locales: a relation between states that the elementary steps keep is kept by the whole walk.
\<close>

lemma merge_type_unknown [simp]: "merge_type TUnknown t = TUnknown" "merge_type t TUnknown = TUnknown"
  by (simp_all add: merge_type_def)

lemma in_order_rel:
  assumes "\<And>st. R st st" "\<And>a b c. R a b \<Longrightarrow> R b c \<Longrightarrow> R a c" "\<forall>g \<in> set gs. \<forall>st. R st (g st)"
  shows "R st (in_order gs st)"
  using assms(3)
proof (induction gs arbitrary: st)
  case (Cons g gs)
  then have "R st (g st)" "R (g st) (in_order gs (g st))" by simp_all
  with assms(2) show ?case by (simp add: in_order_def)
qed (simp add: assms(1))

locale collect_rel =
  fixes R :: "collect \<Rightarrow> collect \<Rightarrow> bool"
  assumes refl: "R st st"
    and trans: "R a b \<Longrightarrow> R b c \<Longrightarrow> R a c"
    and assign: "R st (collect_assign left op right f st)"
    and target: "R st (collect_target tgt iter f st)"
    and return: "R st (collect_return val f st)"
begin

lemma ordered: "\<forall>g \<in> set gs. \<forall>st. R st (g st) \<Longrightarrow> R st (in_order gs st)"
  by (rule in_order_rel [of R]) (rule refl, erule (1) trans, assumption)

lemma walk:
  "R st (collect_stmt f s st)" "R st (collect_elif f el st)" "R st (collect_handler f h st)"
proof (induction s and el and h arbitrary: st and st and st)
  case (For p t i b e)
  have "R st' (in_order (map (collect_stmt f) b) st')" "R st' (in_order (map (collect_stmt f) e) st')" for st'
    by (rule ordered; use For in auto)+
  from trans [OF trans [OF target this(1)] this(2)] show ?case by simp
next
  case (While p c b e)
  have "R st' (in_order (map (collect_stmt f) b) st')" "R st' (in_order (map (collect_stmt f) e) st')" for st'
    by (rule ordered; use While in auto)+
  from trans [OF this] show ?case by simp
next
  case (If p c t els e)
  have "R st' (in_order (map (collect_elif f) els) st')" "R st' (in_order (map (collect_stmt f) t) st')"
    "R st' (in_order (map (collect_stmt f) e) st')" for st'
    by (rule ordered; use If in auto)+
  from trans [OF trans [OF this(1,2)] this(3)] show ?case by simp
next
  case (Try p b hs e fin)
  have "R st' (in_order (map (collect_stmt f) b) st')" "R st' (in_order (map (collect_handler f) hs) st')"
    "R st' (in_order (map (collect_stmt f) e) st')" "R st' (in_order (map (collect_stmt f) fin) st')" for st'
    by (rule ordered; use Try in auto)+
  from trans [OF trans [OF trans [OF this(1,2)] this(3)] this(4)] show ?case by simp
next
  case (ElifClause p c b)
  then show ?case by (auto intro!: ordered)
next
  case (ExceptClause p t n b)
  then show ?case by (auto intro!: ordered)
qed (simp_all add: refl assign return)

lemma walk_stmts: "R st (collect_stmts f ss st)"
  unfolding collect_stmts_def by (rule ordered) (auto intro: walk)

end

locale call_rel =
  fixes R :: "type_infer \<Rightarrow> type_infer \<Rightarrow> bool"
  assumes refl: "R ti ti"
    and trans: "R a b \<Longrightarrow> R b c \<Longrightarrow> R a c"
    and note_call: "R ti (note_call sc f func args ti)"
begin

lemma ordered: "\<forall>g \<in> set gs. \<forall>ti. R ti (g ti) \<Longrightarrow> R ti (in_order gs ti)"
  by (rule in_order_rel [of R]) (rule refl, erule (1) trans, assumption)

lemma opt: "\<forall>g \<in> set_option act. \<forall>ti. R ti (g ti) \<Longrightarrow> R ti (opt_action act ti)"
  by (cases act) (simp_all add: opt_action_def refl)

lemma set_interleave: "set (interleave ks vs) \<subseteq> set ks \<union> set vs"
  by (induction ks vs rule: interleave.induct) auto

lemma walk:
  fixes k :: kwarg
  shows "R ti (collect_calls sc f e ti)" "True" "R ti (collect_calls_clause sc f cl ti)"
proof (induction e and k and cl arbitrary: ti and ti and ti)
  case (Call p fu args kws st ds)
  have "R ti' (in_order (map (collect_calls sc f) args) ti')" for ti' by (rule ordered) (use Call in auto)
  from trans [OF note_call this] show ?case by simp
next
  case (BinOp p op x y)
  from trans [OF this] show ?case by simp
next
  case (BoolOp p op x y)
  from trans [OF this] show ?case by simp
next
  case (Cond p c t e)
  from trans [OF trans [OF this(1,2)] this(3)] show ?case by simp
next
  case (Subscript p x i)
  from trans [OF this] show ?case by simp
next
  case (Slice p lo hi step)
  have "R ti' (opt_action (map_option (collect_calls sc f) lo) ti')"
    "R ti' (opt_action (map_option (collect_calls sc f) hi) ti')"
    "R ti' (opt_action (map_option (collect_calls sc f) step) ti')" for ti'
    by (rule opt; use Slice in auto)+
  from trans [OF trans [OF this(1,2)] this(3)] show ?case by simp
next
  case (DictLit p ks vs)
  then show ?case
    using set_interleave [of "map (collect_calls sc f) ks" "map (collect_calls sc f) vs"]
    by (auto intro!: ordered)
next
  case (ListComp p e cls)
  have "R ti' (in_order (map (collect_calls_clause sc f) cls) ti')" for ti' by (rule ordered) (use ListComp in auto)
  from trans [OF ListComp(1) this] show ?case by simp
next
  case (CompClause t it ifs)
  have "R ti' (in_order (map (collect_calls sc f) ifs) ti')" for ti' by (rule ordered) (use CompClause in auto)
  from trans [OF CompClause(2) this] show ?case by simp
qed (auto simp: refl intro!: ordered)

lemma walk_stmt:
  "R ti (collect_calls_stmt sc f s ti)" "R ti (collect_calls_elif sc f el ti)" "R ti (collect_calls_handler sc f h ti)"
proof (induction s and el and h arbitrary: ti and ti and ti)
  case (Assign p l op r)
  have "R ti' (in_order (map (collect_calls (Some sc) f) l) ti')" for ti' by (rule ordered) (use walk in auto)
  from trans [OF walk(1) this] show ?case by simp
next
  case (For p t i b e)
  have "R ti' (in_order (map (collect_calls_stmt sc f) b) ti')" for ti' by (rule ordered) (use For in auto)
  from trans [OF walk(1) this] show ?case by simp
next
  case (While p c b e)
  have "R ti' (in_order (map (collect_calls_stmt sc f) b) ti')" for ti' by (rule ordered) (use While in auto)
  from trans [OF walk(1) this] show ?case by simp
next
  case (If p c t els e)
  have "R ti' (in_order (map (collect_calls_elif sc f) els) ti')" "R ti' (in_order (map (collect_calls_stmt sc f) t) ti')"
    "R ti' (in_order (map (collect_calls_stmt sc f) e) ti')" for ti'
    by (rule ordered; use If in auto)+
  from trans [OF trans [OF trans [OF this(1) walk(1)] this(2)] this(3)] show ?case by simp
next
  case (Try p b hs e fin)
  have "R ti' (in_order (map (collect_calls_stmt sc f) b) ti')"
    "R ti' (in_order (map (collect_calls_handler sc f) hs) ti')" for ti'
    by (rule ordered; use Try in auto)+
  from trans [OF this] show ?case by simp
next
  case (ElifClause p c b)
  have "R ti' (in_order (map (collect_calls_stmt sc f) b) ti')" for ti' by (rule ordered) (use ElifClause in auto)
  from trans [OF walk(1) this] show ?case by simp
qed (auto simp: refl walk option.set_map intro!: ordered opt)

lemma walk_stmts: "R ti (collect_calls_stmts sc f ss ti)"
  unfolding collect_calls_stmts_def by (rule ordered) (auto intro: walk_stmt)

end

subsection \<open>What the walks leave alone\<close>

definition collect_frame :: "collect \<Rightarrow> collect \<Rightarrow> bool" where
  "collect_frame a b \<longleftrightarrow> ti_m (fst b) = ti_m (fst a) \<and> ti_module_vars (fst b) = ti_module_vars (fst a) \<and>
     ti_fn_vars (fst b) = ti_fn_vars (fst a) \<and> ti_param_types (fst b) = ti_param_types (fst a) \<and>
     ti_arg_set (fst b) = ti_arg_set (fst a) \<and> ti_fn_defs (fst b) = ti_fn_defs (fst a) \<and>
     (\<forall>k. snd a k = Some TUnknown \<longrightarrow> snd b k = Some TUnknown)"

lemma set_type_unknown: "sc k = Some TUnknown \<Longrightarrow> set_type sc name t k = Some TUnknown"
  by (auto simp: set_type_def split: option.split)

interpretation frame: collect_rel collect_frame
proof
  show "collect_frame st (collect_assign left op right f st)" for st left op right f
    by (auto simp: collect_frame_def collect_assign_def Let_def set_type_unknown
        split: prod.split list.split expr.split)
  show "collect_frame st (collect_target tgt iter f st)" for st tgt iter f
    by (auto simp: collect_frame_def collect_target_def Let_def set_type_unknown
        split: prod.split expr.split)
  show "collect_frame st (collect_return val f st)" for st val f
    by (auto simp: collect_frame_def collect_return_def Let_def split: prod.split option.split)
qed (auto simp: collect_frame_def)

definition call_frame :: "type_infer \<Rightarrow> type_infer \<Rightarrow> bool" where
  "call_frame a b \<longleftrightarrow> ti_m b = ti_m a \<and> ti_module_vars b = ti_module_vars a \<and> ti_fn_vars b = ti_fn_vars a \<and>
     ti_ret_types b = ti_ret_types a \<and> ti_fn_defs b = ti_fn_defs a \<and>
     (\<forall>f. length (get_or (ti_param_types a) f []) \<le> length (get_or (ti_param_types b) f []))"

lemma get_or_upd: "get_or (m(k \<mapsto> v)) j d = (if j = k then v else get_or m j d)"
  by (simp add: get_or_def)

lemma bind_args_frame:
  "ti_m (snd (bind_args name sc f as cs ti)) = ti_m ti"
  "ti_module_vars (snd (bind_args name sc f as cs ti)) = ti_module_vars ti"
  "ti_fn_vars (snd (bind_args name sc f as cs ti)) = ti_fn_vars ti"
  "ti_ret_types (snd (bind_args name sc f as cs ti)) = ti_ret_types ti"
  "ti_fn_defs (snd (bind_args name sc f as cs ti)) = ti_fn_defs ti"
  "ti_param_types (snd (bind_args name sc f as cs ti)) = ti_param_types ti"
  "length (fst (bind_args name sc f as cs ti)) = length cs"
  by (induction name sc f as cs ti rule: bind_args.induct) (simp_all add: Let_def split_beta)

lemma note_call_frame: "call_frame ti (note_call sc f func args ti)"
proof (cases func)
  case (Name p name)
  then show ?thesis
    by (auto simp: call_frame_def note_call_def Let_def get_or_upd bind_args_frame split_beta)
qed (simp_all add: note_call_def call_frame_def)

interpretation cframe: call_rel call_frame
proof
  show "call_frame a c" if "call_frame a b" "call_frame b c" for a b c
    using that by (auto simp: call_frame_def intro: order_trans)
qed (simp_all add: note_call_frame, simp add: call_frame_def)

text \<open>The names a list of statements binds for the type inference.\<close>

primrec assigned :: "stmt \<Rightarrow> string set"
  and assigned_elif :: "elif_clause \<Rightarrow> string set"
  and assigned_except :: "except_clause \<Rightarrow> string set" where
  "assigned (Assign _ left _ _) = (case left of [Name _ n] \<Rightarrow> {n} | _ \<Rightarrow> {})"
| "assigned (For _ t _ b e) = (case t of Name _ n \<Rightarrow> {n} | _ \<Rightarrow> {}) \<union> \<Union> (set (map assigned b)) \<union> \<Union> (set (map assigned e))"
| "assigned (While _ _ b e) = \<Union> (set (map assigned b)) \<union> \<Union> (set (map assigned e))"
| "assigned (If _ _ t els e) = \<Union> (set (map assigned_elif els)) \<union> \<Union> (set (map assigned t)) \<union> \<Union> (set (map assigned e))"
| "assigned (Try _ b hs e fin) = \<Union> (set (map assigned b)) \<union> \<Union> (set (map assigned_except hs)) \<union>
     \<Union> (set (map assigned e)) \<union> \<Union> (set (map assigned fin))"
| "assigned (Return _ _) = {}"
| "assigned (Import _ _) = {}"
| "assigned (FromImport _ _ _) = {}"
| "assigned (Lock _ _ _) = {}"
| "assigned (Safe _ _) = {}"
| "assigned (Mask _ _) = {}"
| "assigned (Guard _ _ _ _) = {}"
| "assigned (ExprStmt _ _) = {}"
| "assigned (FuncDef _ _ _ _ _ _) = {}"
| "assigned (ClassDef _ _ _ _ _ _) = {}"
| "assigned (Only _ _ _) = {}"
| "assigned (Trace _ _ _ _ _) = {}"
| "assigned (Cage _ _ _ _ _ _) = {}"
| "assigned (Raise _ _ _) = {}"
| "assigned (Pass _) = {}"
| "assigned (Break _) = {}"
| "assigned (Continue _) = {}"
| "assigned (Delete _ _) = {}"
| "assigned_elif (ElifClause _ _ b) = \<Union> (set (map assigned b))"
| "assigned_except (ExceptClause _ _ _ b) = \<Union> (set (map assigned b))"

definition assigned_in :: "stmt list \<Rightarrow> string set" where
  "assigned_in ss = \<Union> (set (map assigned ss))"

lemma dom_set_type [simp]: "dom (set_type sc n t) = insert n (dom sc)"
  by (auto simp: set_type_def split: option.splits)

lemma dom_in_order:
  assumes "\<forall>x \<in> set xs. \<forall>st. dom (snd (g x st)) = dom (snd st) \<union> A x"
  shows "dom (snd (in_order (map g xs) st)) = dom (snd st) \<union> \<Union> (set (map A xs))"
  using assms by (induction xs arbitrary: st) (simp_all add: Un_assoc del: split_paired_All)

lemma dom_collect:
  "dom (snd (collect_stmt f s st)) = dom (snd st) \<union> assigned s"
  "dom (snd (collect_elif f el st)) = dom (snd st) \<union> assigned_elif el"
  "dom (snd (collect_handler f h st)) = dom (snd st) \<union> assigned_except h"
proof (induction s and el and h arbitrary: st and st and st)
  case (Assign p l op r)
  show ?case
    by (auto simp: collect_assign_def Let_def split: prod.splits list.splits expr.splits)
next
  case (For p t i b e)
  have "dom (snd (collect_target t i f st)) = dom (snd st) \<union> (case t of Name _ n \<Rightarrow> {n} | _ \<Rightarrow> {})"
    by (auto simp: collect_target_def Let_def split: prod.splits expr.splits)
  with For show ?case by (simp add: dom_in_order [where A = assigned] Un_assoc)
next
  case (While p c b e)
  then show ?case by (simp add: dom_in_order [where A = assigned] Un_assoc)
next
  case (If p c t els e)
  then show ?case by (simp add: dom_in_order [where A = assigned] dom_in_order [where A = assigned_elif] Un_assoc)
next
  case (Try p b hs e fin)
  then show ?case by (simp add: dom_in_order [where A = assigned] dom_in_order [where A = assigned_except] Un_assoc)
next
  case (Return p v)
  show ?case by (auto simp: collect_return_def Let_def split: prod.splits option.splits)
next
  case (ElifClause p c b)
  then show ?case by (simp add: dom_in_order [where A = assigned])
next
  case (ExceptClause p t n b)
  then show ?case by (simp add: dom_in_order [where A = assigned])
qed simp_all

lemma dom_collect_stmts: "dom (snd (collect_stmts f ss st)) = dom (snd st) \<union> assigned_in ss"
  unfolding collect_stmts_def assigned_in_def by (rule dom_in_order) (simp add: dom_collect)

subsection \<open>Rounds\<close>

definition rounds :: "module \<Rightarrow> nat \<Rightarrow> type_infer" where
  "rounds m n = (run_round ^^ n) (type_infer_new m)"

lemma ti_run_rounds: "ti_run (type_infer_new m) = rounds m 5"
  by (simp add: ti_run_def rounds_def)

definition fn_var :: "type_infer \<Rightarrow> string \<Rightarrow> tymap" where
  "fn_var ti f = get_or (ti_fn_vars ti) f Map.empty"

text \<open>The names that may have a type in the scope of a function.\<close>

definition fn_names :: "type_infer \<Rightarrow> string \<Rightarrow> string set" where
  "fn_names ti f = (case map_of (ti_fn_defs ti) f of
     Some (ps, body) \<Rightarrow> (prm_name ` set (take (length (get_or (ti_param_types ti) f [])) ps) - {[]}) \<union> assigned_in body
   | None \<Rightarrow> {})"

definition tinv :: "module \<Rightarrow> type_infer \<Rightarrow> bool" where
  "tinv m ti \<longleftrightarrow> ti_m ti = m \<and> ti_fn_defs ti = walk_defs (mod_stmts m) [] \<and>
     dom (ti_module_vars ti) \<subseteq> assigned_in (mod_stmts m) \<and> (\<forall>f. dom (fn_var ti f) \<subseteq> fn_names ti f)"

definition sticky :: "type_infer \<Rightarrow> type_infer \<Rightarrow> bool" where
  "sticky ti ti' \<longleftrightarrow>
     (\<forall>k. ti_module_vars ti k = Some TUnknown \<longrightarrow> ti_module_vars ti' k = Some TUnknown) \<and>
     (\<forall>f k. fn_var ti f k = Some TUnknown \<longrightarrow> fn_var ti' f k = Some TUnknown)"

lemma sticky_refl: "sticky ti ti" and sticky_trans: "sticky a b \<Longrightarrow> sticky b c \<Longrightarrow> sticky a c"
  by (simp_all add: sticky_def)

lemma fn_names_mono:
  assumes "ti_fn_defs ti' = ti_fn_defs ti"
    "length (get_or (ti_param_types ti) f []) \<le> length (get_or (ti_param_types ti') f [])"
  shows "fn_names ti f \<subseteq> fn_names ti' f"
  using set_take_subset_set_take [OF assms(2), of "fst (the (map_of (ti_fn_defs ti) f))"] assms(1)
  by (auto simp: fn_names_def split: option.split)

lemma module_round_ok:
  assumes "tinv m ti"
  shows "tinv m (module_round ti) \<and> sticky ti (module_round ti)"
proof -
  define stmts where "stmts = mod_stmts (ti_m ti)"
  define mv where "mv = only_unknown (ti_module_vars ti)"
  obtain ti1 mv1 where c: "collect_stmts [] stmts (ti\<lparr>ti_module_vars := Map.empty\<rparr>, mv) = (ti1, mv1)" by fastforce
  note f = frame.walk_stmts [of "(ti\<lparr>ti_module_vars := Map.empty\<rparr>, mv)" "[]" stmts, unfolded c collect_frame_def]
  note g = cframe.walk_stmts [of ti1 mv1 "[]" stmts, unfolded call_frame_def]
  have r: "module_round ti = (collect_calls_stmts mv1 [] stmts ti1)\<lparr>ti_module_vars := mv1\<rparr>"
    by (simp add: module_round_def Let_def stmts_def [symmetric] mv_def [symmetric] c)
  have dom: "dom mv1 = dom mv \<union> assigned_in stmts"
    using dom_collect_stmts [of "[]" stmts "(ti\<lparr>ti_module_vars := Map.empty\<rparr>, mv)"] c by simp
  have "dom mv \<subseteq> assigned_in stmts"
    using assms by (auto simp: mv_def only_unknown_def tinv_def stmts_def dom_def subset_iff split: if_splits)
  with dom have dom: "dom mv1 \<subseteq> assigned_in stmts" by simp
  have fv: "fn_var (module_round ti) = fn_var ti" using f g by (auto simp: fn_var_def r)
  have "fn_names ti f \<subseteq> fn_names (module_round ti) f" for f
    by (rule fn_names_mono) (use f g in \<open>simp_all add: r\<close>)
  then have "\<forall>f. dom (fn_var (module_round ti) f) \<subseteq> fn_names (module_round ti) f"
    using assms unfolding fv tinv_def by blast
  moreover have "ti_m (module_round ti) = m" "ti_fn_defs (module_round ti) = walk_defs (mod_stmts m) []"
    "ti_module_vars (module_round ti) = mv1"
    using f g assms by (simp_all add: r tinv_def)
  moreover have "sticky ti (module_round ti)"
    using f g fv by (auto simp: sticky_def r mv_def only_unknown_def)
  ultimately show ?thesis using dom assms by (simp add: tinv_def stmts_def)
qed

lemma dom_param_scope: "dom (param_scope ps ts sc) = (prm_name ` set (take (length ts) ps) - {[]}) \<union> dom sc"
  by (induction ps ts sc rule: param_scope.induct) auto

lemma fn_round_ok:
  assumes inv: "tinv m ti" and def: "map_of (ti_fn_defs ti) name = Some (ps, body)"
  shows "tinv m (fn_round name (ps, body) ti) \<and> sticky ti (fn_round name (ps, body) ti)"
proof -
  define sc where "sc = param_scope ps (get_or (ti_param_types ti) name []) Map.empty"
  define prev where "prev = fn_var ti name"
  define ti0 where "ti0 = ti\<lparr>ti_fn_vars := (ti_fn_vars ti)(name \<mapsto> only_unknown prev)\<rparr>"
  obtain ti1 sc1 where c: "collect_stmts name body (ti0, sc) = (ti1, sc1)" by fastforce
  define ti2 where "ti2 = ti1\<lparr>ti_fn_vars := (ti_fn_vars ti1)(name \<mapsto> merge_scope prev sc1)\<rparr>"
  note f = frame.walk_stmts [of "(ti0, sc)" name body, unfolded c collect_frame_def]
  note g = cframe.walk_stmts [of ti2 "merge_scope prev sc1" name body, unfolded call_frame_def]
  have r: "fn_round name (ps, body) ti = collect_calls_stmts (merge_scope prev sc1) name body ti2"
    using c by (simp add: fn_round_def Let_def ti0_def sc_def prev_def fn_var_def ti2_def get_or_upd)
  have fv: "fn_var (fn_round name (ps, body) ti) f' = (if f' = name then merge_scope prev sc1 else fn_var ti f')" for f'
    using f g by (simp add: r fn_var_def ti2_def ti0_def get_or_upd)
  have "dom sc1 = fn_names ti name"
    using dom_collect_stmts [of name body "(ti0, sc)"] c def by (simp add: sc_def dom_param_scope fn_names_def)
  moreover have "dom prev \<subseteq> fn_names ti name" using inv by (simp add: tinv_def prev_def)
  moreover have "dom (merge_scope prev sc1) = dom sc1"
    by (auto simp: merge_scope_def dom_def split: option.splits)
  moreover have mono: "fn_names ti f' \<subseteq> fn_names (fn_round name (ps, body) ti) f'" for f'
    by (rule fn_names_mono) (use f g in \<open>simp_all add: r ti2_def ti0_def\<close>)
  ultimately have "\<forall>f'. dom (fn_var (fn_round name (ps, body) ti) f') \<subseteq> fn_names (fn_round name (ps, body) ti) f'"
    using inv unfolding fv tinv_def by auto blast+
  moreover have fields: "ti_m (fn_round name (ps, body) ti) = m" "ti_module_vars (fn_round name (ps, body) ti) = ti_module_vars ti"
    "ti_fn_defs (fn_round name (ps, body) ti) = walk_defs (mod_stmts m) []"
    using f g inv by (simp_all add: r ti2_def ti0_def tinv_def)
  ultimately have "tinv m (fn_round name (ps, body) ti)"
    using inv by (simp add: tinv_def)
  moreover have "merge_scope prev sc1 k = Some TUnknown" if "prev k = Some TUnknown" for k
    using that \<open>dom prev \<subseteq> _\<close> \<open>dom sc1 = _\<close> by (auto simp: merge_scope_def split: option.split)
  then have "sticky ti (fn_round name (ps, body) ti)"
    by (simp add: sticky_def fv fields prev_def)
  ultimately show ?thesis ..
qed

lemma run_round_ok:
  assumes "tinv m ti"
  shows "tinv m (run_round ti) \<and> sticky ti (run_round ti)"
proof -
  define ti1 where "ti1 = module_round ti"
  have 1: "tinv m ti1" "sticky ti ti1" using module_round_ok [OF assms] by (simp_all add: ti1_def)
  define step where "step = (\<lambda>name ti'. case map_of (ti_fn_defs ti1) name of
    Some def \<Rightarrow> fn_round name def ti' | None \<Rightarrow> ti')"
  have one: "tinv m (step name ti') \<and> sticky ti' (step name ti')" if "tinv m ti'" for name ti'
  proof (cases "map_of (ti_fn_defs ti1) name")
    case (Some d)
    moreover have "ti_fn_defs ti1 = ti_fn_defs ti'" using that 1(1) by (simp add: tinv_def)
    ultimately show ?thesis using fn_round_ok [OF that, of name "fst d" "snd d"] by (simp add: step_def)
  qed (use that in \<open>simp add: step_def sticky_refl\<close>)
  have "tinv m (fold step names ti') \<and> sticky ti' (fold step names ti')" if "tinv m ti'" for names ti'
    using that
  proof (induction names arbitrary: ti')
    case (Cons a names)
    from one [OF Cons.prems] Cons.IH [of "step a ti'"] sticky_trans show ?case by auto
  qed (simp add: sticky_refl)
  with 1 sticky_trans show ?thesis
    by (auto simp: run_round_def fn_rounds_def Let_def ti1_def [symmetric] step_def [symmetric])
qed

lemma tinv_new: "tinv m (type_infer_new m)"
  by (simp add: tinv_def type_infer_new_def fn_var_def get_or_def)

lemma tinv_rounds: "tinv m (rounds m n)"
  by (induction n) (simp_all add: rounds_def tinv_new run_round_ok)

lemma sticky_rounds: "n \<le> k \<Longrightarrow> sticky (rounds m n) (rounds m k)"
proof (induction rule: dec_induct)
  case (step k)
  then show ?case
    using run_round_ok [OF tinv_rounds] sticky_trans by (auto simp: rounds_def)
qed (rule sticky_refl)

text \<open>
  C12: a variable whose type is given up stays without a type: what a round found to be unknown, of
  the module or of a function, is unknown in every later round.\<close>

theorem unknown_is_final:
  assumes "n \<le> k"
  shows "(ti_module_vars (rounds m n) x = Some TUnknown \<longrightarrow> ti_module_vars (rounds m k) x = Some TUnknown) \<and>
    (fn_var (rounds m n) f x = Some TUnknown \<longrightarrow> fn_var (rounds m k) f x = Some TUnknown)"
  using sticky_rounds [OF assms] by (simp add: sticky_def)

definition pos0 :: position where
  "pos0 = \<lparr>pos_line = 1, pos_col = 1\<rparr>"

definition twice_assigned :: module where
  "twice_assigned = Module pos0 [Assign pos0 [Name pos0 ''x''] ''='' (IntLit pos0 ''1''),
     Assign pos0 [Name pos0 ''x''] ''='' (StringLit pos0 ''s'')]"

theorem unknown_is_final_witness:
  "ti_module_vars (rounds twice_assigned 1) ''x'' = Some TUnknown \<and>
   ti_module_vars (rounds twice_assigned 5) ''x'' = Some TUnknown"
proof -
  have "ti_module_vars (rounds twice_assigned 1) ''x'' = Some TUnknown" by code_simp
  with unknown_is_final [of 1 5 twice_assigned "''x''" "[]"] show ?thesis by simp
qed

text \<open>
  C32: a name that no assignment, loop or parameter binds - a name bound by an import, say - has no
  type anywhere, so attribute accesses on it keep their runtime check.\<close>

theorem unbound_names_checked:
  assumes "x \<notin> assigned_in (mod_stmts m)"
    and "\<And>ps body. map_of (walk_defs (mod_stmts m) []) f = Some (ps, body) \<Longrightarrow>
      x \<notin> prm_name ` set ps \<and> x \<notin> assigned_in body"
  shows "\<not> plain_attr (ti_run (type_infer_new m)) (Name p x) attr f"
proof -
  have inv: "tinv m (rounds m 5)" by (rule tinv_rounds)
  have "ti_module_vars (rounds m 5) x = None" using inv assms(1) by (auto simp: tinv_def)
  moreover have "fn_var (rounds m 5) f x = None"
  proof -
    have "x \<notin> fn_names (rounds m 5) f"
      using inv assms(2) by (auto simp: fn_names_def tinv_def dest: in_set_takeD split: option.splits)
    then show ?thesis using inv unfolding tinv_def by blast
  qed
  ultimately show ?thesis
    by (simp add: plain_attr_def ti_run_rounds name_type_def fn_var_def get_or_def split: option.splits)
qed

definition import_only :: module where
  "import_only = Module pos0 [Import pos0 [ImportItem ''os'' []],
     FuncDef pos0 ''f'' [] None [ExprStmt pos0 (Attr pos0 (Name pos0 ''os'') ''system'')] []]"

theorem unbound_names_checked_witness:
  "\<not> plain_attr (ti_run (type_infer_new import_only)) (Name pos0 ''os'') ''system'' ''f''"
  by (rule unbound_names_checked) (auto simp: import_only_def assigned_in_def assoc_insert_def)

definition import_after_assign :: module where
  "import_after_assign = Module pos0 [Assign pos0 [Name pos0 ''os''] ''='' (IntLit pos0 ''1''),
     Import pos0 [ImportItem ''os'' []], ExprStmt pos0 (Attr pos0 (Name pos0 ''os'') ''system'')]"

definition loop_over_list :: module where
  "loop_over_list = Module pos0 [For pos0 (Name pos0 ''k'') (ListLit pos0 [StringLit pos0 ''__class__''])
     [ExprStmt pos0 (Subscript pos0 (Name pos0 ''d'') (Name pos0 ''k''))] []]"

lemma ti_run_fixpoint:
  assumes "run_round (type_infer_new m) = ti" "run_round ti = ti"
  shows "ti_run (type_infer_new m) = ti"
  using assms by (simp add: ti_run_def numeral_eq_Suc)

lemmas round_eval = run_round_def fn_rounds_def module_round_def type_infer_new_def collect_stmts_def
  collect_calls_stmts_def collect_assign_def collect_target_def iter_elem_type_def is_range_call_def set_type_def
  only_unknown_def note_call_def pos0_def

lemma import_after_assign_types:
  "ti_run (type_infer_new import_after_assign) =
     (type_infer_new import_after_assign)\<lparr>ti_module_vars := [''os'' \<mapsto> TInt]\<rparr>"
  by (rule ti_run_fixpoint) (auto simp: import_after_assign_def round_eval fun_eq_iff)

lemma loop_over_list_types:
  "ti_run (type_infer_new loop_over_list) = (type_infer_new loop_over_list)\<lparr>ti_module_vars := [''k'' \<mapsto> TList]\<rparr>"
  by (rule ti_run_fixpoint) (auto simp: loop_over_list_def round_eval fun_eq_iff)

text \<open>
  Note: an import does not reset the type of its name: after \<open>os = 1\<close> and \<open>import os\<close> the name counts
  as an integer, and accesses to attributes of the module are compiled without the sandbox check.
  Likewise the variable of a loop over a list has the type of the list, so a string taken from a
  list is used as a subscript without the check.\<close>

theorem checks_left_out_unsoundly:
  "plain_attr (ti_run (type_infer_new import_after_assign)) (Name pos0 ''os'') ''system'' [] \<and>
   plain_subscr (ti_run (type_infer_new loop_over_list)) (Name pos0 ''d'') (Name pos0 ''k'') []"
  by (simp add: import_after_assign_types loop_over_list_types plain_attr_def plain_subscr_def name_type_def
      get_or_def FLY_SB_REFLECT_def)

subsection \<open>Types of parameters\<close>

definition first_only :: "type_infer \<Rightarrow> bool" where
  "first_only ti \<longleftrightarrow> (\<forall>f ts. ti_param_types ti f = Some ts \<longrightarrow> list_all (\<lambda>t. t = TUnknown) (tl ts) \<and>
     (get_or (ti_arg_set ti) f False \<or> list_all (\<lambda>t. t = TUnknown) ts))"

lemma bind_args_tail:
  assumes "get_or (ti_arg_set ti) name False" "list_all (\<lambda>t. t = TUnknown) cs"
  shows "list_all (\<lambda>t. t = TUnknown) (fst (bind_args name sc f as cs ti)) \<and>
    get_or (ti_arg_set (snd (bind_args name sc f as cs ti))) name False"
  using assms by (induction as cs rule: list_induct2') (simp_all add: Let_def split_beta)

lemma bind_args_other:
  "g \<noteq> name \<Longrightarrow> get_or (ti_arg_set (snd (bind_args name sc f as cs ti))) g d = get_or (ti_arg_set ti) g d"
  by (induction name sc f as cs ti rule: bind_args.induct) (simp_all add: Let_def split_beta get_or_upd)

lemma bind_args_first:
  assumes "list_all (\<lambda>t. t = TUnknown) (tl cs)" "get_or (ti_arg_set ti) name False \<or> list_all (\<lambda>t. t = TUnknown) cs"
  shows "list_all (\<lambda>t. t = TUnknown) (tl (fst (bind_args name sc f as cs ti))) \<and>
    (get_or (ti_arg_set (snd (bind_args name sc f as cs ti))) name False \<or>
     list_all (\<lambda>t. t = TUnknown) (fst (bind_args name sc f as cs ti)))"
proof (cases "as = [] \<or> cs = []")
  case True
  with assms show ?thesis by (cases as; cases cs) auto
next
  case False
  then obtain a as' c cs' where "as = a # as'" "cs = c # cs'" by (auto simp: neq_Nil_conv)
  moreover define ti' where "ti' = (if c = TUnknown \<and> \<not> get_or (ti_arg_set ti) name False
    then ti\<lparr>ti_arg_set := (ti_arg_set ti)(name \<mapsto> True)\<rparr> else ti)"
  moreover have "get_or (ti_arg_set ti') name False"
    using assms calculation by (auto simp: ti'_def get_or_upd)
  ultimately show ?thesis
    using assms bind_args_tail [of ti' name cs' sc f as'] by (simp add: Let_def split_beta)
qed

lemma list_all_tl_append: "list_all P (tl xs) \<Longrightarrow> list_all P ys \<Longrightarrow> list_all P (tl (xs @ ys))"
  by (cases xs; cases ys) auto

lemma note_call_first: "first_only ti \<Longrightarrow> first_only (note_call sc f func args ti)"
proof (cases func)
  case (Name p name)
  assume inv: "first_only ti"
  let ?cur = "get_or (ti_param_types ti) name []"
  let ?cs = "?cur @ replicate (length args - length ?cur) TUnknown"
  have "list_all (\<lambda>t. t = TUnknown) (tl ?cur) \<and>
      (get_or (ti_arg_set ti) name False \<or> list_all (\<lambda>t. t = TUnknown) ?cur)"
    using inv by (auto simp: first_only_def get_or_def [of "ti_param_types ti"] split: option.splits)
  then have "list_all (\<lambda>t. t = TUnknown) (tl ?cs) \<and>
      (get_or (ti_arg_set ti) name False \<or> list_all (\<lambda>t. t = TUnknown) ?cs)"
    by (auto intro!: list_all_tl_append) (simp_all add: list_all_iff)
  from bind_args_first [OF conjunct1 conjunct2, OF this this, of sc f args] inv show ?thesis
    unfolding Name
    by (auto simp: note_call_def Let_def split_beta first_only_def bind_args_frame bind_args_other split: if_splits)
qed (simp_all add: note_call_def)

interpretation first: call_rel "\<lambda>a b. first_only a \<longrightarrow> first_only b"
  by standard (auto simp: note_call_first)

lemma first_only_cong:
  "ti_param_types ti' = ti_param_types ti \<Longrightarrow> ti_arg_set ti' = ti_arg_set ti \<Longrightarrow> first_only ti \<Longrightarrow> first_only ti'"
  by (simp add: first_only_def)

lemma first_only_collect: "first_only (fst st) \<Longrightarrow> first_only (fst (collect_stmts f ss st))"
  using frame.walk_stmts [of st f ss] by (auto simp: collect_frame_def intro: first_only_cong)

lemma first_only_module_round:
  assumes "first_only ti"
  shows "first_only (module_round ti)"
proof -
  obtain ti1 mv1 where c: "collect_stmts [] (mod_stmts (ti_m ti))
    (ti\<lparr>ti_module_vars := Map.empty\<rparr>, only_unknown (ti_module_vars ti)) = (ti1, mv1)" by fastforce
  have "first_only ti1"
    using first_only_collect [of "(ti\<lparr>ti_module_vars := Map.empty\<rparr>, only_unknown (ti_module_vars ti))"
        "[]" "mod_stmts (ti_m ti)"] first_only_cong [OF _ _ assms] by (simp add: c)
  with first.walk_stmts [of ti1 mv1 "[]" "mod_stmts (ti_m ti)"]
  have "first_only (collect_calls_stmts mv1 [] (mod_stmts (ti_m ti)) ti1)" by simp
  then show ?thesis unfolding module_round_def Let_def c by (auto intro: first_only_cong)
qed

lemma first_only_fn_round:
  assumes "first_only ti"
  shows "first_only (fn_round name def ti)"
  unfolding fn_round_def Let_def split_beta
  by (rule first.walk_stmts [rule_format], rule first_only_cong [rotated 2], rule first_only_collect,
      rule first_only_cong [OF _ _ assms]) simp_all

lemma first_only_rounds: "first_only (rounds m n)"
proof (induction n)
  case 0
  show ?case by (simp add: rounds_def first_only_def type_infer_new_def)
next
  case (Suc n)
  have "first_only (fold (\<lambda>name ti. case map_of defs name of Some d \<Rightarrow> fn_round name d ti | None \<Rightarrow> ti) names ti)"
    if "first_only ti" for defs names ti
    using that by (induction names arbitrary: ti) (auto simp: first_only_fn_round split: option.split)
  with first_only_module_round [OF Suc] show ?case
    by (simp add: rounds_def run_round_def fn_rounds_def Let_def)
qed

text \<open>
  Note: of the types of the arguments at the calls of a function only that of the first parameter is
  ever used: the flag that marks a function as called is set while its first argument is handled,
  so every further parameter stays unknown.\<close>

theorem only_first_parameter_typed:
  assumes "ti_param_types (ti_run (type_infer_new m)) f = Some ts" "0 < i" "i < length ts"
  shows "ts ! i = TUnknown"
proof -
  have "list_all (\<lambda>t. t = TUnknown) (tl ts)"
    using first_only_rounds [of m 5] assms(1) by (simp add: first_only_def ti_run_rounds)
  then show ?thesis using assms(2,3) by (cases i) (auto simp: list_all_length nth_tl)
qed

definition two_arguments :: module where
  "two_arguments = Module pos0 [FuncDef pos0 ''f'' [\<lparr>prm_name = ''a'', prm_anno = None, prm_default = None,
     prm_star = False, prm_dbl_star = False\<rparr>, \<lparr>prm_name = ''b'', prm_anno = None, prm_default = None,
     prm_star = False, prm_dbl_star = False\<rparr>] None [Pass pos0] [],
     ExprStmt pos0 (Call pos0 (Name pos0 ''f'') [IntLit pos0 ''1'', IntLit pos0 ''2''] [] None None)]"

lemma two_arguments_types:
  "ti_run (type_infer_new two_arguments) = (type_infer_new two_arguments)\<lparr>
     ti_param_types := [''f'' \<mapsto> [TInt, TUnknown]], ti_arg_set := [''f'' \<mapsto> True],
     ti_fn_vars := [''f'' \<mapsto> [''a'' \<mapsto> TInt, ''b'' \<mapsto> TUnknown]]\<rparr>"
  by (rule ti_run_fixpoint)
    (auto simp: two_arguments_def round_eval Let_def assoc_insert_def fn_round_def get_or_def merge_scope_def merge_type_def
      fun_eq_iff)

theorem only_first_parameter_typed_witness:
  "ti_param_types (ti_run (type_infer_new two_arguments)) ''f'' = Some [TInt, TUnknown] \<and>
   [TInt, TUnknown] ! 1 = TUnknown"
proof -
  have t: "ti_param_types (ti_run (type_infer_new two_arguments)) ''f'' = Some [TInt, TUnknown]"
    by (simp add: two_arguments_types)
  from only_first_parameter_typed [OF this, of 1] t show ?thesis by simp
qed

end
