(* ===== verification/Fly_Gen.thy ===== *)
theory Fly_Gen
  imports Fly_Types Fly_Diagnostic Fly_Units
begin

text \<open>
  The code generator (\<^verbatim>\<open>src/gen.rs\<close>): from the syntax tree to Python text.

  \<open>Gen::expr\<close> only appends to the buffer and only reads \<open>plain\<close>, \<open>types\<close> and \<open>cur_fn\<close>; it is
  modelled by the text it appends (\<open>expr_text\<close>).  Statements change the state and are modelled
  as functions on it.  The text of the runtime, which the build embeds, is a parameter.
\<close>

record gen =
  g_buf :: string
  g_indent :: nat
  g_plain :: bool
  g_keep_ann :: bool
  g_seal_init :: bool
  g_nc :: nat
  g_types :: type_infer
  g_cur_fn :: string

definition w :: "string \<Rightarrow> gen \<Rightarrow> gen" where
  "w s g = g\<lparr>g_buf := g_buf g @ s\<rparr>"

definition indent_line :: "gen \<Rightarrow> gen" where
  "indent_line g = w (concat (replicate (g_indent g) ''    '')) g"

subsection \<open>Precedences and names of operators\<close>

abbreviation PREC_LOWEST :: int where "PREC_LOWEST \<equiv> - 10"
abbreviation PREC_TUPLE :: int where "PREC_TUPLE \<equiv> - 4"
abbreviation PREC_COND :: int where "PREC_COND \<equiv> - 3"
abbreviation PREC_OR_BOOL :: int where "PREC_OR_BOOL \<equiv> - 2"
abbreviation PREC_AND_BOOL :: int where "PREC_AND_BOOL \<equiv> - 1"
abbreviation PREC_COMPARE :: int where "PREC_COMPARE \<equiv> 0"
abbreviation PREC_OR :: int where "PREC_OR \<equiv> 1"
abbreviation PREC_XOR :: int where "PREC_XOR \<equiv> 2"
abbreviation PREC_AND :: int where "PREC_AND \<equiv> 3"
abbreviation PREC_SHIFT :: int where "PREC_SHIFT \<equiv> 4"
abbreviation PREC_ADD :: int where "PREC_ADD \<equiv> 5"
abbreviation PREC_MUL :: int where "PREC_MUL \<equiv> 6"
abbreviation PREC_UNARY :: int where "PREC_UNARY \<equiv> 7"
abbreviation PREC_POWER :: int where "PREC_POWER \<equiv> 8"
abbreviation PREC_POST :: int where "PREC_POST \<equiv> 9"
abbreviation PREC_ATOM :: int where "PREC_ATOM \<equiv> 10"

definition bin_prec :: "string \<Rightarrow> int" where
  "bin_prec op =
     (if op = ''|'' then PREC_OR
      else if op = ''^'' then PREC_XOR
      else if op = ''&'' then PREC_AND
      else if op = ''<<'' \<or> op = ''>>'' then PREC_SHIFT
      else if op = ''+'' \<or> op = ''-'' then PREC_ADD
      else if op \<in> {''*'', ''/'', ''//'', ''%''} then PREC_MUL
      else if op = ''**'' then PREC_POWER
      else PREC_ATOM)"

definition op_name :: "string \<Rightarrow> string" where
  "op_name op =
     (case map_of [(''+'', ''add''), (''-'', ''sub''), (''*'', ''mul''), (''/'', ''truediv''), (''//'', ''floordiv''),
        (''%'', ''mod''), (''**'', ''pow''), (''<<'', ''lshift''), (''>>'', ''rshift''), (''&'', ''and_''),
        (''|'', ''or_''), (''^'', ''xor''), (''@'', ''matmul'')] op of
        Some n \<Rightarrow> n | None \<Rightarrow> [])"

definition unary_name :: "string \<Rightarrow> string" where
  "unary_name op = (if op = ''-'' then ''neg'' else if op = ''+'' then ''pos'' else ''invert'')"

definition cmp_name :: "string \<Rightarrow> string" where
  "cmp_name op = (if op = ''<'' then ''lt'' else if op = ''<='' then ''le'' else if op = ''>'' then ''gt''
     else if op = ''>='' then ''ge'' else ''contains'')"

fun prec_of :: "expr \<Rightarrow> int" where
  "prec_of (Name _ _) = PREC_ATOM"
| "prec_of (IntLit _ _) = PREC_ATOM"
| "prec_of (FloatLit _ _) = PREC_ATOM"
| "prec_of (StringLit _ _) = PREC_ATOM"
| "prec_of (EllipsisLit _) = PREC_ATOM"
| "prec_of (ListLit _ _) = PREC_ATOM"
| "prec_of (DictLit _ _ _) = PREC_ATOM"
| "prec_of (SetLit _ _) = PREC_ATOM"
| "prec_of (ListComp _ _ _) = PREC_ATOM"
| "prec_of (Call _ _ _ _ _ _) = PREC_POST"
| "prec_of (Attr _ _ _) = PREC_POST"
| "prec_of (Subscript _ _ _) = PREC_POST"
| "prec_of (BinOp _ op _ _) = bin_prec op"
| "prec_of (UnaryOp _ op _) = (if op = ''not'' then PREC_COMPARE else PREC_UNARY)"
| "prec_of (BoolOp _ op _ _) = (if op = ''and'' then PREC_AND_BOOL else PREC_OR_BOOL)"
| "prec_of (Compare _ _ _ _) = PREC_COMPARE"
| "prec_of (Cond _ _ _ _) = PREC_COND"
| "prec_of (TupleLit _ _ paren) = (if paren then PREC_POST else PREC_TUPLE)"
| "prec_of (Slice _ _ _ _) = PREC_POST"

fun chain_expr_has_effect :: "expr \<Rightarrow> bool" where
  "chain_expr_has_effect (Name _ _) = False"
| "chain_expr_has_effect (IntLit _ _) = False"
| "chain_expr_has_effect (FloatLit _ _) = False"
| "chain_expr_has_effect (StringLit _ _) = False"
| "chain_expr_has_effect (EllipsisLit _) = False"
| "chain_expr_has_effect (ListLit _ es) = list_ex chain_expr_has_effect es"
| "chain_expr_has_effect (TupleLit _ es _) = list_ex chain_expr_has_effect es"
| "chain_expr_has_effect (DictLit _ ks vs) \<longleftrightarrow> list_ex chain_expr_has_effect ks \<or> list_ex chain_expr_has_effect vs"
| "chain_expr_has_effect (SetLit _ es) = list_ex chain_expr_has_effect es"
| "chain_expr_has_effect (BoolOp _ _ x y) \<longleftrightarrow> chain_expr_has_effect x \<or> chain_expr_has_effect y"
| "chain_expr_has_effect (Slice _ lo hi step) \<longleftrightarrow>
     (case lo of Some e \<Rightarrow> chain_expr_has_effect e | None \<Rightarrow> False) \<or>
     (case hi of Some e \<Rightarrow> chain_expr_has_effect e | None \<Rightarrow> False) \<or>
     (case step of Some e \<Rightarrow> chain_expr_has_effect e | None \<Rightarrow> False)"
| "chain_expr_has_effect (Call _ _ _ _ _ _) = True"
| "chain_expr_has_effect (Attr _ _ _) = True"
| "chain_expr_has_effect (Subscript _ _ _) = True"
| "chain_expr_has_effect (BinOp _ _ _ _) = True"
| "chain_expr_has_effect (UnaryOp _ _ _) = True"
| "chain_expr_has_effect (Compare _ _ _ _) = True"
| "chain_expr_has_effect (Cond _ _ _ _) = True"
| "chain_expr_has_effect (ListComp _ _ _) = True"

subsection \<open>Text helpers\<close>

text \<open>A line and a column; a text in double quotes, which is also \<open>{:?}\<close> of the operator names.\<close>

definition loc :: "position \<Rightarrow> string" where
  "loc pos = digits_of (pos_line pos) @ '', '' @ digits_of (pos_col pos)"

definition dquote :: "string \<Rightarrow> string" where
  "dquote s = [double_quote] @ s @ [double_quote]"

definition dquotes :: "string list \<Rightarrow> string" where
  "dquotes ss = ''['' @ join '', '' (map dquote ss) @ '']''"

definition quote_tuple :: "string list \<Rightarrow> string \<Rightarrow> string \<Rightarrow> string" where
  "quote_tuple ss qmark joiner =
     (let q = map (\<lambda>s. qmark @ s @ qmark) ss in join joiner q @ (if length q = 1 then '','' else []))"

definition mods_lit :: "string list \<Rightarrow> string" where
  "mods_lit mods = ''('' @ quote_tuple (map (\<lambda>m. [single_quote] @ m @ [single_quote]) mods) [] '', '' @ '')''"

text \<open>\<open>{:04x}\<close> and \<open>{:08x}\<close>\<close>

definition hex_digit :: "nat \<Rightarrow> char" where
  "hex_digit d = (if d < 10 then char_of (48 + d) else char_of (87 + d))"

primrec hex_of :: "nat \<Rightarrow> nat \<Rightarrow> string" where
  "hex_of 0 n = []"
| "hex_of (Suc k) n = hex_of k (n div 16) @ [hex_digit (n mod 16)]"

text \<open>
  \<open>py_quote\<close> on the UTF-8 bytes of the text: control characters of one byte, and U+0080 to U+009F,
  U+2028 and U+2029, which are the sequences \<open>C2 80\<close> to \<open>C2 9F\<close> and \<open>E2 80 A8\<close>, \<open>E2 80 A9\<close>, are escaped.
\<close>

definition py_escape :: "char \<Rightarrow> string" where
  "py_escape c =
     (if c = double_quote then [backslash, double_quote]
      else if c = backslash then [backslash, backslash]
      else if ord c = 7 then backslash # ''a''
      else if ord c = 8 then backslash # ''b''
      else if ord c = 12 then backslash # ''f''
      else if ord c = 10 then backslash # ''n''
      else if ord c = 13 then backslash # ''r''
      else if ord c = 9 then backslash # ''t''
      else if ord c = 11 then backslash # ''v''
      else if 32 \<le> ord c \<and> ord c \<noteq> 127 then [c]
      else backslash # ''u'' @ hex_of 4 (nat (ord c)))"

fun py_escapes :: "string \<Rightarrow> string" where
  "py_escapes (a # b # c # s) =
     (if ord a = 226 \<and> ord b = 128 \<and> (ord c = 168 \<or> ord c = 169)
      then backslash # ''u202'' @ [if ord c = 168 then CHR ''8'' else CHR ''9''] @ py_escapes s
      else if ord a = 194 \<and> ord b < 160 then backslash # ''u'' @ hex_of 4 (nat (ord b)) @ py_escapes (c # s)
      else py_escape a @ py_escapes (b # c # s))"
| "py_escapes [a, b] =
     (if ord a = 194 \<and> ord b < 160 then backslash # ''u'' @ hex_of 4 (nat (ord b))
      else py_escape a @ py_escape b)"
| "py_escapes [a] = py_escape a"
| "py_escapes [] = []"

definition py_quote :: "string \<Rightarrow> string" where
  "py_quote s = [double_quote] @ py_escapes s @ [double_quote]"

subsection \<open>Expressions\<close>

definition enclose :: "expr \<Rightarrow> int \<Rightarrow> string \<Rightarrow> string" where
  "enclose e parent body = (if prec_of e < parent then ''('' @ body @ '')'' else body)"

text \<open>
  The links of a comparison: \<open>operands\<close> are \<open>x\<close> and the \<open>ys\<close>, with their texts at the precedence of
  comparisons and at the lowest one.
\<close>

type_synonym operand = "expr \<times> string \<times> string"

definition compare_link :: "gen \<Rightarrow> position \<Rightarrow> string \<Rightarrow> operand \<Rightarrow> operand \<Rightarrow> string" where
  "compare_link g pos op l r =
     (case (l, r) of ((le, lc, ll), (re, rc, rl)) \<Rightarrow>
        if op \<in> {''=='', ''!='', ''is'', ''is not''} \<or> plain_bin_op (g_types g) op le re (g_cur_fn g)
        then lc @ '' '' @ op @ '' '' @ rc
        else if op = ''in'' \<or> op = ''not in'' then
          (if op = ''not in'' then ''not '' else []) @ ''_fly_cmp(lambda: '' @ rl @ '', lambda: '' @ ll @ '', '' @
          dquote ''contains'' @ '', '' @ loc pos @ '')''
        else ''_fly_cmp(lambda: '' @ ll @ '', lambda: '' @ rl @ '', '' @ dquote (cmp_name op) @ '', '' @ loc pos @ '')'')"

fun compare_links :: "gen \<Rightarrow> position \<Rightarrow> string list \<Rightarrow> operand list \<Rightarrow> string list" where
  "compare_links g pos (op # ops) (l # r # rs) = compare_link g pos op l r # compare_links g pos ops (r # rs)"
| "compare_links g pos _ _ = []"

fun plain_compare :: "string list \<Rightarrow> operand list \<Rightarrow> string" where
  "plain_compare (op # ops) ((_, yc, _) # ys) = '' '' @ op @ '' '' @ yc @ plain_compare ops ys"
| "plain_compare _ _ = []"

definition compare_text :: "gen \<Rightarrow> position \<Rightarrow> string list \<Rightarrow> operand \<Rightarrow> operand list \<Rightarrow> string" where
  "compare_text g pos ops x ys =
     (if g_plain g then fst (snd x) @ plain_compare ops ys
      else if 1 < length ops \<and> (chain_expr_has_effect (fst x) \<or> list_ex chain_expr_has_effect (butlast (map fst ys)))
      then ''_fly_chain([lambda: '' @ snd (snd x) @ concat (map (\<lambda>y. '', lambda: '' @ snd (snd y)) ys) @
           ''], '' @ dquotes ops @ '', '' @ loc pos @ '')''
      else join '' and '' (compare_links g pos ops (x # ys)))"

definition is_slice :: "expr \<Rightarrow> bool" where
  "is_slice e = (case e of Slice _ _ _ _ \<Rightarrow> True | _ \<Rightarrow> False)"

definition plain_index :: "gen \<Rightarrow> expr \<Rightarrow> expr \<Rightarrow> bool" where
  "plain_index g x index \<longleftrightarrow> plain_subscr (g_types g) x index (g_cur_fn g) \<and> \<not> is_slice index"

definition cast_name :: "gen \<Rightarrow> expr \<Rightarrow> kwarg list \<Rightarrow> expr option \<Rightarrow> expr option \<Rightarrow> string option" where
  "cast_name g func kwargs star dbl =
     (case func of
        Name _ name \<Rightarrow>
          if \<not> g_plain g \<and> (name = ''int'' \<or> name = ''float'') \<and> kwargs = [] \<and> star = None \<and> dbl = None
          then Some name else None
      | _ \<Rightarrow> None)"

fun expr_text :: "gen \<Rightarrow> expr \<Rightarrow> int \<Rightarrow> string"
  and index_text :: "gen \<Rightarrow> expr \<Rightarrow> string"
  and slice_part :: "gen \<Rightarrow> expr option \<Rightarrow> string"
  and kwarg_text :: "gen \<Rightarrow> kwarg \<Rightarrow> string"
  and clause_text :: "gen \<Rightarrow> position \<Rightarrow> comp_clause \<Rightarrow> string" where
  "expr_text g (Name p name) parent = enclose (Name p name) parent name"
| "expr_text g (IntLit p v) parent = enclose (IntLit p v) parent v"
| "expr_text g (FloatLit p v) parent = enclose (FloatLit p v) parent v"
| "expr_text g (StringLit p v) parent = enclose (StringLit p v) parent v"
| "expr_text g (EllipsisLit p) parent = enclose (EllipsisLit p) parent ''...''"
| "expr_text g (ListLit p es) parent = enclose (ListLit p es) parent
     (''['' @ join '', '' (map (\<lambda>e. expr_text g e PREC_COND) es) @ '']'')"
| "expr_text g (TupleLit p es paren) parent = enclose (TupleLit p es paren) parent
     ((if paren then ''('' else []) @ join '', '' (map (\<lambda>e. expr_text g e PREC_COND) es) @
      (if length es = 1 then '','' else []) @ (if paren then '')'' else []))"
| "expr_text g (DictLit p ks vs) parent = enclose (DictLit p ks vs) parent
     (''{'' @ join '', '' (map2 (\<lambda>k v. k @ '': '' @ v) (map (\<lambda>e. expr_text g e PREC_COND) ks)
        (map (\<lambda>e. expr_text g e PREC_COND) vs)) @ ''}'')"
| "expr_text g (SetLit p es) parent = enclose (SetLit p es) parent
     (''{'' @ join '', '' (map (\<lambda>e. expr_text g e PREC_COND) es) @ ''}'')"
| "expr_text g (Call p func args kwargs star dbl) parent = enclose (Call p func args kwargs star dbl) parent
     (case cast_name g func kwargs star dbl of
        Some name \<Rightarrow>
          ''_fly_cast('' @ name @ concat (map (\<lambda>e. '', '' @ expr_text g e PREC_COND) args) @
          '', line='' @ digits_of (pos_line p) @ '', col='' @ digits_of (pos_col p) @ '')''
      | None \<Rightarrow>
          expr_text g func PREC_POST @ ''('' @ join '', ''
            (map (\<lambda>e. expr_text g e PREC_COND) args @
             (case star of Some e \<Rightarrow> [''*'' @ expr_text g e PREC_COND] | None \<Rightarrow> []) @
             (case dbl of Some e \<Rightarrow> [''**'' @ expr_text g e PREC_COND] | None \<Rightarrow> []) @
             map (\<lambda>k. kwarg_text g k) kwargs) @ '')'')"
| "expr_text g (Attr p x name) parent = enclose (Attr p x name) parent
     (if g_plain g then expr_text g x PREC_POST @ ''.'' @ name
      else (if plain_attr (g_types g) x name (g_cur_fn g) then ''_fly_attr_plain('' else ''_fly_attr('') @
        expr_text g x PREC_COND @ '', '' @ py_quote name @ '', '' @ loc p @ '')'')"
| "expr_text g (Subscript p x index) parent = enclose (Subscript p x index) parent
     (if g_plain g then expr_text g x PREC_POST @ ''['' @ expr_text g index PREC_LOWEST @ '']''
      else if plain_index g x index then
        ''_fly_get_plain('' @ expr_text g x PREC_COND @ '', '' @ expr_text g index PREC_COND @ '', '' @ loc p @ '')''
      else ''_fly_get('' @ expr_text g x PREC_COND @ '', '' @ index_text g index @ '', '' @ loc p @ '')'')"
| "expr_text g (Slice p lo hi step) parent = enclose (Slice p lo hi step) parent
     ((case lo of Some e \<Rightarrow> expr_text g e PREC_COND | None \<Rightarrow> []) @ '':'' @
      (case hi of Some e \<Rightarrow> expr_text g e PREC_COND | None \<Rightarrow> []) @
      (case step of Some e \<Rightarrow> '':'' @ expr_text g e PREC_COND | None \<Rightarrow> []))"
| "expr_text g (BinOp p op x y) parent = enclose (BinOp p op x y) parent
     (if g_plain g \<and> op = ''**'' then expr_text g x (PREC_POWER + 1) @ ''**'' @ expr_text g y PREC_POWER
      else if g_plain g \<or> plain_bin_op (g_types g) op x y (g_cur_fn g)
      then expr_text g x (bin_prec op) @ '' '' @ op @ '' '' @ expr_text g y (bin_prec op + 1)
      else ''_fly_binop('' @ expr_text g x PREC_COND @ '', '' @ expr_text g y PREC_COND @ '', '' @
        dquote (op_name op) @ '', '' @ loc p @ '')'')"
| "expr_text g (UnaryOp p op x) parent = enclose (UnaryOp p op x) parent
     (if op = ''not'' then ''not '' @ expr_text g x PREC_COMPARE
      else if g_plain g then op @ '' '' @ expr_text g x PREC_UNARY
      else ''_fly_unary('' @ expr_text g x PREC_COND @ '', '' @ dquote (unary_name op) @ '', '' @ loc p @ '')'')"
| "expr_text g (BoolOp p op x y) parent = enclose (BoolOp p op x y) parent
     (let q = (if op = ''and'' then PREC_AND_BOOL else PREC_OR_BOOL) in
      expr_text g x q @ '' '' @ op @ '' '' @ expr_text g y q)"
| "expr_text g (Compare p x ops ys) parent = enclose (Compare p x ops ys) parent
     (compare_text g p ops (x, expr_text g x PREC_COMPARE, expr_text g x PREC_LOWEST)
        (map (\<lambda>y. (y, expr_text g y PREC_COMPARE, expr_text g y PREC_LOWEST)) ys))"
| "expr_text g (Cond p c t e) parent = enclose (Cond p c t e) parent
     (expr_text g t (PREC_COND + 1) @ '' if '' @ expr_text g c PREC_COND @ '' else '' @ expr_text g e PREC_COND)"
| "expr_text g (ListComp p e cls) parent = enclose (ListComp p e cls) parent
     (''['' @ expr_text g e PREC_COND @ concat (map (\<lambda>c. clause_text g p c) cls) @ '']'')"
| "index_text g e =
     (case e of
        Slice _ lo hi step \<Rightarrow>
          ''slice('' @ slice_part g lo @ '', '' @ slice_part g hi @
          (case step of Some _ \<Rightarrow> '', '' @ slice_part g step | None \<Rightarrow> []) @ '')''
      | _ \<Rightarrow> expr_text g e PREC_COND)"
| "slice_part g e = (case e of None \<Rightarrow> ''None'' | Some x \<Rightarrow> expr_text g x PREC_COND)"
| "kwarg_text g (KwArg _ name v) = name @ ''='' @ expr_text g v PREC_COND"
| "clause_text g p (CompClause target iter ifs) =
     '' for '' @ expr_text g target PREC_COND @
     (if g_plain g \<or> plain_iter (g_types g) iter (g_cur_fn g) then '' in '' @ expr_text g iter PREC_COND
      else '' in _fly_iter('' @ expr_text g iter PREC_COND @ '', '' @ loc p @ '')'') @
     concat (map (\<lambda>f. '' if '' @ expr_text g f PREC_COND) ifs)"

subsection \<open>Pieces of statements\<close>

abbreviation nl :: string where "nl \<equiv> [newline]"

definition expr_w :: "expr \<Rightarrow> int \<Rightarrow> gen \<Rightarrow> gen" where
  "expr_w e p g = w (expr_text g e p) g"

definition index_arg :: "expr \<Rightarrow> gen \<Rightarrow> gen" where
  "index_arg e g = w (index_text g e) g"

definition indent_in :: "gen \<Rightarrow> gen" where
  "indent_in g = g\<lparr>g_indent := g_indent g + 1\<rparr>"

definition indent_out :: "gen \<Rightarrow> gen" where
  "indent_out g = g\<lparr>g_indent := g_indent g - 1\<rparr>"

definition bump :: "gen \<Rightarrow> gen" where
  "bump g = g\<lparr>g_nc := g_nc g + 1\<rparr>"

text \<open>\<open>let prev = replace(&mut self.cur_fn, name); ...; self.cur_fn = prev\<close> and the like for \<open>seal_init\<close>.\<close>

definition within_fn :: "string \<Rightarrow> (gen \<Rightarrow> gen) \<Rightarrow> gen \<Rightarrow> gen" where
  "within_fn name act g = (act (g\<lparr>g_cur_fn := name\<rparr>))\<lparr>g_cur_fn := g_cur_fn g\<rparr>"

definition within_seal :: "(gen \<Rightarrow> gen) \<Rightarrow> gen \<Rightarrow> gen" where
  "within_seal act g = (act (g\<lparr>g_seal_init := True\<rparr>))\<lparr>g_seal_init := g_seal_init g\<rparr>"

text \<open>Writing separated by a text; the actions of a list in order with a separator in between.\<close>

fun separated :: "string \<Rightarrow> (gen \<Rightarrow> gen) list \<Rightarrow> gen \<Rightarrow> gen" where
  "separated sep [] = (\<lambda>g. g)"
| "separated sep [a] = a"
| "separated sep (a # b # as) = (\<lambda>g. separated sep (b # as) (w sep (a g)))"

definition suite_gen :: "(gen \<Rightarrow> gen) list \<Rightarrow> gen \<Rightarrow> gen" where
  "suite_gen body = (if body = [] then w ('' pass'' @ nl) else in_order ([w nl, indent_in] @ body @ [indent_out]))"

definition else_gen :: "string \<Rightarrow> (gen \<Rightarrow> gen) list \<Rightarrow> gen \<Rightarrow> gen" where
  "else_gen kw body = (if body = [] then (\<lambda>g. g) else in_order [indent_line, w (kw @ '':''), suite_gen body])"

definition param_gen :: "param \<Rightarrow> gen \<Rightarrow> gen" where
  "param_gen p = in_order [
     w (if prm_star p then ''*'' else []),
     w (if prm_dbl_star p then ''**'' else []),
     w (prm_name p),
     (case prm_anno p of Some e \<Rightarrow> in_order [w '': '', expr_w e PREC_LOWEST] | None \<Rightarrow> (\<lambda>g. g)),
     (case prm_default p of Some e \<Rightarrow> in_order [w ''='', expr_w e PREC_LOWEST] | None \<Rightarrow> (\<lambda>g. g))]"

definition params_gen :: "param list \<Rightarrow> gen \<Rightarrow> gen" where
  "params_gen ps = separated '', '' (map param_gen ps)"

definition call_args_text :: "param list \<Rightarrow> string" where
  "call_args_text ps = join '', '' (map (\<lambda>p. (if prm_star p then ''*'' else []) @
     (if prm_dbl_star p then ''**'' else []) @ prm_name p) (filter (\<lambda>p. prm_name p \<noteq> []) ps))"

definition decorator_gen :: "expr \<Rightarrow> gen \<Rightarrow> gen" where
  "decorator_gen d = in_order [indent_line, w ''@'', expr_w d PREC_LOWEST, w nl]"

definition seal_flag_line :: "bool \<Rightarrow> gen \<Rightarrow> gen" where
  "seal_flag_line b = in_order [indent_line, w (if b
     then ''object.__setattr__(self, '' @ [single_quote] @ ''_fly_seal_initializing'' @ [single_quote] @ '', True)'' @ nl
     else ''object.__setattr__(self, '' @ [single_quote] @ ''_fly_seal_initializing'' @ [single_quote] @ '', False)'' @ nl)]"

definition func_def_gen :: "string \<Rightarrow> param list \<Rightarrow> expr option \<Rightarrow> (gen \<Rightarrow> gen) list \<Rightarrow> expr list \<Rightarrow> gen \<Rightarrow> gen" where
  "func_def_gen name ps rt body decorators = within_fn name (in_order (map decorator_gen decorators @ [
     indent_line, w (''def '' @ name @ ''(''), params_gen ps, w '')'',
     (case rt of Some e \<Rightarrow> in_order [w '' -> '', expr_w e PREC_LOWEST] | None \<Rightarrow> (\<lambda>g. g)),
     w '':'',
     (\<lambda>g. if g_seal_init g \<and> name = ''__init__''
           then in_order ([w nl, indent_in, seal_flag_line True] @ body @ [seal_flag_line False, indent_out]) g
           else suite_gen body g)]))"

definition setattr_method :: "bool \<Rightarrow> gen \<Rightarrow> gen" where
  "setattr_method del =
     (let m = (if del then ''delattr'' else ''setattr'');
          sig = (if del then ''(self, name)'' else ''(self, name, value)'');
          raise = (if del
            then ''raise AttributeError('' @ [double_quote] @ ''seal '' @ utf8 [231, 177, 187] @ '' %s '' @ utf8 [231, 154, 132, 229, 177, 158, 230, 128, 167] @ '' %s '' @ utf8 [228, 184, 141, 229, 143, 175, 229, 136, 160, 233, 153, 164, 34] @ '' % (type(self).__name__, name))''
            else ''raise AttributeError('' @ [double_quote] @ ''seal '' @ utf8 [231, 177, 187] @ '' %s '' @ utf8 [231, 154, 132, 229, 177, 158, 230, 128, 167] @ '' %s '' @ utf8 [228, 184, 141, 229, 143, 175, 228, 191, 174, 230, 148, 185, 34] @ '' % (type(self).__name__, name))'')
      in in_order [
        indent_line, w (''def __'' @ m @ ''__'' @ sig @ '':'' @ nl), indent_in,
        indent_line,
        w (''if _fly_sb_builtins.getattr(self, '' @ [double_quote] @ ''_fly_seal_initializing'' @ [double_quote] @ '', False):'' @ nl), indent_in,
        indent_line, w (''object.__'' @ m @ ''__(self, name'' @ (if del then [] else '', value'') @ '')'' @ nl), indent_out,
        indent_line, w (''else:'' @ nl), indent_in,
        indent_line, w (raise @ nl), indent_out, indent_out])"

definition seal_suite :: "(gen \<Rightarrow> gen) list \<Rightarrow> gen \<Rightarrow> gen" where
  "seal_suite body =
     (if body = [] then in_order [w ('' pass'' @ nl), indent_line, setattr_method False, indent_line, setattr_method True]
      else in_order [w nl, indent_in, within_seal (in_order body), setattr_method False, setattr_method True, indent_out])"

text \<open>\<open>self.nc += 1\<close>, and the number for the names of temporaries.\<close>

definition numbered :: "(string \<Rightarrow> gen \<Rightarrow> gen) \<Rightarrow> gen \<Rightarrow> gen" where
  "numbered act g = (let g = bump g in act (digits_of (g_nc g)) g)"

definition import_gen :: "position \<Rightarrow> import_item \<Rightarrow> gen \<Rightarrow> gen" where
  "import_gen pos it = in_order [indent_line, w ((if imp_alias it = [] then import_module it else imp_alias it) @
     '' = _fly_sb_import('' @ dquote (imp_name it) @ '', '' @ loc pos @ '')'' @ nl)]"

definition from_import_gen :: "position \<Rightarrow> string \<Rightarrow> import_item list \<Rightarrow> gen \<Rightarrow> gen" where
  "from_import_gen pos md items =
     (let mod_var = ''_fly_sb_mod_'' @ map (\<lambda>c. if c = CHR ''.'' then CHR ''_'' else c) md in
      in_order ([indent_line, w (mod_var @ '' = _fly_sb_import('' @ dquote md @ '', '' @ loc pos @ '', fromlist=('' @
          quote_tuple (map imp_name items) [double_quote] '', '' @ ''))'' @ nl)] @
        map (\<lambda>it. in_order [indent_line, w ((if imp_alias it = [] then imp_name it else imp_alias it) @ '' = '' @
          mod_var @ ''.'' @ imp_name it @ nl)]) items))"

definition trim_eqs :: "string \<Rightarrow> string" where
  "trim_eqs op = rev (dropWhile (\<lambda>c. c = CHR ''='') (rev op))"

definition aug_tail :: "expr \<Rightarrow> string \<Rightarrow> position \<Rightarrow> gen \<Rightarrow> gen" where
  "aug_tail right op pos = in_order [expr_w right PREC_COND,
     w ('', '' @ dquote (op_name (trim_eqs op)) @ '', '' @ loc pos @ ''), '' @ loc pos @ '')'' @ nl)]"

definition aug_assign :: "position \<Rightarrow> expr list \<Rightarrow> string \<Rightarrow> expr \<Rightarrow> gen \<Rightarrow> gen" where
  "aug_assign pos left op right =
     (case left of
        [Subscript _ x index] \<Rightarrow> numbered (\<lambda>a. numbered (\<lambda>b.
          let tx = ''_fly_aa_'' @ a; ti = ''_fly_ab_'' @ b in
          in_order [
            indent_line, w (tx @ '' = ''), expr_w x PREC_COND, w nl,
            indent_line, w (ti @ '' = ''), index_arg index, w nl,
            indent_line, w (''_fly_set('' @ tx @ '', '' @ ti @ '', _fly_binop(_fly_get('' @ tx @ '', '' @ ti @ '', '' @
              loc pos @ ''), ''),
            aug_tail right op pos]))
      | [Attr _ x name] \<Rightarrow> numbered (\<lambda>a.
          let tx = ''_fly_aa_'' @ a in
          in_order [
            indent_line, w (tx @ '' = ''), expr_w x PREC_COND, w nl,
            indent_line, w (''_fly_setattr('' @ tx @ '', '' @ py_quote name @ '', _fly_binop(_fly_attr('' @ tx @ '', '' @
              py_quote name @ '', '' @ loc pos @ ''), ''),
            aug_tail right op pos])
      | _ \<Rightarrow> in_order [indent_line, expr_w (hd left) PREC_LOWEST, w ('' '' @ op @ '' ''), expr_w right PREC_LOWEST, w nl])"

definition assign_gen :: "position \<Rightarrow> expr list \<Rightarrow> string \<Rightarrow> expr \<Rightarrow> gen \<Rightarrow> gen" where
  "assign_gen pos left op right =
     (if op \<noteq> ''='' then aug_assign pos left op right
      else case left of
        [Subscript _ x index] \<Rightarrow> (\<lambda>g.
          if plain_index g x index then
            in_order [indent_line, w ''_fly_set_plain('', expr_w x PREC_COND, w '', '', expr_w index PREC_COND, w '', '',
              expr_w right PREC_COND, w ('', '' @ loc pos @ '')''), w nl] g
          else
            in_order [indent_line, w ''_fly_set('', expr_w x PREC_COND, w '', '', index_arg index, w '', '',
              expr_w right PREC_COND, w ('', '' @ loc pos @ '')''), w nl] g)
      | [Attr _ x name] \<Rightarrow> (\<lambda>g.
          in_order [indent_line,
            w (if plain_attr (g_types g) x name (g_cur_fn g) then ''_fly_setattr_plain('' else ''_fly_setattr(''),
            expr_w x PREC_COND, w ('', '' @ py_quote name @ '', ''), expr_w right PREC_COND,
            w ('', '' @ loc pos @ '')''), w nl] g)
      | _ \<Rightarrow> in_order [indent_line, separated '' = '' (map (\<lambda>l. expr_w l PREC_LOWEST) left),
          w ('' '' @ op @ '' ''), expr_w right PREC_LOWEST, w nl])"

text \<open>
  \<open>render\<close>: the text of an expression in plain mode, trimmed.  Rendered expressions begin and end with
  ASCII characters, so that trimming ASCII white space is enough.
\<close>

definition is_space :: "char \<Rightarrow> bool" where
  "is_space c \<longleftrightarrow> ord c = 32 \<or> 9 \<le> ord c \<and> ord c \<le> 13"

definition trim :: "string \<Rightarrow> string" where
  "trim s = rev (dropWhile is_space (rev (dropWhile is_space s)))"

definition sub_gen :: "type_infer \<Rightarrow> gen" where
  "sub_gen ti = \<lparr>g_buf = [], g_indent = 0, g_plain = True, g_keep_ann = False, g_seal_init = False, g_nc = 0,
     g_types = ti, g_cur_fn = []\<rparr>"

definition render :: "type_infer \<Rightarrow> expr \<Rightarrow> string" where
  "render ti e = trim (g_buf (expr_w e PREC_LOWEST (sub_gen ti)))"

definition guard_msg :: "type_infer \<Rightarrow> string \<Rightarrow> expr option \<Rightarrow> expr list \<Rightarrow> string" where
  "guard_msg ti name ty conds =
     (let head = (if name \<noteq> [] then '' '' @ name else []) @ (case ty of Some t \<Rightarrow> '': '' @ render ti t | None \<Rightarrow> []);
          cs = map (\<lambda>c. '' '' @ render ti c) conds
      in ''guard'' @ head @ (if name \<noteq> [] \<or> ty \<noteq> None then concat (map (\<lambda>c. '','' @ c) cs) else join '','' cs))"

definition guard_gen :: "string \<Rightarrow> expr option \<Rightarrow> expr list \<Rightarrow> gen \<Rightarrow> gen" where
  "guard_gen name ty conds = (\<lambda>g. in_order [
     indent_line, w ''if not ('',
     separated '' and ''
       ((case ty of
           Some t \<Rightarrow> if name \<noteq> [] then [in_order [w (''isinstance('' @ name @ '', ''), expr_w t PREC_LOWEST, w '')'']] else []
         | None \<Rightarrow> []) @
        map (\<lambda>c. in_order [w ''('', expr_w c PREC_LOWEST, w '')'']) conds),
     w (''):'' @ nl), indent_in,
     indent_line, w (''raise GuardError('' @ py_quote (guard_msg (g_types g) name ty conds) @ '')'' @ nl), indent_out] g)"

fun delete_target :: "expr \<Rightarrow> gen \<Rightarrow> gen" where
  "delete_target (Subscript _ x index) = in_order [expr_w x PREC_POST, w ''['', index_arg index, w '']'']"
| "delete_target (Attr _ x name) = in_order [expr_w x PREC_POST, w ''.'', w name]"
| "delete_target (TupleLit _ es _) = separated '', '' (map (\<lambda>e. delete_target e) es)"
| "delete_target e = expr_w e PREC_LOWEST"

definition only_gen :: "string list \<Rightarrow> (gen \<Rightarrow> gen) list \<Rightarrow> gen \<Rightarrow> gen" where
  "only_gen modules body = in_order (map (\<lambda>m. in_order [indent_line, w (''import '' @ m @ nl)]) modules @ [
     numbered (\<lambda>k. let saved = ''_fly_ob_'' @ k in
       in_order ([indent_line, w (saved @ '' = _fly_sb_module_globals.get('' @ [double_quote] @ ''__builtins__'' @ [double_quote] @ '', _fly_builtins)'' @ nl),
         indent_line, w (''__builtins__ = _FlyOnly('' @ mods_lit modules @ '')'' @ nl)] @ body @
         [indent_line, w (''__builtins__ = '' @ saved @ nl)]))])"

definition patch_line :: "string list \<Rightarrow> string \<Rightarrow> gen \<Rightarrow> gen" where
  "patch_line modules name = in_order [indent_line,
     w (name @ '' = _fly_patch_builtins('' @ name @ '', '' @ mods_lit modules @ '')'' @ nl)]"

definition cage_line :: "bool \<Rightarrow> f64 \<Rightarrow> bool \<Rightarrow> int \<Rightarrow> gen \<Rightarrow> gen" where
  "cage_line has_time max_time has_mem max_memory = in_order [indent_line,
     w (''@_fly_cage('' @ join '', '' ((if has_time then [show_f64 max_time] else []) @
        (if has_mem then [show_int max_memory] else [])) @ '')'' @ nl)]"

definition log_call :: "string \<Rightarrow> string" where
  "log_call level = ''_fly_log.log(_fly_log.'' @ level"

definition trace_enter :: "string \<Rightarrow> bool \<Rightarrow> string \<Rightarrow> param list \<Rightarrow> string" where
  "trace_enter level args name ps =
     (let names = map prm_name (filter (\<lambda>p. prm_name p \<noteq> [] \<and> \<not> prm_star p \<and> \<not> prm_dbl_star p) ps) in
      if args \<and> names \<noteq> [] then
        log_call level @ '', '' @ dquote (''enter '' @ name @ concat (map (\<lambda>n. '', '' @ n @ ''=%r'') names)) @ '', '' @
        join '', '' names @ '')'' @ nl
      else log_call level @ '', '' @ dquote (''enter '' @ name) @ '')'' @ nl)"

definition trace_func :: "string \<Rightarrow> bool \<Rightarrow> bool \<Rightarrow> string \<Rightarrow> param list \<Rightarrow> (gen \<Rightarrow> gen) list \<Rightarrow> expr list \<Rightarrow>
    gen \<Rightarrow> gen" where
  "trace_func level args rets name ps body decorators = numbered (\<lambda>k.
     let rt = ''_fly_ret_'' @ k; er = ''_fly_err_'' @ k in
     in_order (map decorator_gen decorators @ [
       indent_line, w (''def '' @ name @ ''(''), params_gen ps, w (''):'' @ nl), indent_in,
       indent_line, w (trace_enter level args name ps),
       indent_line, w (''try:'' @ nl), indent_in,
       indent_line, w (rt @ '' = _fly_trace_impl_'' @ name @ ''('' @ call_args_text ps @ '')'' @ nl), indent_out,
       indent_line, w (''except BaseException as '' @ er @ '':'' @ nl), indent_in,
       indent_line, w (log_call level @ '', '' @ dquote (''exit '' @ name @ '': raise %r'') @ '', '' @ er @ '')'' @ nl),
       indent_line, w (''raise'' @ nl), indent_out,
       indent_line, w (log_call level @ '', '' @ (if rets then dquote (''exit '' @ name @ '': ret=%r'') @ '', '' @ rt
         else dquote (''exit '' @ name)) @ '')'' @ nl),
       indent_line, w (''return '' @ rt @ nl), indent_out,
       indent_line, w (''def _fly_trace_impl_'' @ name @ ''(''), params_gen ps, w ''):'', suite_gen body]))"

definition for_head :: "position \<Rightarrow> expr \<Rightarrow> expr \<Rightarrow> gen \<Rightarrow> gen" where
  "for_head pos target iter = in_order [indent_line, w ''for '', expr_w target PREC_LOWEST,
     (\<lambda>g. if g_plain g \<or> plain_iter (g_types g) iter (g_cur_fn g)
       then in_order [w '' in '', expr_w iter PREC_COND, w '':''] g
       else in_order [w '' in _fly_iter('', expr_w iter PREC_COND, w ('', '' @ loc pos @ ''):'')] g)]"

definition class_head :: "string \<Rightarrow> expr list \<Rightarrow> expr list \<Rightarrow> gen \<Rightarrow> gen" where
  "class_head name bases decorators = in_order (map decorator_gen decorators @ [
     indent_line, w (''class '' @ name),
     (if bases = [] then (\<lambda>g. g) else
        in_order [w ''('', separated '', '' (map (\<lambda>b. expr_w b PREC_LOWEST) bases), w '')'']),
     w '':''])"

text \<open>A keyword with an optional expression, and a further part, on a line of its own.\<close>

definition line_gen :: "string \<Rightarrow> expr option \<Rightarrow> string \<Rightarrow> expr option \<Rightarrow> gen \<Rightarrow> gen" where
  "line_gen kw e mid f = in_order [indent_line, w kw,
     (case e of Some x \<Rightarrow> in_order [w '' '', expr_w x PREC_LOWEST] | None \<Rightarrow> (\<lambda>g. g)),
     (case f of Some x \<Rightarrow> in_order [w mid, expr_w x PREC_LOWEST] | None \<Rightarrow> (\<lambda>g. g)),
     w nl]"

subsection \<open>Statements\<close>

text \<open>
  \<open>traced\<close> and \<open>guarded_by\<close> are the loops of \<open>trace\<close>, \<open>only\<close> and \<open>cage\<close> over their bodies: a function
  definition is rewritten, followed or preceded by a line; other statements are left as they are.
\<close>

fun stmt_gen :: "stmt \<Rightarrow> gen \<Rightarrow> gen"
  and elif_gen :: "elif_clause \<Rightarrow> gen \<Rightarrow> gen"
  and except_gen :: "except_clause \<Rightarrow> gen \<Rightarrow> gen"
  and only_body :: "string list \<Rightarrow> stmt \<Rightarrow> gen \<Rightarrow> gen"
  and cage_body :: "(gen \<Rightarrow> gen) \<Rightarrow> stmt \<Rightarrow> gen \<Rightarrow> gen"
  and trace_body :: "string \<Rightarrow> bool \<Rightarrow> bool \<Rightarrow> stmt \<Rightarrow> gen \<Rightarrow> gen" where
  "stmt_gen (Import pos items) = separated nl (map (import_gen pos) items)"
| "stmt_gen (FromImport pos md items) = from_import_gen pos md items"
| "stmt_gen (Assign pos left op right) = assign_gen pos left op right"
| "stmt_gen (Lock _ name val) =
     (case val of Some v \<Rightarrow> in_order [indent_line, w (name @ '' = ''), expr_w v PREC_LOWEST, w nl] | None \<Rightarrow> (\<lambda>g. g))"
| "stmt_gen (Safe _ _) = (\<lambda>g. g)"
| "stmt_gen (Mask _ _) = (\<lambda>g. g)"
| "stmt_gen (Guard _ name ty conds) = guard_gen name ty conds"
| "stmt_gen (ExprStmt _ x) = in_order [indent_line, expr_w x PREC_LOWEST, w nl]"
| "stmt_gen (FuncDef _ name ps rt body decorators) = func_def_gen name ps rt (map (\<lambda>s. stmt_gen s) body) decorators"
| "stmt_gen (ClassDef _ name bases body decorators seal) = in_order [class_head name bases decorators,
     (if seal then seal_suite (map (\<lambda>s. stmt_gen s) body) else suite_gen (map (\<lambda>s. stmt_gen s) body))]"
| "stmt_gen (Only _ modules body) = only_gen modules (map (\<lambda>s. only_body modules s) body)"
| "stmt_gen (Trace _ level args rets body) =
     in_order (map (\<lambda>s. trace_body (if level = ''WARN'' then ''WARNING'' else level) args rets s) body)"
| "stmt_gen (Cage _ has_time max_time has_mem max_memory body) =
     in_order (map (\<lambda>s. cage_body (cage_line has_time max_time has_mem max_memory) s) body)"
| "stmt_gen (If _ c thn elifs els) = in_order ([indent_line, w ''if '', expr_w c PREC_LOWEST, w '':'',
     suite_gen (map (\<lambda>s. stmt_gen s) thn)] @ map (\<lambda>e. elif_gen e) elifs @ [else_gen ''else'' (map (\<lambda>s. stmt_gen s) els)])"
| "stmt_gen (For pos target iter body els) = in_order [for_head pos target iter,
     suite_gen (map (\<lambda>s. stmt_gen s) body), else_gen ''else'' (map (\<lambda>s. stmt_gen s) els)]"
| "stmt_gen (While _ c body els) = in_order [indent_line, w ''while '', expr_w c PREC_LOWEST, w '':'',
     suite_gen (map (\<lambda>s. stmt_gen s) body), else_gen ''else'' (map (\<lambda>s. stmt_gen s) els)]"
| "stmt_gen (Return _ val) = line_gen ''return'' val [] None"
| "stmt_gen (Raise _ exc frm) = line_gen ''raise'' exc '' from '' frm"
| "stmt_gen (Try _ body handlers els fin) = in_order ([indent_line, w ''try:'',
     suite_gen (map (\<lambda>s. stmt_gen s) body)] @ map (\<lambda>h. except_gen h) handlers @
     [else_gen ''else'' (map (\<lambda>s. stmt_gen s) els), else_gen ''finally'' (map (\<lambda>s. stmt_gen s) fin)])"
| "stmt_gen (Pass _) = in_order [indent_line, w (''pass'' @ nl)]"
| "stmt_gen (Break _) = in_order [indent_line, w (''break'' @ nl)]"
| "stmt_gen (Continue _) = in_order [indent_line, w (''continue'' @ nl)]"
| "stmt_gen (Delete _ targets) = in_order [indent_line, w ''del '', separated '', '' (map delete_target targets), w nl]"
| "elif_gen (ElifClause _ c body) = in_order [indent_line, w ''elif '', expr_w c PREC_LOWEST, w '':'',
     suite_gen (map (\<lambda>s. stmt_gen s) body)]"
| "except_gen (ExceptClause _ ty name body) = in_order [indent_line, w ''except'',
     (case ty of
        Some t \<Rightarrow> in_order [w '' '', expr_w t PREC_LOWEST, w (if name \<noteq> [] then '' as '' @ name else [])]
      | None \<Rightarrow> (\<lambda>g. g)),
     w '':'', suite_gen (map (\<lambda>s. stmt_gen s) body)]"
| "only_body modules s = in_order [stmt_gen s,
     (case s of FuncDef _ name _ _ _ _ \<Rightarrow> patch_line modules name | _ \<Rightarrow> (\<lambda>g. g))]"
| "cage_body line s = in_order [(case s of FuncDef _ _ _ _ _ _ \<Rightarrow> line | _ \<Rightarrow> (\<lambda>g. g)), stmt_gen s]"
| "trace_body level args rets s =
     (case s of
        FuncDef _ name ps _ body decorators \<Rightarrow> trace_func level args rets name ps (map (\<lambda>s. stmt_gen s) body) decorators
      | _ \<Rightarrow> stmt_gen s)"

subsection \<open>What of the runtime a module needs\<close>

definition is_guard :: "stmt \<Rightarrow> bool" where
  "is_guard s = (case s of Guard _ _ _ _ \<Rightarrow> True | _ \<Rightarrow> False)"

definition is_only :: "stmt \<Rightarrow> bool" where
  "is_only s = (case s of Only _ _ _ \<Rightarrow> True | _ \<Rightarrow> False)"

definition is_trace :: "stmt \<Rightarrow> bool" where
  "is_trace s = (case s of Trace _ _ _ _ _ \<Rightarrow> True | _ \<Rightarrow> False)"

definition is_cage :: "stmt \<Rightarrow> bool" where
  "is_cage s = (case s of Cage _ _ _ _ _ _ \<Rightarrow> True | _ \<Rightarrow> False)"

text \<open>\<open>matches!(s, ...) || need_stmt(scan, s)\<close>, where \<open>scan\<close> asks the same of each statement of a body.\<close>

fun need_stmt :: "(stmt \<Rightarrow> bool) \<Rightarrow> stmt \<Rightarrow> bool"
  and need_elif :: "(stmt \<Rightarrow> bool) \<Rightarrow> elif_clause \<Rightarrow> bool"
  and need_except :: "(stmt \<Rightarrow> bool) \<Rightarrow> except_clause \<Rightarrow> bool" where
  "need_stmt hit s \<longleftrightarrow> hit s \<or>
     (case s of
        FuncDef _ _ _ _ body _ \<Rightarrow> list_ex (\<lambda>t. need_stmt hit t) body
      | ClassDef _ _ _ body _ _ \<Rightarrow> list_ex (\<lambda>t. need_stmt hit t) body
      | If _ _ thn elifs els \<Rightarrow> list_ex (\<lambda>t. need_stmt hit t) thn \<or> list_ex (\<lambda>t. need_stmt hit t) els \<or>
          list_ex (\<lambda>e. need_elif hit e) elifs
      | For _ _ _ body els \<Rightarrow> list_ex (\<lambda>t. need_stmt hit t) body \<or> list_ex (\<lambda>t. need_stmt hit t) els
      | While _ _ body els \<Rightarrow> list_ex (\<lambda>t. need_stmt hit t) body \<or> list_ex (\<lambda>t. need_stmt hit t) els
      | Try _ body handlers els fin \<Rightarrow> list_ex (\<lambda>t. need_stmt hit t) body \<or> list_ex (\<lambda>t. need_stmt hit t) els \<or>
          list_ex (\<lambda>t. need_stmt hit t) fin \<or> list_ex (\<lambda>h. need_except hit h) handlers
      | Only _ _ body \<Rightarrow> list_ex (\<lambda>t. need_stmt hit t) body
      | Trace _ _ _ _ body \<Rightarrow> list_ex (\<lambda>t. need_stmt hit t) body
      | Cage _ _ _ _ _ body \<Rightarrow> list_ex (\<lambda>t. need_stmt hit t) body
      | _ \<Rightarrow> False)"
| "need_elif hit (ElifClause _ _ body) = list_ex (\<lambda>t. need_stmt hit t) body"
| "need_except hit (ExceptClause _ _ _ body) = list_ex (\<lambda>t. need_stmt hit t) body"

definition needs_only :: "stmt list \<Rightarrow> bool" where
  "needs_only ss = list_ex (need_stmt is_only) ss"

definition needs_trace :: "stmt list \<Rightarrow> bool" where
  "needs_trace ss = list_ex (need_stmt is_trace) ss"

definition needs_cage :: "stmt list \<Rightarrow> bool" where
  "needs_cage ss = list_ex (need_stmt is_cage) ss"

fun guard_in :: "stmt \<Rightarrow> bool"
  and guard_in_elif :: "elif_clause \<Rightarrow> bool"
  and guard_in_except :: "except_clause \<Rightarrow> bool" where
  "guard_in s =
     (case s of
        Guard _ _ _ _ \<Rightarrow> True
      | FuncDef _ _ _ _ body _ \<Rightarrow> list_ex (\<lambda>t. guard_in t) body
      | ClassDef _ _ _ body _ _ \<Rightarrow> list_ex (\<lambda>t. guard_in t) body
      | If _ _ thn elifs els \<Rightarrow> list_ex (\<lambda>t. guard_in t) thn \<or> list_ex (\<lambda>t. guard_in t) els \<or>
          list_ex (\<lambda>e. guard_in_elif e) elifs
      | For _ _ _ body els \<Rightarrow> list_ex (\<lambda>t. guard_in t) body \<or> list_ex (\<lambda>t. guard_in t) els
      | While _ _ body els \<Rightarrow> list_ex (\<lambda>t. guard_in t) body \<or> list_ex (\<lambda>t. guard_in t) els
      | Try _ body handlers els fin \<Rightarrow> list_ex (\<lambda>t. guard_in t) body \<or> list_ex (\<lambda>t. guard_in t) els \<or>
          list_ex (\<lambda>t. guard_in t) fin \<or> list_ex (\<lambda>h. guard_in_except h) handlers
      | Only _ _ body \<Rightarrow> list_ex (\<lambda>t. guard_in t) body \<or> needs_only body
      | Trace _ _ _ _ body \<Rightarrow> list_ex (\<lambda>t. guard_in t) body \<or> needs_trace body
      | Cage _ _ _ _ _ body \<Rightarrow> list_ex (\<lambda>t. guard_in t) body \<or> needs_cage body
      | _ \<Rightarrow> False)"
| "guard_in_elif (ElifClause _ _ body) = list_ex (\<lambda>t. guard_in t) body"
| "guard_in_except (ExceptClause _ _ _ body) = list_ex (\<lambda>t. guard_in t) body"

definition needs_guard :: "stmt list \<Rightarrow> bool" where
  "needs_guard ss = list_ex guard_in ss"

subsection \<open>Runtime sections and annotations\<close>

text \<open>\<open>str::lines\<close>: split at line feeds, without the line feed and a carriage return before it.\<close>

fun strip_cr :: "string \<Rightarrow> string" where
  "strip_cr l = (if l \<noteq> [] \<and> last l = carriage_return then butlast l else l)"

fun text_lines :: "string \<Rightarrow> string \<Rightarrow> string list" where
  "text_lines cur [] = (if cur = [] then [] else [cur])"
| "text_lines cur (c # s) = (if c = newline then strip_cr cur # text_lines [] s else text_lines (cur @ [c]) s)"

definition section_mark :: string where
  "section_mark = ''# fly:section:''"

fun section_lines :: "string \<Rightarrow> bool \<Rightarrow> string list \<Rightarrow> string" where
  "section_lines name in_sec [] = []"
| "section_lines name in_sec (l # ls) =
     (if take (length section_mark) l = section_mark
      then section_lines name (drop (length section_mark) l = name) ls
      else (if in_sec then l @ nl else []) @ section_lines name in_sec ls)"

definition trim_end_nl :: "string \<Rightarrow> string" where
  "trim_end_nl s = rev (dropWhile (\<lambda>c. c = newline) (rev s))"

definition section_text :: "string \<Rightarrow> string \<Rightarrow> string" where
  "section_text rt name = trim_end_nl (section_lines name False (text_lines [] rt)) @ nl"

definition runtime_prelude :: "string \<Rightarrow> bool \<Rightarrow> bool \<Rightarrow> bool \<Rightarrow> bool \<Rightarrow> bool \<Rightarrow> bool \<Rightarrow> gen \<Rightarrow> gen" where
  "runtime_prelude rt guard only trace cage runtime sandbox =
     in_order (map (\<lambda>(name, need). if \<not> need then (\<lambda>g. g)
         else let sec = section_text rt name in if sec = [] then (\<lambda>g. g) else in_order [w sec, w nl])
       [(''guard'', guard), (''only'', only), (''trace'', trace), (''cage'', cage), (''runtime'', runtime),
        (''sandbox'', sandbox)])"

definition ann_at :: "string \<Rightarrow> position \<Rightarrow> string" where
  "ann_at kind pos = kind @ digits_of (pos_line pos) @ '':'' @ digits_of (pos_col pos) @ nl"

definition declared_at :: "position \<Rightarrow> string" where
  "declared_at pos = ann_at ('' '' @ utf8 [229, 163, 176, 230, 152, 142, 228, 186, 142] @ '' '') pos"

definition begun_at :: "position \<Rightarrow> string" where
  "begun_at pos = ann_at ('' '' @ utf8 [229, 188, 128, 229, 167, 139, 228, 186, 142] @ '' '') pos"

fun annotation :: "type_infer \<Rightarrow> stmt \<Rightarrow> string"
  and ann_elif :: "type_infer \<Rightarrow> elif_clause \<Rightarrow> string"
  and ann_except :: "type_infer \<Rightarrow> except_clause \<Rightarrow> string" where
  "annotation ti s =
     (case s of
        Safe pos names \<Rightarrow> concat (map (\<lambda>n. ''# fly-safe: '' @ n @ declared_at pos) names)
      | Mask pos names \<Rightarrow> concat (map (\<lambda>n. ''# fly-mask: '' @ n @ declared_at pos) names)
      | Lock pos name _ \<Rightarrow> ''# fly-lock: '' @ name @ declared_at pos
      | Guard pos name ty conds \<Rightarrow> ''# fly-guard: '' @ guard_msg ti name ty conds @ declared_at pos
      | Only pos modules body \<Rightarrow> ''# fly-only: '' @ utf8 [231, 153, 189, 229, 144, 141, 229, 141, 149] @ '' ['' @ join '' '' modules @ '']'' @ begun_at pos @
          concat (map (\<lambda>t. annotation ti t) body)
      | ClassDef pos name _ body _ seal \<Rightarrow>
          (if seal then ''# fly-seal: '' @ utf8 [231, 177, 187] @ '' '' @ name @ ann_at ('' '' @ utf8 [229, 174, 154, 228, 185, 137, 228, 186, 142] @ '' '') pos else []) @
          concat (map (\<lambda>t. annotation ti t) body)
      | Trace pos level _ _ body \<Rightarrow> ''# fly-trace: level='' @ level @ begun_at pos @
          concat (map (\<lambda>t. annotation ti t) body)
      | Cage pos _ _ _ _ body \<Rightarrow> ''# fly-cage:'' @ begun_at pos @ concat (map (\<lambda>t. annotation ti t) body)
      | FuncDef _ _ _ _ body _ \<Rightarrow> concat (map (\<lambda>t. annotation ti t) body)
      | If _ _ thn elifs els \<Rightarrow> concat (map (\<lambda>t. annotation ti t) thn) @ concat (map (\<lambda>t. annotation ti t) els) @
          concat (map (\<lambda>e. ann_elif ti e) elifs)
      | For _ _ _ body els \<Rightarrow> concat (map (\<lambda>t. annotation ti t) body) @ concat (map (\<lambda>t. annotation ti t) els)
      | While _ _ body els \<Rightarrow> concat (map (\<lambda>t. annotation ti t) body) @ concat (map (\<lambda>t. annotation ti t) els)
      | Try _ body handlers els fin \<Rightarrow> concat (map (\<lambda>t. annotation ti t) body) @
          concat (map (\<lambda>t. annotation ti t) els) @ concat (map (\<lambda>t. annotation ti t) fin) @
          concat (map (\<lambda>h. ann_except ti h) handlers)
      | _ \<Rightarrow> [])"
| "ann_elif ti (ElifClause _ _ body) = concat (map (\<lambda>t. annotation ti t) body)"
| "ann_except ti (ExceptClause _ _ _ body) = concat (map (\<lambda>t. annotation ti t) body)"

definition annotations :: "type_infer \<Rightarrow> stmt list \<Rightarrow> string" where
  "annotations ti ss = (let sb = concat (map (annotation ti) ss) in if sb = [] then [] else sb @ nl)"

subsection \<open>Modules\<close>

definition is_docstring :: "stmt \<Rightarrow> bool" where
  "is_docstring s = (case s of ExprStmt _ (StringLit _ _) \<Rightarrow> True | _ \<Rightarrow> False)"

definition prelude :: "string \<Rightarrow> type_infer \<Rightarrow> stmt list \<Rightarrow> gen \<Rightarrow> gen" where
  "prelude rt ti stmts = in_order [
     runtime_prelude rt (needs_guard stmts) (needs_only stmts) (needs_trace stmts) (needs_cage stmts) True True,
     (\<lambda>g. if g_keep_ann g then w (annotations ti stmts) g else g)]"

fun gen_loop :: "nat \<Rightarrow> nat \<Rightarrow> (gen \<Rightarrow> gen) \<Rightarrow> stmt list \<Rightarrow> gen \<Rightarrow> gen" where
  "gen_loop i doc_end pre [] g = g"
| "gen_loop i doc_end pre (s # ss) g =
     gen_loop (i + 1) doc_end pre ss (stmt_gen s
       (if i = doc_end then pre (if doc_end = 1 then w nl g else g) else g))"

definition generate_opts :: "string \<Rightarrow> module \<Rightarrow> bool \<Rightarrow> string" where
  "generate_opts rt m keep =
     (let ti = ti_run (type_infer_new m);
          stmts = mod_stmts (ti_m ti);
          g = \<lparr>g_buf = [], g_indent = 0, g_plain = False, g_keep_ann = keep, g_seal_init = False, g_nc = 0,
               g_types = ti, g_cur_fn = []\<rparr>;
          doc_end = (case stmts of s # _ \<Rightarrow> if is_docstring s then 1 else 0 | [] \<Rightarrow> 0)
      in g_buf (gen_loop 0 doc_end (prelude rt ti stmts) stmts g))"

definition generate :: "string \<Rightarrow> module \<Rightarrow> string" where
  "generate rt m = generate_opts rt m False"

end
