(* ===== verification/Fly_Gen_Facts.thy ===== *)
theory Fly_Gen_Facts
  imports Fly_Gen
begin

text \<open>
  The text the generator writes.

  A predicate on characters that holds of the characters of the fixed texts, and of the names,
  operators and literals of an expression, holds of everything written for the expression; this
  gives both that no line is broken inside an expression and that no attribute access escapes the
  sandbox proxies.  Statements are handled by an effect system: \<open>eff\<close> records how an action changes the
  indentation and the position in the line, and what it leaves alone.
\<close>

subsection \<open>Characters of expressions\<close>

definition printable :: "char \<Rightarrow> bool" where
  "printable c \<longleftrightarrow> 32 \<le> ord c \<and> ord c \<le> 126 \<and> ord c \<noteq> 46"

fun leaf_all :: "(char \<Rightarrow> bool) \<Rightarrow> expr \<Rightarrow> bool"
  and leaf_all_kw :: "(char \<Rightarrow> bool) \<Rightarrow> kwarg \<Rightarrow> bool"
  and leaf_all_cl :: "(char \<Rightarrow> bool) \<Rightarrow> comp_clause \<Rightarrow> bool" where
  "leaf_all P (Name _ n) = list_all P n"
| "leaf_all P (IntLit _ v) = list_all P v"
| "leaf_all P (FloatLit _ v) = list_all P v"
| "leaf_all P (StringLit _ v) = list_all P v"
| "leaf_all P (EllipsisLit _) = P (CHR ''.'')"
| "leaf_all P (ListLit _ es) = list_all (\<lambda>e. leaf_all P e) es"
| "leaf_all P (TupleLit _ es _) = list_all (\<lambda>e. leaf_all P e) es"
| "leaf_all P (DictLit _ ks vs) \<longleftrightarrow> list_all (\<lambda>e. leaf_all P e) ks \<and> list_all (\<lambda>e. leaf_all P e) vs"
| "leaf_all P (SetLit _ es) = list_all (\<lambda>e. leaf_all P e) es"
| "leaf_all P (Call _ f as kws st ds) \<longleftrightarrow> leaf_all P f \<and> list_all (\<lambda>e. leaf_all P e) as \<and>
     list_all (\<lambda>k. leaf_all_kw P k) kws \<and> (case st of Some e \<Rightarrow> leaf_all P e | None \<Rightarrow> True) \<and>
     (case ds of Some e \<Rightarrow> leaf_all P e | None \<Rightarrow> True)"
| "leaf_all P (Attr _ x n) \<longleftrightarrow> leaf_all P x \<and> list_all P n"
| "leaf_all P (Slice _ lo hi st) \<longleftrightarrow> (case lo of Some e \<Rightarrow> leaf_all P e | None \<Rightarrow> True) \<and>
     (case hi of Some e \<Rightarrow> leaf_all P e | None \<Rightarrow> True) \<and> (case st of Some e \<Rightarrow> leaf_all P e | None \<Rightarrow> True)"
| "leaf_all P (Subscript _ x i) \<longleftrightarrow> leaf_all P x \<and> leaf_all P i"
| "leaf_all P (BinOp _ op x y) \<longleftrightarrow> list_all P op \<and> leaf_all P x \<and> leaf_all P y"
| "leaf_all P (UnaryOp _ op x) \<longleftrightarrow> list_all P op \<and> leaf_all P x"
| "leaf_all P (BoolOp _ op x y) \<longleftrightarrow> list_all P op \<and> leaf_all P x \<and> leaf_all P y"
| "leaf_all P (Compare _ x ops ys) \<longleftrightarrow> leaf_all P x \<and> list_all (list_all P) ops \<and> list_all (\<lambda>e. leaf_all P e) ys"
| "leaf_all P (Cond _ c t e) \<longleftrightarrow> leaf_all P c \<and> leaf_all P t \<and> leaf_all P e"
| "leaf_all P (ListComp _ e cls) \<longleftrightarrow> leaf_all P e \<and> list_all (\<lambda>c. leaf_all_cl P c) cls"
| "leaf_all_kw P (KwArg _ n v) \<longleftrightarrow> list_all P n \<and> leaf_all P v"
| "leaf_all_cl P (CompClause t i fs) \<longleftrightarrow> leaf_all P t \<and> leaf_all P i \<and> list_all (\<lambda>e. leaf_all P e) fs"

lemma list_all_join: "list_all P sep \<Longrightarrow> list_all (list_all P) xs \<Longrightarrow> list_all P (join sep xs)"
  by (induction sep xs rule: join.induct) auto

lemma ord_char_of: "ord (char_of (n::nat)) = int (n mod 256)"
proof -
  have "int (of_char (char_of n :: char)) = ord (char_of n)" unfolding ord_def by (rule of_nat_of_char)
  then show ?thesis by simp
qed

locale writable =
  fixes P :: "char \<Rightarrow> bool"
  assumes printable: "printable c \<Longrightarrow> P c"
begin

lemma lit: "list_all printable s \<Longrightarrow> list_all P s"
  by (auto simp: list_all_iff printable)

lemma digits: "list_all P (digits_of n)"
proof (induction n rule: digits_of.induct)
  case (1 n)
  have "printable (char_of (48 + d))" if "d < 10" for d :: nat
    using that by (simp add: printable_def ord_char_of)
  with 1 show ?case by (subst digits_of.simps) (simp add: printable)
qed

lemma hex: "list_all P (hex_of k n)"
proof (induction k arbitrary: n)
  case (Suc k)
  have "printable (hex_digit d)" if "d < 16" for d
    using that by (auto simp: hex_digit_def printable_def ord_char_of)
  with Suc show ?case by (simp add: printable)
qed simp

lemma escape: "P c \<Longrightarrow> list_all P (py_escape c)"
  unfolding py_escape_def by (simp add: hex printable printable_def ord_def)

lemma escapes: "list_all P s \<Longrightarrow> list_all P (py_escapes s)"
  by (induction s rule: py_escapes.induct) (simp_all add: escape hex printable printable_def ord_def)

lemma quotes: "list_all P s \<Longrightarrow> list_all P (py_quote s)" "list_all P s \<Longrightarrow> list_all P (dquote s)"
  by (simp_all add: py_quote_def dquote_def escapes printable printable_def ord_def)

lemma locs: "list_all P (loc pos)"
  by (simp add: loc_def digits printable printable_def ord_def)

lemmas tmpl = printable printable_def ord_def

lemma names: "list_all P (op_name op)" "list_all P (unary_name op)" "list_all P (cmp_name op)"
  by (auto simp: op_name_def unary_name_def cmp_name_def tmpl split: option.split)

lemma enclosed: "list_all P s \<Longrightarrow> list_all P (enclose e parent s)"
  by (simp add: enclose_def tmpl)

definition fine :: "operand \<Rightarrow> bool" where
  "fine x \<longleftrightarrow> list_all P (fst (snd x)) \<and> list_all P (snd (snd x))"

lemma link: "list_all P op \<Longrightarrow> fine l \<Longrightarrow> fine r \<Longrightarrow> list_all P (compare_link g pos op l r)"
  by (cases l; cases r) (simp add: compare_link_def fine_def tmpl locs quotes names)

lemma links: "list_all (list_all P) ops \<Longrightarrow> list_all fine xs \<Longrightarrow> list_all (list_all P) (compare_links g pos ops xs)"
  by (induction g pos ops xs rule: compare_links.induct) (auto intro: link)

lemma mapped: "\<forall>x \<in> set xs. list_all P (f x) \<Longrightarrow> list_all (list_all P) (map f xs)"
  by (simp add: list_all_iff)

lemma concats: "\<forall>x \<in> set xs. list_all P (f x) \<Longrightarrow> list_all P (concat (map f xs))"
  by (auto simp: list_all_iff)

lemma compare:
  assumes "list_all (list_all P) ops" "fine x" "list_all fine ys"
  shows "list_all P (compare_text g pos ops x ys)"
proof -
  have "list_all P (plain_compare ops ys)"
    using assms(1,3) by (induction ops ys rule: plain_compare.induct) (auto simp: fine_def tmpl)
  moreover have "list_all (list_all P) (map dquote ops)"
    using assms(1) by (intro mapped) (auto simp: list_all_iff [of "list_all P"] intro: quotes)
  then have "list_all P (dquotes ops)" by (simp add: dquotes_def tmpl list_all_join)
  moreover have "list_all P (concat (map (\<lambda>y. '', lambda: '' @ snd (snd y)) ys))"
    using assms(3) by (intro concats) (simp add: list_all_iff fine_def tmpl)
  ultimately show ?thesis
    using assms by (simp add: compare_text_def fine_def tmpl locs list_all_join links)
qed

lemma app: "list_all Q xs \<Longrightarrow> list_all Q ys \<Longrightarrow> list_all Q (xs @ ys)"
  by simp

lemma pairs:
  "list_all (list_all P) ks \<Longrightarrow> list_all (list_all P) vs \<Longrightarrow> list_all (list_all P) (map2 (\<lambda>k v. k @ '': '' @ v) ks vs)"
  by (induction ks vs rule: list_induct2') (simp_all add: tmpl)

lemma cast: "cast_name g f kws st ds = Some n \<Longrightarrow> list_all P n"
  by (auto simp: cast_name_def tmpl split: expr.splits if_splits)

lemma texts:
  assumes dot: "g_plain g \<Longrightarrow> P CHR ''.''"
  shows "leaf_all P e \<Longrightarrow> list_all P (expr_text g e parent)"
    and "leaf_all P e \<Longrightarrow> list_all P (index_text g e)"
    and "(case oe of Some e \<Rightarrow> leaf_all P e | None \<Rightarrow> True) \<Longrightarrow> list_all P (slice_part g oe)"
    and "leaf_all_kw P k \<Longrightarrow> list_all P (kwarg_text g k)"
    and "leaf_all_cl P c \<Longrightarrow> list_all P (clause_text g pos c)"
  using dot
proof (induction g e parent and g e and g oe and g k and g pos c
    rule: expr_text_index_text_slice_part_kwarg_text_clause_text.induct)
  case (6 g p es parent)
  then have "list_all (list_all P) (map (\<lambda>e. expr_text g e PREC_COND) es)"
    by (intro mapped) (auto simp: list_all_iff [of "leaf_all P"])
  then show ?case by (simp add: enclosed tmpl list_all_join)
next
  case (7 g p es paren parent)
  then have "list_all (list_all P) (map (\<lambda>e. expr_text g e PREC_COND) es)"
    by (intro mapped) (auto simp: list_all_iff [of "leaf_all P"])
  then show ?case by (simp add: enclosed tmpl list_all_join)
next
  case (8 g p ks vs parent)
  then have "list_all (list_all P) (map (\<lambda>e. expr_text g e PREC_COND) ks)"
      "list_all (list_all P) (map (\<lambda>e. expr_text g e PREC_COND) vs)"
    by (intro mapped; auto simp: list_all_iff [of "leaf_all P"])+
  then show ?case by (simp add: enclosed tmpl list_all_join pairs [simplified append.simps])
next
  case (9 g p es parent)
  then have "list_all (list_all P) (map (\<lambda>e. expr_text g e PREC_COND) es)"
    by (intro mapped) (auto simp: list_all_iff [of "leaf_all P"])
  then show ?case by (simp add: enclosed tmpl list_all_join)
next
  case (10 g p f as kws st ds parent)
  note leaves = 10(7) and dot = 10(8)
  show ?case
  proof (cases "cast_name g f kws st ds")
    case (Some n)
    have "list_all P (concat (map (\<lambda>e. '', '' @ expr_text g e PREC_COND) as))"
      by (rule concats) (use 10(6) [OF Some] leaves dot in \<open>auto simp: list_all_iff [of "leaf_all P"] tmpl\<close>)
    with Some show ?thesis by (simp add: enclosed tmpl digits cast [OF Some])
  next
    case None
    have "list_all (list_all P) (map (\<lambda>e. expr_text g e PREC_COND) as)"
      by (rule mapped) (use 10(2) [OF None] leaves dot in \<open>auto simp: list_all_iff [of "leaf_all P"]\<close>)
    moreover have "list_all (list_all P) (map (\<lambda>k. kwarg_text g k) kws)"
      by (rule mapped) (use 10(5) [OF None] leaves dot in \<open>auto simp: list_all_iff [of "leaf_all_kw P"]\<close>)
    moreover have "list_all (list_all P) (case st of Some e \<Rightarrow> [''*'' @ expr_text g e PREC_COND] | None \<Rightarrow> [])"
      using leaves dot 10(3) [OF None] by (cases st) (simp_all add: tmpl)
    moreover have "list_all (list_all P) (case ds of Some e \<Rightarrow> [''**'' @ expr_text g e PREC_COND] | None \<Rightarrow> [])"
      using leaves dot 10(4) [OF None] by (cases ds) (simp_all add: tmpl)
    moreover have "list_all P (expr_text g f PREC_POST)" using 10(1) [OF None] leaves dot by simp
    ultimately show ?thesis
      by (simp only: expr_text.simps None option.case, intro enclosed app list_all_join) (assumption | simp add: tmpl)+
  qed
next
  case (17 g p x ops ys parent)
  then have "list_all fine (map (\<lambda>y. (y, expr_text g y PREC_COMPARE, expr_text g y PREC_LOWEST)) ys)"
    by (auto simp: list_all_iff [of fine] list_all_iff [of "leaf_all P"] fine_def)
  with 17 show ?case by (simp add: enclosed compare fine_def)
next
  case (19 g p e cls parent)
  then have "list_all P (concat (map (\<lambda>c. clause_text g p c) cls))"
    by (intro concats) (auto simp: list_all_iff [of "leaf_all_cl P"])
  with 19 show ?case by (simp add: enclosed tmpl)
next
  case (20 g e)
  then show ?case by (cases e) (simp_all add: tmpl split: option.splits)
next
  case (23 g p t i fs)
  then have "list_all P (concat (map (\<lambda>f. '' if '' @ expr_text g f PREC_COND) fs))"
    by (intro concats) (auto simp: list_all_iff [of "leaf_all P"] tmpl)
  with 23 show ?case by (simp add: tmpl locs)
qed (simp_all add: enclosed tmpl locs digits quotes names Let_def split: option.splits)

end



end
