(* ===== verification/Fly_Gen_Layout.thy ===== *)
theory Fly_Gen_Layout
  imports Fly_Gen_Facts
begin

text \<open>
  The layout of the generated code: every statement is written as whole lines that are indented at
  least as deep as the block it stands in, and leaves the generator's state as it found it.

  \<open>scan n\<close> reads a text against a floor of \<open>n\<close> levels: \<open>Start k\<close> is a line with only \<open>k\<close> blanks so far,
  \<open>Line\<close> a line with text on it, \<open>Bad\<close> a text that has a line beginning left of the floor.
\<close>

datatype col = Start nat | Line | Bad

fun scan_step :: "nat \<Rightarrow> col \<Rightarrow> char \<Rightarrow> col" where
  "scan_step n (Start k) c =
     (if c = newline then Start 0
      else if c = CHR '' '' then Start (k + 1)
      else if 4 * n \<le> k then Line else Bad)"
| "scan_step n Line c = (if c = newline then Start 0 else Line)"
| "scan_step n Bad c = Bad"

definition scan :: "nat \<Rightarrow> col \<Rightarrow> string \<Rightarrow> col" where
  "scan n = foldl (scan_step n)"

lemma scan_simps [simp]:
  "scan n c [] = c" "scan n c (x # s) = scan n (scan_step n c x) s" "scan n c (s @ t) = scan n (scan n c s) t"
  by (simp_all add: scan_def)

abbreviation one_line :: "string \<Rightarrow> bool" where
  "one_line \<equiv> list_all (\<lambda>c. c \<noteq> newline)"

text \<open>The places in a line that the actions need to know: its beginning, and behind the floor.\<close>

datatype place = BOL | INL | ERR

fun step_place :: "place \<Rightarrow> char \<Rightarrow> place" where
  "step_place INL c = (if c = newline then BOL else INL)"
| "step_place BOL c = (if c = newline then BOL else ERR)"
| "step_place ERR c = ERR"

definition places :: "place \<Rightarrow> string \<Rightarrow> place" where
  "places = foldl step_place"

lemma places_simps [simp]:
  "places c [] = c" "places c (x # s) = places (step_place c x) s" "places c (s @ t) = places (places c s) t"
  by (simp_all add: places_def)

fun in_place :: "nat \<Rightarrow> place \<Rightarrow> col \<Rightarrow> bool" where
  "in_place n BOL c \<longleftrightarrow> c = Start 0"
| "in_place n INL c \<longleftrightarrow> c = Line \<or> (\<exists>k. c = Start k \<and> 4 * n \<le> k)"
| "in_place n ERR c \<longleftrightarrow> True"

lemma in_place_step: "in_place n pl c \<Longrightarrow> in_place n (step_place pl x) (scan_step n c x)"
  by (cases pl; cases c) simp_all

lemma in_place_places: "in_place n pl c \<Longrightarrow> in_place n (places pl s) (scan n c s)"
  by (induction s arbitrary: pl c) (simp_all add: in_place_step)

lemma places_line: "one_line s \<Longrightarrow> places INL s = INL"
  by (induction s) auto

lemma scan_blanks: "scan n (Start k) (replicate m (CHR '' '')) = Start (k + m)"
  by (induction m arbitrary: k) auto

interpretation lines: writable "\<lambda>c. c \<noteq> newline"
  by standard (auto simp: printable_def ord_def)

subsection \<open>Effects of actions\<close>

definition same_env :: "gen \<Rightarrow> gen \<Rightarrow> bool" where
  "same_env g g' \<longleftrightarrow> g_plain g' = g_plain g \<and> g_keep_ann g' = g_keep_ann g \<and> g_seal_init g' = g_seal_init g \<and>
     g_types g' = g_types g \<and> g_cur_fn g' = g_cur_fn g \<and> g_nc g \<le> g_nc g'"

definition eff :: "nat \<Rightarrow> nat \<Rightarrow> place \<Rightarrow> nat \<Rightarrow> place \<Rightarrow> (gen \<Rightarrow> gen) \<Rightarrow> bool" where
  "eff n i c j d act \<longleftrightarrow> (\<forall>g. g_indent g = i \<longrightarrow>
     (\<exists>t. g_buf (act g) = g_buf g @ t \<and> (\<forall>s. in_place n c s \<longrightarrow> in_place n d (scan n s t))) \<and>
     g_indent (act g) = j \<and> same_env g (act g))"

lemma eff_id: "eff n i c i c (\<lambda>g. g)"
  by (simp add: eff_def same_env_def)

lemma eff_comp:
  assumes "eff n i c j d f" "eff n j d k e h"
  shows "eff n i c k e (\<lambda>g. h (f g))"
  unfolding eff_def
proof (intro allI impI)
  fix g :: gen
  assume "g_indent g = i"
  with assms(1) obtain t where t: "g_buf (f g) = g_buf g @ t" "\<forall>s. in_place n c s \<longrightarrow> in_place n d (scan n s t)"
    "g_indent (f g) = j" "same_env g (f g)"
    by (auto simp: eff_def)
  with assms(2) obtain u where u: "g_buf (h (f g)) = g_buf (f g) @ u" "\<forall>s. in_place n d s \<longrightarrow> in_place n e (scan n s u)"
    "g_indent (h (f g)) = k" "same_env (f g) (h (f g))"
    by (auto simp: eff_def)
  have "g_buf (h (f g)) = g_buf g @ (t @ u) \<and> (\<forall>s. in_place n c s \<longrightarrow> in_place n e (scan n s (t @ u)))"
    using t u by simp
  then have "\<exists>t. g_buf (h (f g)) = g_buf g @ t \<and> (\<forall>s. in_place n c s \<longrightarrow> in_place n e (scan n s t))" ..
  with t(4) u(3,4) show "(\<exists>t. g_buf (h (f g)) = g_buf g @ t \<and> (\<forall>s. in_place n c s \<longrightarrow> in_place n e (scan n s t))) \<and>
      g_indent (h (f g)) = k \<and> same_env g (h (f g))"
    by (auto simp: same_env_def)
qed

lemma eff_Nil: "eff n i c i c (in_order [])"
  by (simp add: eff_def same_env_def)

lemma eff_Cons: "eff n i c j d a \<Longrightarrow> eff n j d k e (in_order as) \<Longrightarrow> eff n i c k e (in_order (a # as))"
  using eff_comp [of n i c j d a k e "in_order as"] by (simp add: eff_def)

lemma in_order_append: "in_order (xs @ ys) g = in_order ys (in_order xs g)"
  by (simp add: in_order_def)

lemma eff_append:
  "eff n i c j d (in_order xs) \<Longrightarrow> eff n j d k e (in_order ys) \<Longrightarrow> eff n i c k e (in_order (xs @ ys))"
  using eff_comp [of n i c j d "in_order xs" k e "in_order ys"] by (simp add: eff_def in_order_append)

lemma eff_all: "\<forall>a \<in> set as. eff n i c i c a \<Longrightarrow> eff n i c i c (in_order as)"
  by (induction as) (auto intro: eff_Nil eff_Cons)

lemma eff_state: "(\<And>g. g_indent g = i \<Longrightarrow> eff n i c j d (act g)) \<Longrightarrow> eff n i c j d (\<lambda>g. act g g)"
  by (simp add: eff_def)

lemma eff_if: "eff n i c j d f \<Longrightarrow> eff n i c j d h \<Longrightarrow> eff n i c j d (\<lambda>g. if b g then f g else h g)"
  by (simp add: eff_def)

lemma eff_text_at: "(\<And>g. \<exists>t. act g = g\<lparr>g_buf := g_buf g @ t\<rparr> \<and> places c t = d) \<Longrightarrow> eff n i c i d act"
proof -
  assume act: "\<And>g. \<exists>t. act g = g\<lparr>g_buf := g_buf g @ t\<rparr> \<and> places c t = d"
  show ?thesis
    unfolding eff_def
  proof (intro allI impI)
    fix g :: gen
    assume "g_indent g = i"
    moreover obtain t where t: "act g = g\<lparr>g_buf := g_buf g @ t\<rparr>" "places c t = d" using act by blast
    have "\<forall>s. in_place n c s \<longrightarrow> in_place n d (scan n s t)" using in_place_places t(2) by blast
    ultimately show "(\<exists>t. g_buf (act g) = g_buf g @ t \<and> (\<forall>s. in_place n c s \<longrightarrow> in_place n d (scan n s t))) \<and>
        g_indent (act g) = i \<and> same_env g (act g)"
      using t(1) by (auto simp: same_env_def)
  qed
qed

lemma eff_w: "places c s = d \<Longrightarrow> eff n i c i d (w s)"
  by (rule eff_text_at) (auto simp: w_def)

lemma eff_text: "one_line s \<Longrightarrow> eff n i INL i INL (w s)"
  by (rule eff_w) (rule places_line)

lemma eff_text_nl: "one_line s \<Longrightarrow> eff n i INL i BOL (w (s @ nl))"
  by (rule eff_w) (simp add: places_line)

lemma eff_nl: "eff n i INL i BOL (w nl)"
  by (rule eff_w) simp

lemma blanks: "concat (replicate i ''    '') = replicate (4 * i) (CHR '' '')"
  by (induction i) (simp_all add: numeral_eq_Suc)

lemma eff_indent_line: "n \<le> i \<Longrightarrow> eff n i BOL i INL indent_line"
  by (auto simp: eff_def indent_line_def w_def same_env_def blanks scan_blanks)

lemma eff_in: "eff n i c (Suc i) c indent_in" and eff_out: "eff n (Suc i) c i c indent_out"
  by (auto simp: eff_def indent_in_def indent_out_def same_env_def)

lemma eff_bump: "eff n i c i c bump"
  by (auto simp: eff_def bump_def same_env_def)

lemma eff_within_fn:
  assumes "eff n i c j d act"
  shows "eff n i c j d (within_fn name act)"
  unfolding eff_def
proof (intro allI impI)
  fix g :: gen
  assume "g_indent g = i"
  with assms [unfolded eff_def, rule_format, of "g\<lparr>g_cur_fn := name\<rparr>"]
  show "(\<exists>t. g_buf (within_fn name act g) = g_buf g @ t \<and> (\<forall>s. in_place n c s \<longrightarrow> in_place n d (scan n s t))) \<and> g_indent (within_fn name act g) = j \<and>
      same_env g (within_fn name act g)"
    by (simp add: within_fn_def same_env_def)
qed

lemma eff_within_seal:
  assumes "eff n i c j d act"
  shows "eff n i c j d (within_seal act)"
  unfolding eff_def
proof (intro allI impI)
  fix g :: gen
  assume "g_indent g = i"
  with assms [unfolded eff_def, rule_format, of "g\<lparr>g_seal_init := True\<rparr>"]
  show "(\<exists>t. g_buf (within_seal act g) = g_buf g @ t \<and> (\<forall>s. in_place n c s \<longrightarrow> in_place n d (scan n s t))) \<and> g_indent (within_seal act g) = j \<and>
      same_env g (within_seal act g)"
    by (simp add: within_seal_def same_env_def)
qed

lemma eff_expr: "leaf_all (\<lambda>c. c \<noteq> newline) e \<Longrightarrow> eff n i INL i INL (expr_w e p)"
  by (rule eff_text_at) (use lines.texts(1) [of _ e p] in \<open>auto simp: expr_w_def w_def places_line\<close>)

lemma eff_index: "leaf_all (\<lambda>c. c \<noteq> newline) e \<Longrightarrow> eff n i INL i INL (index_arg e)"
  by (rule eff_text_at) (use lines.texts(2) [of _ e] in \<open>auto simp: index_arg_def w_def places_line\<close>)

text \<open>
  The same as rules for sequences: one action is taken off, and what it needs of the current state
  is an equation to be solved by simplification.
\<close>

lemma seq_Nil: "c = d \<Longrightarrow> i = j \<Longrightarrow> eff n i c j d (in_order [])"
  by (simp add: eff_Nil)

lemma seq_w: "eff n i (places c s) k e (in_order as) \<Longrightarrow> eff n i c k e (in_order (w s # as))"
  by (rule eff_Cons) (rule eff_w, rule refl)

lemma seq_indent_line:
  "c = BOL \<Longrightarrow> n \<le> i \<Longrightarrow> eff n i INL k e (in_order as) \<Longrightarrow> eff n i c k e (in_order (indent_line # as))"
  by (simp add: eff_Cons [OF eff_indent_line])

lemma seq_in: "eff n (Suc i) c k e (in_order as) \<Longrightarrow> eff n i c k e (in_order (indent_in # as))"
  by (rule eff_Cons [OF eff_in])

lemma seq_out: "i = Suc j \<Longrightarrow> eff n j c k e (in_order as) \<Longrightarrow> eff n i c k e (in_order (indent_out # as))"
  using eff_Cons [OF eff_out] by simp

lemma seq_expr:
  "c = INL \<Longrightarrow> leaf_all (\<lambda>c. c \<noteq> newline) x \<Longrightarrow> eff n i INL k e (in_order as) \<Longrightarrow> eff n i c k e (in_order (expr_w x p # as))"
  by (simp add: eff_Cons [OF eff_expr])

lemma seq_index:
  "c = INL \<Longrightarrow> leaf_all (\<lambda>c. c \<noteq> newline) x \<Longrightarrow> eff n i INL k e (in_order as) \<Longrightarrow> eff n i c k e (in_order (index_arg x # as))"
  by (simp add: eff_Cons [OF eff_index])

lemma seq_act:
  "eff n i c' j d a \<Longrightarrow> c = c' \<Longrightarrow> eff n j d k e (in_order as) \<Longrightarrow> eff n i c k e (in_order (a # as))"
  by (simp add: eff_Cons)

lemma seq_all:
  "\<forall>a \<in> set xs. eff n i c' i c' a \<Longrightarrow> c = c' \<Longrightarrow> eff n i c' k e (in_order as) \<Longrightarrow> eff n i c k e (in_order (xs @ as))"
  using eff_append [OF eff_all] by simp

lemma seq_map_last:
  "\<forall>x \<in> set xs. eff n i d i d (f x) \<Longrightarrow> c = d \<Longrightarrow> i = k \<Longrightarrow> eff n i c k d (in_order (map f xs))"
  using eff_all [of "map f xs" n i d] by simp

lemma in_order_assoc: "(xs @ ys) @ zs = xs @ ys @ zs" "(x # xs) @ ys = x # xs @ ys" "[] @ ys = ys"
  by simp_all

lemmas seqs = seq_w seq_indent_line seq_in seq_out seq_expr seq_index seq_Nil
lemma places_atom: "NO_MATCH (x # xs) s \<Longrightarrow> one_line s \<Longrightarrow> places INL s = INL"
  by (rule places_line)

lemma one_line_utf8 [simp]: "one_line (utf8 bs) = list_all (\<lambda>b. b mod 256 \<noteq> 10) bs"
  by (induction bs) (auto simp: utf8_def char_of_eq_iff take_bit_eq_mod)

lemmas line_texts = places_atom lines.digits lines.quotes lines.locs lines.names lines.tmpl list_all_join

lemma eff_separated:
  assumes "places c sep = c" "\<forall>a \<in> set as. eff n i c i c a"
  shows "eff n i c i c (separated sep as)"
  using assms
proof (induction sep as rule: separated.induct)
  case (3 sep a b as)
  have "eff n i c i c (\<lambda>g. w sep (a g))"
    by (rule eff_comp) (use 3 in \<open>auto intro: eff_w\<close>)
  from eff_comp [OF this] 3 show ?case by simp
qed (simp_all add: eff_id)

abbreviation clean_expr :: "expr \<Rightarrow> bool" where
  "clean_expr \<equiv> leaf_all (\<lambda>c. c \<noteq> newline)"

abbreviation clean_opt :: "expr option \<Rightarrow> bool" where
  "clean_opt e \<equiv> (case e of Some x \<Rightarrow> clean_expr x | None \<Rightarrow> True)"

definition clean_param :: "param \<Rightarrow> bool" where
  "clean_param p \<longleftrightarrow> one_line (prm_name p) \<and> clean_opt (prm_anno p) \<and> clean_opt (prm_default p)"

definition clean_import :: "import_item \<Rightarrow> bool" where
  "clean_import it \<longleftrightarrow> one_line (imp_name it) \<and> one_line (imp_alias it)"

lemma eff_opt: "clean_opt e \<Longrightarrow> one_line s \<Longrightarrow>
    eff n i INL i INL (case e of Some x \<Rightarrow> in_order [w s, expr_w x p] | None \<Rightarrow> (\<lambda>g. g))"
  by (cases e) (auto intro!: seqs simp: eff_id line_texts)

lemma eff_param: "clean_param p \<Longrightarrow> eff n i INL i INL (param_gen p)"
  unfolding param_gen_def clean_param_def
  by (intro seqs seq_act [OF eff_opt]) (auto simp: line_texts)

lemma eff_params: "list_all clean_param ps \<Longrightarrow> eff n i INL i INL (params_gen ps)"
  unfolding params_gen_def by (rule eff_separated) (auto simp: eff_param list_all_iff [of clean_param])

lemma eff_decorator: "clean_expr d \<Longrightarrow> n \<le> i \<Longrightarrow> eff n i BOL i BOL (decorator_gen d)"
  unfolding decorator_gen_def by (intro seqs) (auto simp: line_texts)

subsection \<open>Statements\<close>

abbreviation lines_at :: "nat \<Rightarrow> nat \<Rightarrow> (gen \<Rightarrow> gen) \<Rightarrow> bool" where
  "lines_at n i act \<equiv> eff n i BOL i BOL act"

lemma eff_suite: "\<forall>a \<in> set body. lines_at n (Suc i) a \<Longrightarrow> eff n i INL i BOL (suite_gen body)"
  unfolding suite_gen_def
  by (cases "body = []") (auto intro!: eff_w seqs seq_all simp: line_texts)

lemma eff_else:
  "n \<le> i \<Longrightarrow> one_line kw \<Longrightarrow> \<forall>a \<in> set body. lines_at n (Suc i) a \<Longrightarrow> lines_at n i (else_gen kw body)"
  unfolding else_gen_def
  by (cases "body = []") (auto intro!: eff_id seqs seq_act [OF eff_suite] simp: line_texts)

lemma eff_seal_flag: "n \<le> i \<Longrightarrow> lines_at n i (seal_flag_line b)"
  unfolding seal_flag_line_def by (intro seqs) (auto simp: line_texts)

lemma eff_func_def:
  assumes "n \<le> i" "one_line name" "list_all clean_param ps" "clean_opt rt" "list_all clean_expr ds"
    "\<forall>a \<in> set body. lines_at n (Suc i) a"
  shows "lines_at n i (func_def_gen name ps rt body ds)"
proof -
  have init: "eff n i INL i BOL
    (in_order ([w nl, indent_in, seal_flag_line True] @ body @ [seal_flag_line False, indent_out]))"
    unfolding in_order_assoc
    by (intro seqs seq_all seq_act [OF eff_seal_flag]) (use assms in auto)
  show ?thesis
    unfolding func_def_gen_def
    by (intro eff_within_fn seq_all seqs seq_act [OF eff_params] seq_act [OF eff_opt]
        seq_act [OF eff_if [OF init eff_suite]])
      (use assms in \<open>auto simp: line_texts list_all_iff [of clean_expr] intro!: eff_decorator\<close>)
qed

lemma eff_setattr: "n \<le> i \<Longrightarrow> lines_at n i (setattr_method del)"
  unfolding setattr_method_def Let_def
  by (intro seqs) (auto simp: line_texts)

text \<open>For an empty class the methods come after a second indentation of the line.\<close>

lemma eff_indent_again: "eff n i INL i INL indent_line"
  by (rule eff_text_at) (auto simp: indent_line_def w_def blanks list_all_iff intro!: places_line)

lemma eff_setattr_again: "n \<le> i \<Longrightarrow> eff n i INL i BOL (setattr_method del)"
  unfolding setattr_method_def Let_def
  by (rule seq_act [OF eff_indent_again], rule refl, intro seqs) (auto simp: line_texts)

lemma eff_seal_suite:
  assumes "n \<le> i" "\<forall>a \<in> set body. lines_at n (Suc i) a"
  shows "eff n i INL i BOL (seal_suite body)"
proof (cases "body = []")
  case True
  have "eff n i INL i BOL
      (in_order [w ('' pass'' @ nl), indent_line, setattr_method False, indent_line, setattr_method True])"
    by (intro seqs seq_act [OF eff_setattr_again]) (use assms(1) in \<open>auto simp: line_texts\<close>)
  with True show ?thesis by (simp add: seal_suite_def)
next
  case False
  have "eff n i INL i BOL (in_order [w nl, indent_in, within_seal (in_order body), setattr_method False,
      setattr_method True, indent_out])"
    by (intro seqs seq_act [OF eff_setattr] seq_act [OF eff_within_seal [OF eff_all]])
      (use assms in \<open>auto simp: line_texts\<close>)
  with False show ?thesis by (simp add: seal_suite_def)
qed

lemma one_line_filter: "one_line s \<Longrightarrow> one_line (filter p s)" "one_line s \<Longrightarrow> one_line (takeWhile p s)"
  by (auto simp: list_all_iff dest: set_takeWhileD)

lemma eff_import: "n \<le> i \<Longrightarrow> clean_import it \<Longrightarrow> lines_at n i (import_gen pos it)"
  unfolding import_gen_def clean_import_def
  by (intro seqs) (auto simp: line_texts import_module_def before_dot_def one_line_filter)

lemma one_line_tuple: "list_all one_line ss \<Longrightarrow> one_line q \<Longrightarrow> one_line j \<Longrightarrow> one_line (quote_tuple ss q j)"
  by (auto simp: quote_tuple_def Let_def lines.tmpl list_all_iff [of one_line] intro!: list_all_join)

lemma eff_from_import:
  assumes "n \<le> i" "one_line md" "list_all clean_import items"
  shows "lines_at n i (from_import_gen pos md items)"
proof -
  have md: "one_line (map (\<lambda>c. if c = CHR ''.'' then CHR ''_'' else c) md)"
    using assms(2) by (auto simp: list_all_iff)
  have "list_all one_line (map imp_name items)"
    using assms(3) by (auto simp: clean_import_def list_all_iff [of one_line] list_all_iff [of clean_import])
  then have tuple: "one_line (quote_tuple (map imp_name items) [double_quote] '', '')"
    by (rule one_line_tuple) (simp_all add: lines.tmpl)
  have bind: "lines_at n i (in_order [indent_line, w ((if imp_alias it = [] then imp_name it else imp_alias it) @
      '' = '' @ (''_fly_sb_mod_'' @ map (\<lambda>c. if c = CHR ''.'' then CHR ''_'' else c) md) @ ''.'' @ imp_name it @ nl)])"
    if "it \<in> set items" for it
    by (intro seqs) (use assms that md in \<open>auto simp: line_texts clean_import_def list_all_iff [of clean_import]\<close>)
  show ?thesis
    unfolding from_import_gen_def Let_def in_order_assoc
    by (intro seqs seq_map_last) (use assms md tuple bind in \<open>auto simp: line_texts\<close>)
qed

lemma eff_numbered:
  assumes "\<And>k. one_line k \<Longrightarrow> eff n i c j d (act k)"
  shows "eff n i c j d (numbered act)"
  unfolding eff_def
proof (intro allI impI)
  fix g :: gen
  assume "g_indent g = i"
  with assms [OF lines.digits, unfolded eff_def, rule_format, of "bump g" "g_nc (bump g)"]
  show "(\<exists>t. g_buf (numbered act g) = g_buf g @ t \<and> (\<forall>s. in_place n c s \<longrightarrow> in_place n d (scan n s t))) \<and> g_indent (numbered act g) = j \<and>
      same_env g (numbered act g)"
    by (simp add: numbered_def Let_def same_env_def bump_def)
qed

lemma eff_aug_tail: "clean_expr r \<Longrightarrow> eff n i INL i BOL (aug_tail r op pos)"
  unfolding aug_tail_def by (intro seqs) (auto simp: line_texts)

lemma single_target:
  obtains (sub) p x idx where "left = [Subscript p x idx]" | (att) p x name where "left = [Attr p x name]"
  | (other) es where "left = es" "\<nexists>p x idx. left = [Subscript p x idx]" "\<nexists>p x name. left = [Attr p x name]"
  by blast

lemma eff_aug_assign:
  assumes "n \<le> i" "left \<noteq> []" "list_all clean_expr left" "one_line op" "clean_expr r"
  shows "lines_at n i (aug_assign pos left op r)"
proof -
  have plain: "lines_at n i (in_order [indent_line, expr_w (hd left) PREC_LOWEST, w ('' '' @ op @ '' ''),
      expr_w r PREC_LOWEST, w nl])"
    by (intro seqs) (use assms in \<open>auto simp: line_texts list_all_iff [of clean_expr]\<close>)
  have sub: "lines_at n i (aug_assign pos [Subscript p x idx] op r)" if "clean_expr x" "clean_expr idx" for p x idx
    unfolding aug_assign_def list.case expr.case Let_def
    by (intro eff_numbered seqs seq_act [OF eff_aug_tail]) (use assms that in \<open>auto simp: line_texts\<close>)
  have att: "lines_at n i (aug_assign pos [Attr p x name] op r)" if "clean_expr x" "one_line name" for p x name
    unfolding aug_assign_def list.case expr.case Let_def
    by (intro eff_numbered seqs seq_act [OF eff_aug_tail]) (use assms that in \<open>auto simp: line_texts\<close>)
  show ?thesis
  proof (cases left rule: single_target)
    case (other es)
    then show ?thesis
      using plain unfolding aug_assign_def by (auto split: list.split expr.split)
  qed (use sub att assms(3) in auto)
qed

lemma eff_assign:
  assumes "n \<le> i" "left \<noteq> []" "list_all clean_expr left" "one_line op" "clean_expr r"
  shows "lines_at n i (assign_gen pos left op r)"
proof (cases "op = ''=''")
  case False
  with eff_aug_assign [OF assms] show ?thesis by (simp add: assign_gen_def)
next
  case op: True
  have plain: "lines_at n i (in_order [indent_line, separated '' = '' (map (\<lambda>l. expr_w l PREC_LOWEST) left),
      w ('' '' @ op @ '' ''), expr_w r PREC_LOWEST, w nl])"
    by (intro seqs seq_act [OF eff_separated])
      (use assms in \<open>auto simp: line_texts list_all_iff [of clean_expr] intro: eff_expr\<close>)
  have sub: "lines_at n i (assign_gen pos [Subscript p x idx] op r)" if "clean_expr x" "clean_expr idx" for p x idx
    unfolding assign_gen_def op list.case expr.case
    by (simp only: simp_thms if_False, intro eff_if seqs) (use assms that in \<open>auto simp: line_texts\<close>)
  have att: "lines_at n i (assign_gen pos [Attr p x name] op r)" if "clean_expr x" "one_line name" for p x name
  proof -
    have "lines_at n i (in_order [indent_line, w (if b then ''_fly_setattr_plain('' else ''_fly_setattr(''),
            expr_w x PREC_COND, w ('', '' @ py_quote name @ '', ''), expr_w r PREC_COND,
            w ('', '' @ loc pos @ '')''), w nl])" for b
      by (intro seqs) (use assms that in \<open>auto simp: line_texts\<close>)
    then show ?thesis by (simp add: assign_gen_def op eff_def)
  qed
  show ?thesis
  proof (cases left rule: single_target)
    case (other es)
    then show ?thesis
      using plain unfolding assign_gen_def op by (auto split: list.split expr.split)
  qed (use sub att assms(3) in auto)
qed

lemma one_line_trim: "one_line s \<Longrightarrow> one_line (trim s)"
  unfolding trim_def list_all_iff by (metis set_dropWhileD set_rev)

lemma one_line_render: "clean_expr e \<Longrightarrow> one_line (render ti e)"
  using lines.texts(1) [of "sub_gen ti" e PREC_LOWEST]
  by (simp add: render_def expr_w_def w_def sub_gen_def one_line_trim)

lemma one_line_concat: "\<forall>x \<in> set xs. one_line (f x) \<Longrightarrow> one_line (concat (map f xs))"
  by (rule lines.concats)

lemma one_line_guard_msg:
  assumes "one_line name" "clean_opt ty" "list_all clean_expr conds"
  shows "one_line (guard_msg ti name ty conds)"
proof -
  have "\<forall>c \<in> set (map (\<lambda>c. '' '' @ render ti c) conds). one_line c"
    using assms(3) by (auto simp: list_all_iff [of clean_expr] one_line_render)
  then show ?thesis
    using assms(1,2)
    by (auto simp: guard_msg_def Let_def one_line_render list_all_iff [of one_line] split: option.splits
        intro!: one_line_concat list_all_join)
qed

lemma eff_guard:
  assumes "n \<le> i" "one_line name" "clean_opt ty" "list_all clean_expr conds"
  shows "lines_at n i (guard_gen name ty conds)"
proof -
  have cond: "eff n i INL i INL (in_order [w ''('', expr_w c PREC_LOWEST, w '')''])" if "c \<in> set conds" for c
    by (intro seqs) (use that assms(4) in \<open>auto simp: line_texts list_all_iff [of clean_expr]\<close>)
  have inst: "eff n i INL i INL (in_order [w (''isinstance('' @ name @ '', ''), expr_w t PREC_LOWEST, w '')''])"
    if "ty = Some t" for t
    by (intro seqs) (use that assms(2,3) in \<open>auto simp: line_texts\<close>)
  have parts: "\<forall>a \<in> set ((case ty of
        Some t \<Rightarrow> if name \<noteq> [] then [in_order [w (''isinstance('' @ name @ '', ''), expr_w t PREC_LOWEST, w '')'']] else []
      | None \<Rightarrow> []) @ map (\<lambda>c. in_order [w ''('', expr_w c PREC_LOWEST, w '')'']) conds). eff n i INL i INL a"
    using cond inst by (auto simp del: in_order_simps split: option.splits)
  have "lines_at n i (in_order [
     indent_line, w ''if not ('',
     separated '' and ''
       ((case ty of
           Some t \<Rightarrow> if name \<noteq> [] then [in_order [w (''isinstance('' @ name @ '', ''), expr_w t PREC_LOWEST, w '')'']] else []
         | None \<Rightarrow> []) @
        map (\<lambda>c. in_order [w ''('', expr_w c PREC_LOWEST, w '')'']) conds),
     w (''):'' @ nl), indent_in,
     indent_line, w (''raise GuardError('' @ py_quote (guard_msg ti name ty conds) @ '')'' @ nl), indent_out])" for ti
    by (intro seqs seq_act [OF eff_separated [OF _ parts]])
      (use assms in \<open>auto simp: line_texts one_line_guard_msg\<close>)
  then show ?thesis by (simp add: guard_gen_def eff_def)
qed

lemma eff_delete: "clean_expr e \<Longrightarrow> eff n i INL i INL (delete_target e)"
proof (induction e rule: delete_target.induct)
  case (3 p es b)
  then have "\<forall>a \<in> set (map (\<lambda>e. delete_target e) es). eff n i INL i INL a"
    by (auto simp: list_all_iff [of clean_expr])
  then show ?case by (simp add: eff_separated places_line lines.tmpl)
qed (auto intro!: seqs eff_expr simp: line_texts)

lemma one_line_take_drop: "one_line s \<Longrightarrow> one_line (take m s)" "one_line s \<Longrightarrow> one_line (drop m s)"
  by (metis append_take_drop_id list_all_append)+

lemma one_line_f64: "one_line (show_f64 x)"
proof -
  have "one_line (replicate k (CHR ''0'') @ digits_of d)" for k d
    by (induction k) (simp_all add: lines.digits)
  then have point: "one_line (place_point c e)" for c e
    by (simp add: place_point_def Let_def lines.digits one_line_take_drop)
  have "one_line (shortest_decimal fuel x p q k n)" for fuel p q k n
    by (induction fuel arbitrary: n) (auto simp: point split: list.split)
  then show ?thesis by (cases x) (simp_all add: Let_def)
qed

lemma one_line_int: "one_line (show_int k)"
  by (simp add: show_int_def lines.digits)

lemma eff_cage_line: "n \<le> i \<Longrightarrow> lines_at n i (cage_line ht t hm m)"
  unfolding cage_line_def
  by (intro seqs) (auto simp: line_texts one_line_f64 one_line_int)

lemma one_line_mods: "list_all one_line ms \<Longrightarrow> one_line (mods_lit ms)"
  by (auto simp: mods_lit_def list_all_iff [of one_line] intro!: one_line_tuple)

lemma eff_patch_line: "n \<le> i \<Longrightarrow> list_all one_line ms \<Longrightarrow> one_line name \<Longrightarrow> lines_at n i (patch_line ms name)"
  unfolding patch_line_def by (intro seqs) (auto simp: line_texts one_line_mods)

lemma eff_only:
  assumes "n \<le> i" "list_all one_line ms" "\<forall>a \<in> set body. lines_at n i a"
  shows "lines_at n i (only_gen ms body)"
proof -
  have imp: "lines_at n i (in_order [indent_line, w (''import '' @ m @ nl)])" if "m \<in> set ms" for m
    by (intro seqs) (use that assms in \<open>auto simp: line_texts list_all_iff [of one_line]\<close>)
  show ?thesis
    unfolding only_gen_def Let_def in_order_assoc
    by (intro seq_all [where c' = "BOL"] seq_act [OF eff_numbered] seqs seq_all)
      (use imp assms in \<open>auto simp: line_texts one_line_mods\<close>)
qed

lemma one_line_params: "list_all clean_param ps \<Longrightarrow> one_line (call_args_text ps)"
  by (auto simp: call_args_text_def list_all_iff [of clean_param] list_all_iff [of one_line] clean_param_def
      intro!: list_all_join)

lemma one_line_enter:
  assumes "one_line level" "one_line name" "list_all clean_param ps"
  shows "eff n i INL i BOL (w (trace_enter level args name ps))"
proof -
  define names where "names = map prm_name (filter (\<lambda>p. prm_name p \<noteq> [] \<and> \<not> prm_star p \<and> \<not> prm_dbl_star p) ps)"
  have names: "list_all one_line names"
    using assms(3) by (auto simp: names_def list_all_iff [of clean_param] list_all_iff [of one_line] clean_param_def)
  then have "one_line (concat (map (\<lambda>n. '', '' @ n @ ''=%r'') names))"
    by (intro one_line_concat) (simp add: list_all_iff [of one_line])
  with names assms(1,2) show ?thesis
    unfolding trace_enter_def Let_def names_def [symmetric]
    by (intro eff_w) (auto simp: line_texts log_call_def)
qed

lemma eff_trace_func:
  assumes "n \<le> i" "one_line level" "one_line name" "list_all clean_param ps" "list_all clean_expr ds"
    "\<forall>a \<in> set body. lines_at n (Suc i) a"
  shows "lines_at n i (trace_func level args rets name ps body ds)"
  unfolding trace_func_def Let_def
  by (intro eff_numbered seq_all seq_indent_line seq_act [OF one_line_enter] seqs seq_act [OF eff_params]
      seq_act [OF eff_suite])
    (use assms in \<open>auto simp: line_texts log_call_def one_line_params list_all_iff [of clean_expr] intro!: eff_decorator\<close>)

lemma eff_for_head:
  "n \<le> i \<Longrightarrow> clean_expr t \<Longrightarrow> clean_expr it \<Longrightarrow> eff n i BOL i INL (for_head pos t it)"
  unfolding for_head_def
  by (intro seqs seq_act [OF eff_if]) (auto simp: line_texts intro!: seqs)

lemma eff_class_head:
  assumes "n \<le> i" "one_line name" "list_all clean_expr bs" "list_all clean_expr ds"
  shows "eff n i BOL i INL (class_head name bs ds)"
proof -
  have "eff n i INL i INL (in_order [w ''('', separated '', '' (map (\<lambda>b. expr_w b PREC_LOWEST) bs), w '')''])"
    by (intro seqs seq_act [OF eff_separated])
      (use assms in \<open>auto simp: line_texts list_all_iff [of clean_expr] intro: eff_expr\<close>)
  then have bases: "eff n i INL i INL (if bs = [] then (\<lambda>g. g) else
      in_order [w ''('', separated '', '' (map (\<lambda>b. expr_w b PREC_LOWEST) bs), w '')''])"
    by (simp add: eff_id)
  show ?thesis
    unfolding class_head_def
    by (intro seq_all seqs seq_act [OF bases])
      (use assms in \<open>auto simp: line_texts list_all_iff [of clean_expr] intro!: eff_decorator\<close>)
qed

lemma eff_line_gen:
  "n \<le> i \<Longrightarrow> one_line kw \<Longrightarrow> one_line mid \<Longrightarrow> clean_opt e \<Longrightarrow> clean_opt f \<Longrightarrow> lines_at n i (line_gen kw e mid f)"
  unfolding line_gen_def
  by (intro seq_indent_line seq_act [OF eff_opt] seqs) (auto simp: line_texts)

text \<open>All names, operators and literals of a statement are on one line.\<close>

fun clean :: "stmt \<Rightarrow> bool"
  and clean_elif :: "elif_clause \<Rightarrow> bool"
  and clean_except :: "except_clause \<Rightarrow> bool" where
  "clean (Import _ its) \<longleftrightarrow> list_all clean_import its"
| "clean (FromImport _ m its) \<longleftrightarrow> one_line m \<and> list_all clean_import its"
| "clean (Lock _ n v) \<longleftrightarrow> one_line n \<and> clean_opt v"
| "clean (Safe _ _) \<longleftrightarrow> True"
| "clean (Mask _ _) \<longleftrightarrow> True"
| "clean (Guard _ n t cs) \<longleftrightarrow> one_line n \<and> clean_opt t \<and> list_all clean_expr cs"
| "clean (Assign _ l op r) \<longleftrightarrow> l \<noteq> [] \<and> list_all clean_expr l \<and> one_line op \<and> clean_expr r"
| "clean (ExprStmt _ x) \<longleftrightarrow> clean_expr x"
| "clean (FuncDef _ n ps rt b ds) \<longleftrightarrow> one_line n \<and> list_all clean_param ps \<and> clean_opt rt \<and>
     list_all (\<lambda>s. clean s) b \<and> list_all clean_expr ds"
| "clean (ClassDef _ n bs b ds _) \<longleftrightarrow> one_line n \<and> list_all clean_expr bs \<and> list_all (\<lambda>s. clean s) b \<and>
     list_all clean_expr ds"
| "clean (Only _ ms b) \<longleftrightarrow> list_all one_line ms \<and> list_all (\<lambda>s. clean s) b"
| "clean (Trace _ lv _ _ b) \<longleftrightarrow> one_line lv \<and> list_all (\<lambda>s. clean s) b"
| "clean (Cage _ _ _ _ _ b) \<longleftrightarrow> list_all (\<lambda>s. clean s) b"
| "clean (If _ c t els e) \<longleftrightarrow> clean_expr c \<and> list_all (\<lambda>s. clean s) t \<and> list_all (\<lambda>l. clean_elif l) els \<and>
     list_all (\<lambda>s. clean s) e"
| "clean (For _ t it b e) \<longleftrightarrow> clean_expr t \<and> clean_expr it \<and> list_all (\<lambda>s. clean s) b \<and> list_all (\<lambda>s. clean s) e"
| "clean (While _ c b e) \<longleftrightarrow> clean_expr c \<and> list_all (\<lambda>s. clean s) b \<and> list_all (\<lambda>s. clean s) e"
| "clean (Return _ v) \<longleftrightarrow> clean_opt v"
| "clean (Raise _ x f) \<longleftrightarrow> clean_opt x \<and> clean_opt f"
| "clean (Try _ b hs e f) \<longleftrightarrow> list_all (\<lambda>s. clean s) b \<and> list_all (\<lambda>h. clean_except h) hs \<and>
     list_all (\<lambda>s. clean s) e \<and> list_all (\<lambda>s. clean s) f"
| "clean (Pass _) \<longleftrightarrow> True"
| "clean (Break _) \<longleftrightarrow> True"
| "clean (Continue _) \<longleftrightarrow> True"
| "clean (Delete _ ts) \<longleftrightarrow> list_all clean_expr ts"
| "clean_elif (ElifClause _ c b) \<longleftrightarrow> clean_expr c \<and> list_all (\<lambda>s. clean s) b"
| "clean_except (ExceptClause _ t n b) \<longleftrightarrow> clean_opt t \<and> one_line n \<and> list_all (\<lambda>s. clean s) b"

declare only_body.simps [simp del] cage_body.simps [simp del] trace_body.simps [simp del]

definition neat :: "stmt \<Rightarrow> bool" where
  "neat s \<longleftrightarrow> (\<forall>n i. n \<le> i \<longrightarrow> clean s \<longrightarrow> lines_at n i (stmt_gen s))"

lemma neat_body:
  assumes "\<And>s. s \<in> set b \<Longrightarrow> neat s" "list_all (\<lambda>s. clean s) b" "n \<le> i"
  shows "\<forall>a \<in> set (map (\<lambda>s. stmt_gen s) b). lines_at n i a"
  using assms by (auto simp: list_all_iff [of clean] neat_def)

lemma neat_suite:
  assumes "\<And>s. s \<in> set b \<Longrightarrow> neat s" "list_all (\<lambda>s. clean s) b" "n \<le> i"
  shows "eff n i INL i BOL (suite_gen (map (\<lambda>s. stmt_gen s) b))"
  using neat_body [OF assms(1,2)] assms(3) by (intro eff_suite) auto

lemma neat_else:
  assumes "\<And>s. s \<in> set b \<Longrightarrow> neat s" "list_all (\<lambda>s. clean s) b" "n \<le> i" "one_line kw"
  shows "lines_at n i (else_gen kw (map (\<lambda>s. stmt_gen s) b))"
  using neat_body [OF assms(1,2)] assms(3,4) by (intro eff_else) auto

lemma all_neat:
  "neat s"
  "n \<le> i \<longrightarrow> clean_elif el \<longrightarrow> lines_at n i (elif_gen el)"
  "n \<le> i \<longrightarrow> clean_except h \<longrightarrow> lines_at n i (except_gen h)"
  "n \<le> i \<longrightarrow> list_all one_line ms \<longrightarrow> clean s \<longrightarrow> lines_at n i (only_body ms s)"
  "n \<le> i \<longrightarrow> lines_at n i line \<longrightarrow> clean s \<longrightarrow> lines_at n i (cage_body line s)"
  "n \<le> i \<longrightarrow> one_line level \<longrightarrow> clean s \<longrightarrow> lines_at n i (trace_body level args rets s)"
proof (induction s and el and h and ms s and line s and level args rets s arbitrary: and n i and n i and n i and n i and n i
    rule: stmt_gen_elif_gen_except_gen_only_body_cage_body_trace_body.induct)
  case (1 pos items)
  show ?case
    by (auto simp: neat_def list_all_iff [of clean_import] intro!: eff_separated eff_import)
next
  case (2 pos md items)
  show ?case by (simp add: neat_def eff_from_import)
next
  case (3 pos left op right)
  show ?case by (simp add: neat_def eff_assign)
next
  case (4 p name val)
  have "lines_at n i (in_order [indent_line, w (name @ '' = ''), expr_w v PREC_LOWEST, w nl])"
    if "n \<le> i" "one_line name" "clean_expr v" for n i v
    by (intro seqs) (use that in \<open>auto simp: line_texts\<close>)
  then show ?case
    by (cases val) (auto simp: neat_def eff_id simp del: in_order_simps)
next
  case (7 p name ty conds)
  show ?case by (simp add: neat_def eff_guard)
next
  case (8 p x)
  have "lines_at n i (in_order [indent_line, expr_w x PREC_LOWEST, w nl])" if "n \<le> i" "clean_expr x" for n i
    by (intro seqs) (use that in \<open>auto simp: line_texts\<close>)
  then show ?case by (simp add: neat_def del: in_order_simps)
next
  case (9 p name ps rt body ds)
  then show ?case
    unfolding neat_def stmt_gen.simps clean.simps
    by (intro allI impI eff_func_def neat_body) (auto simp: neat_def)
next
  case (10 p name bs body ds seal)
  then show ?case
    unfolding neat_def stmt_gen.simps clean.simps
    by (intro allI impI seq_act [OF eff_class_head]; cases seal)
      (auto simp: neat_def list_all_iff [of clean] intro!: seqs seq_act [OF eff_seal_suite] seq_act [OF eff_suite] neat_body)
next
  case (11 p ms body)
  then show ?case
    unfolding neat_def stmt_gen.simps clean.simps
    by (intro allI impI eff_only) (auto simp: list_all_iff [of clean])
next
  case (12 p level args rets body)
  have lv: "one_line (if level = ''WARN'' then ''WARNING'' else level)" if "one_line level"
    using that by simp
  from 12 show ?case
    unfolding neat_def stmt_gen.simps clean.simps
    by (intro allI impI seq_map_last ballI) (use lv in \<open>auto simp: list_all_iff [of clean]\<close>)
next
  case (13 p ht t hm m body)
  then show ?case
    unfolding neat_def stmt_gen.simps clean.simps
    by (intro allI impI seq_map_last ballI) (auto simp: list_all_iff [of clean] eff_cage_line)
next
  case (14 p c thn els e)
  then show ?case
    unfolding neat_def stmt_gen.simps clean.simps in_order_assoc
    by (intro allI impI seqs seq_all seq_act [OF neat_suite] seq_act [OF neat_else])
      (auto simp: neat_def line_texts list_all_iff [of clean_elif])
next
  case (15 pos t it body els)
  then show ?case
    unfolding neat_def stmt_gen.simps clean.simps
    by (intro allI impI seqs seq_act [OF eff_for_head] seq_act [OF neat_suite] seq_act [OF neat_else])
      (auto simp: neat_def line_texts)
next
  case (16 p c body els)
  then show ?case
    unfolding neat_def stmt_gen.simps clean.simps
    by (intro allI impI seqs seq_act [OF neat_suite] seq_act [OF neat_else])
      (auto simp: neat_def line_texts)
next
  case (17 p val)
  show ?case by (simp add: neat_def eff_line_gen)
next
  case (18 p exc frm)
  show ?case by (simp add: neat_def eff_line_gen)
next
  case (19 p body hs els fin)
  then show ?case
    unfolding neat_def stmt_gen.simps clean.simps in_order_assoc
    by (intro allI impI seqs seq_all seq_act [OF neat_suite] seq_act [OF neat_else])
      (auto simp: neat_def line_texts list_all_iff [of clean_except])
next
  case (23 p ts)
  have "eff n i INL i INL (separated '', '' (map delete_target ts))" if "list_all clean_expr ts" for n i
    by (rule eff_separated) (use that in \<open>auto simp: eff_delete list_all_iff [of clean_expr]\<close>)
  note sep = this
  have "lines_at n i (in_order [indent_line, w ''del '', separated '', '' (map delete_target ts), w nl])"
    if "n \<le> i" "list_all clean_expr ts" for n i
    by (intro seqs seq_act [OF sep]) (use that in \<open>auto simp: line_texts\<close>)
  then show ?case by (simp add: neat_def del: in_order_simps)
next
  case (24 p c body)
  then show ?case
    unfolding elif_gen.simps clean_elif.simps
    by (intro impI seqs seq_act [OF neat_suite]) (auto simp: neat_def line_texts)
next
  case (25 p ty name body)
  have ty: "eff n i INL i INL (case ty of
        Some t \<Rightarrow> in_order [w '' '', expr_w t PREC_LOWEST, w (if name \<noteq> [] then '' as '' @ name else [])]
      | None \<Rightarrow> (\<lambda>g. g))" if "clean_opt ty" "one_line name" for n i
    using that by (cases ty) (auto intro!: seqs eff_id simp: line_texts simp del: in_order_simps)
  from 25 show ?case
    unfolding except_gen.simps clean_except.simps
    by (intro impI seqs seq_act [OF ty] seq_act [OF neat_suite]) (auto simp: neat_def line_texts)
next
  case (26 ms s)
  have "lines_at n i (case s of FuncDef _ name _ _ _ _ \<Rightarrow> patch_line ms name | _ \<Rightarrow> (\<lambda>g. g))"
    if "n \<le> i" "list_all one_line ms" "clean s" for n i
    using that by (cases s) (auto simp: eff_id eff_patch_line)
  with 26 show ?case
    unfolding only_body.simps neat_def
    by (intro impI seq_act [of _ _ BOL] seq_Nil) auto
next
  case (27 line s)
  have "lines_at n i (case s of FuncDef _ _ _ _ _ _ \<Rightarrow> line | _ \<Rightarrow> (\<lambda>g. g))" if "lines_at n i line" for n i
    using that by (cases s) (auto simp: eff_id)
  with 27 show ?case
    unfolding cage_body.simps neat_def
    by (intro impI seq_act [of _ _ BOL] seq_Nil) auto
next
  case (28 level args rets s)
  show ?case
  proof (cases "\<exists>p name ps rt body ds. s = FuncDef p name ps rt body ds")
    case True
    then obtain p name ps rt body ds where s: "s = FuncDef p name ps rt body ds" by blast
    then show ?thesis
      using 28(9) [OF s] neat_body [of body]
      by (auto intro!: eff_trace_func simp: trace_body.simps)
  next
    case False
    then have "neat s" using 28 by (cases s) simp_all
    moreover have "trace_body level args rets s = stmt_gen s"
      using False by (cases s) (simp_all add: trace_body.simps del: in_order_simps)
    ultimately show ?thesis by (simp add: neat_def)
  qed
qed (simp_all add: neat_def eff_id, (intro allI impI seqs; simp add: line_texts)+)



end
