(* ===== verification/Fly_Gen_Prelude.thy ===== *)
theory Fly_Gen_Prelude
  imports Fly_Gen_Layout
begin

text \<open>
  What stands before the generated code: the sections of the runtime a module needs, found by a walk
  over its statements, the runtime and the sandbox always.
\<close>

subsection \<open>The walk over the statements\<close>

fun elif_body :: "elif_clause \<Rightarrow> stmt list" where
  "elif_body (ElifClause _ _ b) = b"

fun except_body :: "except_clause \<Rightarrow> stmt list" where
  "except_body (ExceptClause _ _ _ b) = b"

definition children :: "stmt \<Rightarrow> stmt list" where
  "children s =
     (case s of
        FuncDef _ _ _ _ b _ \<Rightarrow> b
      | ClassDef _ _ _ b _ _ \<Rightarrow> b
      | Only _ _ b \<Rightarrow> b
      | Trace _ _ _ _ b \<Rightarrow> b
      | Cage _ _ _ _ _ b \<Rightarrow> b
      | If _ _ t els e \<Rightarrow> t @ concat (map elif_body els) @ e
      | For _ _ _ b e \<Rightarrow> b @ e
      | While _ _ b e \<Rightarrow> b @ e
      | Try _ b hs e f \<Rightarrow> b @ concat (map except_body hs) @ e @ f
      | _ \<Rightarrow> [])"

inductive part_of :: "stmt \<Rightarrow> stmt \<Rightarrow> bool" where
  itself: "part_of s s"
| child: "part_of t s' \<Longrightarrow> s' \<in> set (children s) \<Longrightarrow> part_of t s"

inductive_simps part_of_iff: "part_of t s"

definition occurs :: "(stmt \<Rightarrow> bool) \<Rightarrow> stmt list \<Rightarrow> bool" where
  "occurs hit ss \<longleftrightarrow> (\<exists>s \<in> set ss. \<exists>t. part_of t s \<and> hit t)"

declare need_stmt.simps [simp del] guard_in.simps [simp del]

lemma need_elif_iff: "need_elif hit el \<longleftrightarrow> (\<exists>t \<in> set (elif_body el). need_stmt hit t)"
  by (cases el) (simp add: list_ex_iff)

lemma need_except_iff: "need_except hit h \<longleftrightarrow> (\<exists>t \<in> set (except_body h). need_stmt hit t)"
  by (cases h) (simp add: list_ex_iff)

lemma need_stmt_children: "need_stmt hit s \<longleftrightarrow> hit s \<or> (\<exists>t \<in> set (children s). need_stmt hit t)"
  by (subst need_stmt.simps, cases s)
    (auto simp: children_def list_ex_iff need_elif_iff need_except_iff)

lemma size_in_list: "t \<in> set ts \<Longrightarrow> size t \<le> size_list size ts"
  by (rule size_list_estimation' [of t ts _ size]) simp_all

lemma children_smaller: "t \<in> set (children s) \<Longrightarrow> size t < size s"
proof -
  have el: "size t \<le> size el" if "t \<in> set (elif_body el)" for el
    using that size_in_list [of t "elif_body el"] by (cases el) simp
  have els: "size t \<le> size_list size els" if "t \<in> set (elif_body el)" "el \<in> set els" for el els
    using el [OF that(1)] size_in_list [OF that(2)] by simp
  have h: "size t \<le> size h" if "t \<in> set (except_body h)" for h
    using that size_in_list [of t "except_body h"] by (cases h) simp
  have hs: "size t \<le> size_list size hs" if "t \<in> set (except_body h)" "h \<in> set hs" for h hs
    using h [OF that(1)] size_in_list [OF that(2)] by simp
  assume "t \<in> set (children s)"
  then show ?thesis
    by (cases s) (auto simp: children_def less_Suc_eq_le dest!: els hs
        dest: size_in_list)
qed

lemma need_stmt_iff: "need_stmt hit s \<longleftrightarrow> (\<exists>t. part_of t s \<and> hit t)"
proof (induction s rule: measure_induct_rule [where f = size])
  case (less s)
  then show ?case
    using children_smaller by (subst need_stmt_children, subst part_of_iff) blast
qed

text \<open>
  The walk for \<open>guard\<close> also counts a keyword block inside a block of the same keyword: \<open>scan_guard\<close>
  calls \<open>scan_only\<close>, \<open>scan_trace\<close> and \<open>scan_cage\<close> on the bodies.
\<close>

definition guard_hit :: "stmt \<Rightarrow> bool" where
  "guard_hit s \<longleftrightarrow> is_guard s \<or> is_only s \<and> needs_only (children s) \<or> is_trace s \<and> needs_trace (children s) \<or>
     is_cage s \<and> needs_cage (children s)"

lemma guard_in_elif_iff: "guard_in_elif el \<longleftrightarrow> (\<exists>t \<in> set (elif_body el). guard_in t)"
  by (cases el) (simp add: list_ex_iff)

lemma guard_in_except_iff: "guard_in_except h \<longleftrightarrow> (\<exists>t \<in> set (except_body h). guard_in t)"
  by (cases h) (simp add: list_ex_iff)

lemma guard_in_children: "guard_in s \<longleftrightarrow> guard_hit s \<or> (\<exists>t \<in> set (children s). guard_in t)"
  by (subst guard_in.simps, cases s)
    (auto simp: children_def list_ex_iff guard_in_elif_iff guard_in_except_iff guard_hit_def is_guard_def is_only_def
      is_trace_def is_cage_def)

lemma guard_in_iff: "guard_in s \<longleftrightarrow> (\<exists>t. part_of t s \<and> guard_hit t)"
proof (induction s rule: measure_induct_rule [where f = size])
  case (less s)
  then show ?case
    using children_smaller by (subst guard_in_children, subst part_of_iff) blast
qed

lemma needs_iff:
  "needs_only ss \<longleftrightarrow> occurs is_only ss" "needs_trace ss \<longleftrightarrow> occurs is_trace ss" "needs_cage ss \<longleftrightarrow> occurs is_cage ss"
  "needs_guard ss \<longleftrightarrow> occurs guard_hit ss"
  by (auto simp: needs_only_def needs_trace_def needs_cage_def needs_guard_def list_ex_iff occurs_def need_stmt_iff
      guard_in_iff)


subsection \<open>The prelude\<close>

definition section_block :: "string \<Rightarrow> string \<Rightarrow> bool \<Rightarrow> string" where
  "section_block rt name need = (if need then section_text rt name @ nl else [])"

definition runtime_text :: "string \<Rightarrow> stmt list \<Rightarrow> string" where
  "runtime_text rt ss = section_block rt ''guard'' (occurs guard_hit ss) @ section_block rt ''only'' (occurs is_only ss) @
     section_block rt ''trace'' (occurs is_trace ss) @ section_block rt ''cage'' (occurs is_cage ss) @
     section_block rt ''runtime'' True @ section_block rt ''sandbox'' True"

lemma section_text_nonempty: "section_text rt name \<noteq> []"
  by (simp add: section_text_def)

lemma prelude_text:
  "prelude rt ti ss g = g\<lparr>g_buf := g_buf g @ runtime_text rt ss @ (if g_keep_ann g then annotations ti ss else [])\<rparr>"
  by (simp add: prelude_def runtime_prelude_def Let_def section_text_nonempty w_def runtime_text_def
      section_block_def needs_iff)

lemma gen_loop_after: "doc_end < i \<Longrightarrow> gen_loop i doc_end pre ss g = in_order (map stmt_gen ss) g"
  by (induction ss arbitrary: i g) simp_all

end
