(* ===== verification/Fly_Gen_Sandbox.thy ===== *)
theory Fly_Gen_Sandbox
  imports Fly_Gen_Prelude Fly_Types_Facts
begin

text \<open>
  The whole output of the generator: the docstring, the runtime, the annotations, the code.  The
  generator only ever appends to its buffer, whatever the statement, so what was written first stays
  in front.
\<close>

definition appends :: "(gen \<Rightarrow> gen) \<Rightarrow> bool" where
  "appends act \<longleftrightarrow> (\<forall>g. \<exists>t. g_buf (act g) = g_buf g @ t)"

lemma appends_id: "appends (\<lambda>g. g)" and appends_w: "appends (w s)" and appends_indent_line: "appends indent_line"
  and appends_in: "appends indent_in" and appends_out: "appends indent_out" and appends_expr: "appends (expr_w e p)"
  and appends_index: "appends (index_arg e)"
  by (simp_all add: appends_def w_def indent_line_def indent_in_def indent_out_def expr_w_def index_arg_def)

lemma appends_comp: "appends a \<Longrightarrow> appends b \<Longrightarrow> appends (\<lambda>g. b (a g))"
  unfolding appends_def by (metis append_assoc)

lemma appends_in_order: "list_all appends as \<Longrightarrow> appends (in_order as)"
proof (induction as)
  case Nil
  then show ?case by (simp add: appends_def)
next
  case (Cons a as)
  then show ?case using appends_comp [of a "in_order as"] by (simp add: appends_def)
qed

lemma appends_separated: "list_all appends as \<Longrightarrow> appends (separated sep as)"
proof (induction sep as rule: separated.induct)
  case (3 sep a b as)
  have a: "appends (\<lambda>g. w sep (a g))" by (rule appends_comp) (use 3(2) appends_w in simp_all)
  have b: "appends (separated sep (b # as))" using 3 by simp
  show ?case using appends_comp [OF a b] by simp
qed (simp_all add: appends_id)

lemma appends_numbered: "(\<And>k. appends (act k)) \<Longrightarrow> appends (numbered act)"
  unfolding appends_def numbered_def Let_def
proof
  fix g :: gen
  assume "\<And>k. \<forall>g. \<exists>t. g_buf (act k g) = g_buf g @ t"
  then have "\<exists>t. g_buf (act (digits_of (g_nc (bump g))) (bump g)) = g_buf (bump g) @ t" by blast
  then show "\<exists>t. g_buf (act (digits_of (g_nc (bump g))) (bump g)) = g_buf g @ t" by (simp add: bump_def)
qed

lemma appends_within_fn: "appends act \<Longrightarrow> appends (within_fn name act)"
  unfolding appends_def within_fn_def
proof
  fix g :: gen
  assume "\<forall>g. \<exists>t. g_buf (act g) = g_buf g @ t"
  then have "\<exists>t. g_buf (act (g\<lparr>g_cur_fn := name\<rparr>)) = g_buf (g\<lparr>g_cur_fn := name\<rparr>) @ t" by blast
  then show "\<exists>t. g_buf ((act (g\<lparr>g_cur_fn := name\<rparr>))\<lparr>g_cur_fn := g_cur_fn g\<rparr>) = g_buf g @ t" by simp
qed

lemma appends_within_seal: "appends act \<Longrightarrow> appends (within_seal act)"
  unfolding appends_def within_seal_def
proof
  fix g :: gen
  assume "\<forall>g. \<exists>t. g_buf (act g) = g_buf g @ t"
  then have "\<exists>t. g_buf (act (g\<lparr>g_seal_init := True\<rparr>)) = g_buf (g\<lparr>g_seal_init := True\<rparr>) @ t" by blast
  then show "\<exists>t. g_buf ((act (g\<lparr>g_seal_init := True\<rparr>))\<lparr>g_seal_init := g_seal_init g\<rparr>) = g_buf g @ t" by simp
qed

lemma appends_if: "appends a \<Longrightarrow> appends b \<Longrightarrow> appends (\<lambda>g. if p g then a g else b g)"
  by (simp add: appends_def)

lemma appends_at: "(\<And>x. appends (act x)) \<Longrightarrow> appends (\<lambda>g. act (f g) g)"
  by (simp add: appends_def)

lemma appends_opt: "(\<And>x. appends (f x)) \<Longrightarrow> appends (case e of Some x \<Rightarrow> f x | None \<Rightarrow> (\<lambda>g. g))"
  by (cases e) (simp_all add: appends_id)

text \<open>As rewrite rules: whether an action appends is computed from its parts.\<close>

lemmas appending = appends_id appends_w appends_indent_line appends_in appends_out appends_expr appends_index
  appends_in_order appends_separated appends_numbered appends_within_fn appends_within_seal appends_if appends_opt
  list.pred_map comp_def list_all_append

lemma appends_suite: "list_all appends body \<Longrightarrow> appends (suite_gen body)"
  by (simp add: suite_gen_def appending del: in_order_simps)

lemma appends_else: "list_all appends body \<Longrightarrow> appends (else_gen kw body)"
  by (simp add: else_gen_def appending appends_suite del: in_order_simps)

lemma appends_params: "appends (params_gen ps)"
  by (simp add: params_gen_def param_gen_def appending list.pred_True del: in_order_simps)

lemma appends_decorators: "list_all appends (map decorator_gen ds)"
  by (simp add: decorator_gen_def appending list.pred_True del: in_order_simps)

lemma appends_func_def: "list_all appends body \<Longrightarrow> appends (func_def_gen name ps rt body ds)"
  using appends_decorators [of ds]
  by (simp add: func_def_gen_def seal_flag_line_def appending appends_suite appends_params del: in_order_simps)

lemma appends_seal_suite: "list_all appends body \<Longrightarrow> appends (seal_suite body)"
  by (simp add: seal_suite_def setattr_method_def Let_def appending del: in_order_simps)

lemma appends_imports: "appends (import_gen pos it)" "appends (from_import_gen pos md items)"
  by (simp_all add: import_gen_def from_import_gen_def Let_def appending list.pred_True del: in_order_simps)

lemma appends_aug: "appends (aug_assign pos left op right)"
proof -
  have plain: "appends (in_order [indent_line, expr_w x p, w s, expr_w right q, w nl])" for x p s q
    by (simp add: appending del: in_order_simps)
  show ?thesis
  proof (cases left rule: single_target)
    case (other es)
    then show ?thesis using plain unfolding aug_assign_def by (auto simp del: in_order_simps split: list.split expr.split)
  qed (simp_all add: aug_assign_def aug_tail_def Let_def appending del: in_order_simps)
qed

lemma appends_assign: "appends (assign_gen pos left op right)"
proof (cases "op = ''=''")
  case True
  have plain: "appends (in_order [indent_line, separated s (map (\<lambda>l. expr_w l p) left), w t, expr_w right q, w nl])" for s p t q
    by (simp add: appending list.pred_True del: in_order_simps)
  have att: "appends (\<lambda>g. in_order [indent_line, w (if b g then s else t), expr_w x p, w u, expr_w right q, w v, w nl] g)"
    for b :: "gen \<Rightarrow> bool" and s t x p u q v
    by (rule appends_at [where f = b]) (simp add: appending del: in_order_simps)
  show ?thesis
  proof (cases left rule: single_target)
    case (other es)
    then show ?thesis
      using plain unfolding assign_gen_def True by (auto simp del: in_order_simps split: list.split expr.split)
  qed (simp_all add: assign_gen_def True appending att del: in_order_simps)
qed (simp add: assign_gen_def appends_aug)

lemma appends_guard: "appends (guard_gen name ty conds)"
  unfolding guard_gen_def
  by (rule appends_at [where f = g_types])
    (simp add: appending list.pred_True del: in_order_simps split: option.split)

lemma appends_delete: "appends (delete_target e)"
proof (induction e rule: delete_target.induct)
  case (3 p es b)
  then show ?case by (auto simp: list_all_iff intro!: appends_separated)
qed (simp_all add: appending del: in_order_simps)

lemma appends_only: "list_all appends body \<Longrightarrow> appends (only_gen ms body)"
  by (simp add: only_gen_def Let_def appending list.pred_True del: in_order_simps)

lemma appends_trace: "list_all appends body \<Longrightarrow> appends (trace_func level args rets name ps body ds)"
  using appends_decorators [of ds]
  by (simp add: trace_func_def Let_def appending appends_suite appends_params del: in_order_simps)

lemma appends_for_head: "appends (for_head pos t it)"
  by (simp add: for_head_def appending del: in_order_simps)

lemma appends_class_head: "appends (class_head name bs ds)"
  using appends_decorators [of ds] by (simp add: class_head_def appending list.pred_True del: in_order_simps)

lemma appends_lines: "appends (line_gen kw e mid f)" "appends (cage_line ht mt hm m)" "appends (patch_line ms name)"
  by (simp_all add: line_gen_def cage_line_def patch_line_def appending del: in_order_simps)

lemmas appending_stmts = appends_suite appends_else appends_func_def appends_seal_suite appends_imports appends_assign
  appends_guard appends_delete appends_only appends_trace appends_for_head appends_class_head appends_lines

lemma stmt_gen_appends:
  "appends (stmt_gen s)" "appends (elif_gen el)" "appends (except_gen h)" "appends (only_body ms s)"
  "appends line \<longrightarrow> appends (cage_body line s)" "appends (trace_body level args rets s)"
proof (induction s and el and h and ms s and line s and level args rets s
    rule: stmt_gen_elif_gen_except_gen_only_body_cage_body_trace_body.induct)
  case (28 level args rets s)
  then show ?case
    by (cases s) (simp_all add: trace_body.simps appending appending_stmts list_all_iff del: in_order_simps stmt_gen.simps)
next
  case (26 ms s)
  then show ?case
    by (cases s) (simp_all add: only_body.simps appending appending_stmts del: in_order_simps stmt_gen.simps)
next
  case (27 line s)
  then show ?case
    by (cases s) (simp_all add: cage_body.simps appending appending_stmts del: in_order_simps stmt_gen.simps)
qed (simp_all add: appending appending_stmts list_all_iff del: in_order_simps split: option.split)

subsection \<open>The output\<close>

text \<open>The statements behind a leading string, which passes for the docstring, and that string.\<close>

fun code_stmts :: "stmt list \<Rightarrow> stmt list" where
  "code_stmts [] = []"
| "code_stmts (s # ss) = (if is_docstring s then ss else s # ss)"

fun doc_text :: "stmt list \<Rightarrow> string" where
  "doc_text (ExprStmt _ (StringLit _ v) # _) = v @ nl"
| "doc_text _ = []"

definition start_gen :: "type_infer \<Rightarrow> bool \<Rightarrow> gen" where
  "start_gen ti keep = \<lparr>g_buf = [], g_indent = 0, g_plain = False, g_keep_ann = keep, g_seal_init = False, g_nc = 0,
     g_types = ti, g_cur_fn = []\<rparr>"

definition output_head :: "string \<Rightarrow> type_infer \<Rightarrow> stmt list \<Rightarrow> bool \<Rightarrow> string" where
  "output_head rt ti ss keep = doc_text ss @ (if code_stmts ss = [] then []
     else (if code_stmts ss = ss then [] else nl) @ runtime_text rt ss @ (if keep then annotations ti ss else []))"

lemma ti_run_m: "ti_m (ti_run (type_infer_new m)) = m"
  using tinv_rounds [of m 5] by (simp add: tinv_def ti_run_rounds)

lemma docstring_cases:
  obtains (none) "ss = []" | (doc) p q v ts where "ss = ExprStmt p (StringLit q v) # ts"
  | (code) s ts where "ss = s # ts" "\<not> is_docstring s"
proof (cases ss)
  case (Cons s ts)
  show ?thesis
  proof (cases "is_docstring s")
    case True
    then obtain p x where x: "s = ExprStmt p x" by (cases s) (simp_all add: is_docstring_def)
    with True obtain q v where "x = StringLit q v" by (cases x) (simp_all add: is_docstring_def)
    with Cons x show ?thesis by (rule_tac doc) simp
  qed (use Cons code in blast)
qed (rule none)

lemma doc_text_code: "\<not> is_docstring s \<Longrightarrow> doc_text (s # ss) = []"
  by (cases "s # ss" rule: doc_text.cases) (auto simp: is_docstring_def)

lemma generate_parts:
  "generate_opts rt m keep =
     (let ss = mod_stmts m; ti = ti_run (type_infer_new m) in
      g_buf (in_order (map stmt_gen (code_stmts ss)) ((start_gen ti keep)\<lparr>g_buf := output_head rt ti ss keep\<rparr>)))"
proof (cases "mod_stmts m" rule: docstring_cases)
  case none
  then show ?thesis by (simp add: generate_opts_def Let_def ti_run_m start_gen_def output_head_def)
next
  case (doc p q v ts)
  show ?thesis
  proof (cases ts)
    case Nil
    with doc show ?thesis
      by (simp add: generate_opts_def Let_def ti_run_m start_gen_def output_head_def is_docstring_def
          indent_line_def w_def expr_w_def enclose_def)
  next
    case (Cons t us)
    with doc show ?thesis
      by (simp add: generate_opts_def Let_def ti_run_m start_gen_def output_head_def is_docstring_def
          indent_line_def w_def expr_w_def enclose_def gen_loop_after prelude_text)
  qed
next
  case (code s ts)
  then show ?thesis
    by (simp add: generate_opts_def Let_def ti_run_m start_gen_def output_head_def doc_text_code gen_loop_after prelude_text)
qed

lemma code_appends: "\<exists>code. g_buf (in_order (map stmt_gen ss) g) = g_buf g @ code"
proof -
  have "appends (in_order (map stmt_gen ss))"
    by (rule appends_in_order) (simp add: list_all_iff stmt_gen_appends)
  then show ?thesis by (simp add: appends_def)
qed

lemma generate_head:
  "\<exists>code. generate_opts rt m keep = output_head rt (ti_run (type_infer_new m)) (mod_stmts m) keep @ code \<and>
     (if code_stmts (mod_stmts m) = [] then code = [] else True)"
proof (cases "code_stmts (mod_stmts m) = []")
  case True
  then show ?thesis by (simp add: generate_parts Let_def)
next
  case False
  obtain code where "g_buf (in_order (map stmt_gen (code_stmts (mod_stmts m)))
      ((start_gen (ti_run (type_infer_new m)) keep)\<lparr>g_buf := output_head rt (ti_run (type_infer_new m)) (mod_stmts m) keep\<rparr>)) =
    output_head rt (ti_run (type_infer_new m)) (mod_stmts m) keep @ code"
    using code_appends [of "code_stmts (mod_stmts m)"
      "(start_gen (ti_run (type_infer_new m)) keep)\<lparr>g_buf := output_head rt (ti_run (type_infer_new m)) (mod_stmts m) keep\<rparr>"]
    by auto
  with False show ?thesis by (simp add: generate_parts Let_def)
qed

lemma generate_runtime:
  "code_stmts (mod_stmts m) = [] \<or> (\<exists>pre post. generate_opts rt m keep = pre @ runtime_text rt (mod_stmts m) @ post)"
proof (cases "code_stmts (mod_stmts m) = []")
  case False
  let ?pre = "doc_text (mod_stmts m) @ (if code_stmts (mod_stmts m) = mod_stmts m then [] else nl)"
  let ?ann = "if keep then annotations (ti_run (type_infer_new m)) (mod_stmts m) else []"
  have "output_head rt (ti_run (type_infer_new m)) (mod_stmts m) keep = ?pre @ runtime_text rt (mod_stmts m) @ ?ann"
    using False by (simp add: output_head_def)
  moreover obtain code where "generate_opts rt m keep = output_head rt (ti_run (type_infer_new m)) (mod_stmts m) keep @ code"
    using generate_head [of rt m keep] by blast
  ultimately have "generate_opts rt m keep = ?pre @ runtime_text rt (mod_stmts m) @ (?ann @ code)" by simp
  then show ?thesis by blast
qed simp

text \<open>
  C1: every module with a statement besides a leading string is compiled to that string, the
  sections of the runtime, the annotations when they are asked for, and the code, in this order: the
  code stands behind the runtime and the sandbox, whatever the statements are.\<close>

theorem generate_sandboxed:
  "\<exists>code. generate_opts rt m keep =
     (if code_stmts (mod_stmts m) = [] then doc_text (mod_stmts m)
      else doc_text (mod_stmts m) @ (if code_stmts (mod_stmts m) = mod_stmts m then [] else nl) @
        runtime_text rt (mod_stmts m) @
        (if keep then annotations (ti_run (type_infer_new m)) (mod_stmts m) else []) @ code)"
  using generate_head [of rt m keep] by (auto simp: output_head_def split: if_splits)

text \<open>
  C39: a leading string is taken for a docstring by its token alone, so an f-string, which Python
  evaluates, is written in front of the sandbox; and a module of such a string only has no sandbox.\<close>

theorem leading_string_unsandboxed:
  "generate rt (Module p [ExprStmt q (StringLit r (''f'' @ v))]) = ''f'' @ v @ nl \<and>
   take (length v + 1) (generate rt (Module p (ExprStmt q (StringLit r (''f'' @ v)) # ss))) = ''f'' @ v"
proof -
  have doc: "output_head rt ti (ExprStmt q (StringLit r (''f'' @ v)) # ss) False = (''f'' @ v) @ nl @
      (if ss = [] then [] else nl @ runtime_text rt (ExprStmt q (StringLit r (''f'' @ v)) # ss))" for ti ss
    by (simp add: output_head_def is_docstring_def)
  obtain u where "generate rt (Module p (ExprStmt q (StringLit r (''f'' @ v)) # ss)) = (''f'' @ v) @ u"
    using generate_head [of rt "Module p (ExprStmt q (StringLit r (''f'' @ v)) # ss)" False]
    unfolding generate_def module.sel doc append_assoc by blast
  then have "take (length v + 1) (generate rt (Module p (ExprStmt q (StringLit r (''f'' @ v)) # ss))) = ''f'' @ v"
    by simp
  moreover have "generate rt (Module p [ExprStmt q (StringLit r (''f'' @ v))]) = ''f'' @ v @ nl"
    using generate_head [of rt "Module p [ExprStmt q (StringLit r (''f'' @ v))]" False]
    unfolding generate_def module.sel doc by (simp add: is_docstring_def)
  ultimately show ?thesis by simp
qed

end
