(* ===== verification/Fly_Needs.thy ===== *)
theory Fly_Needs
  imports Fly_Gen
begin

text \<open>
  \<open>needs_runtime\<close> of \<^verbatim>\<open>src/gen.rs\<close>, which is kept beside the searches for the keyword blocks but is not
  called: does a module need the checked operations of the runtime?  The flag \<open>found\<close> that its walks
  thread through, and look at first, is the disjunction over the walk.
\<close>

lemma size_member: "x \<in> set xs \<Longrightarrow> size x \<le> size_list size xs"
  by (induction xs) auto

lemma size_taken: "x \<in> set (take n xs) \<Longrightarrow> size x \<le> size_list size xs"
  by (rule size_member, rule in_set_takeD)

function (sequential) needs_expr :: "expr \<Rightarrow> bool"
  and needs_kwarg :: "kwarg \<Rightarrow> bool" where
  "needs_expr (ListLit _ elems) = list_ex (\<lambda>e. needs_expr e) elems"
| "needs_expr (TupleLit _ elems _) = list_ex (\<lambda>e. needs_expr e) elems"
| "needs_expr (DictLit _ keys vals) = (list_ex (\<lambda>e. needs_expr e) keys \<or> list_ex (\<lambda>e. needs_expr e) (take (length keys) vals))"
| "needs_expr (SetLit _ elems) = list_ex (\<lambda>e. needs_expr e) elems"
| "needs_expr (Call _ f args kwargs star dbl_star) =
     ((case f of Name _ n \<Rightarrow> n = ''int'' \<or> n = ''float'' | _ \<Rightarrow> False) \<or> needs_expr f \<or> list_ex (\<lambda>e. needs_expr e) args \<or>
      (case star of Some e \<Rightarrow> needs_expr e | None \<Rightarrow> False) \<or> (case dbl_star of Some e \<Rightarrow> needs_expr e | None \<Rightarrow> False) \<or>
      list_ex (\<lambda>k. needs_kwarg k) kwargs)"
| "needs_expr (Attr _ _ _) = True"
| "needs_expr (Subscript _ _ _) = True"
| "needs_expr (BinOp _ _ _ _) = True"
| "needs_expr (UnaryOp _ op _) \<longleftrightarrow> op \<noteq> ''not''"
| "needs_expr (Compare _ _ _ _) = True"
| "needs_expr (Cond _ c t e) = (needs_expr c \<or> needs_expr t \<or> needs_expr e)"
| "needs_expr (Slice _ lo hi step) =
     ((case lo of Some e \<Rightarrow> needs_expr e | None \<Rightarrow> False) \<or> (case hi of Some e \<Rightarrow> needs_expr e | None \<Rightarrow> False) \<or>
      (case step of Some e \<Rightarrow> needs_expr e | None \<Rightarrow> False))"
| "needs_expr (ListComp _ _ _) = True"
| "needs_expr _ = False"
| "needs_kwarg (KwArg _ _ v) = needs_expr v"
  by pat_completeness auto
termination
  by (relation "measure (case_sum size size)")
    (auto simp: less_Suc_eq_le dest: size_taken size_member intro: trans_le_add2)

definition needs_opt :: "expr option \<Rightarrow> bool" where
  "needs_opt eo = (case eo of Some e \<Rightarrow> needs_expr e | None \<Rightarrow> False)"

fun needs_stmt :: "stmt \<Rightarrow> bool"
  and needs_elif :: "elif_clause \<Rightarrow> bool"
  and needs_except :: "except_clause \<Rightarrow> bool" where
  "needs_stmt s =
     (case s of
        Assign _ _ _ right \<Rightarrow> needs_expr right
      | Lock _ _ value \<Rightarrow> needs_opt value
      | ExprStmt _ x \<Rightarrow> needs_expr x
      | FuncDef _ _ params _ body decorators \<Rightarrow> list_ex needs_expr decorators \<or>
          list_ex (\<lambda>p. needs_opt (prm_default p)) params \<or> list_ex (\<lambda>t. needs_stmt t) body
      | ClassDef _ _ _ body _ _ \<Rightarrow> list_ex (\<lambda>t. needs_stmt t) body
      | Only _ _ body \<Rightarrow> list_ex (\<lambda>t. needs_stmt t) body
      | Trace _ _ _ _ body \<Rightarrow> list_ex (\<lambda>t. needs_stmt t) body
      | Cage _ _ _ _ _ body \<Rightarrow> list_ex (\<lambda>t. needs_stmt t) body
      | If _ c thn elifs els \<Rightarrow> needs_expr c \<or> list_ex (\<lambda>t. needs_stmt t) thn \<or> list_ex (\<lambda>e. needs_elif e) elifs \<or>
          list_ex (\<lambda>t. needs_stmt t) els
      | For _ _ _ _ _ \<Rightarrow> True
      | While _ c body _ \<Rightarrow> needs_expr c \<or> list_ex (\<lambda>t. needs_stmt t) body
      | Try _ body handlers _ _ \<Rightarrow> list_ex (\<lambda>t. needs_stmt t) body \<or> list_ex (\<lambda>h. needs_except h) handlers
      | Return _ value \<Rightarrow> needs_opt value
      | Raise _ exc _ \<Rightarrow> needs_opt exc
      | Guard _ _ ty conds \<Rightarrow> needs_opt ty \<or> list_ex needs_expr conds
      | _ \<Rightarrow> False)"
| "needs_elif (ElifClause _ c body) = (needs_expr c \<or> list_ex (\<lambda>t. needs_stmt t) body)"
| "needs_except (ExceptClause _ _ _ body) = list_ex (\<lambda>t. needs_stmt t) body"

definition needs_runtime :: "stmt list \<Rightarrow> bool" where
  "needs_runtime ss = list_ex needs_stmt ss"

text \<open>
  The answer would be wrong: the operands of \<open>and\<close> and \<open>or\<close> are not searched, nor the \<open>else\<close> of a loop or
  a \<open>try\<close>, although the generator writes checked operations there.\<close>

lemma needs_runtime_incomplete:
  "\<not> needs_runtime [ExprStmt p (BoolOp p ''and'' a (BinOp p ''+'' b c)), While p (Name p n) [Pass p] [ExprStmt p (Attr p b n)]]"
  by (simp add: needs_runtime_def)

end
