(* ===== verification/Fly_Seccomp.thy ===== *)
theory Fly_Seccomp
  imports Main "HOL-Library.Word"
begin

text \<open>
  The system call filter of \<open>fly-sandboxd\<close>: \<open>build_bpf\<close> and the tables it is made of, and the classic
  BPF instructions it uses, executed on the data the kernel hands to a seccomp filter.  A filter only
  jumps forward, so the rest of the program is all that an instruction needs.
\<close>

record sock_filter =
  sf_code :: "16 word"
  sf_jt :: "8 word"
  sf_jf :: "8 word"
  sf_k :: "32 word"

definition ARCH_AUDIT :: "32 word" where "ARCH_AUDIT = 0xc000003e"

definition SYS :: "32 word list" where
  "SYS = [0, 1, 3, 5, 8, 9, 10, 11, 12, 13, 14, 15, 16, 17, 18, 19, 20, 21, 22, 25, 28, 32, 33, 35, 39,
    41, 57, 59, 60, 61, 62, 63, 72, 73, 74, 77, 78, 79, 80, 81, 83, 84, 86, 87, 89, 90, 91, 92,
    93, 94, 95, 96, 98, 99, 102, 104, 107, 108, 110, 115, 116, 124, 131, 137, 138, 141, 158,
    186, 202, 204, 217, 218, 219, 228, 229, 230, 231, 232, 233, 234, 257, 258, 260, 261, 262,
    263, 264, 265, 266, 267, 268, 269, 280, 288, 290, 291, 292, 293, 295, 296, 297, 302, 318,
    332, 334, 437]"

definition BPF_LD_W_ABS :: "16 word" where "BPF_LD_W_ABS = 0x20"
definition BPF_JMP_JA :: "16 word" where "BPF_JMP_JA = 0x05"
definition BPF_JMP_JEQ_K :: "16 word" where "BPF_JMP_JEQ_K = 0x15"
definition BPF_ALU_AND_K :: "16 word" where "BPF_ALU_AND_K = 0x54"
definition BPF_RET_K :: "16 word" where "BPF_RET_K = 0x06"

definition SECCOMP_RET_ALLOW :: "32 word" where "SECCOMP_RET_ALLOW = 0x7fff0000"
definition SECCOMP_RET_ERRNO :: "32 word" where "SECCOMP_RET_ERRNO = 0x00050000"
definition SECCOMP_RET_KILL_PROCESS :: "32 word" where "SECCOMP_RET_KILL_PROCESS = 0x80000000"

definition SECCOMP_DATA_ARCH_OFF :: "32 word" where "SECCOMP_DATA_ARCH_OFF = 4"
definition SECCOMP_DATA_NR_OFF :: "32 word" where "SECCOMP_DATA_NR_OFF = 0"
definition SECCOMP_DATA_ARGS0_OFF :: "32 word" where "SECCOMP_DATA_ARGS0_OFF = 16"

definition CLONE_NEW_MASK :: "32 word" where
  "CLONE_NEW_MASK = Bit_Operations.or 0x00020000 (Bit_Operations.or 0x02000000 (Bit_Operations.or 0x04000000
     (Bit_Operations.or 0x08000000 (Bit_Operations.or 0x10000000 (Bit_Operations.or 0x20000000 0x40000000)))))"

definition SYS_CLONE :: "32 word" where "SYS_CLONE = 56"

definition emit :: "16 word \<Rightarrow> 8 word \<Rightarrow> 8 word \<Rightarrow> 32 word \<Rightarrow> sock_filter" where
  "emit c t f x = \<lparr>sf_code = c, sf_jt = t, sf_jf = f, sf_k = x\<rparr>"

text \<open>The program before the jump for a foreign architecture is filled in, and the length it depends on.\<close>

definition allow_rules :: "32 word list \<Rightarrow> sock_filter list" where
  "allow_rules nrs = concat (map (\<lambda>nr. [emit BPF_JMP_JEQ_K 0 1 nr, emit BPF_RET_K 0 0 SECCOMP_RET_ALLOW]) nrs)"

definition clone_rules :: "sock_filter list" where
  "clone_rules =
     [emit BPF_JMP_JEQ_K 0 1 SYS_CLONE,
      emit BPF_JMP_JA 0 0 1,
      emit BPF_RET_K 0 0 (Bit_Operations.or SECCOMP_RET_ERRNO 1),
      emit BPF_LD_W_ABS 0 0 SECCOMP_DATA_ARGS0_OFF,
      emit BPF_ALU_AND_K 0 0 CLONE_NEW_MASK,
      emit BPF_JMP_JEQ_K 0 1 0,
      emit BPF_RET_K 0 0 SECCOMP_RET_ALLOW,
      emit BPF_RET_K 0 0 (Bit_Operations.or SECCOMP_RET_ERRNO 1)]"

definition build_bpf :: "sock_filter list" where
  "build_bpf =
     (let base = 3 + 2 * word_of_nat (length SYS) :: 32 word;
          p = [emit BPF_LD_W_ABS 0 0 SECCOMP_DATA_ARCH_OFF, emit BPF_JMP_JEQ_K 0 0 ARCH_AUDIT,
               emit BPF_LD_W_ABS 0 0 SECCOMP_DATA_NR_OFF] @
            allow_rules SYS @ clone_rules @ [emit BPF_RET_K 0 0 SECCOMP_RET_KILL_PROCESS]
      in p[1 := (p ! 1)\<lparr>sf_jf := ucast (base + 8 - 2)\<rparr>])"

subsection \<open>The filter machine\<close>

record seccomp_data =
  sd_nr :: "32 word"
  sd_arch :: "32 word"
  sd_ip :: "64 word"
  sd_args :: "nat \<Rightarrow> 64 word"

definition word_at :: "seccomp_data \<Rightarrow> 32 word \<Rightarrow> 32 word option" where
  "word_at d off =
     (if off = 0 then Some (sd_nr d)
      else if off = 4 then Some (sd_arch d)
      else if off = 8 then Some (ucast (sd_ip d))
      else if off = 12 then Some (ucast (drop_bit 32 (sd_ip d)))
      else if off mod 4 = 0 \<and> 16 \<le> off \<and> (unat off - 16) div 8 < 6 then
        let a = sd_args d ((unat off - 16) div 8)
        in Some (ucast (if off mod 8 = 0 then a else drop_bit 32 a))
      else None)"

function bpf_run :: "seccomp_data \<Rightarrow> 32 word \<Rightarrow> sock_filter list \<Rightarrow> 32 word option" where
  "bpf_run d acc [] = None"
| "bpf_run d acc (i # p) =
     (if sf_code i = BPF_LD_W_ABS then
        (case word_at d (sf_k i) of Some v \<Rightarrow> bpf_run d v p | None \<Rightarrow> None)
      else if sf_code i = BPF_JMP_JA then bpf_run d acc (drop (unat (sf_k i)) p)
      else if sf_code i = BPF_JMP_JEQ_K then bpf_run d acc (drop (unat (if acc = sf_k i then sf_jt i else sf_jf i)) p)
      else if sf_code i = BPF_ALU_AND_K then bpf_run d (Bit_Operations.and acc (sf_k i)) p
      else if sf_code i = BPF_RET_K then Some (sf_k i)
      else None)"
  by pat_completeness auto

termination
  by (relation "measure (\<lambda>(d, acc, p). length p)") auto

lemmas bpf_codes = BPF_LD_W_ABS_def BPF_JMP_JA_def BPF_JMP_JEQ_K_def BPF_ALU_AND_K_def BPF_RET_K_def

lemma run_ld: "bpf_run d acc (emit BPF_LD_W_ABS t f x # p) = (case word_at d x of Some v \<Rightarrow> bpf_run d v p | None \<Rightarrow> None)"
  and run_ja: "bpf_run d acc (emit BPF_JMP_JA t f x # p) = bpf_run d acc (drop (unat x) p)"
  and run_jeq: "bpf_run d acc (emit BPF_JMP_JEQ_K t f x # p) = bpf_run d acc (drop (unat (if acc = x then t else f)) p)"
  and run_and: "bpf_run d acc (emit BPF_ALU_AND_K t f x # p) = bpf_run d (Bit_Operations.and acc x) p"
  and run_ret: "bpf_run d acc (emit BPF_RET_K t f x # p) = Some x"
  by (simp_all add: emit_def bpf_codes)

declare bpf_run.simps [simp del]

lemmas runs = run_ld run_ja run_jeq run_and run_ret

text \<open>Each rule of the white list is two instructions; the list as a whole allows exactly its numbers.\<close>

lemma length_allow_rules: "length (allow_rules nrs) = 2 * length nrs"
  by (induction nrs) (simp_all add: allow_rules_def)

lemma run_allow_rules:
  "bpf_run d acc (allow_rules nrs @ p) = (if acc \<in> set nrs then Some SECCOMP_RET_ALLOW else bpf_run d acc p)"
proof (induction nrs)
  case (Cons nr nrs)
  have rules: "allow_rules (nr # nrs) @ p =
      emit BPF_JMP_JEQ_K 0 1 nr # emit BPF_RET_K 0 0 SECCOMP_RET_ALLOW # (allow_rules nrs @ p)"
    by (simp add: allow_rules_def)
  show ?case unfolding rules using Cons by (simp add: runs)
qed (simp add: allow_rules_def)

lemma run_clone_rules:
  assumes "word_at d SECCOMP_DATA_ARGS0_OFF = Some flags"
  shows "bpf_run d nr (clone_rules @ p) =
    Some (if nr = SYS_CLONE \<and> Bit_Operations.and flags CLONE_NEW_MASK = 0 then SECCOMP_RET_ALLOW
      else Bit_Operations.or SECCOMP_RET_ERRNO 1)"
  using assms by (simp add: clone_rules_def runs)

lemma length_SYS: "length SYS = 106"
  by (simp add: SYS_def)

lemma build_bpf_text:
  "build_bpf = emit BPF_LD_W_ABS 0 0 4 # emit BPF_JMP_JEQ_K 0 221 ARCH_AUDIT # emit BPF_LD_W_ABS 0 0 0 #
     (allow_rules SYS @ clone_rules @ [emit BPF_RET_K 0 0 SECCOMP_RET_KILL_PROCESS])"
  by (simp add: build_bpf_def length_SYS emit_def SECCOMP_DATA_ARCH_OFF_def SECCOMP_DATA_NR_OFF_def)

lemma drop_to_kill: "drop 220 (allow_rules SYS @ clone_rules @ p) = p"
  by (simp add: length_allow_rules length_SYS clone_rules_def)

text \<open>
  C5: the filter decides as follows, for every system call: calls of a foreign architecture kill the
  process; calls on the white list are allowed; \<open>clone\<close> is allowed if it asks for no new namespace;
  every other call fails with \<open>EPERM\<close>.\<close>

theorem seccomp_filter_decides:
  "bpf_run d 0 build_bpf = Some (
     if sd_arch d \<noteq> ARCH_AUDIT then SECCOMP_RET_KILL_PROCESS
     else if sd_nr d \<in> set SYS then SECCOMP_RET_ALLOW
     else if sd_nr d = SYS_CLONE \<and> Bit_Operations.and (ucast (sd_args d 0)) CLONE_NEW_MASK = 0 then SECCOMP_RET_ALLOW
     else Bit_Operations.or SECCOMP_RET_ERRNO 1)"
proof -
  have "word_at d SECCOMP_DATA_ARGS0_OFF = Some (ucast (sd_args d 0))"
    by (simp add: word_at_def SECCOMP_DATA_ARGS0_OFF_def Let_def)
  note clone = run_clone_rules [OF this]
  have "word_at d 4 = Some (sd_arch d)" "word_at d 0 = Some (sd_nr d)" by (simp_all add: word_at_def)
  then show ?thesis
    using drop_to_kill by (simp add: build_bpf_text runs run_allow_rules clone)
qed

lemma not_allowed:
  assumes "sd_nr d \<notin> set SYS" "sd_nr d \<noteq> SYS_CLONE"
  shows "bpf_run d 0 build_bpf \<noteq> Some SECCOMP_RET_ALLOW"
  using assms
  by (simp add: seccomp_filter_decides SECCOMP_RET_ALLOW_def SECCOMP_RET_ERRNO_def SECCOMP_RET_KILL_PROCESS_def)

definition denied_calls :: "32 word list" where
  "denied_calls = [42, 43, 44, 49, 50, 101, 155, 161, 165, 166, 272, 308, 321, 425, 435]"

lemma denied_not_listed: "list_all (\<lambda>nr. nr \<notin> set SYS \<and> nr \<noteq> SYS_CLONE) denied_calls"
  by (simp add: SYS_def denied_calls_def SYS_CLONE_def)

lemma x32_not_listed: "list_all (\<lambda>nr. \<not> bit nr 30) (SYS_CLONE # SYS)"
  by (simp add: SYS_def SYS_CLONE_def bit_numeral_word_iff)

text \<open>
  Note: no call that creates a namespace, mounts, traces or opens a connection is allowed, nor any call
  of the x32 interface, whose numbers have bit 30 set; but \<open>socket\<close> (41) is.\<close>

theorem seccomp_denials:
  "(if sd_nr d \<in> set denied_calls \<or> bit (sd_nr d) 30 then bpf_run d 0 build_bpf \<noteq> Some SECCOMP_RET_ALLOW else True) \<and>
   bpf_run \<lparr>sd_nr = 41, sd_arch = ARCH_AUDIT, sd_ip = ip, sd_args = args\<rparr> 0 build_bpf = Some SECCOMP_RET_ALLOW"
proof -
  have "sd_nr d \<notin> set SYS \<and> sd_nr d \<noteq> SYS_CLONE" if "sd_nr d \<in> set denied_calls \<or> bit (sd_nr d) 30"
    using that denied_not_listed x32_not_listed by (auto simp: list_all_iff)
  moreover have "41 \<in> set SYS" by (simp add: SYS_def)
  ultimately show ?thesis using not_allowed [of d] by (simp add: seccomp_filter_decides)
qed

end
