(* ===== verification/Fly_Sandboxd.thy ===== *)
theory Fly_Sandboxd
  imports Fly_Units Fly_Seccomp
begin

text \<open>
  The process sandbox (\<^verbatim>\<open>fly-sandboxd/src/main.rs\<close>): its command line, and its three processes.
  The parent supervises, the child enters new namespaces and waits, the grandchild gives up its rights
  step by step and becomes the Python interpreter.  What the kernel answers to a system call is a
  parameter (\<open>kernel\<close>); what a process does is the list of the calls it makes.  The audit log is
  left out.
\<close>

subsection \<open>The command line\<close>

record opts =
  o_script :: string
  o_cap_fs_read :: "string list"
  o_cap_net_host :: "string list"
  o_mem_limit_mb :: "64 word"
  o_timeout_ms :: "64 word"
  o_cpu_sec :: "64 word"
  o_nofile :: "64 word"
  o_audit :: bool
  o_debug_ns :: bool

definition default_opts :: opts where
  "default_opts = \<lparr>o_script = [], o_cap_fs_read = [], o_cap_net_host = [], o_mem_limit_mb = 512, o_timeout_ms = 5000,
     o_cpu_sec = 10, o_nofile = 64, o_audit = True, o_debug_ns = False\<rparr>"

text \<open>\<open>str::parse::<u64>\<close>\<close>

definition parse_u64 :: "string \<Rightarrow> 64 word option" where
  "parse_u64 s =
     (let ds = (case s of c # r \<Rightarrow> if c = CHR ''+'' then r else s | [] \<Rightarrow> []) in
      if ds = [] \<or> \<not> list_all is_digit ds \<or> 18446744073709551615 < dec_value ds then None
      else Some (word_of_int (dec_value ds)))"

definition number_option :: "string \<Rightarrow> opts \<Rightarrow> 64 word \<Rightarrow> opts option" where
  "number_option flag opt n =
     (if flag = ''--mem-limit-mb'' then Some (opt\<lparr>o_mem_limit_mb := n\<rparr>)
      else if flag = ''--timeout-ms'' then Some (opt\<lparr>o_timeout_ms := n\<rparr>)
      else if flag = ''--cpu-sec'' then Some (opt\<lparr>o_cpu_sec := n\<rparr>)
      else if flag = ''--nofile'' then Some (opt\<lparr>o_nofile := n\<rparr>)
      else None)"

text \<open>Every error ends the process with status 2.\<close>

fun parse_loop :: "string list \<Rightarrow> opts \<Rightarrow> int + opts" where
  "parse_loop [] opt = Inr opt"
| "parse_loop (a # as) opt =
     (if a \<in> {''--cap-fs-read'', ''--cap-net-host'', ''--mem-limit-mb'', ''--timeout-ms'', ''--cpu-sec'', ''--nofile''} then
        (case as of
           [] \<Rightarrow> Inl 2
         | v # rest \<Rightarrow>
             if a = ''--cap-fs-read'' then parse_loop rest (opt\<lparr>o_cap_fs_read := o_cap_fs_read opt @ [v]\<rparr>)
             else if a = ''--cap-net-host'' then parse_loop rest (opt\<lparr>o_cap_net_host := o_cap_net_host opt @ [v]\<rparr>)
             else (case parse_u64 v of
                 None \<Rightarrow> Inl 2
               | Some n \<Rightarrow> (case number_option a opt n of Some opt' \<Rightarrow> parse_loop rest opt' | None \<Rightarrow> Inl 2)))
      else if a = ''--no-audit'' then parse_loop as (opt\<lparr>o_audit := False\<rparr>)
      else if a = ''--debug-ns'' then parse_loop as (opt\<lparr>o_debug_ns := True\<rparr>)
      else if a = ''-h'' \<or> a = ''--help'' then Inl 2
      else if o_script opt = [] then parse_loop as (opt\<lparr>o_script := a\<rparr>)
      else Inl 2)"

definition parse_args :: "string list \<Rightarrow> int + opts" where
  "parse_args args =
     (if args = [] then Inl 2
      else case parse_loop args default_opts of
        Inr opt \<Rightarrow> if o_script opt = [] then Inl 2 else Inr opt
      | Inl e \<Rightarrow> Inl e)"

subsection \<open>System calls\<close>

datatype resource = RLIMIT_AS | RLIMIT_CPU | RLIMIT_NOFILE

datatype event =
    Unshare_user | Write_proc string string | Unshare_rest
  | No_new_privs | Create_ruleset "64 word" | Add_rule string "64 word" | Restrict_self
  | Setrlimit resource "64 word"
  | Seccomp "sock_filter list"
  | Execve string "string list"

text \<open>How a process ends, as \<open>waitpid\<close> reports it.\<close>

datatype wait_status = Exited int | Signaled int

record kernel =
  k_euid :: int
  k_uid :: nat
  k_gid :: nat
  k_unshare_user :: bool
  k_unshare_rest :: bool
  k_proc :: "string \<Rightarrow> bool"
  k_fork :: bool
  k_probe :: "64 word \<Rightarrow> bool"
  k_no_new_privs :: bool
  k_ruleset :: bool
  k_open_dir :: "string \<Rightarrow> bool"
  k_add_rule :: "string \<Rightarrow> bool"
  k_restrict :: bool
  k_rlimit :: "resource \<Rightarrow> bool"
  k_no_new_privs_again :: bool
  k_seccomp :: bool
  k_exec :: bool
  k_python :: wait_status

text \<open>A step that may fail: its calls so far, and whether to go on.\<close>

type_synonym steps = "event list \<times> bool"

definition call :: "bool \<Rightarrow> event \<Rightarrow> steps" where
  "call ok ev = (if ok then ([ev], True) else ([], False))"

definition and_then :: "steps \<Rightarrow> steps \<Rightarrow> steps" where
  "and_then a b = (if snd a then (fst a @ fst b, snd b) else a)"

fun all_steps :: "steps list \<Rightarrow> steps" where
  "all_steps [] = ([], True)"
| "all_steps (a # as) = and_then a (all_steps as)"

subsection \<open>Landlock\<close>

definition HANDLED_FS :: "64 word" where "HANDLED_FS = 2 ^ 16 - 1"
definition SYS_ACCESS :: "64 word" where "SYS_ACCESS = Bit_Operations.or 1 (Bit_Operations.or 4 8)"
definition DATA_ACCESS :: "64 word" where "DATA_ACCESS = Bit_Operations.or 4 8"

definition probe_handled :: "kernel \<Rightarrow> 64 word" where
  "probe_handled kn =
     (case filter (k_probe kn) [HANDLED_FS, 2 ^ 15 - 1, 2 ^ 14 - 1] of h # _ \<Rightarrow> h | [] \<Rightarrow> 0)"

definition grant_access :: "kernel \<Rightarrow> 64 word \<Rightarrow> string \<Rightarrow> event list" where
  "grant_access kn access path = (if k_open_dir kn path \<and> k_add_rule kn path then [Add_rule path access] else [])"

definition syslib_dirs :: "string list" where
  "syslib_dirs = [''/usr/lib'', ''/usr/local/lib'', ''/usr/lib64'', ''/usr/local/lib64'', ''/lib'', ''/lib64'',
     ''/usr/bin'', ''/usr/local/bin'']"

text \<open>
  \<open>Path::parent\<close>, on the reversed text: slashes and components \<open>.\<close> at the end do not count, a path
  of one component has the empty parent.
\<close>

fun strip_tail :: "string \<Rightarrow> string" where
  "strip_tail (c # d # r) =
     (if c = CHR ''/'' then strip_tail (d # r)
      else if c = CHR ''.'' \<and> d = CHR ''/'' then strip_tail (d # r)
      else c # d # r)"
| "strip_tail r = r"

definition path_parent :: "string \<Rightarrow> string option" where
  "path_parent p =
     (let r = strip_tail (rev p) in
      if r = [] \<or> r = ''/'' then None else Some (rev (strip_tail (dropWhile (\<lambda>c. c \<noteq> CHR ''/'') r))))"

definition grants :: "kernel \<Rightarrow> opts \<Rightarrow> event list" where
  "grants kn opt = concat (map (grant_access kn SYS_ACCESS) syslib_dirs) @
     (case path_parent (o_script opt) of Some dir \<Rightarrow> grant_access kn DATA_ACCESS dir | None \<Rightarrow> []) @
     concat (map (grant_access kn DATA_ACCESS) (o_cap_fs_read opt))"

definition landlock_apply :: "kernel \<Rightarrow> opts \<Rightarrow> steps" where
  "landlock_apply kn opt =
     (let handled = probe_handled kn in
      if handled = 0 then ([], False)
      else all_steps [call (k_no_new_privs kn) No_new_privs, call (k_ruleset kn) (Create_ruleset handled),
        (grants kn opt, True), call (k_restrict kn) Restrict_self])"

subsection \<open>Limits, filter, interpreter\<close>

definition setup_rlimits :: "kernel \<Rightarrow> opts \<Rightarrow> steps" where
  "setup_rlimits kn opt = all_steps [
     call (k_rlimit kn RLIMIT_AS) (Setrlimit RLIMIT_AS (o_mem_limit_mb opt * 1024 * 1024)),
     call (k_rlimit kn RLIMIT_CPU) (Setrlimit RLIMIT_CPU (o_cpu_sec opt)),
     call (k_rlimit kn RLIMIT_NOFILE) (Setrlimit RLIMIT_NOFILE (o_nofile opt))]"

definition apply_seccomp :: "kernel \<Rightarrow> steps" where
  "apply_seccomp kn = all_steps [call (k_no_new_privs_again kn) No_new_privs, call (k_seccomp kn) (Seccomp build_bpf)]"

definition run_python :: "kernel \<Rightarrow> opts \<Rightarrow> event list \<times> wait_status" where
  "run_python kn opt = ([Execve ''/usr/bin/python3'' [''/usr/bin/python3'', o_script opt]],
     if k_exec kn then k_python kn else Exited 127)"

definition grandchild :: "kernel \<Rightarrow> opts \<Rightarrow> event list \<times> wait_status" where
  "grandchild kn opt =
     (let (done, ok) = all_steps [landlock_apply kn opt, setup_rlimits kn opt, apply_seccomp kn] in
      if ok then (done @ fst (run_python kn opt), snd (run_python kn opt)) else (done, Exited 1))"

subsection \<open>The child\<close>

definition write_uid_map :: "kernel \<Rightarrow> steps" where
  "write_uid_map kn = all_steps (map (\<lambda>(path, data). call (k_proc kn path) (Write_proc path data))
     [(''/proc/self/uid_map'', ''0 '' @ digits_of (k_uid kn) @ '' 1'' @ [newline]),
      (''/proc/self/setgroups'', ''deny''),
      (''/proc/self/gid_map'', ''0 '' @ digits_of (k_gid kn) @ '' 1'' @ [newline])])"

definition setup_namespaces :: "kernel \<Rightarrow> bool \<Rightarrow> steps" where
  "setup_namespaces kn skip =
     (if skip then ([], True)
      else if k_euid kn \<noteq> 0 then all_steps [call (k_unshare_user kn) Unshare_user, write_uid_map kn,
        call (k_unshare_rest kn) Unshare_rest]
      else call (k_unshare_rest kn) Unshare_rest)"

text \<open>The pipe to the parent: what was written to it, and whether the writing end is still open.\<close>

record pipe =
  p_data :: "byte list"
  p_open :: bool

definition pipe_write :: "byte list \<Rightarrow> pipe \<Rightarrow> pipe" where
  "pipe_write bs p = (if p_open p then p\<lparr>p_data := p_data p @ bs\<rparr> else p)"

definition pipe_close :: "pipe \<Rightarrow> pipe" where
  "pipe_close p = p\<lparr>p_open := False\<rparr>"

definition be_bytes :: "32 word \<Rightarrow> byte list" where
  "be_bytes n = map (\<lambda>i. char_of (unat (drop_bit i n))) [24, 16, 8, 0]"

fun exit_code :: "wait_status \<Rightarrow> int" where
  "exit_code (Exited n) = n"
| "exit_code (Signaled s) = 128 + s"

text \<open>The child's calls and those of the grandchild it starts, the pipe, and the child's own end.\<close>

definition child :: "kernel \<Rightarrow> opts \<Rightarrow> 32 word \<Rightarrow> event list \<times> pipe \<times> wait_status" where
  "child kn opt gpid =
     (let (ns, ok) = setup_namespaces kn (o_debug_ns opt); p = \<lparr>p_data = [], p_open = True\<rparr> in
      if \<not> ok \<or> \<not> k_fork kn then (ns, p, Exited 1)
      else
        let (evs, status) = grandchild kn opt;
            p = pipe_close (pipe_write (be_bytes gpid) p);
            p = pipe_write (be_bytes (word_of_int (exit_code status))) p
        in (ns @ evs, p, Exited 0))"

subsection \<open>The parent\<close>

text \<open>What one round of the parent's loop finds: the deadline passed, the child ended, nothing new, or an error.\<close>

datatype poll = Deadline | Reaped | Running | Wait_error int

definition EINTR :: int where "EINTR = 4"

text \<open>\<open>st\<close> is how the child ends; no result while the list of rounds does not reach a decision.\<close>

datatype verdict = Timed_out | Ended int

fun monitor :: "wait_status \<Rightarrow> poll list \<Rightarrow> verdict option" where
  "monitor st [] = None"
| "monitor st (Deadline # ps) = Some Timed_out"
| "monitor st (Reaped # ps) = Some (Ended (exit_code st))"
| "monitor st (Running # ps) = monitor st ps"
| "monitor st (Wait_error e # ps) = (if e = EINTR then monitor st ps else Some (Ended 1))"

text \<open>The process to kill at the deadline: the number read from the pipe, or 0 when it is incomplete.\<close>

fun read_gpid :: "byte list \<Rightarrow> 32 word" where
  "read_gpid (a # b # c # d # _) = word_of_int (((ord a * 256 + ord b) * 256 + ord c) * 256 + ord d)"
| "read_gpid _ = 0"

record run =
  r_events :: "event list"
  r_killed :: "32 word option"
  r_exit :: "int option"

definition supervise :: "kernel \<Rightarrow> opts \<Rightarrow> 32 word \<Rightarrow> poll list \<Rightarrow> run" where
  "supervise kn opt gpid polls =
     (let (evs, p, st) = child kn opt gpid; target = read_gpid (p_data p); v = monitor st polls in
      \<lparr>r_events = evs, r_killed = (if v = Some Timed_out \<and> target \<noteq> 0 then Some target else None),
       r_exit = map_option (\<lambda>v. case v of Timed_out \<Rightarrow> 124 | Ended n \<Rightarrow> n) v\<rparr>)"

text \<open>The whole program: the arguments, whether the script is a file, and whether \<open>pipe\<close> and \<open>fork\<close> work.\<close>

definition sandboxd :: "string list \<Rightarrow> (string \<Rightarrow> bool) \<Rightarrow> bool \<Rightarrow> bool \<Rightarrow> kernel \<Rightarrow> 32 word \<Rightarrow> poll list \<Rightarrow> run" where
  "sandboxd args is_file pipe_ok fork_ok kn gpid polls =
     (case parse_args args of
        Inl n \<Rightarrow> \<lparr>r_events = [], r_killed = None, r_exit = Some n\<rparr>
      | Inr opt \<Rightarrow>
          if \<not> is_file (o_script opt) \<or> \<not> pipe_ok \<or> \<not> fork_ok
          then \<lparr>r_events = [], r_killed = None, r_exit = Some 1\<rparr>
          else supervise kn opt gpid polls)"

end
