(* ===== verification/Fly_Digits.thy ===== *)
theory Fly_Digits
  imports Fly_Units
begin

text \<open>
  Decimal numbers in text: the digits that are printed are read as the number they were printed from.
\<close>

lemma digits_of_digits: "list_all is_digit (digits_of n)"
proof (induction n rule: digits_of.induct)
  case (1 n)
  have "is_digit (char_of (48 + d))" if "d < 10" for d :: nat
    using that by (simp add: is_digit_def ord_def of_nat_of_char [symmetric, where ?'a = int])
  with 1 show ?case by (subst digits_of.simps) simp
qed

lemma dec_value_append: "dec_value (s @ [c]) = dec_value s * 10 + (ord c - 48)"
  by (simp add: dec_value_def)

lemma dec_value_digits: "dec_value (digits_of n) = int n"
proof (induction n rule: digits_of.induct)
  case (1 n)
  have "ord (char_of (48 + d)) = 48 + int d" if "d < 10" for d :: nat
    using that by (simp add: ord_def of_nat_of_char [symmetric, where ?'a = int])
  note ord = this
  show ?case
  proof (cases "n < 10")
    case True
    with ord show ?thesis by (simp add: digits_of.simps [of n] dec_value_def)
  next
    case False
    with ord 1 show ?thesis by (simp add: digits_of.simps [of n] dec_value_append zdiv_int zmod_int)
  qed
qed

lemma digits_of_Cons: "\<exists>c cs. digits_of n = c # cs \<and> is_digit c"
  using digits_of_digits [of n] by (subst digits_of.simps, cases "digits_of n") (auto simp: digits_of.simps [of n] split: if_splits)

end
