(* ===== verification/Fly_Sandboxd_Facts.thy ===== *)
theory Fly_Sandboxd_Facts
  imports Fly_Sandboxd Fly_Digits
begin

text \<open>
  What the process sandbox guarantees: the interpreter starts only behind all the barriers, each of
  which ends the process when it fails; what a deadline kills; and what becomes of the exit status.
\<close>

lemma steps_ok: "snd (all_steps as) \<longleftrightarrow> list_all snd as"
  by (induction as) (auto simp: and_then_def)

lemma steps_done: "list_all snd as \<Longrightarrow> fst (all_steps as) = concat (map fst as)"
  by (induction as) (auto simp: and_then_def)

lemma steps_part: "e \<in> set (fst (all_steps as)) \<Longrightarrow> \<exists>a \<in> set as. e \<in> set (fst a)"
  by (induction as) (auto simp: and_then_def split: if_splits)

declare all_steps.simps [simp del]

definition is_exec :: "event \<Rightarrow> bool" where
  "is_exec e = (case e of Execve _ _ \<Rightarrow> True | _ \<Rightarrow> False)"

text \<open>What may be granted: reading, and executing what belongs to the system.\<close>

definition granted :: "opts \<Rightarrow> string \<Rightarrow> 64 word \<Rightarrow> bool" where
  "granted opt path access \<longleftrightarrow> path \<in> set syslib_dirs \<and> access = SYS_ACCESS \<or>
     (Some path = path_parent (o_script opt) \<or> path \<in> set (o_cap_fs_read opt)) \<and> access = DATA_ACCESS"

lemma grants_granted: "e \<in> set (grants kn opt) \<Longrightarrow> \<exists>path access. e = Add_rule path access \<and> granted opt path access"
  by (auto simp: grants_def grant_access_def granted_def split: option.splits if_splits)

lemma call_simps: "snd (call b ev) \<longleftrightarrow> b" "e \<in> set (fst (call b ev)) \<longleftrightarrow> b \<and> e = ev"
  "b \<Longrightarrow> fst (call b ev) = [ev]"
  by (simp_all add: call_def)

text \<open>The barriers in front of the interpreter, in their order.\<close>

definition barriers :: "kernel \<Rightarrow> opts \<Rightarrow> steps list" where
  "barriers kn opt = [landlock_apply kn opt, setup_rlimits kn opt, apply_seccomp kn]"

lemma barriers_no_exec:
  assumes "e \<in> set (fst (all_steps (barriers kn opt)))"
  shows "\<not> is_exec e"
proof -
  have "\<not> is_exec e" if "e \<in> set (fst (landlock_apply kn opt))"
    using that by (auto simp: landlock_apply_def Let_def is_exec_def call_def split: if_splits
        dest!: steps_part grants_granted)
  moreover have "\<not> is_exec e" if "e \<in> set (fst (setup_rlimits kn opt))"
    using that by (auto simp: setup_rlimits_def is_exec_def call_def split: if_splits dest!: steps_part)
  moreover have "\<not> is_exec e" if "e \<in> set (fst (apply_seccomp kn))"
    using that by (auto simp: apply_seccomp_def is_exec_def call_def split: if_splits dest!: steps_part)
  ultimately show ?thesis using steps_part [OF assms] by (auto simp: barriers_def)
qed

lemma grandchild_barriers: "grandchild kn opt = (if snd (all_steps (barriers kn opt))
    then (fst (all_steps (barriers kn opt)) @ fst (run_python kn opt), snd (run_python kn opt))
    else (fst (all_steps (barriers kn opt)), Exited 1))"
  by (simp add: grandchild_def barriers_def Let_def case_prod_beta)

lemma barriers_trace:
  assumes "snd (all_steps (barriers kn opt))"
  shows "fst (all_steps (barriers kn opt)) =
      [No_new_privs, Create_ruleset (probe_handled kn)] @ grants kn opt @ [Restrict_self,
       Setrlimit RLIMIT_AS (o_mem_limit_mb opt * 1024 * 1024), Setrlimit RLIMIT_CPU (o_cpu_sec opt),
       Setrlimit RLIMIT_NOFILE (o_nofile opt), No_new_privs, Seccomp build_bpf]" (is ?trace)
    and "probe_handled kn \<noteq> 0" (is ?handled)
proof -
  have "snd (landlock_apply kn opt)" "snd (setup_rlimits kn opt)" "snd (apply_seccomp kn)"
    using assms by (simp_all add: steps_ok barriers_def)
  then show ?trace ?handled
    by (simp_all add: barriers_def landlock_apply_def setup_rlimits_def apply_seccomp_def Let_def steps_ok steps_done
        call_simps split: if_splits)
qed


text \<open>A kernel that grants everything, and a script that ends with the given status.\<close>

definition good_kernel :: "wait_status \<Rightarrow> kernel" where
  "good_kernel st = \<lparr>k_euid = 1000, k_uid = 1000, k_gid = 1000, k_unshare_user = True, k_unshare_rest = True,
     k_proc = (\<lambda>_. True), k_fork = True, k_probe = (\<lambda>_. True), k_no_new_privs = True, k_ruleset = True,
     k_open_dir = (\<lambda>p. p \<noteq> []), k_add_rule = (\<lambda>_. True), k_restrict = True, k_rlimit = (\<lambda>_. True),
     k_no_new_privs_again = True, k_seccomp = True, k_exec = True, k_python = st\<rparr>"

lemma good_barriers: "snd (all_steps (barriers (good_kernel st) opt))"
  by (simp add: barriers_def steps_ok landlock_apply_def setup_rlimits_def apply_seccomp_def Let_def call_simps
      good_kernel_def probe_handled_def HANDLED_FS_def)

lemma good_exec: "Execve ''/usr/bin/python3'' [''/usr/bin/python3'', o_script opt] \<in> set (fst (grandchild (good_kernel st) opt))"
  by (simp add: grandchild_barriers good_barriers run_python_def)


subsection \<open>The pipe and the exit status\<close>

lemma bytes_of_number:
  assumes "u < 2 ^ 32"
  shows "((u div 2 ^ 24 mod 256 * 256 + u div 2 ^ 16 mod 256) * 256 + u div 2 ^ 8 mod 256) * 256 + u mod 256 = (u :: nat)"
proof -
  define v where "v = u div 256"
  define w where "w = v div 256"
  define x where "x = w div 256"
  have "x < 256" using assms by (simp add: x_def w_def v_def div_mult2_eq [symmetric])
  moreover have "u div 2 ^ 24 = x" "u div 2 ^ 16 = w" "u div 2 ^ 8 = v"
    by (simp_all add: x_def w_def v_def div_mult2_eq [symmetric])
  moreover have "u = 256 * v + u mod 256" "v = 256 * w + v mod 256" "w = 256 * x + w mod 256"
    by (simp_all add: x_def w_def v_def)
  ultimately show ?thesis by simp
qed

lemma be_bytes_read: "read_gpid (be_bytes n) = n"
proof -
  define u where "u = unat n"
  have "u < 2 ^ 32" using unsigned_less [of n] by (simp add: u_def)
  note bytes = bytes_of_number [OF this]
  have ord: "ord (char_of m) = int (m mod 256)" for m :: nat
    by (simp add: ord_def of_nat_of_char [symmetric, where ?'a = int])
  have drop: "unat (drop_bit i n) = u div 2 ^ i" for i
    unfolding u_def unat_drop_bit_eq by (rule drop_bit_eq_div)
  have "read_gpid (be_bytes n) = word_of_int (int
      (((u div 2 ^ 24 mod 256 * 256 + u div 2 ^ 16 mod 256) * 256 + u div 2 ^ 8 mod 256) * 256 + u div 2 ^ 0 mod 256))"
    unfolding be_bytes_def list.map read_gpid.simps ord drop by (simp only: of_nat_add of_nat_mult of_nat_numeral)
  then show ?thesis by (simp only: bytes power_0 div_by_1) (simp add: u_def)
qed


lemma monitor_verdicts: "monitor (Exited 0) polls = Some v \<Longrightarrow> v \<in> {Timed_out, Ended 0, Ended 1}"
  by (induction "Exited 0" polls rule: monitor.induct) (auto split: if_splits)

lemma child_status:
  assumes "snd (setup_namespaces kn (o_debug_ns opt))" "k_fork kn"
  shows "snd (snd (child kn opt gpid)) = Exited 0"
  using assms by (simp add: child_def Let_def case_prod_beta)

text \<open>
  C34: the exit status of the script is lost: the child closes the pipe before it writes the status
  and ends with 0, so whenever the sandbox could be set up, the parent ends with 0, with 124 at the
  deadline or with 1 when \<open>waitpid\<close> fails, however the script ended.\<close>

theorem script_status_lost:
  assumes "snd (setup_namespaces kn (o_debug_ns opt))" "k_fork kn"
    and "r_exit (supervise kn opt gpid polls) = Some n"
  shows "n \<in> {0, 1, 124} \<and> r_exit (supervise (kn\<lparr>k_python := st\<rparr>) opt gpid polls) = Some n"
proof -
  have "setup_namespaces (kn\<lparr>k_python := st\<rparr>) skip = setup_namespaces kn skip" for skip
    by (simp add: setup_namespaces_def write_uid_map_def)
  then have "snd (snd (child (kn\<lparr>k_python := st\<rparr>) opt gpid)) = Exited 0"
    using assms by (intro child_status) simp_all
  then show ?thesis
    using assms(3) child_status [OF assms(1,2)] monitor_verdicts [of polls]
    by (auto simp: supervise_def Let_def case_prod_beta)
qed

lemma good_namespaces: "snd (setup_namespaces (good_kernel st) skip)" "k_fork (good_kernel st)"
  by (simp_all add: setup_namespaces_def write_uid_map_def steps_ok call_simps good_kernel_def)

theorem script_status_lost_witness:
  "r_exit (supervise (good_kernel (Exited 0)) default_opts 7 [Running, Reaped]) = Some 0 \<and>
   r_exit (supervise ((good_kernel (Exited 0))\<lparr>k_python := Exited 3\<rparr>) default_opts 7 [Running, Reaped]) = Some 0"
proof -
  have "r_exit (supervise (good_kernel (Exited 0)) default_opts 7 [Running, Reaped]) = Some 0"
    using child_status [OF good_namespaces, of "Exited 0" default_opts 7]
    by (simp add: supervise_def Let_def case_prod_beta)
  with script_status_lost [OF good_namespaces this, of "Exited 3"] show ?thesis by simp
qed

subsection \<open>Limits and arguments\<close>

text \<open>
  Note: a memory limit of less than \<open>2\<^sup>4\<^sup>4\<close> megabytes is set exactly; at \<open>2\<^sup>4\<^sup>4\<close> the product wraps around,
  and the limit is 0 bytes.\<close>

theorem memory_limit_bytes:
  "(if unat (o_mem_limit_mb opt) < 2 ^ 44
    then unat (o_mem_limit_mb opt * 1024 * 1024) = unat (o_mem_limit_mb opt) * 2 ^ 20 else True) \<and>
   (if k_rlimit kn RLIMIT_AS
    then hd (fst (setup_rlimits kn (opt\<lparr>o_mem_limit_mb := 17592186044416\<rparr>))) = Setrlimit RLIMIT_AS 0 else True)"
proof -
  have "unat (o_mem_limit_mb opt * 1024 * 1024) = unat (o_mem_limit_mb opt) * 2 ^ 20"
    if "unat (o_mem_limit_mb opt) < 2 ^ 44"
    using that by (simp add: unat_word_ariths mod_mult_left_eq)
  then show ?thesis by (simp add: setup_rlimits_def all_steps.simps and_then_def call_def)
qed

text \<open>
  Note: for a script given by its bare name no directory is opened to reading: its parent directory is
  the empty path, which no kernel opens.\<close>

theorem bare_script_not_granted:
  assumes "CHR ''/'' \<notin> set (o_script opt)" "\<not> k_open_dir kn []"
  shows "grants kn (opt\<lparr>o_cap_fs_read := []\<rparr>) = concat (map (grant_access kn SYS_ACCESS) syslib_dirs)"
proof -
  have "strip_tail r = r" if "CHR ''/'' \<notin> set r" for r
    using that by (cases r rule: strip_tail.cases) auto
  then have s: "strip_tail (rev (o_script opt)) = rev (o_script opt)" using assms(1) by simp
  have d: "dropWhile (\<lambda>c. c \<noteq> CHR ''/'') (rev (o_script opt)) = []"
    using assms(1) by (auto simp: dropWhile_eq_Nil_conv)
  have "path_parent (o_script opt) \<in> {None, Some []}" unfolding path_parent_def Let_def s d by simp
  then have "(case path_parent (o_script opt) of Some dir \<Rightarrow> grant_access kn DATA_ACCESS dir | None \<Rightarrow> []) = []"
    using assms(2) by (auto simp: grant_access_def)
  then show ?thesis by (simp add: grants_def)
qed

theorem bare_script_not_granted_witness:
  "grants (good_kernel (Exited 0)) (default_opts\<lparr>o_script := ''a.py''\<rparr>) = map (\<lambda>d. Add_rule d SYS_ACCESS) syslib_dirs"
  using bare_script_not_granted [of "default_opts\<lparr>o_script := ''a.py''\<rparr>" "good_kernel (Exited 0)"]
  by (simp add: good_kernel_def default_opts_def grant_access_def syslib_dirs_def)

subsection \<open>The command line\<close>

lemma parse_u64_digits: "parse_u64 (digits_of (unat w)) = Some w" for w :: "64 word"
proof -
  obtain c cs where c: "digits_of (unat w) = c # cs" "is_digit c" using digits_of_Cons by blast
  then have "c \<noteq> CHR ''+''" by (auto simp: is_digit_def ord_def)
  moreover have "int (unat w) < 2 ^ 64" using unsigned_less [of w] by (simp flip: of_nat_less_iff)
  ultimately show ?thesis
    using digits_of_digits [of "unat w"] dec_value_digits [of "unat w"] c(1) by (simp add: parse_u64_def Let_def)
qed

definition option_flags :: "string list" where
  "option_flags = [''--cap-fs-read'', ''--cap-net-host'', ''--mem-limit-mb'', ''--timeout-ms'', ''--cpu-sec'', ''--nofile'',
     ''--no-audit'', ''--debug-ns'', ''-h'', ''--help'']"

definition command_line :: "opts \<Rightarrow> string list" where
  "command_line opt =
     concat (map (\<lambda>p. [''--cap-fs-read'', p]) (o_cap_fs_read opt)) @
     concat (map (\<lambda>h. [''--cap-net-host'', h]) (o_cap_net_host opt)) @
     [''--mem-limit-mb'', digits_of (unat (o_mem_limit_mb opt)), ''--timeout-ms'', digits_of (unat (o_timeout_ms opt)),
      ''--cpu-sec'', digits_of (unat (o_cpu_sec opt)), ''--nofile'', digits_of (unat (o_nofile opt))] @
     (if o_audit opt then [] else [''--no-audit'']) @ (if o_debug_ns opt then [''--debug-ns''] else []) @ [o_script opt]"

lemma parse_fs: "parse_loop (concat (map (\<lambda>p. [''--cap-fs-read'', p]) ps) @ as) opt =
    parse_loop as (opt\<lparr>o_cap_fs_read := o_cap_fs_read opt @ ps\<rparr>)"
  by (induction ps arbitrary: opt) simp_all

lemma parse_hosts: "parse_loop (concat (map (\<lambda>p. [''--cap-net-host'', p]) ps) @ as) opt =
    parse_loop as (opt\<lparr>o_cap_net_host := o_cap_net_host opt @ ps\<rparr>)"
  by (induction ps arbitrary: opt) simp_all

text \<open>
  C40: options are read back: every setting of the sandbox can be given on the command line, and is
  what the arguments are parsed to - paths and hosts that look like options included, as long as the
  script is not named like an option.\<close>

theorem parse_args_roundtrip:
  assumes "o_script opt \<noteq> []" "o_script opt \<notin> set option_flags"
  shows "parse_args (command_line opt) = Inr opt"
proof -
  have "parse_loop (command_line opt) default_opts = Inr opt"
    using assms unfolding command_line_def append_assoc parse_fs parse_hosts
    by (cases opt; cases "o_audit opt"; cases "o_debug_ns opt")
      (simp_all add: parse_u64_digits number_option_def default_opts_def option_flags_def)
  moreover have "command_line opt \<noteq> []" by (simp add: command_line_def)
  ultimately show ?thesis using assms(1) by (simp add: parse_args_def)
qed

theorem parse_args_roundtrip_witness:
  "parse_args (command_line (default_opts\<lparr>o_script := ''a.py'', o_cap_fs_read := [''--nofile'']\<rparr>)) =
     Inr (default_opts\<lparr>o_script := ''a.py'', o_cap_fs_read := [''--nofile'']\<rparr>)"
  by (rule parse_args_roundtrip) (simp_all add: option_flags_def)

end
