(* ===== verification/Fly_Checkd.thy ===== *)
theory Fly_Checkd
  imports Fly_Diagnostic
begin

text \<open>
  The binary protocol between the compiler and the checker \<open>fly-checkd\<close> (\<^verbatim>\<open>src/checkd.rs\<close>, and the other
  side in \<^verbatim>\<open>cmd/fly-checkd/main.go\<close>): frames with a length in front, the request, the list of
  diagnostics that comes back, and where the checker is looked for.  Starting the process and reading
  its pipes are not modelled; the bytes that were read are.
\<close>

subsection \<open>Numbers and texts\<close>

definition be32 :: "byte list \<Rightarrow> nat" where
  "be32 b = nat (((ord (b ! 0) * 256 + ord (b ! 1)) * 256 + ord (b ! 2)) * 256 + ord (b ! 3))"

definition le32 :: "byte list \<Rightarrow> nat" where
  "le32 b = nat (((ord (b ! 3) * 256 + ord (b ! 2)) * 256 + ord (b ! 1)) * 256 + ord (b ! 0))"

text \<open>\<open>n as u32\<close> and its bytes, the highest first: \<open>push_be32\<close>, and \<open>binary.BigEndian\<close> in Go.\<close>

definition be_bytes32 :: "nat \<Rightarrow> byte list" where
  "be_bytes32 n = map (\<lambda>i. char_of (n div 256 ^ i mod 256)) [3, 2, 1, 0]"

definition le_bytes32 :: "nat \<Rightarrow> byte list" where
  "le_bytes32 n = map (\<lambda>i. char_of (n div 256 ^ i mod 256)) [0, 1, 2, 3]"

text \<open>\<open>String::from_utf8\<close> accepts the well-formed byte sequences of Unicode.\<close>

definition in_range :: "byte \<Rightarrow> int \<Rightarrow> int \<Rightarrow> bool" where
  "in_range c lo hi \<longleftrightarrow> lo \<le> ord c \<and> ord c \<le> hi"

definition second_byte :: "byte \<Rightarrow> byte \<Rightarrow> bool" where
  "second_byte a b \<longleftrightarrow>
     (if ord a = 224 then in_range b 160 191
      else if ord a = 237 then in_range b 128 159
      else if ord a = 240 then in_range b 144 191
      else if ord a = 244 then in_range b 128 143
      else in_range b 128 191)"

fun valid_utf8 :: "byte list \<Rightarrow> bool" where
  "valid_utf8 [] \<longleftrightarrow> True"
| "valid_utf8 (a # s) \<longleftrightarrow>
     (if ord a < 128 then valid_utf8 s
      else if in_range a 194 223 then (case s of b # t \<Rightarrow> second_byte a b \<and> valid_utf8 t | _ \<Rightarrow> False)
      else if in_range a 224 239 then
        (case s of b # c # t \<Rightarrow> second_byte a b \<and> in_range c 128 191 \<and> valid_utf8 t | _ \<Rightarrow> False)
      else if in_range a 240 244 then
        (case s of b # c # d # t \<Rightarrow> second_byte a b \<and> in_range c 128 191 \<and> in_range d 128 191 \<and> valid_utf8 t | _ \<Rightarrow> False)
      else False)"

subsection \<open>Responses\<close>

datatype checkd_error =
    Empty_response | Unknown_status int | Length_truncated | Field_truncated | Diagnostic_truncated | Not_utf8
  | Response_too_short | Response_length_mismatch | Read_failed

text \<open>A result, an error, or a panic (an index out of range).\<close>

datatype 'a outcome = Done 'a | Failed checkd_error | Panic

record checkd_result =
  cr_diags :: "diagnostic list"
  cr_server_error :: "string option"

definition read_str :: "byte list \<Rightarrow> nat \<Rightarrow> checkd_error + string" where
  "read_str body off =
     (if length body < off + 4 then Inl Length_truncated
      else let l = be32 (slice body off (off + 4)) in
        if length body < off + 4 + l then Inl Field_truncated
        else let s = slice body (off + 4) (off + 4 + l) in if valid_utf8 s then Inr s else Inl Not_utf8)"

primrec read_diags :: "nat \<Rightarrow> byte list \<Rightarrow> nat \<Rightarrow> checkd_error + diagnostic list" where
  "read_diags 0 body off = Inr []"
| "read_diags (Suc n) body off =
     (case read_str body off of
        Inl e \<Rightarrow> Inl e
      | Inr c \<Rightarrow>
          let off = off + 4 + length c in
          if length body < off + 8 then Inl Diagnostic_truncated
          else
            let pos = \<lparr>pos_line = le32 (slice body off (off + 4)), pos_col = le32 (slice body (off + 4) (off + 8))\<rparr>;
                off = off + 8
            in case read_str body off of
                 Inl e \<Rightarrow> Inl e
               | Inr msg \<Rightarrow>
                   (case read_diags n body (off + 4 + length msg) of
                      Inl e \<Rightarrow> Inl e
                    | Inr ds \<Rightarrow> Inr (\<lparr>d_pos = pos, d_code = c, d_msg = msg\<rparr> # ds)))"

definition internal_error :: string where
  "internal_error = ''checkd '' @ utf8 [229, 134, 133, 233, 131, 168, 233, 148, 153, 232, 175, 175]"

definition parse_response :: "byte list \<Rightarrow> checkd_result outcome" where
  "parse_response body =
     (if body = [] then Failed Empty_response
      else if ord (hd body) = 1 then
        Done \<lparr>cr_diags = [], cr_server_error = Some (case read_str body 1 of Inr msg \<Rightarrow> msg | Inl _ \<Rightarrow> internal_error)\<rparr>
      else if ord (hd body) \<noteq> 0 then Failed (Unknown_status (ord (hd body)))
      else if length body < 5 then Panic
      else case read_diags (be32 (slice body 1 5)) body 5 of
        Inl e \<Rightarrow> Failed e
      | Inr ds \<Rightarrow> Done \<lparr>cr_diags = ds, cr_server_error = None\<rparr>)"

subsection \<open>Requests and frames\<close>

definition with_length :: "byte list \<Rightarrow> byte list" where
  "with_length bs = be_bytes32 (length bs) @ bs"

definition request_payload :: "bool \<Rightarrow> string \<Rightarrow> string \<Rightarrow> byte list" where
  "request_payload color path src = [char_of (if color then 1 else 0 :: nat)] @ with_length path @ with_length src"

definition request_frame :: "bool \<Rightarrow> string \<Rightarrow> string \<Rightarrow> byte list" where
  "request_frame color path src = with_length (request_payload color path src)"

text \<open>\<open>check_src\<close>: the whole output of a checker that was started for one request and ended successfully.\<close>

definition check_reply :: "byte list \<Rightarrow> checkd_result outcome" where
  "check_reply bytes =
     (if length bytes < 4 then Failed Response_too_short
      else let len = be32 (take 4 bytes) in
        if length bytes < 4 + len then Failed Response_length_mismatch
        else parse_response (slice bytes 4 (4 + len)))"

text \<open>\<open>CheckdSession::check\<close>: one frame is read off the output of a running checker.\<close>

definition session_reply :: "byte list \<Rightarrow> checkd_result outcome \<times> byte list" where
  "session_reply bytes =
     (if length bytes < 4 then (Failed Read_failed, [])
      else let len = be32 (take 4 bytes) in
        if length bytes < 4 + len then (Failed Read_failed, [])
        else (parse_response (slice bytes 4 (4 + len)), drop (4 + len) bytes))"

subsection \<open>The checker's side\<close>

definition encode_diagnostic :: "diagnostic \<Rightarrow> byte list" where
  "encode_diagnostic d = with_length (d_code d) @ le_bytes32 (pos_line (d_pos d)) @ le_bytes32 (pos_col (d_pos d)) @
     with_length (d_msg d)"

definition encode_diagnostics :: "diagnostic list \<Rightarrow> byte list" where
  "encode_diagnostics ds = [char_of (0 :: nat)] @ be_bytes32 (length ds) @ concat (map encode_diagnostic ds)"

definition encode_error :: "string \<Rightarrow> byte list" where
  "encode_error msg = [char_of (1 :: nat)] @ with_length msg"

text \<open>The error texts are Chinese: the request is too short; the length of its path, of its source is wrong.\<close>

definition request_short :: string where
  "request_short = utf8 [232, 175, 183, 230, 177, 130, 232, 191, 135, 231, 159, 173]"

definition request_mismatch :: "string \<Rightarrow> string" where
  "request_mismatch what = utf8 [232, 175, 183, 230, 177, 130] @ '' '' @ what @ '' '' @
     utf8 [233, 149, 191, 229, 186, 166, 228, 184, 141, 231, 172, 166]"

definition decode_request :: "byte list \<Rightarrow> string + byte \<times> string \<times> string" where
  "decode_request payload =
     (if length payload < 9 then Inl request_short
      else let path_len = be32 (slice payload 1 5); rest = drop 5 payload in
        if length rest < path_len + 4 then Inl (request_mismatch ''path'')
        else let path = take path_len rest; rest = drop path_len rest;
                 src_len = be32 (take 4 rest); rest = drop 4 rest
             in if length rest < src_len then Inl (request_mismatch ''src'') else Inr (hd payload, path, take src_len rest))"

text \<open>
  \<open>compile.CheckSource\<close> is a parameter: from a source to its diagnostics.
\<close>

definition handle_request :: "(string \<Rightarrow> diagnostic list) \<Rightarrow> byte list \<Rightarrow> byte list" where
  "handle_request check_source payload =
     (case decode_request payload of
        Inl msg \<Rightarrow> encode_error msg
      | Inr (color, path, src) \<Rightarrow> encode_diagnostics (check_source src))"

text \<open>
  \<open>io.ReadFull\<close> reports the end of the stream when not a single byte was left, after the length of a
  frame too, and a broken stream when some were; a frame of more than 64 MiB is an error.
\<close>

datatype stream_end = Stream_ended | Stream_broken

definition read_frame :: "byte list \<Rightarrow> stream_end + byte list \<times> byte list" where
  "read_frame bytes =
     (if bytes = [] then Inl Stream_ended
      else if length bytes < 4 then Inl Stream_broken
      else let n = be32 (take 4 bytes); rest = drop 4 bytes in
        if 67108864 < n then Inl Stream_broken
        else if 0 < n \<and> rest = [] then Inl Stream_ended
        else if length rest < n then Inl Stream_broken
        else Inr (take n rest, drop n rest))"

text \<open>
  The loop of the checker: what it has written at the end of its input, and whether it ended without an
  error.  Every round takes a frame of at least four bytes, so that one for each byte is enough.
\<close>

primrec serve_rounds :: "(string \<Rightarrow> diagnostic list) \<Rightarrow> nat \<Rightarrow> byte list \<Rightarrow> byte list \<Rightarrow> byte list \<times> bool" where
  "serve_rounds check_source 0 input written = (written, True)"
| "serve_rounds check_source (Suc n) input written =
     (case read_frame input of
        Inl Stream_ended \<Rightarrow> (written, True)
      | Inl Stream_broken \<Rightarrow> (written, False)
      | Inr (payload, rest) \<Rightarrow>
          serve_rounds check_source n rest (written @ with_length (handle_request check_source payload)))"

definition serve_checkd :: "(string \<Rightarrow> diagnostic list) \<Rightarrow> byte list \<Rightarrow> byte list \<times> bool" where
  "serve_checkd check_source input = serve_rounds check_source (Suc (length input)) input []"

subsection \<open>Where the checker is\<close>

text \<open>\<open>Path::join\<close> with a file name, and \<open>str::split\<close> at a character.\<close>

definition join_path :: "string \<Rightarrow> string \<Rightarrow> string" where
  "join_path dir name = (if dir = [] \<or> last dir = CHR ''/'' then dir @ name else dir @ ''/'' @ name)"

fun split_at :: "byte \<Rightarrow> string \<Rightarrow> string \<Rightarrow> string list" where
  "split_at c cur [] = [cur]"
| "split_at c cur (x # s) = (if x = c then cur # split_at c [] s else split_at c (cur @ [x]) s)"

definition find_on_path :: "(string \<Rightarrow> bool) \<Rightarrow> string option \<Rightarrow> string option" where
  "find_on_path there path =
     (case path of
        None \<Rightarrow> None
      | Some p \<Rightarrow> find there (map (\<lambda>dir. join_path dir ''fly-checkd'') (split_at (CHR '':'') [] p)))"

definition find_checkd :: "string option \<Rightarrow> string option \<Rightarrow> (string \<Rightarrow> bool) \<Rightarrow> string option \<Rightarrow> string option" where
  "find_checkd fly_checkd exe_dir there path =
     (case fly_checkd of
        Some (c # p) \<Rightarrow> Some (c # p)
      | _ \<Rightarrow>
          (case exe_dir of
             Some dir \<Rightarrow> if there (join_path dir ''fly-checkd'') then Some (join_path dir ''fly-checkd'')
               else find_on_path there path
           | None \<Rightarrow> find_on_path there path))"

end
