(* ===== verification/Fly_Framing.thy ===== *)
theory Fly_Framing
  imports Fly_Prelude
begin

text \<open>
  Messages in a stream of bytes: a writer of frames, a reader that takes one frame off the stream, and
  a loop that reads and handles frames until the stream ends.  Both protocols of the program, the
  language server's and the checker's, are such a framing.
\<close>

section \<open>Reading many frames\<close>

primrec read_many :: "(byte list \<Rightarrow> ('m \<times> byte list) option) \<Rightarrow> nat \<Rightarrow> byte list \<Rightarrow> ('m list \<times> byte list) option" where
  "read_many get 0 s = Some ([], s)"
| "read_many get (Suc n) s =
     (case get s of
        None \<Rightarrow> None
      | Some (m, rest) \<Rightarrow> (case read_many get n rest of None \<Rightarrow> None | Some (ms, t) \<Rightarrow> Some (m # ms, t)))"

text \<open>What a loop over messages computes: a message is handled in a state, and may end the loop.\<close>

primrec over_messages :: "('m \<Rightarrow> 's \<Rightarrow> 'r + 's) \<Rightarrow> ('s \<Rightarrow> 'r) \<Rightarrow> 'm list \<Rightarrow> 's \<Rightarrow> 'r" where
  "over_messages h fin [] s = fin s"
| "over_messages h fin (m # ms) s = (case h m s of Inl r \<Rightarrow> r | Inr t \<Rightarrow> over_messages h fin ms t)"

locale framing =
  fixes put :: "'m \<Rightarrow> byte list"
    and get :: "byte list \<Rightarrow> ('m \<times> byte list) option"
    and good :: "'m \<Rightarrow> bool"
  assumes get_put: "good m \<Longrightarrow> get (put m @ rest) = Some (m, rest)"
    and put_nonempty: "good m \<Longrightarrow> put m \<noteq> []"
begin

lemma many_read: "list_all good ms \<Longrightarrow> read_many get (length ms) (concat (map put ms) @ rest) = Some (ms, rest)"
  by (induction ms) (simp_all add: get_put)

lemma first_decodes: "good m \<Longrightarrow> good m' \<Longrightarrow> put m @ r = put m' @ r' \<Longrightarrow> m = m' \<and> r = r'"
  by (metis get_put option.inject prod.inject)

lemma uniquely_decodable:
  "list_all good ms \<Longrightarrow> list_all good ms' \<Longrightarrow> concat (map put ms) = concat (map put ms') \<Longrightarrow> ms = ms'"
proof (induction ms arbitrary: ms')
  case Nil
  then show ?case using put_nonempty by (cases ms') auto
next
  case (Cons m ms)
  then obtain m' ns where ms': "ms' = m' # ns" "good m'" "list_all good ns" using put_nonempty by (cases ms') auto
  then have "m = m' \<and> concat (map put ms) = concat (map put ns)" using Cons.prems by (intro first_decodes) simp_all
  with ms' show ?case using Cons.IH [of ns] Cons.prems(1) by simp
qed

lemma at_most_bytes: "list_all good ms \<Longrightarrow> length ms \<le> length (concat (map put ms))"
proof (induction ms)
  case (Cons m ms)
  then have "put m \<noteq> []" using put_nonempty by simp
  with Cons show ?case by (cases "put m") simp_all
qed simp

end

section \<open>A loop over frames\<close>

text \<open>\<open>loop n s st\<close>: at most \<open>n\<close> rounds on the input \<open>s\<close>.\<close>

locale framed_loop = framing put get good
  for put :: "'m \<Rightarrow> byte list" and get :: "byte list \<Rightarrow> ('m \<times> byte list) option" and good :: "'m \<Rightarrow> bool" +
  fixes loop :: "nat \<Rightarrow> byte list \<Rightarrow> 's \<Rightarrow> 'r"
    and h :: "'m \<Rightarrow> 's \<Rightarrow> 'r + 's"
    and fin :: "'s \<Rightarrow> 'r"
  assumes loop_get: "get s = Some (m, rest) \<Longrightarrow> loop (Suc n) s st = (case h m st of Inl r \<Rightarrow> r | Inr st' \<Rightarrow> loop n rest st')"
    and loop_end: "loop (Suc n) [] st = fin st"
begin

lemma loop_messages:
  "list_all good ms \<Longrightarrow> length ms < n \<Longrightarrow> loop n (concat (map put ms)) st = over_messages h fin ms st"
proof (induction ms arbitrary: n st)
  case Nil
  then show ?case using loop_end by (cases n) simp_all
next
  case (Cons m ms)
  then obtain k where n: "n = Suc k" by (cases n) auto
  from Cons.prems have "get (put m @ concat (map put ms)) = Some (m, concat (map put ms))" by (simp add: get_put)
  from loop_get [OF this] show ?case using Cons by (simp add: n split: sum.split)
qed

text \<open>A round for each byte of the input is enough.\<close>

lemma loop_stream:
  "list_all good ms \<Longrightarrow> loop (Suc (length (concat (map put ms)))) (concat (map put ms)) st = over_messages h fin ms st"
  by (rule loop_messages) (auto dest: at_most_bytes)

end

end
