(* ===== verification/Fly_Checkd_Facts.thy ===== *)
theory Fly_Checkd_Facts
  imports Fly_Checkd Fly_Framing
begin

text \<open>
  The two ends of the checker protocol agree: what one side writes the other reads, as long as the
  lengths fit their four bytes; the reader takes no more than the response holds, and the one way it
  can fail without an error value is found.
\<close>

lemma ord_byte: "ord (char_of m) = int (m mod 256)" for m :: nat
  by (simp add: ord_def of_nat_of_char [symmetric, where ?'a = int])

lemma base256:
  assumes "u < 4294967296"
  shows "((u div 16777216 mod 256 * 256 + u div 65536 mod 256) * 256 + u div 256 mod 256) * 256 + u mod 256 = (u :: nat)"
proof -
  define v where "v = u div 256"
  define w where "w = v div 256"
  define x where "x = w div 256"
  have "x < 256" using assms by (simp add: x_def w_def v_def div_mult2_eq [symmetric])
  moreover have "u div 16777216 = x" "u div 65536 = w" "u div 256 = v"
    by (simp_all add: x_def w_def v_def div_mult2_eq [symmetric])
  moreover have "u = 256 * v + u mod 256" "v = 256 * w + v mod 256" "w = 256 * x + w mod 256"
    by (simp_all add: x_def w_def v_def)
  ultimately show ?thesis by simp
qed

lemma length_be_bytes [simp]: "length (be_bytes32 n) = 4" "length (le_bytes32 n) = 4"
  by (simp_all add: be_bytes32_def le_bytes32_def)

lemma be32_bytes: "n < 4294967296 \<Longrightarrow> be32 (be_bytes32 n) = n"
  using base256 [of n] by (simp add: be32_def be_bytes32_def ord_byte nat_int_add nat_mult_distrib nat_add_distrib)

lemma le32_bytes: "n < 4294967296 \<Longrightarrow> le32 (le_bytes32 n) = n"
  using base256 [of n] by (simp add: le32_def le_bytes32_def ord_byte nat_mult_distrib nat_add_distrib)

lemma slice_append_mid: "slice (xs @ ys @ zs) (length xs) (length xs + length ys) = ys"
  by (simp add: slice_def)

text \<open>\<open>u32_text\<close>: a text whose length fits its field.\<close>

definition u32_text :: "string \<Rightarrow> bool" where
  "u32_text s \<longleftrightarrow> length s < 4294967296 \<and> valid_utf8 s"

lemma read_str_written:
  assumes "u32_text s"
  shows "read_str (pre @ with_length s @ post) (length pre) = Inr s"
proof -
  have len: "slice (pre @ with_length s @ post) (length pre) (length pre + 4) = be_bytes32 (length s)"
    using slice_append_mid [of pre "be_bytes32 (length s)" "s @ post"] by (simp add: with_length_def)
  have "slice (pre @ with_length s @ post) (length pre + 4) (length pre + 4 + length s) = s"
    using slice_append_mid [of "pre @ be_bytes32 (length s)" s post] by (simp add: with_length_def)
  with len assms show ?thesis
    by (simp add: read_str_def be32_bytes u32_text_def Let_def) (simp add: with_length_def)
qed

definition sendable :: "diagnostic \<Rightarrow> bool" where
  "sendable d \<longleftrightarrow> u32_text (d_code d) \<and> u32_text (d_msg d) \<and> pos_line (d_pos d) < 4294967296 \<and> pos_col (d_pos d) < 4294967296"

lemma read_diags_written:
  assumes "list_all sendable ds"
  shows "read_diags (length ds) (pre @ concat (map encode_diagnostic ds) @ post) (length pre) = Inr ds"
  using assms
proof (induction ds arbitrary: pre)
  case (Cons d ds)
  define rest where "rest = concat (map encode_diagnostic ds) @ post"
  define body where "body = pre @ encode_diagnostic d @ rest"
  define a where "a = pre @ with_length (d_code d)"
  define b where "b = a @ le_bytes32 (pos_line (d_pos d)) @ le_bytes32 (pos_col (d_pos d))"
  define c where "c = b @ with_length (d_msg d)"
  have d: "sendable d" and ds: "list_all sendable ds" using Cons.prems by simp_all
  have code: "read_str body (length pre) = Inr (d_code d)"
    using read_str_written [of "d_code d" pre] d by (simp add: body_def encode_diagnostic_def sendable_def)
  have la: "length a = length pre + 4 + length (d_code d)" by (simp add: a_def with_length_def)
  have body_a: "body = a @ le_bytes32 (pos_line (d_pos d)) @ le_bytes32 (pos_col (d_pos d)) @ with_length (d_msg d) @ rest"
    by (simp add: body_def a_def encode_diagnostic_def)
  have line: "slice body (length a) (length a + 4) = le_bytes32 (pos_line (d_pos d))"
    unfolding body_a by (simp add: slice_def)
  have col: "slice body (length a + 4) (length a + 8) = le_bytes32 (pos_col (d_pos d))"
    unfolding body_a by (simp add: slice_def)
  have body_b: "body = b @ with_length (d_msg d) @ rest" by (simp add: body_a b_def)
  have lb: "length b = length a + 8" by (simp add: b_def)
  have msg: "read_str body (length a + 8) = Inr (d_msg d)"
    unfolding body_b lb [symmetric] using d by (intro read_str_written) (simp add: sendable_def)
  have "read_diags (length ds) (c @ concat (map encode_diagnostic ds) @ post) (length c) = Inr ds"
    by (rule Cons.IH [OF ds])
  moreover have "c @ concat (map encode_diagnostic ds) @ post = body" by (simp add: body_b c_def rest_def)
  moreover have "length c = length a + 8 + (4 + length (d_msg d))" by (simp add: c_def lb with_length_def)
  ultimately have more: "read_diags (length ds) body (length a + 8 + 4 + length (d_msg d)) = Inr ds" by (simp add: add.assoc)
  have "\<not> length body < length a + 8" by (simp add: body_a)
  then have "read_diags (Suc (length ds)) body (length pre) = Inr (d # ds)"
    using d code line col msg more
    by (simp add: Let_def la [symmetric] le32_bytes sendable_def)
  then show ?case by (simp add: body_def rest_def)
qed simp

lemma parse_diagnostics_written:
  assumes "list_all sendable ds" "length ds < 4294967296"
  shows "parse_response (encode_diagnostics ds) = Done \<lparr>cr_diags = ds, cr_server_error = None\<rparr>"
proof -
  define pre where "pre = [char_of (0 :: nat)] @ be_bytes32 (length ds)"
  have enc: "encode_diagnostics ds = pre @ concat (map encode_diagnostic ds) @ []"
    by (simp add: encode_diagnostics_def pre_def)
  have "slice (encode_diagnostics ds) 1 5 = be_bytes32 (length ds)"
    by (simp add: encode_diagnostics_def slice_def)
  moreover have "read_diags (length ds) (encode_diagnostics ds) 5 = Inr ds"
    using read_diags_written [OF assms(1), of pre "[]"] unfolding enc by (simp add: pre_def)
  ultimately show ?thesis
    using assms(2) by (simp add: parse_response_def be32_bytes)
      (simp add: encode_diagnostics_def ord_byte)
qed

text \<open>
  C11: the diagnostics a checker sends arrive unchanged, in their order, with codes, positions and
  messages, whatever their number: the client's reader is the inverse of the checker's writer.\<close>

theorem checkd_response_roundtrip:
  assumes "list_all sendable ds" "length ds < 4294967296"
  shows "parse_response (encode_diagnostics ds) = Done \<lparr>cr_diags = ds, cr_server_error = None\<rparr>"
  using assms by (rule parse_diagnostics_written)

theorem checkd_response_roundtrip_witness:
  "parse_response (encode_diagnostics [\<lparr>d_pos = \<lparr>pos_line = 2, pos_col = 1\<rparr>, d_code = ''E0002'', d_msg = ''x''\<rparr>]) =
     Done \<lparr>cr_diags = [\<lparr>d_pos = \<lparr>pos_line = 2, pos_col = 1\<rparr>, d_code = ''E0002'', d_msg = ''x''\<rparr>], cr_server_error = None\<rparr>"
  by (rule checkd_response_roundtrip) (simp_all add: sendable_def u32_text_def ord_def)

subsection \<open>Sessions\<close>

text \<open>A payload is read off the stream of requests as it was framed.\<close>

definition next_payload :: "byte list \<Rightarrow> (byte list \<times> byte list) option" where
  "next_payload s = (case read_frame s of Inr (p, rest) \<Rightarrow> Some (p, rest) | Inl _ \<Rightarrow> None)"

lemma read_frame_written:
  "length p \<le> 67108864 \<Longrightarrow> read_frame (with_length p @ rest) = Inr (p, rest)"
  by (simp add: read_frame_def with_length_def be32_bytes Let_def)
    (metis length_0_conv length_be_bytes(1) zero_neq_numeral)

interpretation requests: framed_loop with_length next_payload "\<lambda>p. length p \<le> 67108864"
    "serve_rounds check_source" "\<lambda>p written. Inr (written @ with_length (handle_request check_source p))"
    "\<lambda>written. (written, True)" for check_source
proof
  show "next_payload (with_length p @ rest) = Some (p, rest)" if "length p \<le> 67108864" for p rest
    using that by (simp add: next_payload_def read_frame_written)
  show "with_length p \<noteq> []" for p by (simp add: with_length_def be_bytes32_def)
qed (auto simp: next_payload_def read_frame_def [of "[]"] split: sum.splits)

lemma over_written: "over_messages (\<lambda>p t. Inr (t @ f p)) (\<lambda>t. (t, b)) ps t = (t @ concat (map f ps), b)"
  by (induction ps arbitrary: t) simp_all

lemma decode_request_written:
  assumes "length path + length src + 9 \<le> 67108864"
  shows "decode_request (request_payload color path src) = Inr (char_of (if color then 1 else 0 :: nat), path, src)"
    and "length (request_payload color path src) \<le> 67108864"
proof -
  define payload where "payload = request_payload color path src"
  have len: "length payload = length path + length src + 9"
    by (simp add: payload_def request_payload_def with_length_def)
  then show "length (request_payload color path src) \<le> 67108864" using assms by (simp add: payload_def)
  have "slice payload 1 5 = be_bytes32 (length path)" "drop 5 payload = path @ be_bytes32 (length src) @ src"
    "hd payload = char_of (if color then 1 else 0 :: nat)" "\<not> length payload < 9"
    using len by (simp_all add: payload_def request_payload_def with_length_def slice_def)
  then have "decode_request payload = Inr (char_of (if color then 1 else 0 :: nat), path, src)"
    using assms by (simp add: decode_request_def be32_bytes)
  then show "decode_request (request_payload color path src) = Inr (char_of (if color then 1 else 0 :: nat), path, src)"
    by (simp add: payload_def)
qed

text \<open>The replies, as the client takes them off the stream: diagnostics, or an error of the checker.\<close>

definition encode_result :: "checkd_result \<Rightarrow> byte list" where
  "encode_result r = with_length (case cr_server_error r of None \<Rightarrow> encode_diagnostics (cr_diags r) | Some msg \<Rightarrow> encode_error msg)"

definition next_reply :: "byte list \<Rightarrow> (checkd_result \<times> byte list) option" where
  "next_reply s = (case session_reply s of (Done r, rest) \<Rightarrow> Some (r, rest) | _ \<Rightarrow> None)"

definition reply_fits :: "diagnostic list \<Rightarrow> bool" where
  "reply_fits ds \<longleftrightarrow> list_all sendable ds \<and> length ds < 4294967296 \<and> length (encode_diagnostics ds) < 4294967296"

definition result_fits :: "checkd_result \<Rightarrow> bool" where
  "result_fits r \<longleftrightarrow> (case cr_server_error r of
       None \<Rightarrow> reply_fits (cr_diags r)
     | Some msg \<Rightarrow> cr_diags r = [] \<and> valid_utf8 msg \<and> length msg + 5 < 4294967296)"

lemma parse_error_written:
  assumes "u32_text msg"
  shows "parse_response (encode_error msg) = Done \<lparr>cr_diags = [], cr_server_error = Some msg\<rparr>"
  using read_str_written [OF assms, of "[char_of (1 :: nat)]" "[]"]
  by (simp add: parse_response_def encode_error_def ord_byte)

lemma session_reply_written:
  "length body < 4294967296 \<Longrightarrow> session_reply (with_length body @ rest) = (parse_response body, rest)"
  by (simp add: session_reply_def with_length_def be32_bytes Let_def slice_def)

interpretation replies: framing encode_result next_reply result_fits
proof
  fix r rest assume fits: "result_fits r"
  show "next_reply (encode_result r @ rest) = Some (r, rest)"
  proof (cases "cr_server_error r")
    case None
    with fits show ?thesis
      by (simp add: next_reply_def encode_result_def result_fits_def reply_fits_def session_reply_written parse_diagnostics_written)
  next
    case (Some msg)
    with fits have "r = \<lparr>cr_diags = [], cr_server_error = Some msg\<rparr>" "u32_text msg" "length (encode_error msg) < 4294967296"
      by (simp_all add: result_fits_def u32_text_def encode_error_def with_length_def)
    moreover from this have "parse_response (encode_error msg) = Done r" by (simp add: parse_error_written)
    ultimately have "parse_response (encode_error msg) = Done r" "length (encode_error msg) < 4294967296" by simp_all
    with Some show ?thesis by (simp add: next_reply_def encode_result_def session_reply_written)
  qed
  show "encode_result r \<noteq> []" by (simp add: encode_result_def with_length_def be_bytes32_def)
qed

text \<open>
  C30: a session of any number of requests: from the bytes the client writes, the checker computes an
  answer for each of them, and the client reads off, in the order of the requests, exactly the
  diagnostics of each source, with nothing left over, whatever texts the sources and messages hold; the
  checker ends without an error when the client closes the stream.\<close>

theorem checkd_session_roundtrip:
  assumes "list_all (\<lambda>(color, path, src). length path + length src + 9 \<le> 67108864 \<and> reply_fits (check_source src)) reqs"
  shows "case serve_checkd check_source (concat (map (\<lambda>(color, path, src). request_frame color path src) reqs)) of
      (answers, ok) \<Rightarrow> ok \<and> read_many next_reply (length reqs) answers =
        Some (map (\<lambda>(color, path, src). \<lparr>cr_diags = check_source src, cr_server_error = None\<rparr>) reqs, [])"
proof -
  let ?ps = "map (\<lambda>(color, path, src). request_payload color path src) reqs"
  let ?rs = "map (\<lambda>(color, path, src). \<lparr>cr_diags = check_source src, cr_server_error = None\<rparr>) reqs"
  have frames: "map (\<lambda>(color, path, src). request_frame color path src) reqs = map with_length ?ps"
    by (simp add: request_frame_def case_prod_unfold)
  have "list_all (\<lambda>p. length p \<le> 67108864) ?ps"
    using assms by (fastforce simp: list_all_iff intro: decode_request_written)
  then have "serve_checkd check_source (concat (map with_length ?ps)) =
      (concat (map (\<lambda>p. with_length (handle_request check_source p)) ?ps), True)"
    unfolding serve_checkd_def by (simp add: requests.loop_stream over_written del: map_map serve_rounds.simps)
  moreover have "map (\<lambda>p. with_length (handle_request check_source p)) ?ps = map encode_result ?rs"
    using assms by (auto simp: list_all_iff handle_request_def decode_request_written encode_result_def)
  moreover have "list_all result_fits ?rs" using assms by (auto simp: list_all_iff result_fits_def)
  ultimately show ?thesis using replies.many_read [of ?rs "[]"] by (simp add: frames del: map_map)
qed

definition one_diagnostic :: "string \<Rightarrow> diagnostic list" where
  "one_diagnostic src = [\<lparr>d_pos = \<lparr>pos_line = 1, pos_col = 1\<rparr>, d_code = ''E0001'', d_msg = src\<rparr>]"

theorem checkd_session_roundtrip_witness:
  "case serve_checkd one_diagnostic (request_frame True ''a.fly'' ''pass'' @ request_frame False ''b.fly'' ''x = 1'') of
     (answers, ok) \<Rightarrow> ok \<and> read_many next_reply 2 answers =
       Some ([\<lparr>cr_diags = one_diagnostic ''pass'', cr_server_error = None\<rparr>,
              \<lparr>cr_diags = one_diagnostic ''x = 1'', cr_server_error = None\<rparr>], [])"
  using checkd_session_roundtrip [of one_diagnostic "[(True, ''a.fly'', ''pass''), (False, ''b.fly'', ''x = 1'')]"]
  by (simp add: reply_fits_def one_diagnostic_def sendable_def u32_text_def ord_def encode_diagnostics_def
      encode_diagnostic_def with_length_def numeral_2_eq_2 del: read_many.simps)

subsection \<open>Responses that are no responses\<close>

lemma read_str_bound: "read_str body off = Inr s \<Longrightarrow> off + 4 + length s \<le> length body"
  by (auto simp: read_str_def Let_def split: if_splits)

lemma read_diags_bound: "off \<le> length body \<Longrightarrow> read_diags n body off = Inr ds \<Longrightarrow> length ds = n \<and> off + 16 * n \<le> length body"
proof (induction n arbitrary: off ds)
  case (Suc n)
  from Suc.prems(2) obtain c msg es where
    c: "read_str body off = Inr c" and msg: "read_str body (off + 4 + length c + 8) = Inr msg"
    and es: "read_diags n body (off + 4 + length c + 8 + 4 + length msg) = Inr es" and ds: "length ds = Suc (length es)"
    by (auto simp: Let_def split: sum.splits if_splits)
  have "off + 4 + length c + 8 + 4 + length msg \<le> length body" using read_str_bound [OF msg] by simp
  from Suc.IH [OF this es] show ?case using ds by simp
qed simp

text \<open>
  Note: whatever a checker answers, reading it ends in a result, in an error, or - exactly for an
  answer that begins with 0 and has fewer than five bytes - in a panic; and a result never has more
  diagnostics than the answer has room for, 16 bytes each.\<close>

theorem checkd_response_total:
  "(parse_response body = Panic \<longleftrightarrow> body \<noteq> [] \<and> ord (hd body) = 0 \<and> length body < 5) \<and>
   (case parse_response body of Done r \<Rightarrow> 16 * length (cr_diags r) \<le> length body | _ \<Rightarrow> True)"
proof -
  have "16 * length ds \<le> length body" if "read_diags (be32 (slice body 1 5)) body 5 = Inr ds" "5 \<le> length body" for ds
    using read_diags_bound [OF that(2,1)] by simp
  then show ?thesis by (auto simp: parse_response_def split: sum.splits)
qed

end
