(* ===== verification/Fly_Json.thy ===== *)
theory Fly_Json
  imports Fly_Units
begin

text \<open>
  The JSON of the language server (\<^verbatim>\<open>src/json.rs\<close>): values, the writer, and the reader, a recursive
  descent over the text that is left.  Texts are bytes: the characters with a meaning are ASCII, all
  others are copied.
\<close>

text \<open>An \<open>f64\<close> with its sign; \<open>parse::<f64>\<close> gives no NaN for the characters a JSON number can have.\<close>

type_synonym signed_f64 = "bool \<times> f64"

datatype json =
    Null
  | Bool bool
  | Num signed_f64
  | Str string
  | Arr "json list"
  | Obj "(string \<times> json) list"

definition json_get :: "json \<Rightarrow> string \<Rightarrow> json option" where
  "json_get j key = (case j of Obj kv \<Rightarrow> map_of kv key | _ \<Rightarrow> None)"

definition as_str :: "json \<Rightarrow> string option" where
  "as_str j = (case j of Str s \<Rightarrow> Some s | _ \<Rightarrow> None)"

definition as_num :: "json \<Rightarrow> signed_f64 option" where
  "as_num j = (case j of Num n \<Rightarrow> Some n | _ \<Rightarrow> None)"

definition as_arr :: "json \<Rightarrow> json list option" where
  "as_arr j = (case j of Arr a \<Rightarrow> Some a | _ \<Rightarrow> None)"

definition is_null :: "json \<Rightarrow> bool" where
  "is_null j = (case j of Null \<Rightarrow> True | _ \<Rightarrow> False)"

text \<open>\<open>k as f64\<close>\<close>

definition num_of_int :: "int \<Rightarrow> signed_f64" where
  "num_of_int k = (k < 0, f64_of_ratio \<bar>k\<bar> 1)"

subsection \<open>Writing\<close>

definition hex_char :: "nat \<Rightarrow> char" where
  "hex_char d = (if d < 10 then char_of (48 + d) else char_of (87 + d))"

definition json_char :: "byte \<Rightarrow> string" where
  "json_char c =
     (if c = double_quote then [backslash, double_quote]
      else if c = backslash then [backslash, backslash]
      else if c = newline then backslash # ''n''
      else if c = carriage_return then backslash # ''r''
      else if c = tab then backslash # ''t''
      else if ord c < 32 then backslash # ''u00'' @ [hex_char (nat (ord c) div 16), hex_char (nat (ord c) mod 16)]
      else [c])"

definition json_string :: "string \<Rightarrow> string" where
  "json_string s = [double_quote] @ concat (map json_char s) @ [double_quote]"

text \<open>\<open>n.fract() == 0.0 && n.is_finite()\<close>, and \<open>n as i64\<close>, which saturates.\<close>

fun is_whole :: "f64 \<Rightarrow> bool" where
  "is_whole (F64 m e) \<longleftrightarrow> m mod 2 ^ nat (- e) = 0"
| "is_whole F64_Inf \<longleftrightarrow> False"

fun as_i64 :: "signed_f64 \<Rightarrow> int" where
  "as_i64 (neg, F64 m e) =
     (let v = scale m e div scale 1 (- e) in if neg then max (- i64_max - 1) (- v) else min i64_max v)"
| "as_i64 (neg, F64_Inf) = (if neg then - i64_max - 1 else i64_max)"

definition json_number :: "signed_f64 \<Rightarrow> string" where
  "json_number n = (if is_whole (snd n) then show_int (as_i64 n) else (if fst n then ''-'' else []) @ show_f64 (snd n))"

fun commas :: "string list \<Rightarrow> string" where
  "commas [] = []"
| "commas [s] = s"
| "commas (s # t # ts) = s @ '','' @ commas (t # ts)"

fun encode :: "json \<Rightarrow> string" where
  "encode Null = ''null''"
| "encode (Bool b) = (if b then ''true'' else ''false'')"
| "encode (Num n) = json_number n"
| "encode (Str s) = json_string s"
| "encode (Arr a) = ''['' @ commas (map encode a) @ '']''"
| "encode (Obj kv) = ''{'' @ commas (map (\<lambda>(k, v). json_string k @ '':'' @ encode v) kv) @ ''}''"

subsection \<open>Reading\<close>

datatype json_error =
    Empty_text | Bad_char | Bad_literal string | Bad_number | Unclosed_string | Escape_truncated | Unicode_truncated
  | Unicode_invalid | Bad_code_point | Bad_escape | Unclosed_array | Array_comma | Unclosed_object | Object_colon
  | Bad_key | Object_comma | Trailing_text | Fuel_spent

type_synonym 'a reading = "json_error + 'a \<times> string"

definition is_ws :: "byte \<Rightarrow> bool" where
  "is_ws c \<longleftrightarrow> c = CHR '' '' \<or> c = tab \<or> c = newline \<or> c = carriage_return"

definition skip_ws :: "string \<Rightarrow> string" where
  "skip_ws s = dropWhile is_ws s"

definition lit :: "string \<Rightarrow> json \<Rightarrow> string \<Rightarrow> json reading" where
  "lit word j s = (if take (length word) s = word then Inr (j, drop (length word) s) else Inl (Bad_literal word))"

text \<open>\<open>str::parse::<f64>\<close>: a sign, digits with at most one dot and at least one digit, and an exponent.\<close>

definition is_exp :: "byte \<Rightarrow> bool" where
  "is_exp c \<longleftrightarrow> c = CHR ''e'' \<or> c = CHR ''E''"

definition split_sign :: "string \<Rightarrow> bool \<times> string" where
  "split_sign s = (case s of
       c # r \<Rightarrow> if c = CHR ''-'' then (True, r) else if c = CHR ''+'' then (False, r) else (False, s)
     | [] \<Rightarrow> (False, []))"

definition parse_exponent :: "string \<Rightarrow> int option" where
  "parse_exponent s = (case s of
       [] \<Rightarrow> Some 0
     | _ # r \<Rightarrow> let (neg, ds) = split_sign r in
         if ds = [] \<or> \<not> list_all is_digit ds then None else Some (if neg then - dec_value ds else dec_value ds))"

definition parse_decimal :: "string \<Rightarrow> signed_f64 option" where
  "parse_decimal s =
     (let (neg, body) = split_sign s;
          mant = takeWhile (\<lambda>c. \<not> is_exp c) body;
          ip = takeWhile is_digit mant; rest = dropWhile is_digit mant;
          fp = drop 1 rest
      in if (rest = [] \<or> hd rest = CHR ''.'') \<and> list_all is_digit fp \<and> (ip \<noteq> [] \<or> fp \<noteq> []) then
           map_option (\<lambda>e. let d = dec_value (ip @ fp); k = e - int (length fp)
             in (neg, f64_of_ratio (scale10 d k) (scale10 1 (- k))))
             (parse_exponent (dropWhile (\<lambda>c. \<not> is_exp c) body))
         else None)"

definition is_num_char :: "byte \<Rightarrow> bool" where
  "is_num_char c \<longleftrightarrow> is_digit c \<or> c = CHR ''-'' \<or> c = CHR ''+'' \<or> c = CHR ''.'' \<or> is_exp c"

definition number :: "string \<Rightarrow> json reading" where
  "number s = (case parse_decimal (takeWhile is_num_char s) of
       Some n \<Rightarrow> Inr (Num n, dropWhile is_num_char s)
     | None \<Rightarrow> Inl Bad_number)"

text \<open>\<open>u32::from_str_radix(_, 16)\<close> on four characters, and the UTF-8 bytes of a code point.\<close>

definition hex_digit_value :: "byte \<Rightarrow> int option" where
  "hex_digit_value c =
     (if is_digit c then Some (ord c - 48)
      else if 97 \<le> ord c \<and> ord c \<le> 102 then Some (ord c - 87)
      else if 65 \<le> ord c \<and> ord c \<le> 70 then Some (ord c - 55)
      else None)"

fun hex_value :: "int \<Rightarrow> string \<Rightarrow> int option" where
  "hex_value v [] = Some v"
| "hex_value v (c # s) = (case hex_digit_value c of Some d \<Rightarrow> hex_value (v * 16 + d) s | None \<Rightarrow> None)"

definition from_hex :: "string \<Rightarrow> int option" where
  "from_hex s = hex_value 0 (case s of c # r \<Rightarrow> if c = CHR ''+'' then r else s | [] \<Rightarrow> [])"

definition utf8_of :: "int \<Rightarrow> string" where
  "utf8_of cp =
     (if cp < 128 then [char_of cp]
      else if cp < 2048 then [char_of (192 + cp div 64), char_of (128 + cp mod 64)]
      else [char_of (224 + cp div 4096), char_of (128 + cp div 64 mod 64), char_of (128 + cp mod 64)])"

text \<open>The first four characters (not bytes) of a text.\<close>

definition char_length :: "byte \<Rightarrow> nat" where
  "char_length c = (if ord c < 128 then 1 else if ord c < 224 then 2 else if ord c < 240 then 3 else 4)"

fun take_chars :: "nat \<Rightarrow> string \<Rightarrow> string" where
  "take_chars 0 s = []"
| "take_chars (Suc n) [] = []"
| "take_chars (Suc n) (c # s) = take (char_length c) (c # s) @ take_chars n (drop (char_length c) (c # s))"

function string_loop :: "string \<Rightarrow> string \<Rightarrow> string reading" where
  "string_loop out [] = Inl Unclosed_string"
| "string_loop out (c # s) =
     (if c = double_quote then Inr (out, s)
      else if c \<noteq> backslash then string_loop (out @ [c]) s
      else case s of
          [] \<Rightarrow> Inl Escape_truncated
        | e # t \<Rightarrow>
            if e = double_quote \<or> e = backslash \<or> e = CHR ''/'' then string_loop (out @ [e]) t
            else if e = CHR ''b'' then string_loop (out @ [CHR 0x08]) t
            else if e = CHR ''f'' then string_loop (out @ [CHR 0x0C]) t
            else if e = CHR ''n'' then string_loop (out @ [newline]) t
            else if e = CHR ''r'' then string_loop (out @ [carriage_return]) t
            else if e = CHR ''t'' then string_loop (out @ [tab]) t
            else if e = CHR ''u'' then
              (let hex = take_chars 4 t in
               if length hex \<noteq> 4 then Inl Unicode_truncated
               else case from_hex hex of
                   None \<Rightarrow> Inl Unicode_invalid
                 | Some cp \<Rightarrow>
                     if 55296 \<le> cp \<and> cp \<le> 57343 then Inl Bad_code_point
                     else string_loop (out @ utf8_of cp) (drop 4 t))
            else Inl Bad_escape)"
  by pat_completeness auto

termination
  by (relation "measure (\<lambda>(out, s). length s)") auto

text \<open>
  Values, and what follows the opening bracket of an array or an object; the lists are collected in
  front.  Every step down spends fuel, and \<open>parse\<close> starts with more than the text can use.
\<close>

fun json_value :: "nat \<Rightarrow> string \<Rightarrow> json reading"
  and array_loop :: "nat \<Rightarrow> json list \<Rightarrow> string \<Rightarrow> json reading"
  and object_loop :: "nat \<Rightarrow> (string \<times> json) list \<Rightarrow> string \<Rightarrow> json reading" where
  "json_value 0 s = Inl Fuel_spent"
| "json_value (Suc n) s =
     (case skip_ws s of
        [] \<Rightarrow> Inl Empty_text
      | c # t \<Rightarrow>
          if c = CHR ''{'' then object_loop n [] t
          else if c = CHR ''['' then array_loop n [] t
          else if c = double_quote then
            (case string_loop [] t of Inr (v, r) \<Rightarrow> Inr (Str v, r) | Inl e \<Rightarrow> Inl e)
          else if c = CHR ''t'' then lit ''true'' (Bool True) (c # t)
          else if c = CHR ''f'' then lit ''false'' (Bool False) (c # t)
          else if c = CHR ''n'' then lit ''null'' Null (c # t)
          else if c = CHR ''-'' \<or> is_digit c then number (c # t)
          else Inl Bad_char)"
| "array_loop 0 arr s = Inl Fuel_spent"
| "array_loop (Suc n) arr s =
     (case skip_ws s of
        [] \<Rightarrow> Inl Unclosed_array
      | c # t \<Rightarrow>
          if c = CHR '']'' then Inr (Arr arr, t)
          else case json_value n (c # t) of
              Inl e \<Rightarrow> Inl e
            | Inr (v, r) \<Rightarrow>
                (case skip_ws r of
                   [] \<Rightarrow> array_loop n (arr @ [v]) []
                 | d # u \<Rightarrow>
                     if d = CHR '','' then array_loop n (arr @ [v]) u
                     else if d = CHR '']'' then Inr (Arr (arr @ [v]), u)
                     else Inl Array_comma))"
| "object_loop 0 kv s = Inl Fuel_spent"
| "object_loop (Suc n) kv s =
     (case skip_ws s of
        [] \<Rightarrow> Inl Unclosed_object
      | c # t \<Rightarrow>
          if c = CHR ''}'' then Inr (Obj kv, t)
          else if c = double_quote then
            (case string_loop [] t of
               Inl e \<Rightarrow> Inl e
             | Inr (key, r) \<Rightarrow>
                 (case skip_ws r of
                    [] \<Rightarrow> Inl Object_colon
                  | d # u \<Rightarrow>
                      if d \<noteq> CHR '':'' then Inl Object_colon
                      else case json_value n u of
                          Inl e \<Rightarrow> Inl e
                        | Inr (v, q) \<Rightarrow>
                            (case skip_ws q of
                               [] \<Rightarrow> object_loop n (kv @ [(key, v)]) []
                             | x # y \<Rightarrow>
                                 if x = CHR '','' then object_loop n (kv @ [(key, v)]) y
                                 else if x = CHR ''}'' then Inr (Obj (kv @ [(key, v)]), y)
                                 else Inl Object_comma)))
          else Inl Bad_key)"

definition parse_json :: "string \<Rightarrow> json_error + json" where
  "parse_json s =
     (case json_value (2 * length s + 3) s of
        Inl e \<Rightarrow> Inl e
      | Inr (v, r) \<Rightarrow> if skip_ws r \<noteq> [] then Inl Trailing_text else Inr v)"

end
