(* ===== verification/Fly_Json_Facts.thy ===== *)
theory Fly_Json_Facts
  imports Fly_Json Fly_Digits
begin

text \<open>
  The JSON reader ends on every text, and reads back what the writer wrote: all values whose numbers
  are whole and below \<open>2\<^sup>5\<^sup>3\<close>, which are the ones the language server sends.
\<close>

subsection \<open>The fuel is enough\<close>

lemma length_skip_ws: "length (skip_ws s) \<le> length s"
  by (simp add: skip_ws_def length_dropWhile_le)

lemma skip_ws_Cons: "skip_ws s = c # t \<Longrightarrow> length t < length s \<and> \<not> is_ws c"
proof -
  assume "skip_ws s = c # t"
  then have "s = takeWhile is_ws s @ c # t" "\<not> is_ws c" by (simp_all add: skip_ws_def dropWhile_eq_Cons_conv)
  from arg_cong [OF this(1), of length] this(2) show ?thesis by simp
qed

declare string_loop.simps [simp del]

lemma string_loop_shorter: "string_loop out s = Inr (v, r) \<Longrightarrow> length r < length s"
proof (induction s arbitrary: out rule: measure_induct_rule [where f = length])
  case (less s)
  show ?case
  proof (cases s)
    case Nil
    with less.prems show ?thesis by (simp add: string_loop.simps)
  next
    case (Cons c t)
    have IH: "string_loop out' u = Inr (v, r) \<Longrightarrow> length u < length s \<Longrightarrow> length r < length s" for out' u
      using less.IH [of u out'] by simp
    from less.prems show ?thesis
      unfolding Cons string_loop.simps
      by (auto simp: Let_def Cons split: if_splits list.splits option.splits dest!: IH)
  qed
qed

lemma lit_shorter: "lit word j s = Inr (v, r) \<Longrightarrow> word \<noteq> [] \<Longrightarrow> s \<noteq> [] \<Longrightarrow> length r < length s"
  by (auto simp: lit_def split: if_splits)

lemma number_shorter: "number (c # t) = Inr (v, r) \<Longrightarrow> is_num_char c \<Longrightarrow> length r < length (c # t)"
  using length_dropWhile_le [of is_num_char t] by (auto simp: number_def split: option.splits)

text \<open>One step of each loop, when it succeeds.\<close>

lemma array_step:
  assumes "array_loop (Suc n) arr s = Inr (v, r)"
  obtains (close) "skip_ws s = CHR '']'' # r"
  | (item) c t x q where "skip_ws s = c # t" "json_value n (c # t) = Inr (x, q)"
      "skip_ws q = CHR '']'' # r \<or> skip_ws q = [] \<and> array_loop n (arr @ [x]) [] = Inr (v, r) \<or>
       (\<exists>u. skip_ws q = CHR '','' # u \<and> array_loop n (arr @ [x]) u = Inr (v, r))"
proof (cases "skip_ws s")
  case (Cons c t)
  show ?thesis
  proof (cases "c = CHR '']''")
    case False
    with assms Cons obtain x q where x: "json_value n (c # t) = Inr (x, q)"
      by (cases "json_value n (c # t)") auto
    with assms Cons False show ?thesis by (intro item [OF Cons x]) (auto split: list.splits if_splits)
  qed (use assms Cons close in simp)
qed (use assms in simp)

lemma object_step:
  assumes "object_loop (Suc n) kv s = Inr (v, r)"
  obtains (close) "skip_ws s = CHR ''}'' # r"
  | (item) t key q u x p where "skip_ws s = double_quote # t" "string_loop [] t = Inr (key, q)"
      "skip_ws q = CHR '':'' # u" "json_value n u = Inr (x, p)"
      "skip_ws p = CHR ''}'' # r \<or> skip_ws p = [] \<and> object_loop n (kv @ [(key, x)]) [] = Inr (v, r) \<or>
       (\<exists>y. skip_ws p = CHR '','' # y \<and> object_loop n (kv @ [(key, x)]) y = Inr (v, r))"
proof (cases "skip_ws s")
  case (Cons c t)
  show ?thesis
  proof (cases "c = CHR ''}''")
    case False
    with assms Cons obtain key q where k: "c = double_quote" "string_loop [] t = Inr (key, q)"
      by (cases "string_loop [] t") (auto split: if_splits)
    with assms Cons obtain u where u: "skip_ws q = CHR '':'' # u"
      by (cases "skip_ws q") (auto split: if_splits)
    with assms Cons k obtain x p where x: "json_value n u = Inr (x, p)"
      by (cases "json_value n u") auto
    with assms Cons k u show ?thesis
      by (intro item [OF _ k(2) u x]) (auto split: list.splits if_splits)
  qed (use assms Cons close in simp)
qed (use assms in simp)

lemma reading_shorter:
  "(\<forall>s v r. json_value n s = Inr (v, r) \<longrightarrow> length r < length s) \<and>
   (\<forall>arr s v r. array_loop n arr s = Inr (v, r) \<longrightarrow> length r < length s) \<and>
   (\<forall>kv s v r. object_loop n kv s = Inr (v, r) \<longrightarrow> length r < length s)"
proof (induction n)
  case (Suc n)
  have "length r < length s" if "json_value (Suc n) s = Inr (v, r)" for s v r
  proof (cases "skip_ws s")
    case Nil
    with that show ?thesis by simp
  next
    case (Cons c t)
    have "length r < length (c # t)"
      using that Cons Suc lit_shorter [of _ _ "c # t" v r] number_shorter [of c t v r] string_loop_shorter [of "[]" t]
      by (fastforce simp: is_num_char_def split: if_splits sum.splits prod.splits)
    then show ?thesis using skip_ws_Cons [OF Cons] by simp
  qed
  moreover have "length r < length s" if "array_loop (Suc n) arr s = Inr (v, r)" for arr s v r
    using that
  proof (cases rule: array_step)
    case close
    then show ?thesis using skip_ws_Cons by blast
  next
    case (item c t x q)
    then have "length q < length (c # t)" "length r \<le> length q"
      using Suc skip_ws_Cons [of q] by (blast, fastforce)
    then show ?thesis using skip_ws_Cons [OF item(1)] by simp
  qed
  moreover have "length r < length s" if "object_loop (Suc n) kv s = Inr (v, r)" for kv s v r
    using that
  proof (cases rule: object_step)
    case close
    then show ?thesis using skip_ws_Cons by blast
  next
    case (item t key q u x p)
    then have "length p < length u" "length r \<le> length p"
      using Suc skip_ws_Cons [of p] by (blast, fastforce)
    then show ?thesis
      using skip_ws_Cons [OF item(1)] skip_ws_Cons [OF item(3)] string_loop_shorter [OF item(2)] by simp
  qed
  ultimately show ?case by blast
qed simp

text \<open>Fuel for twice the length of the text is never spent.\<close>

lemma string_loop_fuel: "string_loop out s \<noteq> Inl Fuel_spent"
proof (induction s arbitrary: out rule: measure_induct_rule [where f = length])
  case (less s)
  show ?case
  proof (cases s)
    case Nil
    then show ?thesis by (simp add: string_loop.simps)
  next
    case (Cons c t)
    then show ?thesis
      using less.IH unfolding Cons string_loop.simps
      by (auto simp: Let_def split: list.splits option.splits)
  qed
qed

lemma reading_fuel:
  "(\<forall>s. 2 * length s + 1 < n \<longrightarrow> json_value n s \<noteq> Inl Fuel_spent) \<and>
   (\<forall>arr s. 2 * length s + 2 < n \<longrightarrow> array_loop n arr s \<noteq> Inl Fuel_spent) \<and>
   (\<forall>kv s. 2 * length s + 2 < n \<longrightarrow> object_loop n kv s \<noteq> Inl Fuel_spent)"
proof (induction n)
  case (Suc n)
  have val: "json_value n u \<noteq> Inl Fuel_spent" if "length u < length s \<or> length u = length s" "2 * length s + 1 < n" for u s
    using Suc that by auto
  have "json_value (Suc n) s \<noteq> Inl Fuel_spent" if n: "2 * length s + 1 < Suc n" for s
  proof (cases "skip_ws s")
    case (Cons c t)
    then have "2 * length t + 2 < n" using n skip_ws_Cons [OF Cons] by linarith
    then have "object_loop n [] t \<noteq> Inl Fuel_spent" "array_loop n [] t \<noteq> Inl Fuel_spent" using Suc by simp_all
    moreover have "lit word j u \<noteq> Inl Fuel_spent" "number u \<noteq> Inl Fuel_spent" for word j u
      by (auto simp: lit_def number_def split: option.splits)
    ultimately show ?thesis using Cons string_loop_fuel [of "[]" t] by (auto split: sum.split)
  qed simp
  moreover have "array_loop (Suc n) arr s \<noteq> Inl Fuel_spent" if n: "2 * length s + 2 < Suc n" for arr s
  proof (cases "skip_ws s")
    case (Cons c t)
    have t: "length (c # t) \<le> length s" using skip_ws_Cons [OF Cons] by simp
    then have v: "json_value n (c # t) \<noteq> Inl Fuel_spent" using Suc n by auto
    have "array_loop n arr' u \<noteq> Inl Fuel_spent" if "length u < length s" for arr' u
      using Suc n that by auto
    note arr = this
    have u: "length u < length s" if "json_value n (c # t) = Inr (x, q)" "skip_ws q = d # u" for x q d u
      using that reading_shorter [of n] skip_ws_Cons [OF that(2)] t by fastforce
    have "length [] < length s" using t by auto
    note nil = arr [OF this]
    show ?thesis
    proof (cases "json_value n (c # t)")
      case (Inr xq)
      then obtain x q where x: "json_value n (c # t) = Inr (x, q)" by (cases xq) simp
      with Cons nil arr [OF u [OF x]] show ?thesis by (simp split: list.split)
    qed (use Cons v in simp)
  qed simp
  moreover have "object_loop (Suc n) kv s \<noteq> Inl Fuel_spent" if n: "2 * length s + 2 < Suc n" for kv s
  proof (cases "skip_ws s")
    case (Cons c t)
    have t: "length t < length s" using skip_ws_Cons [OF Cons] by simp
    have u: "length u < length s" if "string_loop [] t = Inr (key, q)" "skip_ws q = d # u" for key q d u
      using string_loop_shorter [OF that(1)] skip_ws_Cons [OF that(2)] t by simp
    have y: "length y < length s" if "json_value n u = Inr (x, p)" "skip_ws p = d # y" "length u < length s" for u x p d y
      using that reading_shorter [of n] skip_ws_Cons [OF that(2)] by fastforce
    have v: "json_value n u \<noteq> Inl Fuel_spent" "object_loop n kv' u \<noteq> Inl Fuel_spent" if "length u < length s" for u kv'
      using Suc n that by auto
    show ?thesis
    proof (cases "\<exists>key q d u. c = double_quote \<and> string_loop [] t = Inr (key, q) \<and> skip_ws q = d # u \<and> d = CHR '':''")
      case True
      then obtain key q u where k: "c = double_quote" "string_loop [] t = Inr (key, q)" "skip_ws q = CHR '':'' # u" by blast
      note lu = u [OF k(2,3)]
      show ?thesis
      proof (cases "json_value n u")
        case (Inl e)
        with Cons k v(1) [OF lu] show ?thesis by simp
      next
        case (Inr xp)
        then obtain x p where x: "json_value n u = Inr (x, p)" by (cases xp) simp
        have "length [] < length s" using t by (cases s) simp_all
        with Cons k x v(2) y [OF x _ lu] show ?thesis by (auto split: list.split)
      qed
    next
      case False
      with Cons string_loop_fuel [of "[]" t] show ?thesis
        by (auto split: sum.split list.split)
    qed
  qed simp
  ultimately show ?case by blast
qed simp

text \<open>
  Note: reading ends with a value or an error for every text; the fuel that stands for the depth of
  the recursion is never spent.\<close>

theorem json_parse_terminates: "parse_json s \<noteq> Inl Fuel_spent"
  using reading_fuel [of "2 * length s + 3"]
  by (auto simp: parse_json_def split: sum.splits prod.splits if_splits)

subsection \<open>Reading what was written\<close>

lemma f64_of_whole:
  assumes "0 \<le> k" "k < 2 ^ 53"
  obtains j where "f64_of_ratio k 1 = F64 (k * 2 ^ j) (- int j)"
proof (cases "k = 0")
  case True
  with that [of 0] show ?thesis by (simp add: f64_of_ratio_def)
next
  case False
  define b where "b = nat (bitlen k - 1)"
  have pos: "0 < k" using assms False by simp
  have b: "bitlen k = int b + 1" using bitlen_ge_iff_power [of 1 k] pos by (simp add: b_def)
  have bounds: "2 ^ b \<le> k" "k < 2 ^ (b + 1)"
    using bitlen_bounds [OF pos] by (simp_all add: b nat_add_distrib)
  then have "(2::int) ^ b < 2 ^ 53" using assms(2) by linarith
  from power_less_imp_less_exp [OF _ this] have b52: "b \<le> 52" by simp
  define j where "j = 52 - b"
  have one: "bitlen 1 = 1" by (simp add: bitlen_alt_def)
  have low: "2 ^ 52 \<le> k * 2 ^ j" and up: "k * 2 ^ j < 2 ^ 53"
  proof -
    have e: "(2::int) ^ 52 = 2 ^ b * 2 ^ j" "(2::int) ^ 53 = 2 ^ (b + 1) * 2 ^ j"
      using b52 by (simp_all add: j_def flip: power_add)
    show "2 ^ 52 \<le> k * 2 ^ j" unfolding e by (rule mult_right_mono [OF bounds(1)]) simp
    show "k * 2 ^ j < 2 ^ 53" unfolding e by (rule mult_strict_right_mono [OF bounds(2)]) simp
  qed
  have "f64_of_ratio k 1 = F64 (k * 2 ^ j) (- int j)"
    using pos bounds b52 low up
    by (simp add: f64_of_ratio_def one b Let_def scale_def half_even_div_def j_def nat_diff_distrib)
  with that show ?thesis .
qed

lemma json_number_whole:
  assumes "\<bar>k\<bar> < 2 ^ 53"
  shows "json_number (num_of_int k) = show_int k"
proof -
  obtain j where j: "f64_of_ratio \<bar>k\<bar> 1 = F64 (\<bar>k\<bar> * 2 ^ j) (- int j)"
    using f64_of_whole [of "\<bar>k\<bar>"] assms by auto
  have "as_i64 (num_of_int k) = k"
    using assms by (auto simp: num_of_int_def j scale_def i64_max_def Let_def)
  then show ?thesis by (simp add: json_number_def num_of_int_def j)
qed

lemma digits_num_chars: "list_all is_num_char (digits_of n)" "list_all (\<lambda>c. \<not> is_exp c) (digits_of n)"
proof -
  have "is_num_char c \<and> \<not> is_exp c" if "is_digit c" for c
    using that by (auto simp: is_num_char_def is_exp_def is_digit_def ord_def)
  then show "list_all is_num_char (digits_of n)" "list_all (\<lambda>c. \<not> is_exp c) (digits_of n)"
    using digits_of_digits [of n] by (auto simp: list_all_iff)
qed

lemma takeWhile_all: "list_all P xs \<Longrightarrow> takeWhile P xs = xs" "list_all P xs \<Longrightarrow> dropWhile P xs = []"
  by (auto simp: list_all_iff takeWhile_eq_all_conv dropWhile_eq_Nil_conv)

lemma parse_decimal_digits:
  assumes "split_sign s = (neg, digits_of n)"
  shows "parse_decimal s = Some (neg, f64_of_ratio (int n) 1)"
proof -
  have "digits_of n \<noteq> []" using digits_of_Cons [of n] by auto
  then show ?thesis
    unfolding parse_decimal_def assms Let_def prod.case takeWhile_all [OF digits_num_chars(2) [of n]]
      takeWhile_all [OF digits_of_digits [of n]]
    by (simp add: parse_exponent_def scale10_def dec_value_digits)
qed

lemma parse_decimal_int: "parse_decimal (show_int k) = Some (num_of_int k)"
proof (cases "k < 0")
  case True
  then have "split_sign (show_int k) = (True, digits_of (nat (- k)))" by (simp add: split_sign_def show_int_def)
  from parse_decimal_digits [OF this] True show ?thesis by (simp add: num_of_int_def)
next
  case False
  obtain c cs where c: "digits_of (nat k) = c # cs" "is_digit c" using digits_of_Cons by blast
  then have "c \<noteq> CHR ''-''" "c \<noteq> CHR ''+''" by (auto simp: is_digit_def ord_def)
  with False c have "split_sign (show_int k) = (False, digits_of (nat k))" by (simp add: split_sign_def show_int_def)
  from parse_decimal_digits [OF this] False show ?thesis by (simp add: num_of_int_def)
qed

lemma span_append:
  assumes "list_all P xs" "rest = [] \<or> \<not> P (hd rest)"
  shows "takeWhile P (xs @ rest) = xs" "dropWhile P (xs @ rest) = rest"
  using assms by (cases rest; simp add: list_all_iff takeWhile_append2)+

lemma number_written:
  assumes "rest = [] \<or> \<not> is_num_char (hd rest)"
  shows "number (show_int k @ rest) = Inr (Num (num_of_int k), rest)"
proof -
  have "list_all is_num_char (show_int k)"
    using digits_num_chars by (simp add: show_int_def is_num_char_def)
  from span_append [OF this assms] show ?thesis by (simp add: number_def parse_decimal_int)
qed

text \<open>Strings: every escape is read back as its character.\<close>

lemma control_char:
  assumes "ord c < 32"
  shows "from_hex (''00'' @ [hex_char (nat (ord c) div 16), hex_char (nat (ord c) mod 16)]) = Some (ord c)"
    and "ord (hex_char (nat (ord c) div 16)) < 128" "ord (hex_char (nat (ord c) mod 16)) < 128" "utf8_of (ord c) = [c]"
proof -
  define n where "n = (of_char c :: nat)"
  have c: "c = char_of n" by (simp add: n_def)
  have n: "n < 32" using assms by (simp add: n_def ord_def of_nat_of_char [symmetric, where ?'a = int])
  have ord: "ord (char_of n) = int n" using n by (simp add: ord_def of_nat_of_char [symmetric, where ?'a = int])
  have "n \<in> set [0..<32]" using n by simp
  moreover have "list_all (\<lambda>n. from_hex (''00'' @ [hex_char (n div 16), hex_char (n mod 16)]) = Some (int n) \<and>
      ord (hex_char (n div 16)) < 128 \<and> ord (hex_char (n mod 16)) < 128) [0..<32]"
    by code_simp
  ultimately have "from_hex (''00'' @ [hex_char (n div 16), hex_char (n mod 16)]) = Some (int n)"
      "ord (hex_char (n div 16)) < 128" "ord (hex_char (n mod 16)) < 128"
    by (simp_all only: list_all_iff)
  moreover have "utf8_of (ord c) = [c]" using assms by (simp add: utf8_of_def ord_def)
  ultimately show "from_hex (''00'' @ [hex_char (nat (ord c) div 16), hex_char (nat (ord c) mod 16)]) = Some (ord c)"
    and "ord (hex_char (nat (ord c) div 16)) < 128" "ord (hex_char (nat (ord c) mod 16)) < 128" "utf8_of (ord c) = [c]"
    by (simp_all add: c ord)
qed

lemma take_chars_4:
  "ord a < 128 \<Longrightarrow> ord b < 128 \<Longrightarrow> ord c < 128 \<Longrightarrow> ord d < 128 \<Longrightarrow> take_chars 4 (a # b # c # d # s) = [a, b, c, d]"
  by (simp add: numeral_eq_Suc char_length_def)

lemma string_loop_unicode:
  assumes "take_chars 4 (a # b # c # d # s) = [a, b, c, d]" "from_hex [a, b, c, d] = Some cp" "cp < 32"
  shows "string_loop out (backslash # CHR ''u'' # a # b # c # d # s) = string_loop (out @ utf8_of cp) s"
  using assms by (subst string_loop.simps) (simp add: Let_def)

lemma string_loop_char: "string_loop out (json_char c @ s) = string_loop (out @ [c]) s"
proof (cases "ord c < 32 \<and> c \<noteq> newline \<and> c \<noteq> carriage_return \<and> c \<noteq> tab")
  case True
  then have "c \<noteq> double_quote" "c \<noteq> backslash" by (auto simp: ord_def)
  with True have j: "json_char c = backslash # ''u00'' @ [hex_char (nat (ord c) div 16), hex_char (nat (ord c) mod 16)]"
    by (simp add: json_char_def)
  have zero: "ord (CHR ''0'') < 128" by (simp add: ord_def)
  have "take_chars 4 (CHR ''0'' # CHR ''0'' # hex_char (nat (ord c) div 16) # hex_char (nat (ord c) mod 16) # s) =
      [CHR ''0'', CHR ''0'', hex_char (nat (ord c) div 16), hex_char (nat (ord c) mod 16)]"
    by (rule take_chars_4) (use control_char [of c] True zero in auto)
  from string_loop_unicode [OF this, of "ord c" out] control_char [of c] True show ?thesis by (simp add: j)
next
  case False
  then show ?thesis by (auto simp: json_char_def string_loop.simps(2))
qed

lemma string_loop_written: "string_loop out (concat (map json_char v) @ double_quote # rest) = Inr (out @ v, rest)"
  by (induction v arbitrary: out) (simp_all add: string_loop_char, simp add: string_loop.simps)

subsection \<open>Round trip\<close>

text \<open>The values whose numbers are whole and below \<open>2\<^sup>5\<^sup>3\<close>.\<close>

fun sendable_json :: "json \<Rightarrow> bool" where
  "sendable_json (Num n) \<longleftrightarrow> (\<exists>k. \<bar>k\<bar> < 2 ^ 53 \<and> n = num_of_int k)"
| "sendable_json (Arr a) \<longleftrightarrow> list_all sendable_json a"
| "sendable_json (Obj kv) \<longleftrightarrow> list_all (\<lambda>(k, v). sendable_json v) kv"
| "sendable_json _ \<longleftrightarrow> True"

lemma show_int_head: "\<exists>c cs. show_int k = c # cs \<and> (c = CHR ''-'' \<or> is_digit c)"
  using digits_of_Cons [of "nat k"] by (auto simp: show_int_def)

lemma skip_ws_first: "\<not> is_ws c \<Longrightarrow> skip_ws (c # s) = c # s"
  by (simp add: skip_ws_def)

definition ends_number :: "string \<Rightarrow> bool" where
  "ends_number rest \<longleftrightarrow> rest = [] \<or> \<not> is_num_char (hd rest)"

definition written :: "json \<Rightarrow> bool" where
  "written j \<longleftrightarrow> (\<forall>n rest. ends_number rest \<longrightarrow> 2 * length (encode j) \<le> n \<longrightarrow> json_value (Suc n) (encode j @ rest) = Inr (j, rest))"

lemma encode_head:
  assumes "sendable_json j"
  obtains c s where "encode j = c # s" "\<not> is_ws c" "c \<noteq> CHR '']''" "c \<noteq> CHR ''}''"
proof -
  have digit: "\<not> is_ws c \<and> c \<noteq> CHR '']'' \<and> c \<noteq> CHR ''}''" if "c = CHR ''-'' \<or> is_digit c" for c
    using that by (auto simp: is_ws_def is_digit_def ord_def)
  show ?thesis
  proof (cases j)
    case (Num n)
    with assms obtain k where "n = num_of_int k" "\<bar>k\<bar> < 2 ^ 53" by auto
    with Num json_number_whole [of k] show_int_head [of k] digit that show ?thesis by auto
  next
    case (Bool b)
    with that show ?thesis by (cases b) (auto simp: is_ws_def)
  qed (use that in \<open>auto simp: json_string_def is_ws_def split: if_splits\<close>)
qed

lemma ends_number_simps: "ends_number []" "ends_number (CHR '','' # s)" "ends_number (CHR '']'' # s)" "ends_number (CHR ''}'' # s)"
  by (simp_all add: ends_number_def is_num_char_def is_exp_def is_digit_def ord_def)

lemma writtenD: "written j \<Longrightarrow> ends_number rest \<Longrightarrow> 2 * length (encode j) \<le> n \<Longrightarrow> json_value (Suc n) (encode j @ rest) = Inr (j, rest)"
  by (simp add: written_def)

lemma no_ws_separators: "\<not> is_ws (CHR '','')" "\<not> is_ws (CHR '']'')" "\<not> is_ws (CHR ''}'')" "\<not> is_ws (CHR '':'')" "\<not> is_ws double_quote"
  by (simp_all add: is_ws_def)

lemma array_item:
  assumes "written v" "sendable_json v" "2 * length (encode v) \<le> n"
  shows "array_loop (Suc (Suc n)) arr (encode v @ CHR '','' # u) = array_loop (Suc n) (arr @ [v]) u"
    and "array_loop (Suc (Suc n)) arr (encode v @ CHR '']'' # u) = Inr (Arr (arr @ [v]), u)"
proof -
  obtain c s where c: "encode v = c # s" "\<not> is_ws c" "c \<noteq> CHR '']''" using assms(2) encode_head by blast
  note val = writtenD [OF assms(1) _ assms(3), unfolded c(1) append_Cons]
  show "array_loop (Suc (Suc n)) arr (encode v @ CHR '','' # u) = array_loop (Suc n) (arr @ [v]) u"
    using c(2,3) val [OF ends_number_simps(2)] unfolding c(1)
    by (simp add: skip_ws_first no_ws_separators del: json_value.simps)
  show "array_loop (Suc (Suc n)) arr (encode v @ CHR '']'' # u) = Inr (Arr (arr @ [v]), u)"
    using c(2,3) val [OF ends_number_simps(3)] unfolding c(1)
    by (simp add: skip_ws_first no_ws_separators del: json_value.simps)
qed

lemma array_written:
  assumes "\<forall>v \<in> set vs. written v \<and> sendable_json v" "2 * length (commas (map encode vs)) + 1 \<le> n"
  shows "array_loop (Suc n) arr (commas (map encode vs) @ CHR '']'' # rest) = Inr (Arr (arr @ vs), rest)"
  using assms
proof (induction vs arbitrary: n arr rest rule: induct_list012)
  case 1
  then show ?case by (simp add: skip_ws_first no_ws_separators)
next
  case (2 v)
  then obtain m where "n = Suc m" "2 * length (encode v) \<le> m" by (cases n) auto
  with 2 array_item(2) [of v m arr rest] show ?case by simp
next
  case (3 v w vs)
  then obtain m where m: "n = Suc m" "2 * length (encode v) \<le> m" by (cases n) auto
  have "array_loop (Suc m) (arr @ [v]) (commas (map encode (w # vs)) @ CHR '']'' # rest) = Inr (Arr ((arr @ [v]) @ w # vs), rest)"
    by (rule "3.IH"(2)) (use 3 m in auto)
  with 3 m array_item(1) [of v m arr] show ?case by (simp del: array_loop.simps)
qed

lemma object_item:
  assumes "written v" "2 * length (encode v) \<le> n"
  shows "object_loop (Suc (Suc n)) kv ((json_string k @ '':'' @ encode v) @ CHR '','' # u) = object_loop (Suc n) (kv @ [(k, v)]) u"
    and "object_loop (Suc (Suc n)) kv ((json_string k @ '':'' @ encode v) @ CHR ''}'' # u) = Inr (Obj (kv @ [(k, v)]), u)"
  using writtenD [OF assms(1) ends_number_simps(2) assms(2), of u] writtenD [OF assms(1) ends_number_simps(4) assms(2), of u]
  by (simp_all add: json_string_def skip_ws_first no_ws_separators string_loop_written del: json_value.simps)

lemma object_written:
  assumes "\<forall>(k, v) \<in> set kv. written v" "2 * length (commas (map (\<lambda>(k, v). json_string k @ '':'' @ encode v) kv)) + 1 \<le> n"
  shows "object_loop (Suc n) acc (commas (map (\<lambda>(k, v). json_string k @ '':'' @ encode v) kv) @ CHR ''}'' # rest) =
    Inr (Obj (acc @ kv), rest)"
  using assms
proof (induction kv arbitrary: n acc rest rule: induct_list012)
  case 1
  then show ?case by (simp add: skip_ws_first no_ws_separators)
next
  case (2 p)
  obtain k v where p: "p = (k, v)" by (cases p)
  with 2 obtain m where "n = Suc m" "2 * length (encode v) \<le> m" by (cases n) auto
  with 2 p object_item(2) [of v m acc k rest] show ?case by simp
next
  case (3 p q kv)
  obtain k v where p: "p = (k, v)" by (cases p)
  with 3 obtain m where m: "n = Suc m" "2 * length (encode v) \<le> m" by (cases n) auto
  have "object_loop (Suc m) (acc @ [(k, v)])
      (commas (map (\<lambda>(k, v). json_string k @ '':'' @ encode v) (q # kv)) @ CHR ''}'' # rest) =
    Inr (Obj ((acc @ [(k, v)]) @ q # kv), rest)"
    by (rule "3.IH"(2)) (use 3 m p in auto)
  with 3 m p object_item(1) [of v m acc k] show ?case by (simp del: object_loop.simps)
qed

lemma sendable_written: "sendable_json j \<Longrightarrow> written j"
proof (induction j rule: encode.induct)
  case (3 n)
  then obtain k where k: "n = num_of_int k" "\<bar>k\<bar> < 2 ^ 53" by auto
  obtain c cs where c: "show_int k = c # cs" "c = CHR ''-'' \<or> is_digit c" using show_int_head by blast
  then have other: "\<not> is_ws c" "c \<notin> {CHR ''{'', CHR ''['', double_quote, CHR ''t'', CHR ''f'', CHR ''n''}"
    by (auto simp: is_ws_def is_digit_def ord_def)
  have "json_value (Suc m) (encode (Num n) @ rest) = Inr (Num n, rest)" if "ends_number rest" for m rest
    using number_written [of rest k] that c(2) other json_number_whole [OF k(2)] c(1)
    by (simp add: k(1) ends_number_def skip_ws_first)
  then show ?case by (simp add: written_def)
next
  case (4 s)
  then show ?case by (simp add: written_def json_string_def skip_ws_first no_ws_separators string_loop_written)
next
  case (5 a)
  have "json_value (Suc n) (encode (Arr a) @ rest) = Inr (Arr a, rest)" if size: "2 * length (encode (Arr a)) \<le> n" for n rest
  proof -
    obtain m where m: "n = Suc m" using size by (cases n) auto
    have "array_loop (Suc m) [] (commas (map encode a) @ CHR '']'' # rest) = Inr (Arr ([] @ a), rest)"
      by (rule array_written) (use 5 size m in \<open>auto simp: list_all_iff\<close>)
    with m show ?thesis by (simp add: skip_ws_first is_ws_def del: array_loop.simps)
  qed
  then show ?case by (simp add: written_def)
next
  case (6 kv)
  have "json_value (Suc n) (encode (Obj kv) @ rest) = Inr (Obj kv, rest)" if size: "2 * length (encode (Obj kv)) \<le> n" for n rest
  proof -
    obtain m where m: "n = Suc m" using size by (cases n) auto
    have "object_loop (Suc m) [] (commas (map (\<lambda>(k, v). json_string k @ '':'' @ encode v) kv) @ CHR ''}'' # rest) =
        Inr (Obj ([] @ kv), rest)"
      by (rule object_written) (use 6 size m in \<open>auto simp: list_all_iff\<close>)
    with m show ?thesis by (simp add: skip_ws_first is_ws_def del: object_loop.simps)
  qed
  then show ?case by (simp add: written_def)
qed (simp_all add: written_def skip_ws_first is_ws_def lit_def)

text \<open>
  C10: what the server sends reads back as it was: a value whose numbers are whole and below \<open>2\<^sup>5\<^sup>3\<close>
  is read from its own text, whatever bytes its strings and keys hold.\<close>

theorem json_roundtrip:
  assumes "sendable_json j"
  shows "parse_json (encode j) = Inr j"
  using writtenD [OF sendable_written [OF assms] ends_number_simps(1), of "2 * length (encode j) + 2"]
  by (simp add: parse_json_def numeral_eq_Suc skip_ws_def)

theorem json_roundtrip_witness:
  "parse_json (encode (Obj [(''line'', Num (num_of_int 7)), (''msg'', Str [newline, double_quote]), (''a'', Arr [Null, Bool True])])) =
     Inr (Obj [(''line'', Num (num_of_int 7)), (''msg'', Str [newline, double_quote]), (''a'', Arr [Null, Bool True])])"
  by (rule json_roundtrip) (auto intro!: exI [of _ 7])

text \<open>
  Note: other numbers are not kept: a whole number beyond \<open>i64\<close> is written as the nearest \<open>i64\<close>, and
  an infinite one, which a long exponent gives, as \<open>inf\<close>, which no reader accepts.\<close>

theorem json_numbers_lost:
  "encode (Num (False, F64 (2 ^ 52) 20)) = ''9223372036854775807'' \<and>
   encode (Num (False, F64_Inf)) = ''inf'' \<and> parse_json ''inf'' = Inl Bad_char"
proof -
  have "show_int 9223372036854775807 = ''9223372036854775807''"
    by (simp add: show_int_def digits_of.simps char_of_def bit_0 bit_Suc)
  then show ?thesis
    by (simp add: json_number_def scale_def i64_max_def parse_json_def numeral_eq_Suc skip_ws_first is_ws_def is_digit_def ord_def Let_def)
qed

end
