(* ===== verification/Fly_Text.thy ===== *)
theory Fly_Text
  imports Fly_Prelude
begin

text \<open>
  The operations of Rust's \<open>str\<close> that the tools around the compiler use, on UTF-8 bytes: splitting,
  searching, and trimming.  \<open>trim\<close>, \<open>trim_start\<close> and \<open>trim_end\<close> remove the characters with the
  Unicode property \<open>White_Space\<close>: six in ASCII, and U+0085, U+00A0, U+1680, U+2000 to U+200A, U+2028,
  U+2029, U+202F, U+205F and U+3000, which take two or three bytes.
\<close>

subsection \<open>Splitting and searching\<close>

text \<open>\<open>s.split(c)\<close>: never empty; the separators are dropped.\<close>

fun split_on :: "byte \<Rightarrow> string \<Rightarrow> string list" where
  "split_on c [] = [[]]"
| "split_on c (x # s) =
     (if x = c then [] # split_on c s
      else case split_on c s of l # ls \<Rightarrow> (x # l) # ls | [] \<Rightarrow> [[x]])"

lemma split_on_not_Nil [simp]: "split_on c s \<noteq> []"
  by (cases s) (auto split: list.splits)

lemma join_split_on: "join [c] (split_on c s) = s"
proof (induction s)
  case (Cons x s)
  obtain l ls where l: "split_on c s = l # ls" by (cases "split_on c s") auto
  with Cons show ?case by (cases ls) auto
qed simp

lemma split_on_free: "l \<in> set (split_on c s) \<Longrightarrow> c \<notin> set l"
proof (induction s arbitrary: l)
  case (Cons x s)
  obtain l1 ls where l: "split_on c s = l1 # ls" by (cases "split_on c s") auto
  with Cons show ?case by (auto split: if_splits)
qed simp

lemma length_split_on: "length (split_on c s) = Suc (count_list s c)"
proof (induction s)
  case (Cons x s)
  obtain l1 ls where l: "split_on c s = l1 # ls" by (cases "split_on c s") auto
  with Cons show ?case by simp
qed simp

text \<open>\<open>s.find(c)\<close> for an ASCII character.\<close>

fun find_byte :: "byte \<Rightarrow> string \<Rightarrow> nat option" where
  "find_byte c [] = None"
| "find_byte c (x # s) = (if x = c then Some 0 else map_option Suc (find_byte c s))"

lemma find_byte_None [simp]: "find_byte c s = None \<longleftrightarrow> c \<notin> set s"
  by (induction s) auto

lemma find_byte_Some: "find_byte c s = Some i \<Longrightarrow> i < length s \<and> s ! i = c \<and> c \<notin> set (take i s)"
  by (induction s arbitrary: i) (auto split: if_splits)

text \<open>\<open>s.rsplit_once(c)\<close> and \<open>s.split_once(c)\<close> for an ASCII character.\<close>

definition split_once :: "byte \<Rightarrow> string \<Rightarrow> (string \<times> string) option" where
  "split_once c s = map_option (\<lambda>i. (take i s, drop (Suc i) s)) (find_byte c s)"

definition rsplit_once :: "byte \<Rightarrow> string \<Rightarrow> (string \<times> string) option" where
  "rsplit_once c s = map_option (\<lambda>(a, b). (rev b, rev a)) (split_once c (rev s))"

lemma split_onceD: "split_once c s = Some (a, b) \<Longrightarrow> s = a @ c # b \<and> c \<notin> set a"
  by (auto simp: split_once_def id_take_nth_drop dest!: find_byte_Some)

lemma rsplit_onceD: "rsplit_once c s = Some (a, b) \<Longrightarrow> s = a @ c # b \<and> c \<notin> set b"
  by (auto simp: rsplit_once_def dest!: split_onceD) (metis append.assoc append_Cons append_Nil rev.simps(2) rev_append rev_rev_ident)

text \<open>\<open>s.strip_prefix(p)\<close> and \<open>s.starts_with(p)\<close>.\<close>

definition starts_with :: "string \<Rightarrow> string \<Rightarrow> bool" where
  "starts_with p s \<longleftrightarrow> take (length p) s = p"

lemma starts_with_simps [simp]:
  "starts_with [] s" "starts_with (a # p) (b # s) \<longleftrightarrow> a = b \<and> starts_with p s" "\<not> starts_with (a # p) []"
  "starts_with (r @ p) (r @ s) \<longleftrightarrow> starts_with p s"
  by (auto simp: starts_with_def)

definition strip_prefix :: "string \<Rightarrow> string \<Rightarrow> string option" where
  "strip_prefix p s = (if starts_with p s then Some (drop (length p) s) else None)"

lemma strip_prefix_Some: "strip_prefix p s = Some r \<longleftrightarrow> s = p @ r"
  by (auto simp: strip_prefix_def starts_with_def) (metis append_take_drop_id)

text \<open>
  Is a byte offset between two characters?  Indexing a \<open>str\<close> elsewhere panics.
\<close>

definition is_boundary :: "string \<Rightarrow> nat \<Rightarrow> bool" where
  "is_boundary s i \<longleftrightarrow> i = length s \<or> i < length s \<and> \<not> (128 \<le> ord (s ! i) \<and> ord (s ! i) < 192)"

subsection \<open>Trimming\<close>

definition ascii_space :: "byte \<Rightarrow> bool" where
  "ascii_space c \<longleftrightarrow> 9 \<le> ord c \<and> ord c \<le> 13 \<or> c = CHR '' ''"

text \<open>The length in bytes of the white space character at the beginning, or at the end, of a text; 0 for none.\<close>

definition space_2 :: "byte \<Rightarrow> byte \<Rightarrow> bool" where
  "space_2 a b \<longleftrightarrow> ord a = 194 \<and> (ord b = 133 \<or> ord b = 160)"

definition space_3 :: "byte \<Rightarrow> byte \<Rightarrow> byte \<Rightarrow> bool" where
  "space_3 a b c \<longleftrightarrow>
     ord a = 225 \<and> ord b = 154 \<and> ord c = 128 \<or>
     ord a = 226 \<and> ord b = 128 \<and> (128 \<le> ord c \<and> ord c \<le> 138 \<or> ord c = 168 \<or> ord c = 169 \<or> ord c = 175) \<or>
     ord a = 226 \<and> ord b = 129 \<and> ord c = 159 \<or>
     ord a = 227 \<and> ord b = 128 \<and> ord c = 128"

definition space_at_start :: "string \<Rightarrow> nat" where
  "space_at_start s = (case s of
       [] \<Rightarrow> 0
     | a # r \<Rightarrow> if ascii_space a then 1 else (case r of
           [] \<Rightarrow> 0
         | b # t \<Rightarrow> if space_2 a b then 2 else (case t of
               [] \<Rightarrow> 0
             | c # _ \<Rightarrow> if space_3 a b c then 3 else 0)))"

definition space_at_end :: "string \<Rightarrow> nat" where
  "space_at_end s = (case rev s of
       [] \<Rightarrow> 0
     | a # r \<Rightarrow> if ascii_space a then 1 else (case r of
           [] \<Rightarrow> 0
         | b # t \<Rightarrow> if space_2 b a then 2 else (case t of
               [] \<Rightarrow> 0
             | c # _ \<Rightarrow> if space_3 c b a then 3 else 0)))"

lemma space_at_start_le: "space_at_start s \<le> length s"
  by (auto simp: space_at_start_def split: list.splits)

lemma space_at_end_le: "space_at_end s \<le> length s"
proof -
  have "space_at_end s \<le> length (rev s)"
    unfolding space_at_end_def by (simp split: list.split del: length_rev)
  then show ?thesis by simp
qed

function trim_start :: "string \<Rightarrow> string" where
  "trim_start s = (let n = space_at_start s in if n = 0 then s else trim_start (drop n s))"
  by pat_completeness auto
termination
proof (relation "measure length", goal_cases)
  case (2 s n)
  then show ?case using space_at_start_le [of s] by auto
qed simp

function trim_end :: "string \<Rightarrow> string" where
  "trim_end s = (let n = space_at_end s in if n = 0 then s else trim_end (take (length s - n) s))"
  by pat_completeness auto
termination
proof (relation "measure length", goal_cases)
  case (2 s n)
  then show ?case using space_at_end_le [of s] by auto
qed simp

declare trim_start.simps [simp del] trim_end.simps [simp del]

definition trim_ws :: "string \<Rightarrow> string" where
  "trim_ws s = trim_end (trim_start s)"

text \<open>\<open>trim_end_matches\<close> and \<open>trim_start_matches\<close> with a set of ASCII characters.\<close>

definition trim_end_of :: "byte set \<Rightarrow> string \<Rightarrow> string" where
  "trim_end_of cs s = rev (dropWhile (\<lambda>c. c \<in> cs) (rev s))"

definition trim_start_of :: "byte set \<Rightarrow> string \<Rightarrow> string" where
  "trim_start_of cs s = dropWhile (\<lambda>c. c \<in> cs) s"

abbreviation blanks :: "byte set" where "blanks \<equiv> {CHR '' '', tab}"

lemma trim_end_of_decomp: "\<exists>r. s = trim_end_of cs s @ r \<and> set r \<subseteq> cs"
proof -
  have "rev s = takeWhile (\<lambda>c. c \<in> cs) (rev s) @ dropWhile (\<lambda>c. c \<in> cs) (rev s)" by simp
  then have "s = trim_end_of cs s @ rev (takeWhile (\<lambda>c. c \<in> cs) (rev s))"
    unfolding trim_end_of_def by (metis rev_append rev_rev_ident)
  moreover have "set (takeWhile (\<lambda>c. c \<in> cs) (rev s)) \<subseteq> cs" by (meson set_takeWhileD subsetI)
  ultimately show ?thesis by (metis set_rev)
qed

lemma trim_end_of_ends: "trim_end_of cs s = [] \<or> last (trim_end_of cs s) \<notin> cs"
  using hd_dropWhile [of "\<lambda>c. c \<in> cs" "rev s"] by (auto simp: trim_end_of_def last_rev simp del: dropWhile_eq_Nil_conv)

lemma trim_end_of_last: "s \<noteq> [] \<Longrightarrow> last s \<notin> cs \<Longrightarrow> trim_end_of cs s = s"
  unfolding trim_end_of_def by (cases s rule: rev_cases) auto

end
