(* ===== verification/Fly_Fmt.thy ===== *)
theory Fly_Fmt
  imports Fly_Lexer_Spec Fly_Text
begin

text \<open>
  The formatter (\<^verbatim>\<open>src/fmt.rs\<close>): \<open>fly fmt\<close> lays the tokens of every line out anew and keeps comments
  and the lines of multi-line strings as they are.  \<open>lex_all\<close> is total (see the lexer's theory); a
  formatting that is \<open>None\<close> is a panic of the program, which slices a line at a byte offset.
\<close>

definition tokens_of :: "string \<Rightarrow> token list" where
  "tokens_of src = (case lex_all src of Some ts \<Rightarrow> ts | None \<Rightarrow> [])"

subsection \<open>Lines\<close>

record line =
  ln_num :: nat
  ln_text :: string
  ln_tokens :: "token list"
  ln_raw :: bool
  ln_comment :: string
  ln_blank :: bool

definition source_line :: "nat \<times> string \<Rightarrow> line" where
  "source_line = (\<lambda>(i, s). \<lparr>ln_num = i + 1, ln_text = s, ln_tokens = [], ln_raw = False, ln_comment = [], ln_blank = False\<rparr>)"

definition mark_raw :: "nat \<Rightarrow> line list \<Rightarrow> line list" where
  "mark_raw j ls = (if j < length ls then ls[j := (ls ! j)\<lparr>ln_raw := True\<rparr>] else ls)"

definition push_token :: "token \<Rightarrow> nat \<Rightarrow> line list \<Rightarrow> line list" where
  "push_token t i ls = ls[i := (ls ! i)\<lparr>ln_tokens := ln_tokens (ls ! i) @ [t]\<rparr>]"

definition place_token :: "token \<Rightarrow> line list \<Rightarrow> line list" where
  "place_token t ls =
     (let idx = t_line t - 1; extra = count_list (t_lit t) newline in
      if t_ty t \<in> {T_Newline, T_Indent, T_Dedent, T_Eof} \<or> length ls \<le> idx then ls
      else if t_ty t = T_Illegal then mark_raw idx ls
      else push_token t idx
        (if t_ty t = T_String \<and> 0 < extra then fold mark_raw [idx ..< Suc (idx + extra)] ls else ls))"

text \<open>The comment behind the last token of a line; \<open>None\<close> where the offset is inside a character.\<close>

definition trailing_comment :: "line \<Rightarrow> string option" where
  "trailing_comment l =
     (let t = last (ln_tokens l);
          end_col = t_col t + length (t_lit t);
          rest = drop (end_col - 1) (ln_text l)
      in if 1 < end_col \<and> end_col - 1 \<le> length (ln_text l) then
           (if is_boundary (ln_text l) (end_col - 1) then
              Some (case find_byte hash_sign rest of Some ci \<Rightarrow> drop ci rest | None \<Rightarrow> ln_comment l)
            else None)
         else Some (ln_comment l))"

definition classify :: "line \<Rightarrow> line option" where
  "classify l =
     (if ln_raw l then Some l
      else if ln_tokens l \<noteq> [] then map_option (\<lambda>c. l\<lparr>ln_comment := c\<rparr>) (trailing_comment l)
      else if trim_ws (ln_text l) = [] then Some (l\<lparr>ln_blank := True\<rparr>)
      else Some (l\<lparr>ln_raw := True,
        ln_comment := (if starts_with [hash_sign] (trim_start (ln_text l)) then trim_ws (ln_text l) else ln_comment l)\<rparr>))"

fun map_all :: "('a \<Rightarrow> 'b option) \<Rightarrow> 'a list \<Rightarrow> 'b list option" where
  "map_all f [] = Some []"
| "map_all f (x # xs) =
     (case f x of None \<Rightarrow> None | Some y \<Rightarrow> map_option (\<lambda>ys. y # ys) (map_all f xs))"

definition build_lines :: "string \<Rightarrow> token list \<Rightarrow> line list option" where
  "build_lines src toks = map_all classify (fold place_token toks (map source_line (enumerate 0 (split_on newline src))))"

subsection \<open>Blanks between tokens\<close>

definition is_open :: "token_type \<Rightarrow> bool" where
  "is_open t \<longleftrightarrow> t \<in> {T_LParen, T_LBracket, T_LBrace}"

definition is_close :: "token_type \<Rightarrow> bool" where
  "is_close t \<longleftrightarrow> t \<in> {T_RParen, T_RBracket, T_RBrace}"

definition is_name :: "token_type \<Rightarrow> bool" where
  "is_name t \<longleftrightarrow> t = T_Ident"

definition is_lit :: "token_type \<Rightarrow> bool" where
  "is_lit t \<longleftrightarrow> t \<in> {T_Int, T_Float, T_String, T_None, T_True, T_False}"

definition aug_assigns :: "token_type set" where
  "aug_assigns =
     {T_PlusAssign, T_MinusAssign, T_StarAssign, T_SlashAssign, T_PercentAssign, T_DoubleStarAssign, T_FloorDivAssign,
      T_ShlAssign, T_ShrAssign, T_AmpAssign, T_PipeAssign, T_CaretAssign}"

definition binary_ops :: "token_type set" where
  "binary_ops =
     {T_Slash, T_Percent, T_FloorDiv, T_Shl, T_Shr, T_Amp, T_Pipe, T_Caret, T_Lt, T_Gt, T_Le, T_Ge, T_EqEq, T_Ne,
      T_And, T_Or}"

definition decide_space :: "token_type \<Rightarrow> bool \<Rightarrow> token_type \<Rightarrow> int \<Rightarrow> int \<Rightarrow> bool \<Rightarrow> bool" where
  "decide_space pt prev_unary ct depth bracket at_line_start =
     (if at_line_start then False
      else if is_close ct then False
      else if is_open ct then
        (if pt \<in> {T_Ident, T_Cage, T_Trace, T_Only} then False
         else if is_close pt \<or> is_open pt then False
         else if pt \<in> {T_Int, T_Float, T_String, T_None, T_True, T_False} then False
         else True)
      else if is_name ct \<or> is_lit ct then
        (if is_open pt \<or> pt = T_Dot then False
         else if pt = T_Colon then bracket = 0
         else if pt = T_Assign \<and> 0 < depth then False
         else if prev_unary then False
         else True)
      else if ct = T_Dot then False
      else if ct = T_Comma then False
      else if ct = T_Colon then False
      else if ct = T_Assign then depth = 0
      else if ct \<in> aug_assigns then True
      else if ct \<in> {T_Minus, T_Plus, T_Tilde} then \<not> (is_open pt \<or> pt = T_Comma \<or> pt = T_Colon)
      else if ct \<in> {T_Star, T_DoubleStar} then \<not> (is_open pt \<or> pt = T_Comma \<or> pt = T_Colon)
      else if ct \<in> binary_ops then True
      else if ct = T_Is then pt \<noteq> T_Not
      else if ct = T_In then True
      else if ct = T_Not then True
      else True)"

subsection \<open>Rendering\<close>

record spacing =
  sp_prev :: token_type
  sp_unary :: bool
  sp_depth :: int
  sp_bracket :: int
  sp_first :: bool

definition spacing_start :: spacing where
  "spacing_start = \<lparr>sp_prev = T_Illegal, sp_unary = False, sp_depth = 0, sp_bracket = 0, sp_first = True\<rparr>"

definition spacing_after :: "token_type \<Rightarrow> spacing \<Rightarrow> spacing" where
  "spacing_after ty s = \<lparr>sp_prev = ty,
     sp_unary = (ty \<in> {T_Minus, T_Plus, T_Tilde, T_Star, T_DoubleStar} \<and>
       \<not> (is_name (sp_prev s) \<or> is_lit (sp_prev s) \<or> is_close (sp_prev s) \<or> sp_prev s = T_Dot)),
     sp_depth = (if is_open ty then sp_depth s + 1 else if is_close ty then sp_depth s - 1 else sp_depth s),
     sp_bracket = (if ty = T_LBracket then sp_bracket s + 1
       else if ty = T_RBracket \<and> 0 < sp_bracket s then sp_bracket s - 1 else sp_bracket s),
     sp_first = False\<rparr>"

definition space_before :: "spacing \<Rightarrow> token_type \<Rightarrow> bool" where
  "space_before s ty = decide_space (sp_prev s) (sp_unary s) ty (sp_depth s) (sp_bracket s) (sp_first s)"

text \<open>The text written so far is that of the whole document, as in the source.\<close>

primrec render_tokens :: "nat \<Rightarrow> token list \<Rightarrow> spacing \<Rightarrow> string \<Rightarrow> string" where
  "render_tokens lead_len [] s out = out"
| "render_tokens lead_len (t # ts) s out =
     render_tokens lead_len ts (spacing_after (t_ty t) s)
       (out @ (if space_before s (t_ty t) \<and> lead_len < length out then '' '' else []) @ t_lit t)"

definition lead_of :: "string \<Rightarrow> string" where
  "lead_of text = concat (map (\<lambda>c. if c = tab then ''    '' else [c])
     (take (length text - length (trim_start_of blanks text)) text))"

definition render_line :: "line \<Rightarrow> string \<Rightarrow> string" where
  "render_line l out =
     (let lead = lead_of (ln_text l);
          out1 = render_tokens (length lead) (ln_tokens l) spacing_start (out @ lead);
          out2 = (if ln_comment l \<noteq> []
                  then out1 @ (if out1 \<noteq> [] then '' '' else []) @ trim_end_of blanks (ln_comment l) else out1)
      in trim_end_of blanks out2)"

fun format_lines :: "nat \<Rightarrow> nat \<Rightarrow> bool \<Rightarrow> line list \<Rightarrow> string \<Rightarrow> string" where
  "format_lines i n prev_blank [] out = out"
| "format_lines i n prev_blank (l # ls) out =
     (if ln_blank l then
        (if i = 0 \<or> prev_blank \<or> i = n - 1 then format_lines (i + 1) n prev_blank ls out
         else format_lines (i + 1) n True ls (out @ [newline]))
      else
        let out1 = (if 0 < i then out @ [newline] else out)
        in format_lines (i + 1) n False ls
             (if ln_raw l then out1 @ trim_end_of blanks (ln_text l) else render_line l out1))"

definition format_source :: "string \<Rightarrow> string option" where
  "format_source src =
     (let toks = tokens_of src in
      if toks = [] then Some (trim_end_of {newline} src)
      else map_option (\<lambda>ls. trim_end_of {newline} (format_lines 0 (length ls) False ls []) @ [newline])
             (build_lines src toks))"

text \<open>\<open>comment_lines\<close>: the numbers of the lines with a comment.\<close>

definition comment_lines :: "string \<Rightarrow> nat list option" where
  "comment_lines src =
     map_option (\<lambda>ls. map ln_num (filter (\<lambda>l. ln_comment l \<noteq> []) ls)) (build_lines src (tokens_of src))"

end
