(* ===== verification/Fly_Fmt_Facts.thy ===== *)
theory Fly_Fmt_Facts
  imports Fly_Fmt
begin

text \<open>
  What the formatter keeps and what it loses.  A rendered line consists of its indentation, the
  literals of its tokens in order with at most one space in between, and its comment, and two words
  never run together; but the texts of build lines, of some strings and of some comments are lost.
\<close>

subsection \<open>Rendered lines\<close>

definition is_word :: "token_type \<Rightarrow> bool" where
  "is_word ty \<longleftrightarrow> is_name ty \<or> is_lit ty \<or> (\<exists>k. ty = T_Kw k) \<or> (\<exists>k. ty = T_Fly k)"

text \<open>
  The contract of rendering, without the state of the renderer: the literals in order, each after an
  optional space, which is there wherever two words meet.
\<close>

inductive spaced :: "token_type option \<Rightarrow> token list \<Rightarrow> string \<Rightarrow> bool" where
  spaced_Nil: "spaced p [] []"
| spaced_Cons:
    "sep = [] \<or> sep = '' '' \<Longrightarrow> (p = None \<longrightarrow> sep = []) \<Longrightarrow>
     (case p of Some q \<Rightarrow> is_word q \<and> is_word (t_ty t) \<and> \<not> (q = T_Not \<and> t_ty t = T_Is) \<longrightarrow> sep = '' '' | None \<Rightarrow> True) \<Longrightarrow>
     spaced (Some (t_ty t)) ts str \<Longrightarrow> spaced p (t # ts) (sep @ t_lit t @ str)"

inductive_cases spaced_ConsE: "spaced p (t # ts) str"

lemma spaced_lits: "spaced p ts str \<Longrightarrow> filter (\<lambda>c. c \<noteq> CHR '' '') str = filter (\<lambda>c. c \<noteq> CHR '' '') (concat (map t_lit ts))"
  by (induction rule: spaced.induct) auto

definition spacing_ok :: "spacing \<Rightarrow> bool" where
  "spacing_ok s \<longleftrightarrow> (sp_unary s \<longrightarrow> sp_prev s \<in> {T_Minus, T_Plus, T_Tilde, T_Star, T_DoubleStar})"

lemma spacing_ok_start: "spacing_ok spacing_start"
  by (simp add: spacing_ok_def spacing_start_def)

lemma spacing_ok_after: "spacing_ok (spacing_after ty s)"
  by (auto simp: spacing_ok_def spacing_after_def)

lemma words_apart:
  assumes "spacing_ok s" "\<not> sp_first s" "is_word (sp_prev s)" "is_word ty" "\<not> (sp_prev s = T_Not \<and> ty = T_Is)"
  shows "space_before s ty"
proof -
  have prev: "\<not> is_open (sp_prev s)" "sp_prev s \<notin> {T_Dot, T_Colon, T_Assign}" "\<not> sp_unary s"
    using assms(1,3) by (auto simp: spacing_ok_def is_word_def is_open_def is_name_def is_lit_def)
  have cur: "\<not> is_open ty" "\<not> is_close ty" "ty \<notin> {T_Dot, T_Comma, T_Colon, T_Assign, T_Minus, T_Plus, T_Tilde, T_Star, T_DoubleStar}"
    using assms(4) by (auto simp: is_word_def is_open_def is_close_def is_name_def is_lit_def)
  from prev cur assms(2,5) show ?thesis unfolding space_before_def decide_space_def by auto
qed

lemma render_tokens_spaced:
  "spacing_ok s \<Longrightarrow> (if sp_first s then lead_len \<le> length out else lead_len < length out) \<Longrightarrow>
   list_all (\<lambda>t. t_lit t \<noteq> []) ts \<Longrightarrow>
   \<exists>str. spaced (if sp_first s then None else Some (sp_prev s)) ts str \<and> render_tokens lead_len ts s out = out @ str"
proof (induction ts arbitrary: s out)
  case (Cons t ts)
  define sep where "sep = (if space_before s (t_ty t) \<and> lead_len < length out then '' '' else [])"
  let ?out = "out @ sep @ t_lit t"
  have after: "sp_first (spacing_after (t_ty t) s) = False" "sp_prev (spacing_after (t_ty t) s) = t_ty t"
    by (simp_all add: spacing_after_def)
  have "lead_len < length ?out" using Cons.prems by (cases "t_lit t") (auto split: if_splits)
  with Cons.IH [of "spacing_after (t_ty t) s" ?out] Cons.prems(3) obtain str where
    str: "spaced (Some (t_ty t)) ts str" "render_tokens lead_len ts (spacing_after (t_ty t) s) ?out = ?out @ str"
    by (auto simp: after spacing_ok_after)
  have first: "sp_first s \<Longrightarrow> sep = []" by (simp add: sep_def space_before_def decide_space_def)
  have words: "\<not> sp_first s \<Longrightarrow> is_word (sp_prev s) \<Longrightarrow> is_word (t_ty t) \<Longrightarrow> \<not> (sp_prev s = T_Not \<and> t_ty t = T_Is) \<Longrightarrow> sep = '' ''"
    using words_apart [OF Cons.prems(1), of "t_ty t"] Cons.prems(2) by (simp add: sep_def)
  have "spaced (if sp_first s then None else Some (sp_prev s)) (t # ts) (sep @ t_lit t @ str)"
    by (rule spaced_Cons [OF _ _ _ str(1)]) (use first words in \<open>auto simp: sep_def\<close>)
  moreover have "render_tokens lead_len (t # ts) s out = out @ sep @ t_lit t @ str"
    using str(2) by (simp add: sep_def)
  ultimately show ?case by blast
qed (auto intro: spaced_Nil)

definition comment_text :: "line \<Rightarrow> string" where
  "comment_text l = (if ln_comment l \<noteq> [] then '' '' @ trim_end_of blanks (ln_comment l) else [])"

lemma trim_end_of_append: "trim_end_of cs (a @ b) = (if set b \<subseteq> cs then trim_end_of cs a else a @ trim_end_of cs b)"
proof -
  have "dropWhile (\<lambda>c. c \<in> cs) (rev b @ rev a) = (if set b \<subseteq> cs then dropWhile (\<lambda>c. c \<in> cs) (rev a) else dropWhile (\<lambda>c. c \<in> cs) (rev b) @ rev a)"
    by (auto simp: dropWhile_append subset_iff)
  then show ?thesis by (simp add: trim_end_of_def)
qed



subsection \<open>What is lost\<close>

text \<open>
  Note: formatting does not always keep the program: the backslash that continues a line is dropped,
  so that one statement becomes two; blanks at the end of a line inside a string are dropped; so is a
  comment right behind a string with a prefix, and where the comment begins with a character of
  several bytes the formatter panics.\<close>

theorem format_loses_text:
  "format_source (''x = 1 + '' @ [backslash, newline] @ ''  2'' @ [newline]) =
     Some (''x = 1 +'' @ [newline] @ ''  2'' @ [newline]) \<and>
   format_source (replicate 3 double_quote @ ''a '' @ [newline] @ replicate 3 double_quote) =
     Some (replicate 3 double_quote @ ''a'' @ [newline] @ replicate 3 double_quote @ [newline]) \<and>
   format_source (''f'' @ [double_quote, double_quote] @ ''#c'') = Some (''f'' @ [double_quote, double_quote, newline]) \<and>
   format_source (''rb'' @ [double_quote, double_quote, hash_sign] @ utf8 [195, 169]) = None"
proof (intro conjI)
  show "format_source (''x = 1 + '' @ [backslash, newline] @ ''  2'' @ [newline]) =
     Some (''x = 1 +'' @ [newline] @ ''  2'' @ [newline])" by code_simp
  show "format_source (replicate 3 double_quote @ ''a '' @ [newline] @ replicate 3 double_quote) =
     Some (replicate 3 double_quote @ ''a'' @ [newline] @ replicate 3 double_quote @ [newline])" by code_simp
  show "format_source (''f'' @ [double_quote, double_quote] @ ''#c'') = Some (''f'' @ [double_quote, double_quote, newline])"
    by code_simp
  show "format_source (''rb'' @ [double_quote, double_quote, hash_sign] @ utf8 [195, 169]) = None" by code_simp
qed

end
