(* ===== verification/Fly_Analyze.thy ===== *)
theory Fly_Analyze
  imports Fly_Parser Fly_Fmt
begin

text \<open>
  The static analysis of \<open>fly analyze\<close> (\<^verbatim>\<open>src/analyze.rs\<close>): the walk over the syntax tree that counts
  decisions, cognitive weight and nesting, the measures of the text, and the score.  Counters are
  \<open>int\<close>; they are bounded by the number of nodes of the tree, far below \<open>i64\<close>.
\<close>

record func_metric =
  fm_name :: string
  fm_line :: int
  fm_length :: int
  fm_params :: int
  fm_cyclo :: int
  fm_cognit :: int
  fm_nest :: int
  fm_complex :: bool

record metrics =
  mt_cyclomatic :: int
  mt_cognitive :: int
  mt_max_nest :: int
  mt_func_count :: int
  mt_max_func_len :: int
  mt_max_params :: int
  mt_try_count :: int
  mt_raise_count :: int
  mt_lines :: int
  mt_code_lines :: int
  mt_comment_rate :: f64
  mt_repeat_rate :: f64
  mt_name_rate :: f64
  mt_functions :: "func_metric list"

fun stmt_pos :: "stmt \<Rightarrow> position" where
  "stmt_pos (Import p _) = p"
| "stmt_pos (FromImport p _ _) = p"
| "stmt_pos (Lock p _ _) = p"
| "stmt_pos (Safe p _) = p"
| "stmt_pos (Mask p _) = p"
| "stmt_pos (Guard p _ _ _) = p"
| "stmt_pos (Assign p _ _ _) = p"
| "stmt_pos (ExprStmt p _) = p"
| "stmt_pos (FuncDef p _ _ _ _ _) = p"
| "stmt_pos (ClassDef p _ _ _ _ _) = p"
| "stmt_pos (Only p _ _) = p"
| "stmt_pos (Trace p _ _ _ _) = p"
| "stmt_pos (Cage p _ _ _ _ _) = p"
| "stmt_pos (If p _ _ _ _) = p"
| "stmt_pos (For p _ _ _ _) = p"
| "stmt_pos (While p _ _ _) = p"
| "stmt_pos (Return p _) = p"
| "stmt_pos (Raise p _ _) = p"
| "stmt_pos (Try p _ _ _ _) = p"
| "stmt_pos (Pass p) = p"
| "stmt_pos (Break p) = p"
| "stmt_pos (Continue p) = p"
| "stmt_pos (Delete p _) = p"

subsection \<open>The walk\<close>

record analyzer =
  an_cyclo :: int
  an_cog :: int
  an_max :: int
  an_fns :: "func_metric list"
  an_try :: int
  an_raise :: int
  an_cur :: int

definition analyzer_new :: analyzer where
  "analyzer_new = \<lparr>an_cyclo = 0, an_cog = 0, an_max = 0, an_fns = [], an_try = 0, an_raise = 0, an_cur = 0\<rparr>"

text \<open>\<open>self.cyclo += 1; self.cog += 1 + depth\<close>\<close>

definition decision :: "int \<Rightarrow> analyzer \<Rightarrow> analyzer" where
  "decision depth a = a\<lparr>an_cyclo := an_cyclo a + 1, an_cog := an_cog a + 1 + depth\<rparr>"

text \<open>\<open>walk f xs\<close> is \<open>for x in xs { f(x) }\<close>; an \<open>Option\<close> is a list of at most one element.\<close>

definition walk :: "('a \<Rightarrow> analyzer \<Rightarrow> analyzer) \<Rightarrow> 'a list \<Rightarrow> analyzer \<Rightarrow> analyzer" where
  "walk f xs a = foldl (\<lambda>a x. f x a) a xs"

definition opt_list :: "'a option \<Rightarrow> 'a list" where
  "opt_list v = (case v of Some x \<Rightarrow> [x] | None \<Rightarrow> [])"

lemma walk_cong [fundef_cong]: "xs = ys \<Longrightarrow> (\<And>x a. x \<in> set ys \<Longrightarrow> f x a = g x a) \<Longrightarrow> a = b \<Longrightarrow> walk f xs a = walk g ys b"
  unfolding walk_def by (auto intro: foldl_cong)

lemma opt_list_simps [simp]: "opt_list None = []" "opt_list (Some x) = [x]"
  by (simp_all add: opt_list_def)

lemma set_opt_list: "x \<in> set (opt_list v) \<longleftrightarrow> v = Some x"
  by (cases v) auto

lemma size_opt_list [termination_simp]: "x \<in> set (opt_list v) \<Longrightarrow> size x < size_option size v"
  by (cases v) auto

lemma size_zip [termination_simp]:
  "(k, v) \<in> set (zip ks vs) \<Longrightarrow> size k < Suc (size_list size ks + size_list size vs)"
  "(k, v) \<in> set (zip ks vs) \<Longrightarrow> size v < Suc (size_list size ks + size_list size vs)"
  using size_list_estimation' [of k ks "size k" size] size_list_estimation' [of v vs "size v" size]
  by (auto dest: set_zip_leftD set_zip_rightD)

fun an_expr :: "int \<Rightarrow> expr \<Rightarrow> analyzer \<Rightarrow> analyzer"
  and an_kwarg :: "int \<Rightarrow> kwarg \<Rightarrow> analyzer \<Rightarrow> analyzer"
  and an_clause :: "int \<Rightarrow> comp_clause \<Rightarrow> analyzer \<Rightarrow> analyzer" where
  "an_expr d (Call _ f args kwargs star dbl_star) a =
     walk (an_kwarg d) kwargs (walk (an_expr d) (opt_list dbl_star) (walk (an_expr d) (opt_list star)
       (walk (an_expr d) args (an_expr d f a))))"
| "an_expr d (Attr _ x _) a = an_expr d x a"
| "an_expr d (Subscript _ x index) a = an_expr d index (an_expr d x a)"
| "an_expr d (Slice _ lo hi step) a =
     walk (an_expr d) (opt_list step) (walk (an_expr d) (opt_list hi) (walk (an_expr d) (opt_list lo) a))"
| "an_expr d (BinOp _ _ x y) a = an_expr d y (an_expr d x a)"
| "an_expr d (UnaryOp _ _ x) a = an_expr d x a"
| "an_expr d (BoolOp _ opr x y) a =
     an_expr d y (an_expr d x (if opr = ''and'' \<or> opr = ''or'' then decision d a else a))"
| "an_expr d (Compare _ x _ ys) a = walk (an_expr d) ys (an_expr d x a)"
| "an_expr d (Cond _ c t e) a = an_expr d e (an_expr d t (an_expr d c (decision d a)))"
| "an_expr d (ListLit _ es) a = walk (an_expr d) es a"
| "an_expr d (TupleLit _ es _) a = walk (an_expr d) es a"
| "an_expr d (SetLit _ es) a = walk (an_expr d) es a"
| "an_expr d (DictLit _ ks vs) a = walk (\<lambda>(k, v) a. an_expr d v (an_expr d k a)) (zip ks vs) a"
| "an_expr d (ListComp _ el cs) a = walk (an_clause d) cs (an_expr d el a)"
| "an_expr d (Name _ _) a = a"
| "an_expr d (IntLit _ _) a = a"
| "an_expr d (FloatLit _ _) a = a"
| "an_expr d (StringLit _ _) a = a"
| "an_expr d (EllipsisLit _) a = a"
| "an_kwarg d (KwArg _ _ v) a = an_expr d v a"
| "an_clause d (CompClause _ it ifs) a =
     walk (\<lambda>x a. an_expr d x (decision d a)) ifs (an_expr d it (decision d a))"

text \<open>The head of \<open>stmt\<close>: nesting and the last line seen.\<close>

definition enter :: "int \<Rightarrow> position \<Rightarrow> analyzer \<Rightarrow> analyzer" where
  "enter depth p a = a\<lparr>an_max := max (an_max a) (depth + 1), an_cur := max (an_cur a) (int (pos_line p))\<rparr>"

text \<open>The metrics of a function: \<open>a\<close> is the state behind its name, \<open>b\<close> the one behind its body.\<close>

definition func_done :: "position \<Rightarrow> string \<Rightarrow> nat \<Rightarrow> analyzer \<Rightarrow> analyzer \<Rightarrow> analyzer" where
  "func_done p name arity a b =
     (let cyclo = an_cyclo b - an_cyclo a; cognit = an_cog b - an_cog a; nest = an_max b - an_max a;
          start = int (pos_line p)
      in b\<lparr>an_fns := an_fns b @ [\<lparr>fm_name = name, fm_line = start, fm_length = an_cur b - start + 1,
             fm_params = int arity, fm_cyclo = cyclo, fm_cognit = cognit, fm_nest = nest,
             fm_complex = (10 < cyclo \<or> 15 < cognit \<or> 4 < nest)\<rparr>],
           an_cur := an_cur a\<rparr>)"

definition add_cog :: "int \<Rightarrow> analyzer \<Rightarrow> analyzer" where
  "add_cog depth a = a\<lparr>an_cog := an_cog a + 1 + depth\<rparr>"

definition an_default :: "int \<Rightarrow> param \<Rightarrow> analyzer \<Rightarrow> analyzer" where
  "an_default d p = walk (an_expr d) (opt_list (prm_default p))"

fun an_stmt :: "int \<Rightarrow> stmt \<Rightarrow> analyzer \<Rightarrow> analyzer"
  and an_elif :: "int \<Rightarrow> elif_clause \<Rightarrow> analyzer \<Rightarrow> analyzer"
  and an_handler :: "int \<Rightarrow> except_clause \<Rightarrow> analyzer \<Rightarrow> analyzer" where
  "an_stmt d (FuncDef p name ps ret_anno body decs) a0 =
     (let a = add_cog d (enter d p a0)
      in func_done p name (length ps) a (walk (an_stmt (d + 1)) body (walk (an_default (d + 1)) ps a)))"
| "an_stmt d (If p c th elifs els) a0 =
     walk (an_stmt (d + 1)) els (walk (an_elif d) elifs (walk (an_stmt (d + 1)) th
       (an_expr (d + 1) c (decision d (enter d p a0)))))"
| "an_stmt d (For p target it body els) a0 =
     walk (an_stmt (d + 1)) els (walk (an_stmt (d + 1)) body
       (an_expr (d + 1) it (an_expr (d + 1) target (decision d (enter d p a0)))))"
| "an_stmt d (While p c body els) a0 =
     walk (an_stmt (d + 1)) els (walk (an_stmt (d + 1)) body (an_expr (d + 1) c (decision d (enter d p a0))))"
| "an_stmt d (Try p body handlers els fin) a0 =
     (let a1 = decision d (enter d p a0); a = a1\<lparr>an_try := an_try a1 + 1\<rparr>
      in walk (an_stmt (d + 1)) fin (walk (an_stmt (d + 1)) els (walk (an_handler d) handlers
           (walk (an_stmt (d + 1)) body a))))"
| "an_stmt d (Raise p exc frm) a0 =
     (let a = enter d p a0
      in walk (an_expr (d + 1)) (opt_list frm) (walk (an_expr (d + 1)) (opt_list exc) (a\<lparr>an_raise := an_raise a + 1\<rparr>)))"
| "an_stmt d (Assign p left _ right) a0 = an_expr (d + 1) right (walk (an_expr (d + 1)) left (enter d p a0))"
| "an_stmt d (ExprStmt p x) a0 = an_expr (d + 1) x (enter d p a0)"
| "an_stmt d (Guard p _ _ conds) a0 =
     (let a = enter d p a0 in walk (an_expr (d + 1)) conds (a\<lparr>an_cyclo := an_cyclo a + 1\<rparr>))"
| "an_stmt d (ClassDef p _ _ body _ _) a0 = walk (an_stmt (d + 1)) body (add_cog d (enter d p a0))"
| "an_stmt d (Lock p _ v) a0 = walk (an_expr (d + 1)) (opt_list v) (enter d p a0)"
| "an_stmt d (Return p v) a0 = walk (an_expr (d + 1)) (opt_list v) (enter d p a0)"
| "an_stmt d (Delete p ts) a0 = walk (an_expr (d + 1)) ts (enter d p a0)"
| "an_stmt d (Only p _ body) a0 = walk (an_stmt (d + 1)) body (enter d p a0)"
| "an_stmt d (Trace p _ _ _ body) a0 = walk (an_stmt (d + 1)) body (enter d p a0)"
| "an_stmt d (Cage p _ _ _ _ body) a0 = walk (an_stmt (d + 1)) body (enter d p a0)"
| "an_stmt d (Import p _) a0 = enter d p a0"
| "an_stmt d (FromImport p _ _) a0 = enter d p a0"
| "an_stmt d (Safe p _) a0 = enter d p a0"
| "an_stmt d (Mask p _) a0 = enter d p a0"
| "an_stmt d (Pass p) a0 = enter d p a0"
| "an_stmt d (Break p) a0 = enter d p a0"
| "an_stmt d (Continue p) a0 = enter d p a0"
| "an_elif d (ElifClause _ c body) a = walk (an_stmt (d + 1)) body (an_expr (d + 1) c (decision d a))"
| "an_handler d (ExceptClause _ _ _ body) a = walk (an_stmt (d + 1)) body (decision d a)"

subsection \<open>Measures of the text\<close>

text \<open>\<open>repeat_rate\<close>: a line that is blank or has a comment is the text of one NUL.\<close>

definition code_text :: "nat set \<Rightarrow> nat \<times> string \<Rightarrow> string" where
  "code_text comments = (\<lambda>(i, l). let t = trim_ws l in if t = [] \<or> Suc i \<in> comments then [nul] else t)"

definition window_key :: "string list \<Rightarrow> nat \<Rightarrow> string" where
  "window_key code i = code ! i @ [CHR 0x01] @ code ! (i + 1) @ [CHR 0x01] @ code ! (i + 2)"

definition count_window :: "string list \<Rightarrow> nat \<Rightarrow> (string \<Rightarrow> int) \<Rightarrow> string \<Rightarrow> int" where
  "count_window code i counts =
     (if code ! i = [nul] \<or> code ! (i + 1) = [nul] \<or> code ! (i + 2) = [nul] then counts
      else counts(window_key code i := counts (window_key code i) + 1))"

text \<open>The lines marked as repeated, and their number.\<close>

definition mark_line :: "nat \<Rightarrow> nat list \<times> int \<Rightarrow> nat list \<times> int" where
  "mark_line j = (\<lambda>(seen, dup). if j \<in> set seen then (seen, dup) else (j # seen, dup + 1))"

definition mark_window :: "string list \<Rightarrow> (string \<Rightarrow> int) \<Rightarrow> nat \<Rightarrow> nat list \<times> int \<Rightarrow> nat list \<times> int" where
  "mark_window code counts i s =
     (if code ! i = [nul] then s
      else if 1 < counts (window_key code i) \<and> i \<notin> set (fst s) then fold mark_line [i ..< i + 3] s
      else s)"

definition repeat_rate :: "string list \<Rightarrow> nat set \<Rightarrow> f64" where
  "repeat_rate lns comments =
     (let code = map (code_text comments) (enumerate 0 lns);
          n = length code;
          counts = fold (count_window code) [0 ..< n - 2] (\<lambda>_. 0)
      in if n = 0 then f64_of_ratio 0 1
         else f64_of_ratio (snd (fold (mark_window code counts) [0 ..< n - 2] ([], 0))) (int n))"

definition is_snake :: "string \<Rightarrow> bool" where
  "is_snake n = (case n of
       [] \<Rightarrow> False
     | c # r \<Rightarrow> (is_lower c \<or> c = CHR ''_'') \<and> list_all (\<lambda>c. is_lower c \<or> is_digit c \<or> c = CHR ''_'') r)"

definition check_name :: "string \<Rightarrow> int \<times> int \<Rightarrow> int \<times> int" where
  "check_name n = (\<lambda>(total, bad). if n = [] then (total, bad) else (total + 1, if is_snake n then bad else bad + 1))"

definition check_stmt_names :: "stmt \<Rightarrow> int \<times> int \<Rightarrow> int \<times> int" where
  "check_stmt_names s = (case s of
       FuncDef _ name ps _ _ _ \<Rightarrow> (\<lambda>c. fold (\<lambda>p. check_name (prm_name p)) ps (check_name name c))
     | ClassDef _ name _ _ _ _ \<Rightarrow> check_name name
     | _ \<Rightarrow> (\<lambda>c. c))"

definition name_rate :: "module \<Rightarrow> f64" where
  "name_rate m =
     (let (total, bad) = fold check_stmt_names (mod_stmts m) (0, 0)
      in if total = 0 then f64_of_ratio 0 1 else f64_of_ratio bad total)"

subsection \<open>The score\<close>

text \<open>
  The arithmetic of \<open>f64\<close> on numbers that are not negative, which all the amounts here are: the exact
  result, rounded.  A difference is only taken of a number and one that is not larger.
\<close>

fun f64_add :: "f64 \<Rightarrow> f64 \<Rightarrow> f64" where
  "f64_add (F64 m e) (F64 m' e') =
     (let k = min e e'; s = scale m (e - k) + scale m' (e' - k) in f64_of_ratio (scale s k) (scale 1 (- k)))"
| "f64_add _ _ = F64_Inf"

fun f64_sub :: "f64 \<Rightarrow> f64 \<Rightarrow> f64" where
  "f64_sub (F64 m e) (F64 m' e') =
     (let k = min e e'; s = scale m (e - k) - scale m' (e' - k) in f64_of_ratio (scale s k) (scale 1 (- k)))"
| "f64_sub _ _ = F64_Inf"

fun f64_div :: "f64 \<Rightarrow> f64 \<Rightarrow> f64" where
  "f64_div (F64 m e) (F64 m' e') = f64_of_ratio (m * scale 1 (e - e')) (m' * scale 1 (e' - e))"
| "f64_div _ _ = F64_Inf"

fun f64_less :: "f64 \<Rightarrow> f64 \<Rightarrow> bool" where
  "f64_less (F64 m e) (F64 m' e') \<longleftrightarrow> scale m (e - min e e') < scale m' (e' - min e e')"
| "f64_less (F64 _ _) F64_Inf \<longleftrightarrow> True"
| "f64_less F64_Inf _ \<longleftrightarrow> False"

abbreviation f64_of_int :: "int \<Rightarrow> f64" where
  "f64_of_int n \<equiv> f64_of_ratio n 1"

text \<open>\<open>if m > limit { deduct((m - limit) as f64 / unit * weight) }\<close>\<close>

definition deduct_over :: "int \<Rightarrow> int \<Rightarrow> f64 \<Rightarrow> f64 \<Rightarrow> f64 \<Rightarrow> f64" where
  "deduct_over v limit unit weight b =
     (if limit < v then f64_add b (f64_mul (f64_div (f64_of_int (v - limit)) unit) weight) else b)"

definition deduct_uncovered :: "metrics \<Rightarrow> f64 \<Rightarrow> f64" where
  "deduct_uncovered m b =
     (if 0 < mt_func_count m then
        (let one = f64_of_int 1;
             c = f64_div (f64_of_int (mt_try_count m)) (f64_of_int (mt_func_count m));
             covered = (if f64_less one c then one else c)
         in f64_add b (f64_mul (f64_sub one covered) (f64_of_int 6)))
      else b)"

definition deduct_comments :: "f64 \<Rightarrow> f64 \<Rightarrow> f64" where
  "deduct_comments rate b =
     (if f64_less rate (f64_of_ratio 5 100) then f64_add b (f64_of_int 4)
      else if f64_less rate (f64_of_ratio 10 100) then f64_add b (f64_of_int 2)
      else if f64_less (f64_of_ratio 40 100) rate then
        f64_add b (f64_mul (f64_sub rate (f64_of_ratio 40 100)) (f64_of_int 10))
      else b)"

definition deductions :: "metrics \<Rightarrow> f64" where
  "deductions m =
     (let b = deduct_over (mt_cyclomatic m) 10 (f64_of_int 5) (f64_of_int 4) (f64_of_int 0);
          b = deduct_over (mt_cognitive m) 15 (f64_of_int 5) (f64_of_int 3) b;
          b = deduct_over (mt_max_nest m) 4 (f64_of_int 1) (f64_of_ratio 3 2) b;
          b = deduct_over (mt_max_func_len m) 50 (f64_of_int 10) (f64_of_ratio 3 2) b;
          b = deduct_over (mt_lines m) 500 (f64_of_int 100) (f64_of_ratio 3 2) b;
          b = deduct_over (mt_max_params m) 5 (f64_of_int 1) (f64_of_int 2) b;
          b = f64_add b (f64_mul (mt_repeat_rate m) (f64_of_int 20));
          b = deduct_uncovered m b;
          b = deduct_comments (mt_comment_rate m) b
      in f64_add b (f64_mul (mt_name_rate m) (f64_of_int 20)))"

definition score :: "metrics \<Rightarrow> f64 \<times> f64" where
  "score m =
     (let b = deductions m;
          b = (if f64_less (f64_of_int 100) b then f64_of_int 100 else b);
          b = (if f64_less b (f64_of_int 0) then f64_of_int 0 else b)
      in (f64_sub (f64_of_int 100) b, b))"

datatype grade = Clear | Slight | Smelly | Rebuild

text \<open>\<open>level\<close>; the four texts are the constructors of \<open>grade\<close>.\<close>

definition level :: "f64 \<Rightarrow> grade" where
  "level sc =
     (if \<not> f64_less sc (f64_of_int 90) then Clear
      else if \<not> f64_less sc (f64_of_int 75) then Slight
      else if \<not> f64_less sc (f64_of_int 60) then Smelly
      else Rebuild)"

subsection \<open>The analysis of a file\<close>

definition max_of :: "(func_metric \<Rightarrow> int) \<Rightarrow> func_metric list \<Rightarrow> int" where
  "max_of f fs = fold (\<lambda>x m. if m < f x then f x else m) fs 0"

definition count_code :: "nat set \<Rightarrow> string list \<Rightarrow> int" where
  "count_code comments lns = int (length (filter (\<lambda>(i, l). \<not> (trim_ws l = [] \<or> Suc i \<in> comments)) (enumerate 0 lns)))"

text \<open>\<open>Some None\<close> is a source that does not parse; \<open>None\<close> is a panic in \<open>comment_lines\<close>.\<close>

definition analyze :: "string \<Rightarrow> metrics option option" where
  "analyze src = (case parse src of
       (Some m, None) \<Rightarrow>
         (case comment_lines src of
            None \<Rightarrow> None
          | Some comments \<Rightarrow>
              (let lns = split_on newline src;
                   a = walk (an_stmt 0) (mod_stmts m) analyzer_new
               in Some (Some \<lparr>mt_cyclomatic = an_cyclo a + 1, mt_cognitive = an_cog a, mt_max_nest = an_max a,
                    mt_func_count = int (length (an_fns a)), mt_max_func_len = max_of fm_length (an_fns a),
                    mt_max_params = max_of fm_params (an_fns a), mt_try_count = an_try a, mt_raise_count = an_raise a,
                    mt_lines = int (length lns), mt_code_lines = count_code (set comments) lns,
                    mt_comment_rate = f64_of_ratio (int (length comments)) (int (length lns)),
                    mt_repeat_rate = repeat_rate lns (set comments), mt_name_rate = name_rate m,
                    mt_functions = an_fns a\<rparr>)))
     | _ \<Rightarrow> Some None)"

end
