(* ===== verification/Fly_Analyze_Facts.thy ===== *)
theory Fly_Analyze_Facts
  imports Fly_Analyze
begin

text \<open>
  The walk of the analysis against a declarative reading: a program is the list of its statements with
  their nesting depths, and every count is a sum over that list.
\<close>

subsection \<open>The statements of a program\<close>

fun decs :: "expr \<Rightarrow> int"
  and kwarg_decs :: "kwarg \<Rightarrow> int"
  and clause_decs :: "comp_clause \<Rightarrow> int" where
  "decs (Call _ f args kwargs star dbl_star) =
     decs f + sum_list (map decs (args @ opt_list star @ opt_list dbl_star)) + sum_list (map kwarg_decs kwargs)"
| "decs (Attr _ x _) = decs x"
| "decs (Subscript _ x index) = decs x + decs index"
| "decs (Slice _ lo hi step) = sum_list (map decs (opt_list lo @ opt_list hi @ opt_list step))"
| "decs (BinOp _ _ x y) = decs x + decs y"
| "decs (UnaryOp _ _ x) = decs x"
| "decs (BoolOp _ opr x y) = (if opr = ''and'' \<or> opr = ''or'' then 1 else 0) + decs x + decs y"
| "decs (Compare _ x _ ys) = decs x + sum_list (map decs ys)"
| "decs (Cond _ c t e) = 1 + decs c + decs t + decs e"
| "decs (ListLit _ es) = sum_list (map decs es)"
| "decs (TupleLit _ es _) = sum_list (map decs es)"
| "decs (SetLit _ es) = sum_list (map decs es)"
| "decs (DictLit _ ks vs) = sum_list (map (\<lambda>(k, v). decs k + decs v) (zip ks vs))"
| "decs (ListComp _ el cs) = decs el + sum_list (map clause_decs cs)"
| "decs (Name _ _) = 0"
| "decs (IntLit _ _) = 0"
| "decs (FloatLit _ _) = 0"
| "decs (StringLit _ _) = 0"
| "decs (EllipsisLit _) = 0"
| "kwarg_decs (KwArg _ _ v) = decs v"
| "clause_decs (CompClause _ it ifs) = 1 + decs it + sum_list (map (\<lambda>x. 1 + decs x) ifs)"

fun elif_cond :: "elif_clause \<Rightarrow> expr" where "elif_cond (ElifClause _ c _) = c"
fun elif_body :: "elif_clause \<Rightarrow> stmt list" where "elif_body (ElifClause _ _ b) = b"
fun handler_body :: "except_clause \<Rightarrow> stmt list" where "handler_body (ExceptClause _ _ _ b) = b"

text \<open>The expressions and the statements directly inside a statement.\<close>

fun s_exprs :: "stmt \<Rightarrow> expr list" where
  "s_exprs (FuncDef _ _ ps _ _ _) = concat (map (\<lambda>p. opt_list (prm_default p)) ps)"
| "s_exprs (If _ c _ elifs _) = c # map elif_cond elifs"
| "s_exprs (For _ target it _ _) = [target, it]"
| "s_exprs (While _ c _ _) = [c]"
| "s_exprs (Raise _ exc frm) = opt_list exc @ opt_list frm"
| "s_exprs (Assign _ ls _ r) = ls @ [r]"
| "s_exprs (ExprStmt _ x) = [x]"
| "s_exprs (Guard _ _ _ conds) = conds"
| "s_exprs (Lock _ _ v) = opt_list v"
| "s_exprs (Return _ v) = opt_list v"
| "s_exprs (Delete _ ts) = ts"
| "s_exprs _ = []"

fun s_kids :: "stmt \<Rightarrow> stmt list" where
  "s_kids (FuncDef _ _ _ _ body _) = body"
| "s_kids (If _ _ th elifs els) = th @ concat (map elif_body elifs) @ els"
| "s_kids (For _ _ _ body els) = body @ els"
| "s_kids (While _ _ body els) = body @ els"
| "s_kids (Try _ body hs els fin) = body @ concat (map handler_body hs) @ els @ fin"
| "s_kids (ClassDef _ _ _ body _ _) = body"
| "s_kids (Only _ _ body) = body"
| "s_kids (Trace _ _ _ _ body) = body"
| "s_kids (Cage _ _ _ _ _ body) = body"
| "s_kids _ = []"

lemma size_in: "t \<in> set ts \<Longrightarrow> size t \<le> size_list size (ts :: 'a :: size list)"
  by (rule size_list_estimation') auto

lemma size_elif_body: "t \<in> set (elif_body e) \<Longrightarrow> size t < size e"
  by (cases e) (auto dest: size_in)

lemma size_handler_body: "t \<in> set (handler_body e) \<Longrightarrow> size t < size e"
  by (cases e) (auto dest: size_in)

lemma size_s_kids [termination_simp]: "t \<in> set (s_kids s) \<Longrightarrow> size t < size s"
  by (cases s) (auto dest!: size_in size_elif_body size_handler_body)

fun nodes :: "int \<Rightarrow> stmt \<Rightarrow> (int \<times> stmt) list" where
  "nodes d s = concat (map (nodes (d + 1)) (s_kids s)) @ [(d, s)]"

declare nodes.simps [simp del]

definition program_nodes :: "stmt list \<Rightarrow> (int \<times> stmt) list" where
  "program_nodes ss = concat (map (nodes 0) ss)"

subsection \<open>What a statement counts for\<close>

definition branches :: "stmt \<Rightarrow> int" where
  "branches s = (case s of
       If _ _ _ elifs _ \<Rightarrow> 1 + int (length elifs)
     | For _ _ _ _ _ \<Rightarrow> 1
     | While _ _ _ _ \<Rightarrow> 1
     | Try _ _ hs _ _ \<Rightarrow> 1 + int (length hs)
     | _ \<Rightarrow> 0)"

definition expr_decs :: "stmt \<Rightarrow> int" where
  "expr_decs s = sum_list (map decs (s_exprs s))"

fun is_func :: "stmt \<Rightarrow> bool" where "is_func (FuncDef _ _ _ _ _ _) = True" | "is_func _ = False"
fun is_class :: "stmt \<Rightarrow> bool" where "is_class (ClassDef _ _ _ _ _ _) = True" | "is_class _ = False"
fun is_guard :: "stmt \<Rightarrow> bool" where "is_guard (Guard _ _ _ _) = True" | "is_guard _ = False"
fun is_try :: "stmt \<Rightarrow> bool" where "is_try (Try _ _ _ _ _) = True" | "is_try _ = False"
fun is_raise :: "stmt \<Rightarrow> bool" where "is_raise (Raise _ _ _) = True" | "is_raise _ = False"

definition node_cyclo :: "int \<times> stmt \<Rightarrow> int" where
  "node_cyclo = (\<lambda>(d, s). branches s + expr_decs s + of_bool (is_guard s))"

definition node_cog :: "int \<times> stmt \<Rightarrow> int" where
  "node_cog = (\<lambda>(d, s). (branches s + of_bool (is_func s \<or> is_class s)) * (1 + d) + expr_decs s * (2 + d))"

text \<open>
  All the counts of the walk are of one form.  A locale states how a counter reacts to the steps of
  the walk; inside it the sum over the statements is proved once.
\<close>

definition node_weight :: "(int \<Rightarrow> int) \<Rightarrow> (int \<Rightarrow> int) \<Rightarrow> int \<Rightarrow> int \<Rightarrow> int \<Rightarrow> int \<Rightarrow> int \<times> stmt \<Rightarrow> int" where
  "node_weight dec def fn tr ra gu = (\<lambda>(d, s).
     branches s * dec d + expr_decs s * dec (d + 1) + of_bool (is_func s \<or> is_class s) * def d +
     of_bool (is_func s) * fn + of_bool (is_try s) * tr + of_bool (is_raise s) * ra + of_bool (is_guard s) * gu)"

lemma sum_concat: "sum_list (map f (concat xss)) = sum_list (map (\<lambda>xs. sum_list (map f xs)) xss :: int list)"
  by (induction xss) simp_all

locale counter =
  fixes P :: "analyzer \<Rightarrow> int" and dec def :: "int \<Rightarrow> int" and fn tr ra gu :: int
  assumes on_decision: "P (decision d a) = P a + dec d"
    and on_enter: "P (enter d p a) = P a"
    and on_add_cog: "P (add_cog d a) = P a + def d"
    and on_func: "P (func_done p name n a b) = P b + fn"
    and on_try: "P (a\<lparr>an_try := an_try a + 1\<rparr>) = P a + tr"
    and on_raise: "P (a\<lparr>an_raise := an_raise a + 1\<rparr>) = P a + ra"
    and on_guard: "P (a\<lparr>an_cyclo := an_cyclo a + 1\<rparr>) = P a + gu"
begin

lemmas on_step = on_decision on_enter on_add_cog on_func on_try on_raise on_guard

lemma on_walk: "(\<And>x a. x \<in> set xs \<Longrightarrow> P (f x a) = P a + g x * k) \<Longrightarrow> P (walk f xs a) = P a + sum_list (map g xs) * k"
  by (induction xs arbitrary: a) (simp_all add: walk_def algebra_simps)

lemmas expr_walks =
  on_walk [of _ "an_expr d" decs "dec d" for d] on_walk [of _ "an_kwarg d" kwarg_decs "dec d" for d]
  on_walk [of _ "an_clause d" clause_decs "dec d" for d]
  on_walk [of _ "\<lambda>x a. an_expr d x (decision d a)" "\<lambda>x. 1 + decs x" "dec d" for d]
  on_walk [of _ "\<lambda>(k, v) a. an_expr d v (an_expr d k a)" "\<lambda>(k, v). decs k + decs v" "dec d" for d]

lemma on_expr:
  "P (an_expr d e a) = P a + decs e * dec d"
  "P (an_kwarg d kw a) = P a + kwarg_decs kw * dec d"
  "P (an_clause d cl a) = P a + clause_decs cl * dec d"
  by (induction d e a and d kw a and d cl a rule: an_expr_an_kwarg_an_clause.induct)
    (simp_all add: on_step expr_walks split_beta distrib_right)

definition weight :: "int \<Rightarrow> stmt \<Rightarrow> int" where
  "weight d s = sum_list (map (node_weight dec def fn tr ra gu) (nodes d s))"

lemma weight_rec: "weight d s = sum_list (map (weight (d + 1)) (s_kids s)) + node_weight dec def fn tr ra gu (d, s)"
  unfolding weight_def nodes.simps [of d s]
  by (simp add: sum_concat o_def weight_def)

lemma on_walk_1: "(\<And>x a. x \<in> set xs \<Longrightarrow> P (f x a) = P a + g x) \<Longrightarrow> P (walk f xs a) = P a + sum_list (map g xs)"
  using on_walk [of xs f g 1] by simp

lemma on_default: "P (an_default d p a) = P a + sum_list (map decs (opt_list (prm_default p))) * dec d"
  by (simp add: an_default_def expr_walks on_expr)

definition elif_weight :: "int \<Rightarrow> elif_clause \<Rightarrow> int" where
  "elif_weight d e = dec d + decs (elif_cond e) * dec (d + 1) + sum_list (map (weight (d + 1)) (elif_body e))"

definition handler_weight :: "int \<Rightarrow> except_clause \<Rightarrow> int" where
  "handler_weight d h = dec d + sum_list (map (weight (d + 1)) (handler_body h))"

lemmas stmt_walks =
  on_walk_1 [of _ "an_stmt d" "weight d" for d] on_walk_1 [of _ "an_elif d" "elif_weight d" for d]
  on_walk_1 [of _ "an_handler d" "handler_weight d" for d]
  on_walk [of _ "an_default d" "\<lambda>p. sum_list (map decs (opt_list (prm_default p)))" "dec d" for d]

lemma sum_elif_weight:
  "sum_list (map (elif_weight d) es) = int (length es) * dec d + sum_list (map (\<lambda>e. decs (elif_cond e)) es) * dec (d + 1) +
     sum_list (map (weight (d + 1)) (concat (map elif_body es)))"
  by (induction es) (simp_all add: elif_weight_def algebra_simps)

lemma sum_handler_weight:
  "sum_list (map (handler_weight d) hs) = int (length hs) * dec d + sum_list (map (weight (d + 1)) (concat (map handler_body hs)))"
  by (induction hs) (simp_all add: handler_weight_def algebra_simps)

lemmas weight_simps =
  weight_rec [of _ "FuncDef _ _ _ _ _ _"] weight_rec [of _ "If _ _ _ _ _"] weight_rec [of _ "For _ _ _ _ _"]
  weight_rec [of _ "While _ _ _ _"] weight_rec [of _ "Try _ _ _ _ _"] weight_rec [of _ "Raise _ _ _"]
  weight_rec [of _ "Assign _ _ _ _"] weight_rec [of _ "ExprStmt _ _"] weight_rec [of _ "Guard _ _ _ _"]
  weight_rec [of _ "ClassDef _ _ _ _ _ _"] weight_rec [of _ "Lock _ _ _"] weight_rec [of _ "Return _ _"]
  weight_rec [of _ "Delete _ _"] weight_rec [of _ "Only _ _ _"] weight_rec [of _ "Trace _ _ _ _ _"]
  weight_rec [of _ "Cage _ _ _ _ _ _"] weight_rec [of _ "Import _ _"] weight_rec [of _ "FromImport _ _ _"]
  weight_rec [of _ "Safe _ _"] weight_rec [of _ "Mask _ _"] weight_rec [of _ "Pass _"] weight_rec [of _ "Break _"]
  weight_rec [of _ "Continue _"]

lemma on_stmt:
  "P (an_stmt d s a) = P a + weight d s"
  "P (an_elif d e a) = P a + elif_weight d e"
  "P (an_handler d h a) = P a + handler_weight d h"
  by (induction d s a and d e a and d h a rule: an_stmt_an_elif_an_handler.induct)
    (simp_all add: weight_simps Let_def on_step stmt_walks expr_walks on_expr on_default
      sum_elif_weight sum_handler_weight node_weight_def branches_def expr_decs_def elif_weight_def [of _ "ElifClause _ _ _"]
      handler_weight_def [of _ "ExceptClause _ _ _ _"] distrib_right sum_concat o_def)

end

interpretation cyclo: counter an_cyclo "\<lambda>_. 1" "\<lambda>_. 0" 0 0 0 1
  by unfold_locales (simp_all add: decision_def enter_def add_cog_def func_done_def Let_def)

interpretation cog: counter an_cog "\<lambda>d. 1 + d" "\<lambda>d. 1 + d" 0 0 0 0
  by unfold_locales (simp_all add: decision_def enter_def add_cog_def func_done_def Let_def)

interpretation tries: counter an_try "\<lambda>_. 0" "\<lambda>_. 0" 0 1 0 0
  by unfold_locales (simp_all add: decision_def enter_def add_cog_def func_done_def Let_def)

interpretation raises: counter an_raise "\<lambda>_. 0" "\<lambda>_. 0" 0 0 1 0
  by unfold_locales (simp_all add: decision_def enter_def add_cog_def func_done_def Let_def)

interpretation funcs: counter "\<lambda>a. int (length (an_fns a))" "\<lambda>_. 0" "\<lambda>_. 0" 1 0 0 0
  by unfold_locales (simp_all add: decision_def enter_def add_cog_def func_done_def Let_def)

lemma node_weights:
  "node_weight (\<lambda>_. 1) (\<lambda>_. 0) 0 0 0 1 = node_cyclo"
  "node_weight (\<lambda>d. 1 + d) (\<lambda>d. 1 + d) 0 0 0 0 = node_cog"
  by (auto simp: node_weight_def node_cyclo_def node_cog_def fun_eq_iff algebra_simps)

lemma cyclo_stmt: "an_cyclo (an_stmt d s a) = an_cyclo a + sum_list (map node_cyclo (nodes d s))"
  using cyclo.on_stmt(1) [of d s a] by (simp add: cyclo.weight_def node_weights)

lemma cog_stmt: "an_cog (an_stmt d s a) = an_cog a + sum_list (map node_cog (nodes d s))"
  using cog.on_stmt(1) [of d s a] by (simp add: cog.weight_def node_weights)

lemma walk_sum:
  "(\<And>x a. x \<in> set xs \<Longrightarrow> P (f x a) = P a + sum_list (map w (g x))) \<Longrightarrow>
   P (walk f xs a) = P a + (sum_list (map w (concat (map g xs))) :: int)"
  by (induction xs arbitrary: a) (simp_all add: walk_def)

subsection \<open>Nesting\<close>

definition peak :: "(int \<times> stmt) list \<Rightarrow> int \<Rightarrow> int" where
  "peak ns m = foldr (\<lambda>(d, s). max (d + 1)) ns m"

lemma peak_simps: "peak [] m = m" "peak ((d, s) # ns) m = max (d + 1) (peak ns m)" "peak (xs @ ys) m = peak xs (peak ys m)"
  by (simp_all add: peak_def)

lemma peak_max: "peak ns (max k m) = max k (peak ns m)"
  by (induction ns) (auto simp: peak_def)

lemma peak_swap: "peak xs (peak ys m) = peak ys (peak xs m)"
  by (induction xs) (auto simp: peak_simps peak_max)

lemma peak_Max: "peak ns m = Max (insert m ((\<lambda>(d, s). d + 1) ` set ns))"
proof (induction ns)
  case (Cons n ns)
  then show ?case by (cases n) (simp add: peak_simps insert_commute [of m])
qed (simp add: peak_def)

lemma max_walk: "(\<And>x a. x \<in> set xs \<Longrightarrow> an_max (f x a) = peak (g x) (an_max a)) \<Longrightarrow> an_max (walk f xs a) = peak (concat (map g xs)) (an_max a)"
  by (induction xs arbitrary: a) (simp_all add: walk_def peak_simps peak_swap)

text \<open>Expressions leave nesting, lines and functions alone.\<close>

definition shape :: "analyzer \<Rightarrow> int \<times> func_metric list \<times> int" where
  "shape a = (an_max a, an_fns a, an_cur a)"

lemma shape_walk: "(\<And>x a. x \<in> set xs \<Longrightarrow> shape (f x a) = shape a) \<Longrightarrow> shape (walk f xs a) = shape a"
  by (induction xs arbitrary: a) (simp_all add: walk_def)

lemma shape_steps: "shape (decision d a) = shape a" "shape (add_cog d a) = shape a"
  "shape (a\<lparr>an_try := t\<rparr>) = shape a" "shape (a\<lparr>an_raise := t\<rparr>) = shape a" "shape (a\<lparr>an_cyclo := t\<rparr>) = shape a"
  by (simp_all add: shape_def decision_def add_cog_def)

lemma shape_expr: "shape (an_expr d e a) = shape a" "shape (an_kwarg d kw a) = shape a" "shape (an_clause d cl a) = shape a"
  by (induction d e a and d kw a and d cl a rule: an_expr_an_kwarg_an_clause.induct)
    (simp_all add: shape_walk shape_steps split_beta)

lemma shape_exprs: "shape (walk (an_expr d) es a) = shape a" "shape (walk (an_default d) ps a) = shape a"
  by (simp_all add: shape_walk shape_expr an_default_def)

lemmas shapes = shape_expr shape_exprs shape_steps

lemma shape_fields: "shape a = shape b \<Longrightarrow> an_max a = an_max b" "shape a = shape b \<Longrightarrow> an_fns a = an_fns b"
  by (simp_all add: shape_def)

lemmas max_of_shape = shapes [THEN shape_fields(1)]
lemmas fns_of_shape = shapes [THEN shape_fields(2)]

fun elif_nodes :: "int \<Rightarrow> elif_clause \<Rightarrow> (int \<times> stmt) list" where
  "elif_nodes d (ElifClause _ _ b) = concat (map (nodes (d + 1)) b)"

fun handler_nodes :: "int \<Rightarrow> except_clause \<Rightarrow> (int \<times> stmt) list" where
  "handler_nodes d (ExceptClause _ _ _ b) = concat (map (nodes (d + 1)) b)"

lemma concat_bodies:
  "concat (map (nodes (d + 1)) (concat (map elif_body es))) = concat (map (elif_nodes d) es)"
  "concat (map (nodes (d + 1)) (concat (map handler_body hs))) = concat (map (handler_nodes d) hs)"
proof -
  have "elif_nodes d e = concat (map (nodes (d + 1)) (elif_body e))" for e by (cases e) simp
  then show "concat (map (nodes (d + 1)) (concat (map elif_body es))) = concat (map (elif_nodes d) es)"
    by (induction es) simp_all
  have "handler_nodes d h = concat (map (nodes (d + 1)) (handler_body h))" for h by (cases h) simp
  then show "concat (map (nodes (d + 1)) (concat (map handler_body hs))) = concat (map (handler_nodes d) hs)"
    by (induction hs) simp_all
qed

lemmas node_lists = nodes.simps [of _ "FuncDef _ _ _ _ _ _"] nodes.simps [of _ "If _ _ _ _ _"] nodes.simps [of _ "For _ _ _ _ _"]
  nodes.simps [of _ "While _ _ _ _"] nodes.simps [of _ "Try _ _ _ _ _"] nodes.simps [of _ "Raise _ _ _"]
  nodes.simps [of _ "Assign _ _ _ _"] nodes.simps [of _ "ExprStmt _ _"] nodes.simps [of _ "Guard _ _ _ _"]
  nodes.simps [of _ "ClassDef _ _ _ _ _ _"] nodes.simps [of _ "Lock _ _ _"] nodes.simps [of _ "Return _ _"]
  nodes.simps [of _ "Delete _ _"] nodes.simps [of _ "Only _ _ _"] nodes.simps [of _ "Trace _ _ _ _ _"]
  nodes.simps [of _ "Cage _ _ _ _ _ _"] nodes.simps [of _ "Import _ _"] nodes.simps [of _ "FromImport _ _ _"]
  nodes.simps [of _ "Safe _ _"] nodes.simps [of _ "Mask _ _"] nodes.simps [of _ "Pass _"] nodes.simps [of _ "Break _"]
  nodes.simps [of _ "Continue _"]

lemma max_func_done: "an_max (func_done p name n a b) = an_max b"
  by (simp add: func_done_def Let_def)

lemma max_stmt:
  "an_max (an_stmt d s a) = peak (nodes d s) (an_max a)"
  "an_max (an_elif d e a) = peak (elif_nodes d e) (an_max a)"
  "an_max (an_handler d h a) = peak (handler_nodes d h) (an_max a)"
  by (induction d s a and d e a and d h a rule: an_stmt_an_elif_an_handler.induct)
    (simp_all add: node_lists Let_def max_of_shape max_func_done enter_def max.commute peak_simps peak_swap peak_max concat_bodies
      max_walk [of _ "an_stmt d" "nodes d" for d] max_walk [of _ "an_elif d" "elif_nodes d" for d]
      max_walk [of _ "an_handler d" "handler_nodes d" for d])

subsection \<open>Functions\<close>

type_synonym signature = "string \<times> int \<times> int \<times> int \<times> int"

definition sig_of :: "func_metric \<Rightarrow> signature" where
  "sig_of f = (fm_name f, fm_line f, fm_params f, fm_cyclo f, fm_cognit f)"

text \<open>What a function is reported with: its own statements and the defaults of its parameters.\<close>

fun signatures :: "int \<times> stmt \<Rightarrow> signature list" where
  "signatures (d, FuncDef p name ps _ body _) =
     (let ns = concat (map (nodes (d + 1)) body); k = expr_decs (FuncDef p name ps None body []) in
      [(name, int (pos_line p), int (length ps), k + sum_list (map node_cyclo ns), k * (2 + d) + sum_list (map node_cog ns))])"
| "signatures _ = []"

definition sigs :: "analyzer \<Rightarrow> signature list" where
  "sigs a = map sig_of (an_fns a)"

lemma sigs_walk: "(\<And>x a. x \<in> set xs \<Longrightarrow> sigs (f x a) = sigs a @ concat (map signatures (g x))) \<Longrightarrow>
   sigs (walk f xs a) = sigs a @ concat (map signatures (concat (map g xs)))"
  by (induction xs arbitrary: a) (simp_all add: walk_def)

lemma sigs_shape: "shape a = shape b \<Longrightarrow> sigs a = sigs b"
  by (simp add: shape_def sigs_def)

lemmas sigs_of_shape = shapes [THEN sigs_shape]

lemma sigs_enter: "sigs (enter d p a) = sigs a"
  by (simp add: sigs_def enter_def)

lemma cyclo_defaults: "an_cyclo (walk (an_default d) ps a) = an_cyclo a + sum_list (map decs (concat (map (\<lambda>p. opt_list (prm_default p)) ps)))"
  using cyclo.on_walk [of ps "an_default d" "\<lambda>p. sum_list (map decs (opt_list (prm_default p)))" 1 a]
  by (simp add: cyclo.on_default sum_concat o_def)

lemma cog_defaults: "an_cog (walk (an_default d) ps a) = an_cog a + sum_list (map decs (concat (map (\<lambda>p. opt_list (prm_default p)) ps))) * (1 + d)"
  using cog.on_walk [of ps "an_default d" "\<lambda>p. sum_list (map decs (opt_list (prm_default p)))" "1 + d" a]
  by (simp add: cog.on_default sum_concat o_def)

lemma sigs_func_done:
  "sigs (func_done p name n a b) = sigs b @ [(name, int (pos_line p), int n, an_cyclo b - an_cyclo a, an_cog b - an_cog a)]"
  by (simp add: sigs_def sig_of_def func_done_def Let_def)

lemma sigs_stmt:
  "sigs (an_stmt d s a) = sigs a @ concat (map signatures (nodes d s))"
  "sigs (an_elif d e a) = sigs a @ concat (map signatures (elif_nodes d e))"
  "sigs (an_handler d h a) = sigs a @ concat (map signatures (handler_nodes d h))"
  by (induction d s a and d e a and d h a rule: an_stmt_an_elif_an_handler.induct)
    (simp_all add: node_lists Let_def sigs_of_shape sigs_func_done sigs_enter concat_bodies expr_decs_def
      walk_sum [where P = an_cyclo and w = node_cyclo and g = "nodes d" for d] cyclo_stmt cyclo_defaults
      walk_sum [where P = an_cog and w = node_cog and g = "nodes d" for d] cog_stmt cog_defaults
      sigs_walk [of _ "an_stmt d" "nodes d" for d] sigs_walk [of _ "an_elif d" "elif_nodes d" for d]
      sigs_walk [of _ "an_handler d" "handler_nodes d" for d])

subsection \<open>The counts of a program\<close>

text \<open>
  C22: the analysis counts what a declarative reading of the tree counts.  Over all statements of the
  program with their depths: the cyclomatic number adds up branches, guards and decisions in
  expressions; the cognitive number adds up the same, weighted by depth, with functions and classes;
  nesting is the greatest depth; and every function is reported once, in the order in which
  definitions end, with the sums over its own statements.\<close>

theorem analysis_counts:
  "let a = walk (an_stmt 0) ss analyzer_new; ns = program_nodes ss in
     an_cyclo a = sum_list (map node_cyclo ns) \<and>
     an_cog a = sum_list (map node_cog ns) \<and>
     an_max a = Max (insert 0 ((\<lambda>(d, s). d + 1) ` set ns)) \<and>
     an_try a = int (length (filter (\<lambda>(d, s). is_try s) ns)) \<and>
     an_raise a = int (length (filter (\<lambda>(d, s). is_raise s) ns)) \<and>
     map sig_of (an_fns a) = concat (map signatures ns)"
proof -
  define a where "a = walk (an_stmt 0) ss analyzer_new"
  let ?ns = "program_nodes ss"
  have count: "sum_list (map (\<lambda>(d, s). of_bool (Q s)) ns) = int (length (filter (\<lambda>(d, s). Q s) ns))" for Q and ns :: "(int \<times> stmt) list"
    by (induction ns) auto
  have weights: "node_weight (\<lambda>_. 0) (\<lambda>_. 0) 0 1 0 0 = (\<lambda>(d, s). of_bool (is_try s))"
    "node_weight (\<lambda>_. 0) (\<lambda>_. 0) 0 0 1 0 = (\<lambda>(d, s). of_bool (is_raise s))"
    by (auto simp: node_weight_def fun_eq_iff)
  have "an_cyclo a = sum_list (map node_cyclo ?ns)" "an_cog a = sum_list (map node_cog ?ns)"
    unfolding a_def program_nodes_def
    by (simp_all add: walk_sum [where P = an_cyclo and w = node_cyclo and g = "nodes 0"] cyclo_stmt
      walk_sum [where P = an_cog and w = node_cog and g = "nodes 0"] cog_stmt analyzer_new_def)
  moreover have "an_max a = peak ?ns 0"
    unfolding a_def program_nodes_def by (simp add: max_walk [of _ _ "nodes 0"] max_stmt(1) analyzer_new_def)
  moreover have "an_try a = int (length (filter (\<lambda>(d, s). is_try s) ?ns))"
    unfolding a_def program_nodes_def count [symmetric]
    by (subst walk_sum [where w = "\<lambda>(d, s). of_bool (is_try s)" and g = "nodes 0"])
      (simp_all add: tries.on_stmt(1) tries.weight_def weights analyzer_new_def)
  moreover have "an_raise a = int (length (filter (\<lambda>(d, s). is_raise s) ?ns))"
    unfolding a_def program_nodes_def count [symmetric]
    by (subst walk_sum [where w = "\<lambda>(d, s). of_bool (is_raise s)" and g = "nodes 0"])
      (simp_all add: raises.on_stmt(1) raises.weight_def weights analyzer_new_def)
  moreover have "sigs a = concat (map signatures ?ns)"
    unfolding a_def program_nodes_def by (simp add: sigs_walk [of _ _ "nodes 0"] sigs_stmt(1)) (simp add: sigs_def analyzer_new_def)
  ultimately show ?thesis by (simp add: a_def [symmetric] peak_Max sigs_def Let_def)
qed

subsection \<open>Nesting and length of functions\<close>

text \<open>\<open>n\<close> blocks inside each other, on the lines from \<open>k\<close> on.\<close>

primrec deep :: "nat \<Rightarrow> nat \<Rightarrow> stmt" where
  "deep 0 k = Pass \<lparr>pos_line = k, pos_col = 1\<rparr>"
| "deep (Suc n) k = Only \<lparr>pos_line = k, pos_col = 1\<rparr> [''sys''] [deep n (Suc k)]"

text \<open>
  Note: nesting and length are not properties of the function: its nesting is what it adds to the
  deepest nesting seen so far in the file, so that the same function is reported as complex when it
  stands alone, and with nesting 0 behind deeper code; and the lines of a function defined inside a
  function do not count for the length of the outer one.\<close>

theorem function_metrics_misjudged:
  "let pos = (\<lambda>l. \<lparr>pos_line = l, pos_col = 1\<rparr>);
       f = (\<lambda>l body. FuncDef (pos l) ''f'' [] None body []);
       report = (\<lambda>ss. map (\<lambda>m. (fm_length m, fm_nest m, fm_complex m)) (an_fns (walk (an_stmt 0) ss analyzer_new)))
   in report [f 1 [deep 5 2]] = [(7, 6, True)] \<and>
      report [deep 6 1, f 8 [deep 5 9]] = [(7, 0, False)] \<and>
      report [f 1 [f 2 [Pass (pos 3), Pass (pos 4)]]] = [(3, 1, False), (2, 2, False)]"
  by code_simp

subsection \<open>The score\<close>

lemma half_even_div_le: "p \<le> n * q \<Longrightarrow> 0 < q \<Longrightarrow> half_even_div p q \<le> n"
proof -
  assume p: "p \<le> n * q" and q: "0 < q"
  show "half_even_div p q \<le> n"
  proof (cases "p = n * q")
    case True
    with q show ?thesis by (simp add: half_even_div_def Let_def)
  next
    case False
    with p have "p < n * q" by simp
    moreover have "p div q * q \<le> p" using div_mult_mod_eq [of p q] pos_mod_sign [OF q, of p] by linarith
    ultimately have "p div q < n" using q mult_right_mono [of n "p div q" q] by (meson leD le_less_trans less_imp_le not_le)
    then show ?thesis by (simp add: half_even_div_def Let_def)
  qed
qed

lemma hundred: "f64_of_int 100 = F64 (100 * 2 ^ 46) (- 46)" and zero: "f64_of_int 0 = F64 0 0"
  by code_simp+

lemma ratio_exponent:
  assumes "0 < p" "0 < q" "p \<le> 100 * q"
  shows "(if scale q (bitlen p - bitlen q) \<le> scale p (- (bitlen p - bitlen q)) then bitlen p - bitlen q else bitlen p - bitlen q - 1) \<le> 6"
proof -
  define k where "k = bitlen p - bitlen q"
  have "p < 2 ^ nat (bitlen p)" "2 ^ nat (bitlen p - 1) \<le> p" "q < 2 ^ nat (bitlen q)" "1 \<le> bitlen q" "1 \<le> bitlen p"
    using assms bitlen_bounds [of p] bitlen_bounds [of q] by (auto simp: bitlen_alt_def)
  note b = this
  have "k \<le> 7"
  proof (rule ccontr)
    assume "\<not> ?thesis"
    then have "nat (bitlen q) + 7 \<le> nat (bitlen p - 1)" using b(4) by (simp add: k_def)
    then have "(2 :: int) ^ (nat (bitlen q) + 7) \<le> 2 ^ nat (bitlen p - 1)" by (rule power_increasing) simp
    with b(2,3) assms show False by (simp add: power_add)
  qed
  moreover have "\<not> scale q 7 \<le> scale p (- 7)" using assms by (simp add: scale_def)
  ultimately show ?thesis unfolding k_def [symmetric] by (cases "k = 7") auto
qed

lemma ratio_le_100:
  assumes "0 \<le> p" "0 < q" "p \<le> 100 * q"
  shows "\<exists>m e. f64_of_ratio p q = F64 m e \<and> 0 \<le> m \<and> \<not> f64_less (f64_of_int 100) (F64 m e) \<and> \<not> f64_less (F64 m e) (f64_of_int 0)"
proof (cases "p = 0")
  case True
  then show ?thesis unfolding hundred zero by (simp add: f64_of_ratio_def scale_def)
next
  case False
  with assms have p: "0 < p" by simp
  define lg where "lg = (if scale q (bitlen p - bitlen q) \<le> scale p (- (bitlen p - bitlen q)) then bitlen p - bitlen q else bitlen p - bitlen q - 1)"
  define e where "e = max (lg - 52) (- 1074)"
  define m where "m = half_even_div (scale p (- e)) (scale q e)"
  have e: "e \<le> - 46" using ratio_exponent [OF p assms(2,3)] by (simp add: e_def lg_def)
  have "scale p (- e) \<le> (100 * 2 ^ nat (- e)) * scale q e"
    using assms(3) e by (simp add: scale_def mult.commute mult.left_commute)
  then have m: "m \<le> 100 * 2 ^ nat (- e)" unfolding m_def
    by (rule half_even_div_le) (use assms(2) in \<open>simp add: scale_def\<close>)
  have "0 \<le> scale p (- e) div scale q e" using p assms(2) by (simp add: scale_def pos_imp_zdiv_nonneg_iff)
  then have m0: "0 \<le> m" by (simp add: m_def half_even_div_def Let_def)
  have pow: "(2 :: int) ^ 46 * 2 ^ nat (- 46 - e) = 2 ^ nat (- e)"
    unfolding power_add [symmetric] by (rule arg_cong [of _ _ "\<lambda>n. 2 ^ n"]) (use e in linarith)
  have ratio: "f64_of_ratio p q = (if m = 2 ^ 53 then F64 (2 ^ 52) (e + 1) else if m = 0 then F64 0 0 else F64 m e)"
    using e False unfolding f64_of_ratio_def Let_def lg_def [symmetric] e_def [symmetric] m_def [symmetric] by auto
  show ?thesis
  proof (cases "m = 2 ^ 53")
    case True
    have "e \<noteq> - 46" using m True by auto
    with e have e': "e \<le> - 47" by simp
    then have "(2 :: int) ^ nat (- e) = 2 * 2 ^ nat (- 1 - e)"
      unfolding power_Suc [symmetric] by (intro arg_cong [of _ _ "\<lambda>n. 2 ^ n"]) linarith
    moreover have "(2 :: int) ^ 46 * 2 ^ nat (- 47 - e) = 2 ^ nat (- 1 - e)"
      unfolding power_add [symmetric] by (rule arg_cong [of _ _ "\<lambda>n. 2 ^ n"]) (use e' in linarith)
    ultimately show ?thesis using ratio True m e' unfolding hundred zero by (auto simp: scale_def)
  next
    case no: False
    then show ?thesis using ratio m m0 pow e unfolding hundred zero by (auto simp: scale_def)
  qed
qed

text \<open>
  C36: the score stays on its scale: both numbers are between 0 and 100, whatever was measured, and
  they are finite even when a deduction is not.\<close>

theorem score_bounds:
  "case score m of (s, b) \<Rightarrow>
     s \<noteq> F64_Inf \<and> b \<noteq> F64_Inf \<and> \<not> f64_less (f64_of_int 100) s \<and> \<not> f64_less s (f64_of_int 0) \<and>
     \<not> f64_less (f64_of_int 100) b \<and> \<not> f64_less b (f64_of_int 0)"
proof -
  define b where "b = snd (score m)"
  have b: "b \<noteq> F64_Inf" "\<not> f64_less (f64_of_int 100) b" "\<not> f64_less b (f64_of_int 0)"
    unfolding b_def score_def Let_def by (auto simp: hundred zero scale_def split: if_splits) 
  then obtain mb eb where mb: "b = F64 mb eb" by (cases b) auto
  define k where "k = min (- 46) eb"
  let ?p = "scale (scale (100 * 2 ^ 46) (- 46 - k) - scale mb (eb - k)) k" and ?q = "scale 1 (- k)"
  have le: "scale mb (eb - k) \<le> scale (100 * 2 ^ 46) (- 46 - k)" and ge: "0 \<le> scale mb (eb - k)"
    using b(2,3) unfolding mb hundred zero k_def by (auto simp: scale_def zero_le_mult_iff mult_less_0_iff)
  have k: "nat k = 0" by (simp add: k_def)
  have "scale (100 * 2 ^ 46) (- 46 - k) = 100 * 2 ^ nat (- k)"
    unfolding scale_def mult.assoc power_add [symmetric] by (rule arg_cong [of _ _ "\<lambda>n. 100 * 2 ^ n"]) (use k_def in linarith)
  then have "0 \<le> ?p" "0 < ?q" "?p \<le> 100 * ?q" using le ge by (simp_all add: scale_def k)
  from ratio_le_100 [OF this] obtain ms es where "f64_sub (f64_of_int 100) b = F64 ms es"
    "\<not> f64_less (f64_of_int 100) (F64 ms es)" "\<not> f64_less (F64 ms es) (f64_of_int 0)"
    unfolding mb hundred by (auto simp: Let_def k_def)
  moreover have "score m = (f64_sub (f64_of_int 100) b, b)" by (simp add: b_def score_def Let_def)
  ultimately show ?thesis using b by simp
qed

end
