(* ===== verification/Fly_Errorinfo.thy ===== *)
theory Fly_Errorinfo
  imports Fly_Diagnostic
begin

text \<open>
  The registry of error codes with titles, help texts, notes and examples (\<^verbatim>\<open>src/errorinfo.rs\<close>), in five
  parts, and the lookup by code (\<^verbatim>\<open>src/errorcode.rs\<close>).
\<close>

record error_info =
  ei_code :: string
  ei_title :: string
  ei_help :: string
  ei_note :: string
  ei_example :: string

definition info :: "string \<Rightarrow> string \<Rightarrow> string \<Rightarrow> string \<Rightarrow> string \<Rightarrow> error_info" where
  "info code title help note example =
     \<lparr>ei_code = code, ei_title = title, ei_help = help, ei_note = note, ei_example = example\<rparr>"

definition ERROR_INFO_1 :: "error_info list" where
  "ERROR_INFO_1 = [
     info ''E0001''
       (utf8 [232, 175, 173, 230, 179, 149, 228, 184, 141, 229, 140, 185, 233, 133, 141])
       (utf8 [230, 163, 128, 230, 159, 165, 232, 175, 165, 228, 189, 141, 231, 189, 174, 231, 154, 132, 230,
        156, 159, 230, 156, 155, 231, 172, 166, 229, 143, 183, 239, 188, 140, 232, 161, 165, 229, 133, 168,
        230, 136, 150, 228, 191, 174, 230, 173, 163, 232, 175, 173, 230, 179, 149, 231, 187, 147, 230, 158,
        132])
       (''docs/'' @ utf8 [230, 138, 165, 233, 148, 153, 230, 184, 133, 229, 141, 149] @ ''.md#E0001'')
       (''error[E0001]: '' @ utf8 [232, 175, 173, 230, 179, 149, 228, 184, 141, 229, 140, 185, 233, 133,
        141] @ [newline] @ ''  --> example.fly:1:5'' @ [newline] @ ''   |'' @ [newline] @
        ''   1 | x = (1 +'' @ [newline] @ ''   |     ^'' @ [newline] @ ''   |'' @ [newline] @
        ''   = help: '' @ utf8 [230, 156, 159, 230, 156, 155] @ '' :'' @ utf8 [239, 188, 140, 229, 174, 158,
        233, 153, 133, 228, 184, 186] @ '' '' @ utf8 [230, 141, 162, 232, 161, 140, 227, 128, 130, 232, 161,
        165, 229, 133, 168, 232, 161, 168, 232, 190, 190, 229, 188, 143, 230, 136, 150, 232, 175, 173, 230,
        179, 149, 231, 172, 166, 229, 143, 183]),
     info ''E0002''
       (utf8 [230, 156, 159, 230, 156, 155, 232, 161, 168, 232, 190, 190, 229, 188, 143])
       (utf8 [232, 175, 165, 228, 189, 141, 231, 189, 174, 233, 156, 128, 232, 166, 129, 228, 184, 128, 228,
        184, 170, 232, 161, 168, 232, 190, 190, 229, 188, 143])
       (''docs/'' @ utf8 [230, 138, 165, 233, 148, 153, 230, 184, 133, 229, 141, 149] @ ''.md#E0002'')
       (''error[E0002]: '' @ utf8 [230, 156, 159, 230, 156, 155, 232, 161, 168, 232, 190, 190, 229, 188,
        143] @ [newline] @ ''  --> example.fly:2:1'' @ [newline] @ ''   |'' @ [newline] @ ''   2 | x ='' @
        [newline] @ ''   | ^'' @ [newline] @ ''   |'' @ [newline] @ ''   = help: '' @ utf8 [230, 156, 159,
        230, 156, 155, 232, 161, 168, 232, 190, 190, 229, 188, 143, 239, 188, 140, 229, 174, 158, 233, 153,
        133, 228, 184, 186] @ '' '' @ utf8 [230, 141, 162, 232, 161, 140, 227, 128, 130, 229, 156, 168, 232,
        181, 139, 229, 128, 188, 229, 143, 183, 229, 143, 179, 228, 190, 167, 232, 161, 165, 228, 184, 138,
        232, 161, 168, 232, 190, 190, 229, 188, 143]),
     info ''E0003''
       (utf8 [232, 175, 173, 229, 143, 165, 230, 156, 170, 230, 173, 163, 231, 161, 174, 231, 187, 147, 230,
        157, 159])
       (utf8 [230, 163, 128, 230, 159, 165, 232, 175, 173, 229, 143, 165, 231, 187, 147, 230, 157, 159, 231,
        172, 166, 239, 188, 136, 230, 141, 162, 232, 161, 140] @ ''/'' @ utf8 [229, 136, 134, 229, 143, 183,
        239, 188, 137, 228, 184, 142, 231, 188, 169, 232, 191, 155])
       (''docs/'' @ utf8 [230, 138, 165, 233, 148, 153, 230, 184, 133, 229, 141, 149] @ ''.md#E0003'')
       (''error[E0003]: '' @ utf8 [232, 175, 173, 229, 143, 165, 230, 156, 170, 230, 173, 163, 231, 161, 174,
        231, 187, 147, 230, 157, 159] @ [newline] @ ''  --> example.fly:1:7'' @ [newline] @ ''   |'' @
        [newline] @ ''   1 | x = 1 2'' @ [newline] @ ''   |       ^'' @ [newline] @ ''   |'' @ [newline] @
        ''   = help: '' @ utf8 [230, 156, 159, 230, 156, 155, 232, 175, 173, 229, 143, 165, 231, 187, 147,
        230, 157, 159, 239, 188, 140, 229, 174, 158, 233, 153, 133, 228, 184, 186] @ '' '' @ utf8 [230, 149,
        176, 229, 173, 151, 229, 173, 151, 233, 157, 162, 233, 135, 143] @ '' 2'' @ utf8 [227, 128, 130, 231,
        167, 187, 233, 153, 164, 229, 164, 154, 228, 189, 153, 229, 134, 133, 229, 174, 185, 230, 136, 150,
        231, 148, 168, 229, 136, 134, 229, 143, 183] @ ''/'' @ utf8 [230, 141, 162, 232, 161, 140, 229, 136,
        134, 233, 154, 148]),
     info ''E0004''
       (utf8 [229, 133, 179, 233, 148, 174, 229, 173, 151, 230, 156, 170, 229, 174, 158, 231, 142, 176])
       (utf8 [230, 155, 191, 230, 141, 162, 228, 184, 186, 229, 143, 151, 230, 148, 175, 230, 140, 129, 231,
        154, 132, 232, 175, 173, 230, 179, 149, 239, 188, 136, 229, 166, 130] @ '' with '' @ utf8 [230, 148,
        185, 228, 184, 186] @ '' try/finally'' @ utf8 [239, 188, 137])
       (''docs/'' @ utf8 [230, 138, 165, 233, 148, 153, 230, 184, 133, 229, 141, 149] @ ''.md#E0004'')
       (''error[E0004]: '' @ utf8 [229, 133, 179, 233, 148, 174, 229, 173, 151, 230, 156, 170, 229, 174, 158,
        231, 142, 176] @ [newline] @ ''  --> example.fly:1:1'' @ [newline] @ ''   |'' @ [newline] @
        ''   1 | with open('' @ utf8 [34] @ ''f'' @ utf8 [34] @ '') as f:'' @ [newline] @ ''   | ^^^^'' @
        [newline] @ ''   |'' @ [newline] @ ''   = help: '' @ utf8 [229, 133, 179, 233, 148, 174, 229, 173,
        151] @ '' with '' @ utf8 [230, 154, 130, 228, 184, 141, 230, 148, 175, 230, 140, 129, 227, 128, 130,
        230, 148, 185, 231, 148, 168] @ '' try/finally '' @ utf8 [230, 152, 190, 229, 188, 143, 231, 174, 161,
        231, 144, 134, 232, 181, 132, 230, 186, 144]),
     info ''E0005''
       (utf8 [233, 157, 158, 230, 179, 149, 229, 133, 179, 233, 148, 174, 229, 173, 151, 229, 143, 130, 230,
        149, 176, 229, 144, 141])
       (utf8 [229, 133, 179, 233, 148, 174, 229, 173, 151, 229, 143, 130, 230, 149, 176, 229, 144, 141, 229,
        191, 133, 233, 161, 187, 230, 152, 175, 230, 160, 135, 232, 175, 134, 231, 172, 166])
       (''docs/'' @ utf8 [230, 138, 165, 233, 148, 153, 230, 184, 133, 229, 141, 149] @ ''.md#E0005'')
       (''error[E0005]: '' @ utf8 [233, 157, 158, 230, 179, 149, 229, 133, 179, 233, 148, 174, 229, 173, 151,
        229, 143, 130, 230, 149, 176, 229, 144, 141] @ [newline] @ ''  --> example.fly:1:8'' @ [newline] @
        ''   |'' @ [newline] @ ''   1 | f(**1)'' @ [newline] @ ''   |        ^'' @ [newline] @ ''   |'' @
        [newline] @ ''   = help: '' @ utf8 [229, 133, 179, 233, 148, 174, 229, 173, 151, 229, 143, 130, 230,
        149, 176, 229, 144, 141, 229, 191, 133, 233, 161, 187, 230, 152, 175, 230, 160, 135, 232, 175, 134,
        231, 172, 166, 227, 128, 130, 230, 148, 185, 228, 184, 186] @ '' f(x=1) '' @ utf8 [229, 189, 162, 229,
        188, 143]),
     info ''E0006''
       (utf8 [233, 157, 158, 230, 179, 149, 232, 181, 139, 229, 128, 188, 231, 155, 174, 230, 160, 135])
       (utf8 [232, 181, 139, 229, 128, 188, 231, 155, 174, 230, 160, 135, 229, 191, 133, 233, 161, 187, 230,
        152, 175, 229, 143, 152, 233, 135, 143, 227, 128, 129, 229, 177, 158, 230, 128, 167, 230, 136, 150,
        228, 184, 139, 230, 160, 135, 232, 161, 168, 232, 190, 190, 229, 188, 143])
       (''docs/'' @ utf8 [230, 138, 165, 233, 148, 153, 230, 184, 133, 229, 141, 149] @ ''.md#E0006'')
       (''error[E0006]: '' @ utf8 [233, 157, 158, 230, 179, 149, 232, 181, 139, 229, 128, 188, 231, 155, 174,
        230, 160, 135] @ [newline] @ ''  --> example.fly:1:1'' @ [newline] @ ''   |'' @ [newline] @
        ''   1 | 1 = x'' @ [newline] @ ''   | ^'' @ [newline] @ ''   |'' @ [newline] @ ''   = help: '' @
        utf8 [233, 157, 158, 230, 179, 149, 232, 181, 139, 229, 128, 188, 231, 155, 174, 230, 160, 135, 227,
        128, 130, 231, 173, 137, 229, 143, 183, 229, 183, 166, 228, 190, 167, 229, 191, 133, 233, 161, 187,
        230, 152, 175, 229, 143, 175, 232, 181, 139, 229, 128, 188, 231, 154, 132, 229, 144, 141, 229, 173,
        151]),
     info ''E0007''
       (utf8 [232, 163, 133, 233, 165, 176, 229, 153, 168, 231, 148, 168, 230, 179, 149, 233, 148, 153, 232,
        175, 175])
       (utf8 [232, 163, 133, 233, 165, 176, 229, 153, 168, 229, 144, 142, 229, 191, 133, 233, 161, 187, 232,
        183, 159, 233, 154, 143] @ '' def '' @ utf8 [230, 136, 150] @ '' class '' @ utf8 [229, 174, 154, 228,
        185, 137])
       (''docs/'' @ utf8 [230, 138, 165, 233, 148, 153, 230, 184, 133, 229, 141, 149] @ ''.md#E0007'')
       (''error[E0007]: '' @ utf8 [232, 163, 133, 233, 165, 176, 229, 153, 168, 231, 148, 168, 230, 179, 149,
        233, 148, 153, 232, 175, 175] @ [newline] @ ''  --> example.fly:2:1'' @ [newline] @ ''   |'' @
        [newline] @ ''   2 | @deco'' @ [newline] @ ''   | ^^^^^'' @ [newline] @ ''   |'' @ [newline] @
        ''   = help: '' @ utf8 [232, 163, 133, 233, 165, 176, 229, 153, 168, 229, 144, 142, 229, 191, 133,
        233, 161, 187, 232, 183, 159, 233, 154, 143] @ '' def '' @ utf8 [230, 136, 150] @ '' class'' @
        utf8 [227, 128, 130, 229, 156, 168] @ '' @deco '' @ utf8 [229, 144, 142, 229, 174, 154, 228, 185, 137,
        229, 135, 189, 230, 149, 176, 230, 136, 150, 231, 177, 187]),
     info ''E0008''
       (utf8 [230, 142, 168, 229, 175, 188, 229, 188, 143, 230, 156, 170, 230, 148, 175, 230, 140, 129])
       (utf8 [230, 148, 185, 231, 148, 168, 229, 190, 170, 231, 142, 175, 233, 128, 144, 233, 161, 185, 230,
        158, 132, 229, 187, 186, 229, 174, 185, 229, 153, 168])
       (''docs/'' @ utf8 [230, 138, 165, 233, 148, 153, 230, 184, 133, 229, 141, 149] @ ''.md#E0008'')
       (''error[E0008]: '' @ utf8 [230, 142, 168, 229, 175, 188, 229, 188, 143, 230, 156, 170, 230, 148, 175,
        230, 140, 129] @ [newline] @ ''  --> example.fly:1:1'' @ [newline] @ ''   |'' @ [newline] @
        ''   1 | {k: v for k, v in d}'' @ [newline] @ ''   | ^^^^^^^^^^^^^^^^^^^^^^'' @ [newline] @ ''   |'' @
        [newline] @ ''   = help: '' @ utf8 [229, 173, 151, 229, 133, 184] @ ''/'' @ utf8 [233, 155, 134, 229,
        144, 136, 230, 142, 168, 229, 175, 188, 229, 188, 143, 230, 154, 130, 228, 184, 141, 230, 148, 175,
        230, 140, 129, 227, 128, 130, 230, 148, 185, 231, 148, 168] @ '' for '' @ utf8 [229, 190, 170, 231,
        142, 175, 233, 128, 144, 233, 161, 185, 230, 158, 132, 229, 187, 186, 229, 174, 185, 229, 153, 168]),
     info ''E0009''
       (utf8 [229, 173, 151, 229, 133, 184, 232, 167, 163, 229, 140, 133, 230, 156, 170, 230, 148, 175, 230,
        140, 129])
       (utf8 [230, 148, 185, 231, 148, 168, 230, 152, 190, 229, 188, 143, 231, 154, 132] @ '' dict '' @
        utf8 [229, 144, 136, 229, 185, 182, 232, 161, 168, 232, 190, 190, 229, 188, 143])
       (''docs/'' @ utf8 [230, 138, 165, 233, 148, 153, 230, 184, 133, 229, 141, 149] @ ''.md#E0009'')
       (''error[E0009]: '' @ utf8 [229, 173, 151, 229, 133, 184, 232, 167, 163, 229, 140, 133, 230, 156, 170,
        230, 148, 175, 230, 140, 129] @ [newline] @ ''  --> example.fly:1:4'' @ [newline] @ ''   |'' @
        [newline] @ ''   1 | {**d}'' @ [newline] @ ''   |    ^'' @ [newline] @ ''   |'' @ [newline] @
        ''   = help: '' @ utf8 [229, 173, 151, 229, 133, 184, 232, 167, 163, 229, 140, 133] @ '' {} '' @
        utf8 [230, 154, 130, 228, 184, 141, 230, 148, 175, 230, 140, 129, 227, 128, 130, 230, 148, 185, 231,
        148, 168, 230, 152, 190, 229, 188, 143, 231, 154, 132] @ '' dict '' @ utf8 [229, 144, 136, 229, 185,
        182, 232, 161, 168, 232, 190, 190, 229, 188, 143]),
     info ''E0010''
       (''lock '' @ utf8 [231, 188, 186, 229, 176, 145, 229, 143, 152, 233, 135, 143, 229, 144, 141])
       (utf8 [229, 134, 153, 230, 179, 149, 239, 188, 154] @ ''lock '' @ utf8 [229, 143, 152, 233, 135, 143,
        229, 144, 141] @ '' '' @ utf8 [230, 136, 150] @ '' lock '' @ utf8 [229, 143, 152, 233, 135, 143, 229,
        144, 141] @ '' = '' @ utf8 [229, 128, 188])
       (''docs/'' @ utf8 [230, 138, 165, 233, 148, 153, 230, 184, 133, 229, 141, 149] @ ''.md#E0010'')
       (''error[E0010]: lock '' @ utf8 [231, 188, 186, 229, 176, 145, 229, 143, 152, 233, 135, 143, 229, 144,
        141] @ [newline] @ ''  --> example.fly:1:5'' @ [newline] @ ''   |'' @ [newline] @
        ''   1 | lock = 42'' @ [newline] @ ''   |     ^'' @ [newline] @ ''   |'' @ [newline] @
        ''   = help: lock '' @ utf8 [233, 156, 128, 232, 166, 129, 228, 184, 128, 228, 184, 170, 229, 143,
        152, 233, 135, 143, 229, 144, 141, 227, 128, 130, 229, 134, 153, 230, 179, 149, 239, 188, 154] @
        ''lock '' @ utf8 [229, 143, 152, 233, 135, 143, 229, 144, 141] @ '' '' @ utf8 [230, 136, 150] @
        '' lock '' @ utf8 [229, 143, 152, 233, 135, 143, 229, 144, 141] @ '' = '' @ utf8 [229, 128, 188]),
     info ''E0011''
       (''seal '' @ utf8 [231, 188, 186, 229, 176, 145] @ '' class'')
       (''seal '' @ utf8 [229, 143, 170, 232, 131, 189, 228, 191, 174, 233, 165, 176] @ '' class '' @
        utf8 [229, 174, 154, 228, 185, 137])
       (''docs/'' @ utf8 [230, 138, 165, 233, 148, 153, 230, 184, 133, 229, 141, 149] @ ''.md#E0011'')
       (''error[E0011]: seal '' @ utf8 [231, 188, 186, 229, 176, 145] @ '' class'' @ [newline] @
        ''  --> example.fly:1:5'' @ [newline] @ ''   |'' @ [newline] @ ''   1 | seal def f():'' @ [newline] @
        ''   |     ^^^'' @ [newline] @ ''   |'' @ [newline] @ ''   = help: seal '' @ utf8 [229, 144, 142, 229,
        191, 133, 233, 161, 187, 232, 183, 159, 233, 154, 143] @ '' class '' @ utf8 [229, 174, 154, 228, 185,
        137, 227, 128, 130] @ ''seal '' @ utf8 [229, 143, 170, 232, 131, 189, 228, 191, 174, 233, 165, 176,
        231, 177, 187]),
     info ''E0012''
       (''trace '' @ utf8 [229, 143, 130, 230, 149, 176, 231, 177, 187, 229, 158, 139, 233, 148, 153, 232,
        175, 175])
       (''level '' @ utf8 [229, 191, 133, 233, 161, 187, 229, 134, 153, 228, 184, 186, 229, 173, 151, 231,
        172, 166, 228, 184, 178, 239, 188, 140, 229, 166, 130] @ '' trace(level='' @ utf8 [34] @ ''WARN'' @
        utf8 [34] @ ''):'')
       (''docs/'' @ utf8 [230, 138, 165, 233, 148, 153, 230, 184, 133, 229, 141, 149] @ ''.md#E0012'')
       (''error[E0012]: trace '' @ utf8 [229, 143, 130, 230, 149, 176, 231, 177, 187, 229, 158, 139, 233, 148,
        153, 232, 175, 175] @ [newline] @ ''  --> example.fly:1:13'' @ [newline] @ ''   |'' @ [newline] @
        ''   1 | trace(level=WARN):'' @ [newline] @ ''   |             ^^^^'' @ [newline] @ ''   |'' @
        [newline] @ ''   = help: level '' @ utf8 [229, 191, 133, 233, 161, 187, 230, 152, 175, 229, 173, 151,
        231, 172, 166, 228, 184, 178, 239, 188, 136, 229, 166, 130] @ '' '' @ utf8 [34] @ ''WARN'' @ utf8 [34,
        239, 188, 137, 227, 128, 130, 230, 148, 185, 228, 184, 186] @ '' trace(level='' @ utf8 [34] @
        ''WARN'' @ utf8 [34] @ ''):''),
     info ''E0013''
       (''trace '' @ utf8 [229, 143, 130, 230, 149, 176, 231, 177, 187, 229, 158, 139, 233, 148, 153, 232,
        175, 175])
       (''args/ret '' @ utf8 [229, 191, 133, 233, 161, 187, 229, 134, 153, 228, 184, 186] @ '' True '' @
        utf8 [230, 136, 150] @ '' False'')
       (''docs/'' @ utf8 [230, 138, 165, 233, 148, 153, 230, 184, 133, 229, 141, 149] @ ''.md#E0013'')
       (''error[E0013]: trace '' @ utf8 [229, 143, 130, 230, 149, 176, 231, 177, 187, 229, 158, 139, 233, 148,
        153, 232, 175, 175] @ [newline] @ ''  --> example.fly:1:13'' @ [newline] @ ''   |'' @ [newline] @
        ''   1 | trace(args=1):'' @ [newline] @ ''   |             ^'' @ [newline] @ ''   |'' @ [newline] @
        ''   = help: args '' @ utf8 [229, 191, 133, 233, 161, 187, 230, 152, 175] @ '' True '' @ utf8 [230,
        136, 150] @ '' False'' @ utf8 [227, 128, 130, 230, 148, 185, 228, 184, 186] @ '' trace(args=True):''),
     info ''E0014''
       (''trace '' @ utf8 [229, 143, 130, 230, 149, 176, 231, 177, 187, 229, 158, 139, 233, 148, 153, 232,
        175, 175])
       (''args/ret '' @ utf8 [229, 191, 133, 233, 161, 187, 229, 134, 153, 228, 184, 186] @ '' True '' @
        utf8 [230, 136, 150] @ '' False'')
       (''docs/'' @ utf8 [230, 138, 165, 233, 148, 153, 230, 184, 133, 229, 141, 149] @ ''.md#E0014'')
       (''error[E0014]: trace '' @ utf8 [229, 143, 130, 230, 149, 176, 231, 177, 187, 229, 158, 139, 233, 148,
        153, 232, 175, 175] @ [newline] @ ''  --> example.fly:1:11'' @ [newline] @ ''   |'' @ [newline] @
        ''   1 | trace(ret=1):'' @ [newline] @ ''   |           ^'' @ [newline] @ ''   |'' @ [newline] @
        ''   = help: ret '' @ utf8 [229, 191, 133, 233, 161, 187, 230, 152, 175] @ '' True '' @ utf8 [230,
        136, 150] @ '' False'' @ utf8 [227, 128, 130, 230, 148, 185, 228, 184, 186] @ '' trace(ret=True):'')]"

definition ERROR_INFO_2 :: "error_info list" where
  "ERROR_INFO_2 = [
     info ''E0015''
       (utf8 [230, 156, 170, 231, 159, 165] @ '' trace '' @ utf8 [229, 143, 130, 230, 149, 176])
       (utf8 [228, 187, 133, 230, 148, 175, 230, 140, 129] @ '' level/args/ret '' @ utf8 [228, 184, 137, 228,
        184, 170, 229, 143, 130, 230, 149, 176])
       (''docs/'' @ utf8 [230, 138, 165, 233, 148, 153, 230, 184, 133, 229, 141, 149] @ ''.md#E0015'')
       (''error[E0015]: '' @ utf8 [230, 156, 170, 231, 159, 165] @ '' trace '' @ utf8 [229, 143, 130, 230,
        149, 176] @ [newline] @ ''  --> example.fly:1:8'' @ [newline] @ ''   |'' @ [newline] @
        ''   1 | trace(debug=True):'' @ [newline] @ ''   |        ^^^^^'' @ [newline] @ ''   |'' @ [newline] @
        ''   = help: trace '' @ utf8 [229, 143, 130, 230, 149, 176] @ '' debug '' @ utf8 [230, 156, 170, 231,
        159, 165, 239, 188, 136, 230, 148, 175, 230, 140, 129] @ '' level/args/ret'' @ utf8 [239, 188, 137,
        227, 128, 130, 229, 136, 160, 233, 153, 164, 230, 136, 150, 230, 148, 185, 229, 144, 141, 228, 184,
        186, 230, 148, 175, 230, 140, 129, 231, 154, 132, 229, 143, 130, 230, 149, 176]),
     info ''E0016''
       (''cage '' @ utf8 [229, 143, 130, 230, 149, 176, 231, 177, 187, 229, 158, 139, 233, 148, 153, 232, 175,
        175])
       (''cage '' @ utf8 [229, 143, 130, 230, 149, 176, 229, 191, 133, 233, 161, 187, 229, 134, 153, 228, 184,
        186, 229, 173, 151, 231, 172, 166, 228, 184, 178, 239, 188, 140, 229, 166, 130] @ '' max_time='' @
        utf8 [34] @ ''5s'' @ utf8 [34])
       (''docs/'' @ utf8 [230, 138, 165, 233, 148, 153, 230, 184, 133, 229, 141, 149] @ ''.md#E0016'')
       (''error[E0016]: cage '' @ utf8 [229, 143, 130, 230, 149, 176, 231, 177, 187, 229, 158, 139, 233, 148,
        153, 232, 175, 175] @ [newline] @ ''  --> example.fly:1:11'' @ [newline] @ ''   |'' @ [newline] @
        ''   1 | cage(max_time=5):'' @ [newline] @ ''   |           ^'' @ [newline] @ ''   |'' @ [newline] @
        ''   = help: cage '' @ utf8 [229, 143, 130, 230, 149, 176] @ '' max_time '' @ utf8 [229, 191, 133,
        233, 161, 187, 230, 152, 175, 229, 173, 151, 231, 172, 166, 228, 184, 178, 239, 188, 136, 229, 166,
        130] @ '' max_time='' @ utf8 [34] @ ''5s'' @ utf8 [34, 239, 188, 137]),
     info ''E0017''
       (''max_time '' @ utf8 [230, 160, 188, 229, 188, 143, 233, 157, 158, 230, 179, 149])
       (utf8 [230, 160, 188, 229, 188, 143, 239, 188, 154] @ ''500ms/5s/2m/1h'')
       (''docs/'' @ utf8 [230, 138, 165, 233, 148, 153, 230, 184, 133, 229, 141, 149] @ ''.md#E0017'')
       (''error[E0017]: max_time '' @ utf8 [230, 160, 188, 229, 188, 143, 233, 157, 158, 230, 179, 149] @
        [newline] @ ''  --> example.fly:1:12'' @ [newline] @ ''   |'' @ [newline] @
        ''   1 | cage(max_time='' @ utf8 [34] @ ''5x'' @ utf8 [34] @ ''):'' @ [newline] @
        ''   |            ^^^^^'' @ [newline] @ ''   |'' @ [newline] @ ''   = help: max_time '' @ utf8 [230,
        160, 188, 229, 188, 143, 233, 157, 158, 230, 179, 149, 239, 188, 154, 34] @ ''5x'' @ utf8 [34, 239,
        188, 136, 230, 148, 175, 230, 140, 129] @ '' 500ms/5s/2m/1h'' @ utf8 [239, 188, 137, 227, 128, 130,
        230, 148, 185, 228, 184, 186] @ '' max_time='' @ utf8 [34] @ ''5s'' @ utf8 [34]),
     info ''E0018''
       (''max_memory '' @ utf8 [230, 160, 188, 229, 188, 143, 233, 157, 158, 230, 179, 149])
       (utf8 [230, 160, 188, 229, 188, 143, 239, 188, 154] @ ''64KB/100MB/2GB'')
       (''docs/'' @ utf8 [230, 138, 165, 233, 148, 153, 230, 184, 133, 229, 141, 149] @ ''.md#E0018'')
       (''error[E0018]: max_memory '' @ utf8 [230, 160, 188, 229, 188, 143, 233, 157, 158, 230, 179, 149] @
        [newline] @ ''  --> example.fly:1:14'' @ [newline] @ ''   |'' @ [newline] @
        ''   1 | cage(max_memory='' @ utf8 [34] @ ''5'' @ utf8 [34] @ ''):'' @ [newline] @
        ''   |              ^^^'' @ [newline] @ ''   |'' @ [newline] @ ''   = help: max_memory '' @ utf8 [230,
        160, 188, 229, 188, 143, 233, 157, 158, 230, 179, 149, 239, 188, 154, 34] @ ''5'' @ utf8 [34, 239,
        188, 136, 230, 148, 175, 230, 140, 129] @ '' 64KB/100MB/2GB'' @ utf8 [239, 188, 137, 227, 128, 130,
        230, 148, 185, 231, 148, 168, 229, 184, 166, 229, 141, 149, 228, 189, 141, 231, 154, 132, 229, 134,
        153, 230, 179, 149]),
     info ''E0019''
       (utf8 [230, 156, 170, 231, 159, 165] @ '' cage '' @ utf8 [229, 143, 130, 230, 149, 176])
       (utf8 [228, 187, 133, 230, 148, 175, 230, 140, 129] @ '' max_time/max_memory'')
       (''docs/'' @ utf8 [230, 138, 165, 233, 148, 153, 230, 184, 133, 229, 141, 149] @ ''.md#E0019'')
       (''error[E0019]: '' @ utf8 [230, 156, 170, 231, 159, 165] @ '' cage '' @ utf8 [229, 143, 130, 230, 149,
        176] @ [newline] @ ''  --> example.fly:1:8'' @ [newline] @ ''   |'' @ [newline] @
        ''   1 | cage(max_cpu='' @ utf8 [34] @ ''1'' @ utf8 [34] @ ''):'' @ [newline] @
        ''   |        ^^^^^^^'' @ [newline] @ ''   |'' @ [newline] @ ''   = help: cage '' @ utf8 [229, 143,
        130, 230, 149, 176] @ '' max_cpu '' @ utf8 [230, 156, 170, 231, 159, 165, 239, 188, 136, 230, 148,
        175, 230, 140, 129] @ '' max_time/max_memory'' @ utf8 [239, 188, 137]),
     info ''E0020''
       (''cage '' @ utf8 [231, 188, 186, 229, 176, 145, 233, 153, 144, 229, 136, 182])
       (utf8 [232, 135, 179, 229, 176, 145, 230, 140, 135, 229, 174, 154] @ '' max_time '' @ utf8 [230, 136,
        150] @ '' max_memory '' @ utf8 [228, 185, 139, 228, 184, 128])
       (''docs/'' @ utf8 [230, 138, 165, 233, 148, 153, 230, 184, 133, 229, 141, 149] @ ''.md#E0020'')
       (''error[E0020]: cage '' @ utf8 [231, 188, 186, 229, 176, 145, 233, 153, 144, 229, 136, 182] @
        [newline] @ ''  --> example.fly:1:5'' @ [newline] @ ''   |'' @ [newline] @ ''   1 | cage():'' @
        [newline] @ ''   |     ^'' @ [newline] @ ''   |'' @ [newline] @ ''   = help: cage '' @ utf8 [233, 156,
        128, 232, 135, 179, 229, 176, 145, 230, 140, 135, 229, 174, 154] @ '' max_time '' @ utf8 [230, 136,
        150] @ '' max_memory '' @ utf8 [228, 185, 139, 228, 184, 128]),
     info ''E0021''
       (utf8 [230, 139, 172, 229, 143, 183, 230, 156, 170, 233, 151, 173, 229, 144, 136])
       (utf8 [232, 161, 165, 229, 133, 168, 229, 140, 185, 233, 133, 141, 231, 154, 132, 229, 143, 179, 230,
        139, 172, 229, 143, 183] @ '' ) ] }'')
       (''docs/'' @ utf8 [230, 138, 165, 233, 148, 153, 230, 184, 133, 229, 141, 149] @ ''.md#E0021'')
       (''error[E0021]: '' @ utf8 [230, 139, 172, 229, 143, 183, 230, 156, 170, 233, 151, 173, 229, 144,
        136] @ [newline] @ ''  --> example.fly:1:1'' @ [newline] @ ''   |'' @ [newline] @
        ''   1 | x = (1 + 2'' @ [newline] @ ''   |     ^'' @ [newline] @ ''   |'' @ [newline] @
        ''   = help: '' @ utf8 [230, 156, 170, 233, 151, 173, 229, 144, 136, 231, 154, 132, 230, 139, 172,
        229, 143, 183, 227, 128, 130, 232, 161, 165, 229, 133, 168, 229, 143, 179, 230, 139, 172, 229, 143,
        183] @ '' )''),
     info ''E0022''
       (utf8 [231, 166, 129, 230, 173, 162, 229, 136, 182, 232, 161, 168, 231, 172, 166, 231, 188, 169, 232,
        191, 155])
       (utf8 [229, 176, 134, 232, 161, 140, 233, 166, 150, 229, 136, 182, 232, 161, 168, 231, 172, 166, 230,
        155, 191, 230, 141, 162, 228, 184, 186, 231, 169, 186, 230, 160, 188, 231, 188, 169, 232, 191, 155])
       (''docs/'' @ utf8 [230, 138, 165, 233, 148, 153, 230, 184, 133, 229, 141, 149] @ ''.md#E0022'')
       (''error[E0022]: '' @ utf8 [231, 166, 129, 230, 173, 162, 229, 136, 182, 232, 161, 168, 231, 172, 166,
        231, 188, 169, 232, 191, 155] @ [newline] @ ''  --> example.fly:2:1'' @ [newline] @ ''   |'' @
        [newline] @ ''   2 | '' @ utf8 [92] @ ''tx = 1'' @ [newline] @ ''   | ^'' @ [newline] @ ''   |'' @
        [newline] @ ''   = help: '' @ utf8 [232, 161, 140, 233, 166, 150, 228, 184, 141, 230, 148, 175, 230,
        140, 129, 229, 136, 182, 232, 161, 168, 231, 172, 166, 231, 188, 169, 232, 191, 155, 227, 128, 130,
        230, 148, 185, 231, 148, 168, 231, 169, 186, 230, 160, 188, 231, 188, 169, 232, 191, 155]),
     info ''E0023''
       (utf8 [231, 188, 169, 232, 191, 155, 231, 186, 167, 229, 136, 171, 228, 184, 141, 228, 184, 128, 232,
        135, 180])
       (utf8 [230, 163, 128, 230, 159, 165, 229, 185, 182, 231, 187, 159, 228, 184, 128, 232, 175, 165, 229,
        157, 151, 231, 154, 132, 231, 169, 186, 230, 160, 188, 231, 188, 169, 232, 191, 155])
       (''docs/'' @ utf8 [230, 138, 165, 233, 148, 153, 230, 184, 133, 229, 141, 149] @ ''.md#E0023'')
       (''error[E0023]: '' @ utf8 [231, 188, 169, 232, 191, 155, 231, 186, 167, 229, 136, 171, 228, 184, 141,
        228, 184, 128, 232, 135, 180] @ [newline] @ ''  --> example.fly:3:1'' @ [newline] @ ''   |'' @
        [newline] @ ''   3 |   pass'' @ [newline] @ ''   | ^'' @ [newline] @ ''   |'' @ [newline] @
        ''   = help: '' @ utf8 [231, 188, 169, 232, 191, 155, 231, 186, 167, 229, 136, 171, 228, 184, 142,
        228, 184, 138, 229, 177, 130, 228, 184, 141, 228, 184, 128, 232, 135, 180, 227, 128, 130, 230, 163,
        128, 230, 159, 165, 229, 185, 182, 231, 187, 159, 228, 184, 128, 232, 175, 165, 229, 157, 151, 231,
        154, 132, 231, 169, 186, 230, 160, 188, 231, 188, 169, 232, 191, 155]),
     info ''E0024''
       (utf8 [229, 173, 151, 231, 172, 166, 228, 184, 178, 230, 156, 170, 233, 151, 173, 229, 144, 136])
       (utf8 [228, 184, 186, 229, 173, 151, 231, 172, 166, 228, 184, 178, 232, 161, 165, 228, 184, 138, 231,
        187, 147, 230, 157, 159, 229, 188, 149, 229, 143, 183])
       (''docs/'' @ utf8 [230, 138, 165, 233, 148, 153, 230, 184, 133, 229, 141, 149] @ ''.md#E0024'')
       (''error[E0024]: '' @ utf8 [229, 173, 151, 231, 172, 166, 228, 184, 178, 230, 156, 170, 233, 151, 173,
        229, 144, 136] @ [newline] @ ''  --> example.fly:1:5'' @ [newline] @ ''   |'' @ [newline] @
        ''   1 | x = '' @ utf8 [34] @ ''abc'' @ [newline] @ ''   |     ^'' @ [newline] @ ''   |'' @
        [newline] @ ''   = help: '' @ utf8 [229, 173, 151, 231, 172, 166, 228, 184, 178, 230, 156, 170, 233,
        151, 173, 229, 144, 136, 227, 128, 130, 228, 184, 186, 229, 173, 151, 231, 172, 166, 228, 184, 178,
        232, 161, 165, 228, 184, 138, 231, 187, 147, 230, 157, 159, 229, 188, 149, 229, 143, 183]),
     info ''E0025''
       (utf8 [230, 149, 176, 229, 173, 151, 229, 173, 151, 233, 157, 162, 233, 135, 143, 233, 157, 158, 230,
        179, 149])
       (utf8 [232, 161, 165, 229, 133, 168, 230, 140, 135, 230, 149, 176, 233, 131, 168, 229, 136, 134, 239,
        188, 140, 229, 166, 130] @ '' 1e5'')
       (''docs/'' @ utf8 [230, 138, 165, 233, 148, 153, 230, 184, 133, 229, 141, 149] @ ''.md#E0025'')
       (''error[E0025]: '' @ utf8 [230, 149, 176, 229, 173, 151, 229, 173, 151, 233, 157, 162, 233, 135, 143,
        233, 157, 158, 230, 179, 149] @ [newline] @ ''  --> example.fly:1:5'' @ [newline] @ ''   |'' @
        [newline] @ ''   1 | x = 1e'' @ [newline] @ ''   |     ^^'' @ [newline] @ ''   |'' @ [newline] @
        ''   = help: '' @ utf8 [230, 140, 135, 230, 149, 176, 233, 131, 168, 229, 136, 134, 231, 188, 186,
        229, 176, 145, 230, 149, 176, 229, 173, 151] @ '': 1e'' @ utf8 [227, 128, 130, 232, 161, 165, 229,
        133, 168, 230, 140, 135, 230, 149, 176, 233, 131, 168, 229, 136, 134, 239, 188, 140, 229, 166, 130] @
        '' 1e5''),
     info ''E0026''
       (utf8 [230, 149, 176, 229, 173, 151, 229, 173, 151, 233, 157, 162, 233, 135, 143, 233, 157, 158, 230,
        179, 149])
       (utf8 [228, 191, 174, 230, 173, 163, 230, 149, 176, 229, 173, 151, 229, 134, 153, 230, 179, 149, 239,
        188, 140, 229, 166, 130, 229, 136, 160, 233, 153, 164, 230, 151, 160, 230, 149, 136, 231, 154, 132,
        229, 137, 141, 229, 175, 188, 233, 155, 182])
       (''docs/'' @ utf8 [230, 138, 165, 233, 148, 153, 230, 184, 133, 229, 141, 149] @ ''.md#E0026'')
       (''error[E0026]: '' @ utf8 [230, 149, 176, 229, 173, 151, 229, 173, 151, 233, 157, 162, 233, 135, 143,
        233, 157, 158, 230, 179, 149] @ [newline] @ ''  --> example.fly:1:5'' @ [newline] @ ''   |'' @
        [newline] @ ''   1 | x = 0123'' @ [newline] @ ''   |     ^^^^'' @ [newline] @ ''   |'' @ [newline] @
        ''   = help: '' @ utf8 [233, 157, 158, 230, 179, 149, 230, 149, 176, 229, 173, 151, 229, 173, 151,
        233, 157, 162, 233, 135, 143] @ '' 0123'' @ utf8 [227, 128, 130, 228, 191, 174, 230, 173, 163, 230,
        149, 176, 229, 173, 151, 229, 134, 153, 230, 179, 149, 239, 188, 140, 229, 166, 130, 229, 136, 160,
        233, 153, 164, 230, 151, 160, 230, 149, 136, 231, 154, 132, 229, 137, 141, 229, 175, 188, 233, 155,
        182]),
     info ''E0027''
       (utf8 [230, 132, 143, 229, 164, 150, 229, 173, 151, 231, 172, 166])
       (utf8 [229, 136, 160, 233, 153, 164, 230, 136, 150, 230, 155, 191, 230, 141, 162, 232, 175, 165, 229,
        173, 151, 231, 172, 166])
       (''docs/'' @ utf8 [230, 138, 165, 233, 148, 153, 230, 184, 133, 229, 141, 149] @ ''.md#E0027'')
       (''error[E0027]: '' @ utf8 [230, 132, 143, 229, 164, 150, 229, 173, 151, 231, 172, 166] @ [newline] @
        ''  --> example.fly:1:3'' @ [newline] @ ''   |'' @ [newline] @ ''   1 | x = @'' @ [newline] @
        ''   |     ^'' @ [newline] @ ''   |'' @ [newline] @ ''   = help: '' @ utf8 [230, 132, 143, 229, 164,
        150, 231, 154, 132, 229, 173, 151, 231, 172, 166] @ '' '' @ utf8 [39] @ ''@'' @ utf8 [39, 227, 128,
        130, 229, 136, 160, 233, 153, 164, 230, 136, 150, 230, 155, 191, 230, 141, 162, 232, 175, 165, 229,
        173, 151, 231, 172, 166]),
     info ''E0028''
       (utf8 [229, 164, 154, 228, 189, 153, 231, 154, 132, 229, 143, 179, 230, 139, 172, 229, 143, 183])
       (utf8 [229, 136, 160, 233, 153, 164, 229, 164, 154, 228, 189, 153, 231, 154, 132, 229, 143, 179, 230,
        139, 172, 229, 143, 183])
       (''docs/'' @ utf8 [230, 138, 165, 233, 148, 153, 230, 184, 133, 229, 141, 149] @ ''.md#E0028'')
       (''error[E0028]: '' @ utf8 [229, 164, 154, 228, 189, 153, 231, 154, 132, 229, 143, 179, 230, 139, 172,
        229, 143, 183] @ [newline] @ ''  --> example.fly:1:8'' @ [newline] @ ''   |'' @ [newline] @
        ''   1 | x = (1))'' @ [newline] @ ''   |        ^'' @ [newline] @ ''   |'' @ [newline] @
        ''   = help: '' @ utf8 [229, 164, 154, 228, 189, 153, 231, 154, 132, 229, 143, 179, 230, 139, 172,
        229, 143, 183] @ '' '' @ utf8 [39] @ '')'' @ utf8 [39, 227, 128, 130, 229, 136, 160, 233, 153, 164,
        229, 164, 154, 228, 189, 153, 231, 154, 132, 229, 143, 179, 230, 139, 172, 229, 143, 183])]"

definition ERROR_INFO_3 :: "error_info list" where
  "ERROR_INFO_3 = [
     info ''E0029''
       (utf8 [229, 144, 141, 229, 173, 151, 233, 135, 141, 229, 164, 141, 229, 174, 154, 228, 185, 137])
       (utf8 [229, 136, 160, 233, 153, 164, 230, 136, 150, 233, 135, 141, 229, 145, 189, 229, 144, 141, 229,
        133, 182, 228, 184, 173, 228, 184, 128, 228, 184, 170, 229, 174, 154, 228, 185, 137])
       (''docs/'' @ utf8 [230, 138, 165, 233, 148, 153, 230, 184, 133, 229, 141, 149] @ ''.md#E0029'')
       (''error[E0029]: '' @ utf8 [229, 144, 141, 229, 173, 151, 233, 135, 141, 229, 164, 141, 229, 174, 154,
        228, 185, 137] @ [newline] @ ''  --> example.fly:3:1'' @ [newline] @ ''   |'' @ [newline] @
        ''   3 | def add():'' @ [newline] @ ''   | ^^^'' @ [newline] @ ''   |'' @ [newline] @
        ''   = help: '' @ utf8 [229, 144, 141, 229, 173, 151] @ '' add '' @ utf8 [233, 135, 141, 229, 164,
        141, 229, 174, 154, 228, 185, 137, 239, 188, 136, 231, 172, 172, 228, 184, 128, 230, 172, 161, 229,
        156, 168, 231, 172, 172] @ '' 1 '' @ utf8 [232, 161, 140, 239, 188, 137, 227, 128, 130, 229, 136, 160,
        233, 153, 164, 230, 136, 150, 233, 135, 141, 229, 145, 189, 229, 144, 141, 229, 133, 182, 228, 184,
        173, 228, 184, 128, 228, 184, 170, 229, 174, 154, 228, 185, 137]),
     info ''E0030''
       (utf8 [229, 143, 130, 230, 149, 176, 233, 135, 141, 229, 164, 141, 229, 174, 154, 228, 185, 137])
       (utf8 [229, 135, 189, 230, 149, 176, 229, 143, 130, 230, 149, 176, 229, 144, 141, 229, 191, 133, 233,
        161, 187, 229, 148, 175, 228, 184, 128])
       (''docs/'' @ utf8 [230, 138, 165, 233, 148, 153, 230, 184, 133, 229, 141, 149] @ ''.md#E0030'')
       (''error[E0030]: '' @ utf8 [229, 143, 130, 230, 149, 176, 233, 135, 141, 229, 164, 141, 229, 174, 154,
        228, 185, 137] @ [newline] @ ''  --> example.fly:1:7'' @ [newline] @ ''   |'' @ [newline] @
        ''   1 | def f(a, a):'' @ [newline] @ ''   |       ^'' @ [newline] @ ''   |'' @ [newline] @
        ''   = help: '' @ utf8 [229, 135, 189, 230, 149, 176, 229, 143, 130, 230, 149, 176] @ '' a '' @
        utf8 [233, 135, 141, 229, 164, 141, 229, 174, 154, 228, 185, 137, 227, 128, 130, 229, 135, 189, 230,
        149, 176, 229, 143, 130, 230, 149, 176, 229, 144, 141, 229, 191, 133, 233, 161, 187, 229, 148, 175,
        228, 184, 128]),
     info ''E0031''
       (utf8 [230, 177, 161, 231, 130, 185, 230, 149, 176, 230, 141, 174, 230, 181, 129, 229, 133, 165, 229,
        141, 177, 233, 153, 169, 230, 177, 135, 231, 130, 185])
       (utf8 [229, 175, 185, 232, 175, 165, 229, 128, 188, 229, 133, 136, 229, 129, 154, 229, 135, 128, 229,
        140, 150, 239, 188, 136, 231, 153, 189, 229, 144, 141, 229, 141, 149] @ ''/'' @ utf8 [231, 177, 187,
        229, 158, 139, 230, 160, 161, 233, 170, 140, 239, 188, 137, 229, 134, 141, 230, 181, 129, 229, 133,
        165, 230, 177, 135, 231, 130, 185, 239, 188, 140, 230, 136, 150, 230, 148, 185, 231, 148, 168] @
        '' only '' @ utf8 [231, 153, 189, 229, 144, 141, 229, 141, 149, 231, 186, 166, 230, 157, 159])
       (''SECURITY.md '' @ utf8 [230, 177, 161, 231, 130, 185, 229, 136, 134, 230, 158, 144, 228, 184, 128,
        232, 138, 130])
       (''error[E0031]: '' @ utf8 [230, 177, 161, 231, 130, 185, 230, 149, 176, 230, 141, 174, 230, 181, 129,
        229, 133, 165, 229, 141, 177, 233, 153, 169, 230, 177, 135, 231, 130, 185] @ [newline] @
        ''  --> example.fly:4:18'' @ [newline] @ ''   |'' @ [newline] @
        ''   4 |     obj = pickle.loads(data)'' @ [newline] @ ''   |                  ^^^^^^'' @ [newline] @
        ''   |'' @ [newline] @ ''   = help: '' @ utf8 [230, 156, 170, 229, 135, 128, 229, 140, 150, 231, 154,
        132, 229, 164, 150, 233, 131, 168, 232, 190, 147, 229, 133, 165] @ '' data '' @ utf8 [230, 181, 129,
        229, 133, 165] @ '' pickle.loads'' @ utf8 [239, 188, 136, 229, 141, 177, 233, 153, 169, 230, 177, 135,
        231, 130, 185, 239, 188, 137, 227, 128, 130, 229, 175, 185, 232, 175, 165, 229, 128, 188, 229, 133,
        136, 229, 129, 154, 229, 135, 128, 229, 140, 150, 239, 188, 136, 231, 153, 189, 229, 144, 141, 229,
        141, 149] @ ''/'' @ utf8 [231, 177, 187, 229, 158, 139, 230, 160, 161, 233, 170, 140, 239, 188, 137,
        229, 134, 141, 230, 181, 129, 229, 133, 165, 230, 177, 135, 231, 130, 185, 239, 188, 140, 230, 136,
        150, 230, 148, 185, 231, 148, 168] @ '' only '' @ utf8 [231, 153, 189, 229, 144, 141, 229, 141, 149,
        231, 186, 166, 230, 157, 159]),
     info ''E0032''
       (utf8 [230, 149, 143, 230, 132, 159, 230, 149, 176, 230, 141, 174, 230, 181, 129, 229, 133, 165, 232,
        190, 147, 229, 135, 186, 228, 184, 138, 228, 184, 139, 230, 150, 135])
       (utf8 [229, 175, 185, 232, 175, 165, 229, 128, 188, 232, 132, 177, 230, 149, 143, 239, 188, 136, 229,
        166, 130, 233, 129, 174, 232, 148, 189] @ ''/'' @ utf8 [229, 147, 136, 229, 184, 140, 239, 188, 137,
        229, 144, 142, 229, 134, 141, 232, 190, 147, 229, 135, 186, 239, 188, 140, 230, 136, 150, 231, 167,
        187, 233, 153, 164, 232, 175, 165, 232, 190, 147, 229, 135, 186, 232, 176, 131, 231, 148, 168])
       (''SECURITY.md '' @ utf8 [230, 177, 161, 231, 130, 185, 229, 136, 134, 230, 158, 144, 228, 184, 128,
        232, 138, 130])
       (''error[E0032]: '' @ utf8 [230, 149, 143, 230, 132, 159, 230, 149, 176, 230, 141, 174, 230, 181, 129,
        229, 133, 165, 232, 190, 147, 229, 135, 186, 228, 184, 138, 228, 184, 139, 230, 150, 135] @
        [newline] @ ''  --> example.fly:5:5'' @ [newline] @ ''   |'' @ [newline] @
        ''   5 |     print(token)'' @ [newline] @ ''   |     ^^^^^'' @ [newline] @ ''   |'' @ [newline] @
        ''   = help: '' @ utf8 [230, 149, 143, 230, 132, 159, 230, 149, 176, 230, 141, 174] @ '' token '' @
        utf8 [228, 184, 141, 229, 143, 175, 230, 181, 129, 229, 133, 165] @ '' print'' @ utf8 [239, 188, 136,
        232, 190, 147, 229, 135, 186, 228, 184, 138, 228, 184, 139, 230, 150, 135, 239, 188, 137, 227, 128,
        130, 229, 175, 185, 232, 175, 165, 229, 128, 188, 232, 132, 177, 230, 149, 143, 239, 188, 136, 229,
        166, 130, 233, 129, 174, 232, 148, 189] @ ''/'' @ utf8 [229, 147, 136, 229, 184, 140, 239, 188, 137,
        229, 144, 142, 229, 134, 141, 232, 190, 147, 229, 135, 186, 239, 188, 140, 230, 136, 150, 231, 167,
        187, 233, 153, 164, 232, 175, 165, 232, 190, 147, 229, 135, 186, 232, 176, 131, 231, 148, 168]),
     info ''E0033''
       (''lock '' @ utf8 [229, 143, 152, 233, 135, 143, 230, 156, 170, 229, 174, 154, 228, 185, 137])
       (utf8 [229, 133, 136, 229, 163, 176, 230, 152, 142] @ '' lock '' @ utf8 [229, 143, 152, 233, 135, 143,
        239, 188, 140, 230, 136, 150, 230, 163, 128, 230, 159, 165, 230, 139, 188, 229, 134, 153])
       (''docs/'' @ utf8 [230, 138, 165, 233, 148, 153, 230, 184, 133, 229, 141, 149] @ ''.md#E0033'')
       (''error[E0033]: lock '' @ utf8 [229, 143, 152, 233, 135, 143, 230, 156, 170, 229, 174, 154, 228, 185,
        137] @ [newline] @ ''  --> example.fly:2:5'' @ [newline] @ ''   |'' @ [newline] @
        ''   2 | lock SECRET'' @ [newline] @ ''   |     ^^^^^^'' @ [newline] @ ''   |'' @ [newline] @
        ''   = help: lock '' @ utf8 [229, 143, 152, 233, 135, 143] @ '' SECRET '' @ utf8 [230, 156, 170, 229,
        174, 154, 228, 185, 137, 227, 128, 130, 229, 133, 136, 229, 163, 176, 230, 152, 142] @ '' lock '' @
        utf8 [229, 143, 152, 233, 135, 143, 239, 188, 140, 230, 136, 150, 230, 163, 128, 230, 159, 165, 230,
        139, 188, 229, 134, 153]),
     info ''E0034''
       (''lock '' @ utf8 [229, 143, 152, 233, 135, 143, 228, 184, 141, 229, 143, 175, 229, 136, 160, 233, 153,
        164])
       (''lock '' @ utf8 [229, 143, 152, 233, 135, 143, 231, 148, 159, 229, 145, 189, 229, 145, 168, 230, 156,
        159, 229, 143, 151, 228, 191, 157, 230, 138, 164, 239, 188, 140, 229, 136, 160, 233, 153, 164, 229,
        176, 134, 231, 160, 180, 229, 157, 143, 228, 184, 141, 229, 143, 152, 233, 135, 143])
       (''docs/'' @ utf8 [230, 138, 165, 233, 148, 153, 230, 184, 133, 229, 141, 149] @ ''.md#E0034'')
       (''error[E0034]: lock '' @ utf8 [229, 143, 152, 233, 135, 143, 228, 184, 141, 229, 143, 175, 229, 136,
        160, 233, 153, 164] @ [newline] @ ''  --> example.fly:2:5'' @ [newline] @ ''   |'' @ [newline] @
        ''   2 | del SECRET'' @ [newline] @ ''   |     ^^^^^^'' @ [newline] @ ''   |'' @ [newline] @
        ''   = help: lock '' @ utf8 [229, 143, 152, 233, 135, 143] @ '' SECRET '' @ utf8 [228, 184, 141, 229,
        143, 175, 229, 136, 160, 233, 153, 164, 227, 128, 130] @ ''lock '' @ utf8 [229, 143, 152, 233, 135,
        143, 231, 148, 159, 229, 145, 189, 229, 145, 168, 230, 156, 159, 229, 143, 151, 228, 191, 157, 230,
        138, 164]),
     info ''E0035''
       (''lock '' @ utf8 [229, 143, 152, 233, 135, 143, 228, 184, 141, 229, 143, 175, 229, 134, 141, 232, 181,
        139, 229, 128, 188])
       (''lock '' @ utf8 [229, 143, 152, 233, 135, 143, 229, 143, 170, 232, 175, 187, 239, 188, 155, 229, 166,
        130, 233, 156, 128, 229, 143, 175, 229, 143, 152, 232, 175, 183, 230, 148, 185, 231, 148, 168, 230,
        153, 174, 233, 128, 154, 229, 143, 152, 233, 135, 143])
       (''docs/'' @ utf8 [230, 138, 165, 233, 148, 153, 230, 184, 133, 229, 141, 149] @ ''.md#E0035'')
       (''error[E0035]: lock '' @ utf8 [229, 143, 152, 233, 135, 143, 228, 184, 141, 229, 143, 175, 229, 134,
        141, 232, 181, 139, 229, 128, 188] @ [newline] @ ''  --> example.fly:3:5'' @ [newline] @ ''   |'' @
        [newline] @ ''   3 | SECRET = '' @ utf8 [34] @ ''other'' @ utf8 [34] @ [newline] @
        ''   |     ^^^^^^'' @ [newline] @ ''   |'' @ [newline] @ ''   = help: lock '' @ utf8 [229, 143, 152,
        233, 135, 143] @ '' SECRET '' @ utf8 [228, 184, 141, 229, 143, 175, 229, 134, 141, 232, 181, 139, 229,
        128, 188, 227, 128, 130] @ ''lock '' @ utf8 [229, 143, 152, 233, 135, 143, 229, 143, 170, 232, 175,
        187, 239, 188, 155, 229, 166, 130, 233, 156, 128, 229, 143, 175, 229, 143, 152, 232, 175, 183, 230,
        148, 185, 231, 148, 168, 230, 153, 174, 233, 128, 154, 229, 143, 152, 233, 135, 143]),
     info ''E0036''
       (utf8 [231, 166, 129, 230, 173, 162, 229, 143, 141, 229, 176, 132, 228, 191, 174, 230, 148, 185] @
        '' lock'')
       (''lock '' @ utf8 [229, 143, 152, 233, 135, 143, 228, 184, 141, 229, 143, 175, 233, 128, 154, 232, 191,
        135, 229, 143, 141, 229, 176, 132, 239, 188, 136] @ ''globals()[...]'' @ utf8 [239, 188, 137, 228,
        191, 174, 230, 148, 185])
       (''docs/'' @ utf8 [230, 138, 165, 233, 148, 153, 230, 184, 133, 229, 141, 149] @ ''.md#E0036'')
       (''error[E0036]: '' @ utf8 [231, 166, 129, 230, 173, 162, 229, 143, 141, 229, 176, 132, 228, 191, 174,
        230, 148, 185] @ '' lock'' @ [newline] @ ''  --> example.fly:4:13'' @ [newline] @ ''   |'' @
        [newline] @ ''   4 |     globals()['' @ utf8 [34] @ ''SECRET'' @ utf8 [34] @ ''] = 1'' @ [newline] @
        ''   |             ^^^^^^^^'' @ [newline] @ ''   |'' @ [newline] @ ''   = help: lock '' @ utf8 [229,
        143, 152, 233, 135, 143] @ '' SECRET '' @ utf8 [228, 184, 141, 229, 143, 175, 233, 128, 154, 232, 191,
        135, 229, 143, 141, 229, 176, 132, 228, 191, 174, 230, 148, 185, 227, 128, 130] @ ''lock '' @
        utf8 [229, 143, 152, 233, 135, 143, 228, 184, 141, 229, 143, 175, 233, 128, 154, 232, 191, 135, 229,
        143, 141, 229, 176, 132, 239, 188, 136] @ ''globals()[...]'' @ utf8 [239, 188, 137, 228, 191, 174,
        230, 148, 185]),
     info ''E0037''
       (utf8 [231, 166, 129, 230, 173, 162] @ '' setattr '' @ utf8 [228, 191, 174, 230, 148, 185] @ '' lock'')
       (''lock '' @ utf8 [229, 143, 152, 233, 135, 143, 228, 184, 141, 229, 143, 175, 233, 128, 154, 232, 191,
        135] @ '' setattr '' @ utf8 [228, 191, 174, 230, 148, 185])
       (''docs/'' @ utf8 [230, 138, 165, 233, 148, 153, 230, 184, 133, 229, 141, 149] @ ''.md#E0037'')
       (''error[E0037]: '' @ utf8 [231, 166, 129, 230, 173, 162] @ '' setattr '' @ utf8 [228, 191, 174, 230,
        148, 185] @ '' lock'' @ [newline] @ ''  --> example.fly:5:13'' @ [newline] @ ''   |'' @ [newline] @
        ''   5 |     setattr(mod, '' @ utf8 [34] @ ''SECRET'' @ utf8 [34] @ '', 1)'' @ [newline] @
        ''   |             ^^^^'' @ [newline] @ ''   |'' @ [newline] @ ''   = help: lock '' @ utf8 [229, 143,
        152, 233, 135, 143] @ '' SECRET '' @ utf8 [228, 184, 141, 229, 143, 175, 233, 128, 154, 232, 191,
        135] @ '' setattr '' @ utf8 [228, 191, 174, 230, 148, 185]),
     info ''E0038''
       (utf8 [231, 166, 129, 230, 173, 162, 229, 143, 141, 229, 176, 132, 232, 175, 187, 229, 143, 150] @
        '' lock'')
       (''lock '' @ utf8 [229, 143, 152, 233, 135, 143, 228, 184, 141, 229, 143, 175, 233, 128, 154, 232, 191,
        135, 229, 143, 141, 229, 176, 132, 239, 188, 136] @ ''globals()/vars()/locals()'' @ utf8 [239, 188,
        137, 232, 175, 187, 229, 143, 150])
       (''docs/'' @ utf8 [230, 138, 165, 233, 148, 153, 230, 184, 133, 229, 141, 149] @ ''.md#E0038'')
       (''error[E0038]: '' @ utf8 [231, 166, 129, 230, 173, 162, 229, 143, 141, 229, 176, 132, 232, 175, 187,
        229, 143, 150] @ '' lock'' @ [newline] @ ''  --> example.fly:1:1'' @ [newline] @ ''   |'' @
        [newline] @ ''   1 | lock SECRET = '' @ utf8 [34] @ ''abc'' @ utf8 [34] @ [newline] @ ''   | ^^^^'' @
        [newline] @ ''   |'' @ [newline] @ ''   = help: lock '' @ utf8 [229, 143, 152, 233, 135, 143] @
        '' SECRET '' @ utf8 [228, 184, 141, 229, 143, 175, 233, 128, 154, 232, 191, 135] @ '' globals() '' @
        utf8 [229, 143, 141, 229, 176, 132, 232, 175, 187, 229, 143, 150]),
     info ''E0039''
       (''guard '' @ utf8 [229, 143, 152, 233, 135, 143, 230, 156, 170, 229, 174, 154, 228, 185, 137])
       (utf8 [229, 133, 136, 229, 174, 154, 228, 185, 137, 232, 175, 165, 229, 143, 152, 233, 135, 143, 239,
        188, 136, 230, 136, 150, 229, 143, 130, 230, 149, 176, 239, 188, 137, 229, 134, 141, 228, 189, 191,
        231, 148, 168] @ '' guard'')
       (''docs/'' @ utf8 [230, 138, 165, 233, 148, 153, 230, 184, 133, 229, 141, 149] @ ''.md#E0039'')
       (''error[E0039]: guard '' @ utf8 [229, 143, 152, 233, 135, 143, 230, 156, 170, 229, 174, 154, 228, 185,
        137] @ [newline] @ ''  --> example.fly:2:5'' @ [newline] @ ''   |'' @ [newline] @
        ''   2 |     guard age: int, 0 < age < 150'' @ [newline] @ ''   |     ^^^^^'' @ [newline] @ ''   |'' @
        [newline] @ ''   = help: guard '' @ utf8 [229, 143, 152, 233, 135, 143] @ '' age '' @ utf8 [230, 156,
        170, 229, 174, 154, 228, 185, 137, 227, 128, 130, 229, 133, 136, 229, 174, 154, 228, 185, 137, 232,
        175, 165, 229, 143, 152, 233, 135, 143, 239, 188, 136, 230, 136, 150, 229, 143, 130, 230, 149, 176,
        239, 188, 137, 229, 134, 141, 228, 189, 191, 231, 148, 168] @ '' guard''),
     info ''E0040''
       (''guard '' @ utf8 [231, 177, 187, 229, 158, 139, 229, 191, 133, 233, 161, 187, 230, 152, 175, 231,
        174, 128, 229, 141, 149, 231, 177, 187, 229, 158, 139, 229, 144, 141])
       (utf8 [229, 166, 130] @ '' int'' @ utf8 [227, 128, 129] @ ''str'' @ utf8 [227, 128, 129] @ ''float'' @
        utf8 [227, 128, 129] @ ''list'' @ utf8 [227, 128, 129] @ ''dict'')
       (''docs/'' @ utf8 [230, 138, 165, 233, 148, 153, 230, 184, 133, 229, 141, 149] @ ''.md#E0040'')
       (''error[E0040]: guard '' @ utf8 [231, 177, 187, 229, 158, 139, 229, 191, 133, 233, 161, 187, 230, 152,
        175, 231, 174, 128, 229, 141, 149, 231, 177, 187, 229, 158, 139, 229, 144, 141] @ [newline] @
        ''  --> example.fly:2:12'' @ [newline] @ ''   |'' @ [newline] @ ''   2 | guard x: list[int]'' @
        [newline] @ ''   |            ^^^'' @ [newline] @ ''   |'' @ [newline] @ ''   = help: guard '' @
        utf8 [231, 177, 187, 229, 158, 139, 229, 191, 133, 233, 161, 187, 230, 152, 175, 231, 174, 128, 229,
        141, 149, 231, 177, 187, 229, 158, 139, 229, 144, 141, 239, 188, 136, 229, 166, 130] @ '' int'' @
        utf8 [227, 128, 129] @ ''str'' @ utf8 [239, 188, 137, 227, 128, 130] @ ''list[int] '' @ utf8 [232,
        175, 183, 230, 148, 185, 229, 134, 153, 229, 173, 151, 233, 157, 162, 233, 135, 143, 230, 157, 161,
        228, 187, 182]),
     info ''E0041''
       (''guard '' @ utf8 [231, 177, 187, 229, 158, 139, 228, 184, 142, 230, 179, 168, 232, 167, 163, 228,
        184, 141, 228, 184, 128, 232, 135, 180])
       (utf8 [231, 187, 159, 228, 184, 128] @ '' guard '' @ utf8 [231, 177, 187, 229, 158, 139, 228, 184, 142,
        229, 143, 130, 230, 149, 176, 230, 179, 168, 232, 167, 163, 231, 154, 132, 231, 177, 187, 229, 158,
        139])
       (''docs/'' @ utf8 [230, 138, 165, 233, 148, 153, 230, 184, 133, 229, 141, 149] @ ''.md#E0041'')
       (''error[E0041]: guard '' @ utf8 [231, 177, 187, 229, 158, 139, 228, 184, 142, 230, 179, 168, 232, 167,
        163, 228, 184, 141, 228, 184, 128, 232, 135, 180] @ [newline] @ ''  --> example.fly:2:8'' @
        [newline] @ ''   |'' @ [newline] @ ''   2 | guard x: str  # '' @ utf8 [229, 143, 130, 230, 149, 176,
        230, 179, 168, 232, 167, 163, 228, 184, 186] @ '' int'' @ [newline] @ ''   |        ^'' @ [newline] @
        ''   |'' @ [newline] @ ''   = help: guard '' @ utf8 [231, 177, 187, 229, 158, 139] @ '' str '' @
        utf8 [228, 184, 142, 229, 143, 130, 230, 149, 176, 230, 179, 168, 232, 167, 163] @ '' int '' @
        utf8 [228, 184, 141, 228, 184, 128, 232, 135, 180, 227, 128, 130, 231, 187, 159, 228, 184, 128, 228,
        184, 164, 232, 128, 133, 231, 177, 187, 229, 158, 139]),
     info ''E0042''
       (''guard '' @ utf8 [231, 188, 186, 229, 176, 145, 231, 177, 187, 229, 158, 139, 230, 136, 150, 230,
        157, 161, 228, 187, 182])
       (utf8 [232, 135, 179, 229, 176, 145, 230, 140, 135, 229, 174, 154, 228, 184, 128, 228, 184, 170, 231,
        177, 187, 229, 158, 139, 230, 136, 150, 230, 157, 161, 228, 187, 182, 231, 186, 166, 230, 157, 159])
       (''docs/'' @ utf8 [230, 138, 165, 233, 148, 153, 230, 184, 133, 229, 141, 149] @ ''.md#E0042'')
       (''error[E0042]: guard '' @ utf8 [231, 188, 186, 229, 176, 145, 231, 177, 187, 229, 158, 139, 230, 136,
        150, 230, 157, 161, 228, 187, 182] @ [newline] @ ''  --> example.fly:2:5'' @ [newline] @ ''   |'' @
        [newline] @ ''   2 | guard x:'' @ [newline] @ ''   |     ^'' @ [newline] @ ''   |'' @ [newline] @
        ''   = help: guard '' @ utf8 [232, 135, 179, 229, 176, 145, 233, 156, 128, 232, 166, 129, 228, 184,
        128, 228, 184, 170, 231, 177, 187, 229, 158, 139, 230, 136, 150, 230, 157, 161, 228, 187, 182, 227,
        128, 130, 232, 161, 165, 229, 133, 133, 231, 177, 187, 229, 158, 139, 230, 136, 150, 230, 157, 161,
        228, 187, 182, 231, 186, 166, 230, 157, 159])]"

definition ERROR_INFO_4 :: "error_info list" where
  "ERROR_INFO_4 = [
     info ''E0043''
       (''guard '' @ utf8 [230, 157, 161, 228, 187, 182, 229, 188, 149, 231, 148, 168, 230, 156, 170, 229,
        174, 154, 228, 185, 137, 229, 144, 141, 229, 173, 151])
       (utf8 [229, 133, 136, 229, 174, 154, 228, 185, 137, 230, 157, 161, 228, 187, 182, 228, 184, 173, 229,
        188, 149, 231, 148, 168, 231, 154, 132, 229, 144, 141, 229, 173, 151])
       (''docs/'' @ utf8 [230, 138, 165, 233, 148, 153, 230, 184, 133, 229, 141, 149] @ ''.md#E0043'')
       (''error[E0043]: guard '' @ utf8 [230, 157, 161, 228, 187, 182, 229, 188, 149, 231, 148, 168, 230, 156,
        170, 229, 174, 154, 228, 185, 137, 229, 144, 141, 229, 173, 151] @ [newline] @
        ''  --> example.fly:2:14'' @ [newline] @ ''   |'' @ [newline] @ ''   2 | guard x: 0 < x < limit'' @
        [newline] @ ''   |              ^^^^^'' @ [newline] @ ''   |'' @ [newline] @ ''   = help: guard '' @
        utf8 [230, 157, 161, 228, 187, 182, 228, 184, 173, 229, 188, 149, 231, 148, 168, 228, 186, 134, 230,
        156, 170, 229, 174, 154, 228, 185, 137, 231, 154, 132, 229, 144, 141, 229, 173, 151] @ '' limit'' @
        utf8 [227, 128, 130, 229, 133, 136, 229, 174, 154, 228, 185, 137, 232, 175, 165, 229, 144, 141, 229,
        173, 151]),
     info ''E0044''
       (''only '' @ utf8 [231, 153, 189, 229, 144, 141, 229, 141, 149, 228, 184, 186, 231, 169, 186])
       (utf8 [232, 135, 179, 229, 176, 145, 229, 136, 151, 229, 135, 186, 228, 184, 128, 228, 184, 170, 230,
        168, 161, 229, 157, 151, 239, 188, 140, 229, 166, 130] @ '' only (json):'')
       (''docs/'' @ utf8 [230, 138, 165, 233, 148, 153, 230, 184, 133, 229, 141, 149] @ ''.md#E0044'')
       (''error[E0044]: only '' @ utf8 [231, 153, 189, 229, 144, 141, 229, 141, 149, 228, 184, 186, 231, 169,
        186] @ [newline] @ ''  --> example.fly:1:6'' @ [newline] @ ''   |'' @ [newline] @
        ''   1 | only ():'' @ [newline] @ ''   |      ^'' @ [newline] @ ''   |'' @ [newline] @
        ''   = help: only '' @ utf8 [231, 153, 189, 229, 144, 141, 229, 141, 149, 228, 184, 141, 232, 131,
        189, 228, 184, 186, 231, 169, 186, 239, 188, 136, 233, 156, 128, 232, 135, 179, 229, 176, 145, 228,
        184, 128, 228, 184, 170, 230, 168, 161, 229, 157, 151, 239, 188, 140, 229, 166, 130] @
        '' only (json):'' @ utf8 [239, 188, 137]),
     info ''E0045''
       (''only '' @ utf8 [229, 157, 151, 229, 164, 150, 232, 174, 191, 233, 151, 174, 232, 162, 171, 231, 166,
        129, 230, 173, 162])
       (utf8 [229, 176, 134, 232, 175, 165, 229, 144, 141, 229, 173, 151, 229, 138, 160, 229, 133, 165] @
        '' only '' @ utf8 [231, 153, 189, 229, 144, 141, 229, 141, 149, 239, 188, 140, 230, 136, 150, 231,
        167, 187, 233, 153, 164, 232, 175, 165, 232, 174, 191, 233, 151, 174])
       (''docs/'' @ utf8 [230, 138, 165, 233, 148, 153, 230, 184, 133, 229, 141, 149] @ ''.md#E0045'')
       (''error[E0045]: only '' @ utf8 [229, 157, 151, 229, 164, 150, 232, 174, 191, 233, 151, 174, 232, 162,
        171, 231, 166, 129, 230, 173, 162] @ [newline] @ ''  --> example.fly:2:9'' @ [newline] @ ''   |'' @
        [newline] @ ''   2 |     os.system('' @ utf8 [34] @ ''rm -rf /'' @ utf8 [34] @ '')'' @ [newline] @
        ''   |         ^^^^^^'' @ [newline] @ ''   |'' @ [newline] @ ''   = help: only '' @ utf8 [229, 157,
        151, 231, 166, 129, 230, 173, 162, 232, 174, 191, 233, 151, 174] @ '' os'' @ utf8 [239, 188, 136, 228,
        184, 141, 229, 156, 168, 231, 153, 189, 229, 144, 141, 229, 141, 149] @ '' [json math]'' @ utf8 [239,
        188, 137, 227, 128, 130, 229, 176, 134, 232, 175, 165, 229, 144, 141, 229, 173, 151, 229, 138, 160,
        229, 133, 165] @ '' only '' @ utf8 [231, 153, 189, 229, 144, 141, 229, 141, 149, 239, 188, 140, 230,
        136, 150, 231, 167, 187, 233, 153, 164, 232, 175, 165, 232, 174, 191, 233, 151, 174]),
     info ''E0046''
       (''seal '' @ utf8 [229, 177, 158, 230, 128, 167, 228, 184, 141, 229, 143, 175, 228, 191, 174, 230, 148,
        185])
       (''seal '' @ utf8 [231, 177, 187, 229, 174, 158, 228, 190, 139, 229, 177, 158, 230, 128, 167, 229, 156,
        168, 229, 174, 158, 228, 190, 139, 229, 140, 150, 229, 144, 142, 228, 184, 141, 229, 143, 175, 229,
        134, 141, 232, 181, 139, 229, 128, 188])
       (''docs/'' @ utf8 [230, 138, 165, 233, 148, 153, 230, 184, 133, 229, 141, 149] @ ''.md#E0046'')
       (''error[E0046]: seal '' @ utf8 [229, 177, 158, 230, 128, 167, 228, 184, 141, 229, 143, 175, 228, 191,
        174, 230, 148, 185] @ [newline] @ ''  --> example.fly:7:5'' @ [newline] @ ''   |'' @ [newline] @
        ''   7 |     u.name = '' @ utf8 [34] @ ''other'' @ utf8 [34] @ [newline] @ ''   |     ^^^^^^'' @
        [newline] @ ''   |'' @ [newline] @ ''   = help: seal '' @ utf8 [231, 177, 187, 229, 174, 158, 228,
        190, 139] @ '' u '' @ utf8 [231, 154, 132, 229, 177, 158, 230, 128, 167] @ '' name '' @ utf8 [228,
        184, 141, 229, 143, 175, 228, 191, 174, 230, 148, 185, 227, 128, 130] @ ''seal '' @ utf8 [231, 177,
        187, 229, 174, 158, 228, 190, 139, 229, 177, 158, 230, 128, 167, 229, 156, 168, 229, 174, 158, 228,
        190, 139, 229, 140, 150, 229, 144, 142, 228, 184, 141, 229, 143, 175, 229, 134, 141, 232, 181, 139,
        229, 128, 188]),
     info ''E0047''
       (''trace '' @ utf8 [231, 186, 167, 229, 136, 171, 233, 157, 158, 230, 179, 149])
       (utf8 [228, 189, 191, 231, 148, 168] @ '' DEBUG/INFO/WARNING/ERROR/CRITICAL '' @ utf8 [228, 185, 139,
        228, 184, 128])
       (''docs/'' @ utf8 [230, 138, 165, 233, 148, 153, 230, 184, 133, 229, 141, 149] @ ''.md#E0047'')
       (''error[E0047]: trace '' @ utf8 [231, 186, 167, 229, 136, 171, 233, 157, 158, 230, 179, 149] @
        [newline] @ ''  --> example.fly:1:13'' @ [newline] @ ''   |'' @ [newline] @ ''   1 | trace(level='' @
        utf8 [34] @ ''X'' @ utf8 [34] @ ''):'' @ [newline] @ ''   |             ^'' @ [newline] @ ''   |'' @
        [newline] @ ''   = help: trace '' @ utf8 [231, 186, 167, 229, 136, 171] @ '' X '' @ utf8 [233, 157,
        158, 230, 179, 149, 239, 188, 136, 230, 148, 175, 230, 140, 129] @
        '' DEBUG/INFO/WARNING/ERROR/CRITICAL'' @ utf8 [239, 188, 137, 227, 128, 130, 230, 148, 185, 231, 148,
        168, 229, 133, 182, 228, 184, 173, 228, 185, 139, 228, 184, 128]),
     info ''E0048''
       (utf8 [228, 191, 157, 231, 149, 153, 229, 137, 141, 231, 188, 128, 229, 134, 178, 231, 170, 129])
       (utf8 [229, 135, 189, 230, 149, 176, 229, 144, 141, 228, 184, 141, 232, 131, 189, 228, 187, 165] @
        '' _fly_ '' @ utf8 [229, 188, 128, 229, 164, 180, 239, 188, 136, 232, 191, 144, 232, 161, 140, 230,
        151, 182, 228, 191, 157, 231, 149, 153, 229, 137, 141, 231, 188, 128, 239, 188, 137])
       (''docs/'' @ utf8 [230, 138, 165, 233, 148, 153, 230, 184, 133, 229, 141, 149] @ ''.md#E0048'')
       (''error[E0048]: '' @ utf8 [228, 191, 157, 231, 149, 153, 229, 137, 141, 231, 188, 128, 229, 134, 178,
        231, 170, 129] @ [newline] @ ''  --> example.fly:2:5'' @ [newline] @ ''   |'' @ [newline] @
        ''   2 |     def _fly_clean():'' @ [newline] @ ''   |     ^^^^^^^^^^^^^^^^'' @ [newline] @ ''   |'' @
        [newline] @ ''   = help: trace '' @ utf8 [229, 157, 151, 229, 134, 133, 229, 135, 189, 230, 149, 176,
        229, 144, 141] @ '' _fly_clean '' @ utf8 [228, 184, 141, 232, 131, 189, 228, 187, 165] @ '' _fly_ '' @
        utf8 [229, 188, 128, 229, 164, 180, 239, 188, 136, 228, 191, 157, 231, 149, 153, 229, 137, 141, 231,
        188, 128, 239, 188, 137, 227, 128, 130, 230, 148, 185, 229, 144, 141, 229, 142, 187, 229, 137, 141,
        231, 188, 128]),
     info ''E0049''
       (utf8 [228, 191, 157, 231, 149, 153, 229, 137, 141, 231, 188, 128, 229, 134, 178, 231, 170, 129])
       (utf8 [229, 143, 130, 230, 149, 176, 229, 144, 141, 228, 184, 141, 232, 131, 189, 228, 187, 165] @
        '' _fly_ '' @ utf8 [229, 188, 128, 229, 164, 180, 239, 188, 136, 232, 191, 144, 232, 161, 140, 230,
        151, 182, 228, 191, 157, 231, 149, 153, 229, 137, 141, 231, 188, 128, 239, 188, 137])
       (''docs/'' @ utf8 [230, 138, 165, 233, 148, 153, 230, 184, 133, 229, 141, 149] @ ''.md#E0049'')
       (''error[E0049]: '' @ utf8 [228, 191, 157, 231, 149, 153, 229, 137, 141, 231, 188, 128, 229, 134, 178,
        231, 170, 129] @ [newline] @ ''  --> example.fly:2:12'' @ [newline] @ ''   |'' @ [newline] @
        ''   2 |     def f(_fly_x):'' @ [newline] @ ''   |            ^^^^^'' @ [newline] @ ''   |'' @
        [newline] @ ''   = help: trace '' @ utf8 [229, 157, 151, 229, 134, 133, 229, 143, 130, 230, 149, 176,
        229, 144, 141] @ '' _fly_x '' @ utf8 [228, 184, 141, 232, 131, 189, 228, 187, 165] @ '' _fly_ '' @
        utf8 [229, 188, 128, 229, 164, 180, 239, 188, 136, 228, 191, 157, 231, 149, 153, 229, 137, 141, 231,
        188, 128, 239, 188, 137, 227, 128, 130, 230, 148, 185, 229, 144, 141, 229, 142, 187, 229, 137, 141,
        231, 188, 128]),
     info ''E0050''
       (''safe '' @ utf8 [229, 143, 152, 233, 135, 143, 230, 156, 170, 229, 174, 154, 228, 185, 137])
       (utf8 [229, 156, 168] @ '' safe '' @ utf8 [229, 163, 176, 230, 152, 142, 229, 137, 141, 229, 133, 136,
        232, 181, 139, 229, 128, 188])
       (''docs/'' @ utf8 [230, 138, 165, 233, 148, 153, 230, 184, 133, 229, 141, 149] @ ''.md#E0050'')
       (''error[E0050]: safe '' @ utf8 [229, 143, 152, 233, 135, 143, 230, 156, 170, 229, 174, 154, 228, 185,
        137] @ [newline] @ ''  --> example.fly:2:5'' @ [newline] @ ''   |'' @ [newline] @
        ''   2 | safe name'' @ [newline] @ ''   |     ^^^^'' @ [newline] @ ''   |'' @ [newline] @
        ''   = help: '' @ utf8 [230, 156, 170, 229, 174, 154, 228, 185, 137, 231, 154, 132, 229, 144, 141,
        229, 173, 151] @ '' name'' @ utf8 [239, 188, 136] @ ''safe '' @ utf8 [233, 156, 128, 232, 166, 129,
        229, 133, 136, 232, 181, 139, 229, 128, 188, 239, 188, 137, 227, 128, 130, 229, 156, 168] @
        '' safe '' @ utf8 [229, 163, 176, 230, 152, 142, 229, 137, 141, 229, 133, 136, 232, 181, 139, 229,
        128, 188]),
     info ''E0051''
       (''mask '' @ utf8 [229, 143, 152, 233, 135, 143, 230, 156, 170, 229, 174, 154, 228, 185, 137])
       (utf8 [229, 156, 168] @ '' mask '' @ utf8 [229, 163, 176, 230, 152, 142, 229, 137, 141, 229, 133, 136,
        232, 181, 139, 229, 128, 188])
       (''docs/'' @ utf8 [230, 138, 165, 233, 148, 153, 230, 184, 133, 229, 141, 149] @ ''.md#E0051'')
       (''error[E0051]: mask '' @ utf8 [229, 143, 152, 233, 135, 143, 230, 156, 170, 229, 174, 154, 228, 185,
        137] @ [newline] @ ''  --> example.fly:2:5'' @ [newline] @ ''   |'' @ [newline] @
        ''   2 | mask secret'' @ [newline] @ ''   |     ^^^^^^'' @ [newline] @ ''   |'' @ [newline] @
        ''   = help: '' @ utf8 [230, 156, 170, 229, 174, 154, 228, 185, 137, 231, 154, 132, 229, 144, 141,
        229, 173, 151] @ '' secret'' @ utf8 [239, 188, 136] @ ''mask '' @ utf8 [233, 156, 128, 232, 166, 129,
        229, 133, 136, 232, 181, 139, 229, 128, 188, 239, 188, 137, 227, 128, 130, 229, 156, 168] @
        '' mask '' @ utf8 [229, 163, 176, 230, 152, 142, 229, 137, 141, 229, 133, 136, 232, 181, 139, 229,
        128, 188]),
     info ''E0052''
       (utf8 [229, 144, 141, 229, 173, 151, 230, 156, 170, 229, 174, 154, 228, 185, 137])
       (utf8 [229, 133, 136, 229, 174, 154, 228, 185, 137, 232, 175, 165, 229, 144, 141, 229, 173, 151, 239,
        188, 140, 230, 136, 150, 230, 163, 128, 230, 159, 165, 230, 139, 188, 229, 134, 153])
       (''docs/'' @ utf8 [230, 138, 165, 233, 148, 153, 230, 184, 133, 229, 141, 149] @ ''.md#E0052'')
       (''error[E0052]: '' @ utf8 [229, 144, 141, 229, 173, 151, 230, 156, 170, 229, 174, 154, 228, 185,
        137] @ [newline] @ ''  --> example.fly:3:5'' @ [newline] @ ''   |'' @ [newline] @
        ''   3 |     return result'' @ [newline] @ ''   |            ^^^^^^'' @ [newline] @ ''   |'' @
        [newline] @ ''   = help: '' @ utf8 [230, 156, 170, 229, 174, 154, 228, 185, 137, 231, 154, 132, 229,
        144, 141, 229, 173, 151] @ '' result'' @ utf8 [227, 128, 130, 229, 133, 136, 229, 174, 154, 228, 185,
        137, 232, 175, 165, 229, 144, 141, 229, 173, 151, 239, 188, 140, 230, 136, 150, 230, 163, 128, 230,
        159, 165, 230, 139, 188, 229, 134, 153]),
     info ''E0053''
       (utf8 [229, 143, 130, 230, 149, 176, 228, 184, 170, 230, 149, 176, 228, 184, 141, 232, 182, 179])
       (utf8 [232, 161, 165, 233, 189, 144, 229, 135, 189, 230, 149, 176, 231, 154, 132, 229, 191, 133, 233,
        156, 128, 229, 143, 130, 230, 149, 176])
       (''docs/'' @ utf8 [230, 138, 165, 233, 148, 153, 230, 184, 133, 229, 141, 149] @ ''.md#E0053'')
       (''error[E0053]: '' @ utf8 [229, 143, 130, 230, 149, 176, 228, 184, 170, 230, 149, 176, 228, 184, 141,
        232, 182, 179] @ [newline] @ ''  --> example.fly:4:5'' @ [newline] @ ''   |'' @ [newline] @
        ''   4 |     add(1)'' @ [newline] @ ''   |     ^^^^^^'' @ [newline] @ ''   |'' @ [newline] @
        ''   = help: '' @ utf8 [229, 135, 189, 230, 149, 176] @ '' add '' @ utf8 [233, 156, 128, 232, 166,
        129, 232, 135, 179, 229, 176, 145] @ '' 2 '' @ utf8 [228, 184, 170, 229, 143, 130, 230, 149, 176, 239,
        188, 136, 229, 174, 158, 233, 153, 133] @ '' 1 '' @ utf8 [228, 184, 170, 239, 188, 137, 227, 128, 130,
        232, 161, 165, 233, 189, 144, 229, 191, 133, 233, 156, 128, 229, 143, 130, 230, 149, 176]),
     info ''E0054''
       (utf8 [228, 189, 141, 231, 189, 174, 229, 143, 130, 230, 149, 176, 232, 191, 135, 229, 164, 154])
       (utf8 [230, 148, 185, 231, 148, 168, 229, 133, 179, 233, 148, 174, 229, 173, 151, 229, 143, 130, 230,
        149, 176, 228, 188, 160, 229, 143, 130])
       (''docs/'' @ utf8 [230, 138, 165, 233, 148, 153, 230, 184, 133, 229, 141, 149] @ ''.md#E0054'')
       (''error[E0054]: '' @ utf8 [228, 189, 141, 231, 189, 174, 229, 143, 130, 230, 149, 176, 232, 191, 135,
        229, 164, 154] @ [newline] @ ''  --> example.fly:4:5'' @ [newline] @ ''   |'' @ [newline] @
        ''   4 |     add(1, 2, 3)'' @ [newline] @ ''   |     ^^^^^^^^^^^^'' @ [newline] @ ''   |'' @
        [newline] @ ''   = help: '' @ utf8 [229, 135, 189, 230, 149, 176] @ '' add '' @ utf8 [230, 156, 128,
        229, 164, 154, 230, 142, 165, 229, 143, 151] @ '' 2 '' @ utf8 [228, 184, 170, 228, 189, 141, 231, 189,
        174, 229, 143, 130, 230, 149, 176, 239, 188, 136, 229, 174, 158, 233, 153, 133] @ '' 3 '' @ utf8 [228,
        184, 170, 239, 188, 137, 227, 128, 130, 230, 148, 185, 231, 148, 168, 229, 133, 179, 233, 148, 174,
        229, 173, 151, 229, 143, 130, 230, 149, 176, 228, 188, 160, 229, 143, 130]),
     info ''E0055''
       (utf8 [230, 156, 170, 231, 159, 165, 229, 143, 130, 230, 149, 176, 229, 144, 141])
       (utf8 [230, 163, 128, 230, 159, 165, 229, 143, 130, 230, 149, 176, 229, 144, 141, 230, 139, 188, 229,
        134, 153])
       (''docs/'' @ utf8 [230, 138, 165, 233, 148, 153, 230, 184, 133, 229, 141, 149] @ ''.md#E0055'')
       (''error[E0055]: '' @ utf8 [230, 156, 170, 231, 159, 165, 229, 143, 130, 230, 149, 176, 229, 144,
        141] @ [newline] @ ''  --> example.fly:4:9'' @ [newline] @ ''   |'' @ [newline] @ ''   4 |     add(1,
        x=2)'' @ [newline] @ ''   |         ^'' @ [newline] @ ''   |'' @ [newline] @ ''   = help: '' @
        utf8 [229, 135, 189, 230, 149, 176] @ '' add '' @ utf8 [230, 178, 161, 230, 156, 137, 229, 144, 141,
        228, 184, 186] @ '' x '' @ utf8 [231, 154, 132, 229, 143, 130, 230, 149, 176, 227, 128, 130, 230, 163,
        128, 230, 159, 165, 229, 143, 130, 230, 149, 176, 229, 144, 141, 230, 139, 188, 229, 134, 153]),
     info ''E0056''
       (utf8 [229, 143, 130, 230, 149, 176, 233, 135, 141, 229, 164, 141, 228, 188, 160, 229, 128, 188])
       (utf8 [229, 144, 140, 228, 184, 128, 229, 143, 130, 230, 149, 176, 229, 143, 170, 232, 131, 189, 228,
        188, 160, 229, 128, 188, 228, 184, 128, 230, 172, 161])
       (''docs/'' @ utf8 [230, 138, 165, 233, 148, 153, 230, 184, 133, 229, 141, 149] @ ''.md#E0056'')
       (''error[E0056]: '' @ utf8 [229, 143, 130, 230, 149, 176, 233, 135, 141, 229, 164, 141, 228, 188, 160,
        229, 128, 188] @ [newline] @ ''  --> example.fly:4:9'' @ [newline] @ ''   |'' @ [newline] @
        ''   4 |     add(1, a=2)'' @ [newline] @ ''   |         ^'' @ [newline] @ ''   |'' @ [newline] @
        ''   = help: '' @ utf8 [229, 135, 189, 230, 149, 176] @ '' add '' @ utf8 [229, 143, 130, 230, 149,
        176] @ '' a '' @ utf8 [233, 135, 141, 229, 164, 141, 228, 188, 160, 229, 128, 188, 227, 128, 130, 229,
        144, 140, 228, 184, 128, 229, 143, 130, 230, 149, 176, 229, 143, 170, 232, 131, 189, 228, 188, 160,
        229, 128, 188, 228, 184, 128, 230, 172, 161])]"

definition ERROR_INFO_5 :: "error_info list" where
  "ERROR_INFO_5 = [
     info ''E0057''
       (utf8 [229, 184, 184, 233, 135, 143, 232, 161, 168, 232, 190, 190, 229, 188, 143, 233, 153, 164, 233,
        155, 182])
       (utf8 [228, 191, 174, 230, 173, 163, 233, 153, 164, 230, 149, 176, 239, 188, 140, 233, 129, 191, 229,
        133, 141, 233, 153, 164, 233, 155, 182])
       (''docs/'' @ utf8 [230, 138, 165, 233, 148, 153, 230, 184, 133, 229, 141, 149] @ ''.md#E0057'')
       (''error[E0057]: '' @ utf8 [229, 184, 184, 233, 135, 143, 232, 161, 168, 232, 190, 190, 229, 188, 143,
        233, 153, 164, 233, 155, 182] @ [newline] @ ''  --> example.fly:1:5'' @ [newline] @ ''   |'' @
        [newline] @ ''   1 | x = 10 // 0'' @ [newline] @ ''   |     ^^'' @ [newline] @ ''   |'' @ [newline] @
        ''   = help: '' @ utf8 [229, 184, 184, 233, 135, 143, 232, 161, 168, 232, 190, 190, 229, 188, 143,
        233, 153, 164, 230, 149, 176, 228, 184, 186, 233, 155, 182, 227, 128, 130, 228, 191, 174, 230, 173,
        163, 233, 153, 164, 230, 149, 176, 239, 188, 140, 233, 129, 191, 229, 133, 141, 233, 153, 164, 233,
        155, 182]),
     info ''E0058''
       (utf8 [232, 191, 144, 231, 174, 151, 231, 172, 166, 231, 177, 187, 229, 158, 139, 228, 184, 141, 230,
        148, 175, 230, 140, 129])
       (utf8 [231, 161, 174, 228, 191, 157, 230, 147, 141, 228, 189, 156, 230, 149, 176, 231, 177, 187, 229,
        158, 139, 229, 140, 185, 233, 133, 141, 232, 191, 144, 231, 174, 151, 231, 172, 166])
       (''docs/'' @ utf8 [230, 138, 165, 233, 148, 153, 230, 184, 133, 229, 141, 149] @ ''.md#E0058'')
       (''error[E0058]: '' @ utf8 [232, 191, 144, 231, 174, 151, 231, 172, 166, 231, 177, 187, 229, 158, 139,
        228, 184, 141, 230, 148, 175, 230, 140, 129] @ [newline] @ ''  --> example.fly:1:5'' @ [newline] @
        ''   |'' @ [newline] @ ''   1 | x = '' @ utf8 [34] @ ''a'' @ utf8 [34] @ '' + 1'' @ [newline] @
        ''   |     ^^^'' @ [newline] @ ''   |'' @ [newline] @ ''   = help: '' @ utf8 [232, 191, 144, 231, 174,
        151, 231, 172, 166] @ '' + '' @ utf8 [228, 184, 141, 230, 148, 175, 230, 140, 129] @ '' str '' @
        utf8 [228, 184, 142] @ '' int'' @ utf8 [227, 128, 130, 231, 161, 174, 228, 191, 157, 230, 147, 141,
        228, 189, 156, 230, 149, 176, 231, 177, 187, 229, 158, 139, 229, 140, 185, 233, 133, 141, 232, 191,
        144, 231, 174, 151, 231, 172, 166]),
     info ''E0059''
       (utf8 [232, 191, 144, 231, 174, 151, 231, 172, 166, 231, 177, 187, 229, 158, 139, 228, 184, 141, 230,
        148, 175, 230, 140, 129])
       (utf8 [230, 140, 137, 228, 189, 141, 229, 143, 150, 229, 143, 141, 228, 187, 133, 230, 148, 175, 230,
        140, 129, 230, 149, 180, 230, 149, 176])
       (''docs/'' @ utf8 [230, 138, 165, 233, 148, 153, 230, 184, 133, 229, 141, 149] @ ''.md#E0059'')
       (''error[E0059]: '' @ utf8 [232, 191, 144, 231, 174, 151, 231, 172, 166, 231, 177, 187, 229, 158, 139,
        228, 184, 141, 230, 148, 175, 230, 140, 129] @ [newline] @ ''  --> example.fly:1:5'' @ [newline] @
        ''   |'' @ [newline] @ ''   1 | x = ~'' @ utf8 [34] @ ''a'' @ utf8 [34] @ [newline] @ ''   |     ^'' @
        [newline] @ ''   |'' @ [newline] @ ''   = help: '' @ utf8 [232, 191, 144, 231, 174, 151, 231, 172,
        166] @ '' ~ '' @ utf8 [228, 184, 141, 230, 148, 175, 230, 140, 129] @ '' str'' @ utf8 [227, 128, 130,
        230, 140, 137, 228, 189, 141, 229, 143, 150, 229, 143, 141, 228, 187, 133, 230, 148, 175, 230, 140,
        129, 230, 149, 180, 230, 149, 176]),
     info ''E0060''
       (utf8 [232, 191, 144, 231, 174, 151, 231, 172, 166, 231, 177, 187, 229, 158, 139, 228, 184, 141, 230,
        148, 175, 230, 140, 129])
       (utf8 [231, 161, 174, 228, 191, 157, 230, 147, 141, 228, 189, 156, 230, 149, 176, 231, 177, 187, 229,
        158, 139, 229, 140, 185, 233, 133, 141, 232, 191, 144, 231, 174, 151, 231, 172, 166])
       (''docs/'' @ utf8 [230, 138, 165, 233, 148, 153, 230, 184, 133, 229, 141, 149] @ ''.md#E0060'')
       (''error[E0060]: '' @ utf8 [232, 191, 144, 231, 174, 151, 231, 172, 166, 231, 177, 187, 229, 158, 139,
        228, 184, 141, 230, 148, 175, 230, 140, 129] @ [newline] @ ''  --> example.fly:1:5'' @ [newline] @
        ''   |'' @ [newline] @ ''   1 | x = -'' @ utf8 [34] @ ''a'' @ utf8 [34] @ [newline] @ ''   |     ^'' @
        [newline] @ ''   |'' @ [newline] @ ''   = help: '' @ utf8 [232, 191, 144, 231, 174, 151, 231, 172,
        166] @ '' - '' @ utf8 [228, 184, 141, 230, 148, 175, 230, 140, 129] @ '' str'' @ utf8 [227, 128, 130,
        231, 161, 174, 228, 191, 157, 230, 147, 141, 228, 189, 156, 230, 149, 176, 231, 177, 187, 229, 158,
        139, 229, 140, 185, 233, 133, 141, 232, 191, 144, 231, 174, 151, 231, 172, 166]),
     info ''E0061''
       (''in '' @ utf8 [229, 143, 179, 228, 190, 167, 231, 177, 187, 229, 158, 139, 228, 184, 141, 230, 148,
        175, 230, 140, 129])
       (''in '' @ utf8 [229, 143, 179, 228, 190, 167, 229, 191, 133, 233, 161, 187, 230, 152, 175, 229, 143,
        175, 232, 191, 173, 228, 187, 163, 229, 174, 185, 229, 153, 168])
       (''docs/'' @ utf8 [230, 138, 165, 233, 148, 153, 230, 184, 133, 229, 141, 149] @ ''.md#E0061'')
       (''error[E0061]: in '' @ utf8 [229, 143, 179, 228, 190, 167, 231, 177, 187, 229, 158, 139, 228, 184,
        141, 230, 148, 175, 230, 140, 129] @ [newline] @ ''  --> example.fly:1:7'' @ [newline] @ ''   |'' @
        [newline] @ ''   1 | x = 1 in 42'' @ [newline] @ ''   |       ^^'' @ [newline] @ ''   |'' @
        [newline] @ ''   = help: in '' @ utf8 [229, 143, 179, 228, 190, 167, 228, 184, 141, 230, 148, 175,
        230, 140, 129] @ '' int'' @ utf8 [227, 128, 130] @ ''in '' @ utf8 [229, 143, 179, 228, 190, 167, 229,
        191, 133, 233, 161, 187, 230, 152, 175, 229, 143, 175, 232, 191, 173, 228, 187, 163, 229, 174, 185,
        229, 153, 168]),
     info ''E0062''
       (utf8 [231, 177, 187, 229, 158, 139, 228, 184, 141, 229, 143, 175, 228, 184, 139, 230, 160, 135, 232,
        174, 191, 233, 151, 174])
       (utf8 [228, 187, 133, 229, 136, 151, 232, 161, 168] @ ''/'' @ utf8 [229, 173, 151, 229, 133, 184] @
        ''/'' @ utf8 [229, 173, 151, 231, 172, 166, 228, 184, 178, 231, 173, 137, 229, 174, 185, 229, 153,
        168, 230, 148, 175, 230, 140, 129, 228, 184, 139, 230, 160, 135])
       (''docs/'' @ utf8 [230, 138, 165, 233, 148, 153, 230, 184, 133, 229, 141, 149] @ ''.md#E0062'')
       (''error[E0062]: '' @ utf8 [231, 177, 187, 229, 158, 139, 228, 184, 141, 229, 143, 175, 228, 184, 139,
        230, 160, 135, 232, 174, 191, 233, 151, 174] @ [newline] @ ''  --> example.fly:1:5'' @ [newline] @
        ''   |'' @ [newline] @ ''   1 | x = 1[0]'' @ [newline] @ ''   |     ^'' @ [newline] @ ''   |'' @
        [newline] @ ''   = help: int '' @ utf8 [228, 184, 141, 229, 143, 175, 228, 184, 139, 230, 160, 135,
        232, 174, 191, 233, 151, 174, 227, 128, 130, 228, 187, 133, 229, 136, 151, 232, 161, 168] @ ''/'' @
        utf8 [229, 173, 151, 229, 133, 184] @ ''/'' @ utf8 [229, 173, 151, 231, 172, 166, 228, 184, 178, 231,
        173, 137, 229, 174, 185, 229, 153, 168, 230, 148, 175, 230, 140, 129, 228, 184, 139, 230, 160, 135]),
     info ''E0063''
       (utf8 [231, 166, 129, 230, 173, 162, 232, 176, 131, 231, 148, 168, 229, 141, 177, 233, 153, 169, 229,
        134, 133, 229, 187, 186])
       (''eval/exec/open/getattr '' @ utf8 [231, 173, 137, 229, 134, 133, 229, 187, 186, 229, 143, 175, 231,
        155, 180, 230, 142, 165, 233, 128, 131, 233, 128, 184, 230, 178, 153, 231, 174, 177, 239, 188, 140,
        229, 133, 168, 233, 131, 168, 231, 166, 129, 230, 173, 162, 232, 176, 131, 231, 148, 168])
       (''docs/'' @ utf8 [230, 138, 165, 233, 148, 153, 230, 184, 133, 229, 141, 149] @ ''.md#E0063'')
       (''error[E0063]: '' @ utf8 [231, 166, 129, 230, 173, 162, 232, 176, 131, 231, 148, 168, 229, 141, 177,
        233, 153, 169, 229, 134, 133, 229, 187, 186] @ [newline] @ ''  --> example.fly:1:1'' @ [newline] @
        ''   |'' @ [newline] @ ''   1 | eval(user_input)'' @ [newline] @ ''   | ^^^^'' @ [newline] @
        ''   |'' @ [newline] @ ''   = help: '' @ utf8 [231, 166, 129, 230, 173, 162, 232, 176, 131, 231, 148,
        168, 229, 134, 133, 229, 187, 186] @ '' eval'' @ utf8 [239, 188, 136, 230, 178, 153, 231, 174, 177,
        233, 128, 131, 233, 128, 184, 233, 163, 142, 233, 153, 169, 239, 188, 137, 227, 128, 130] @
        ''eval/exec/open/getattr '' @ utf8 [231, 173, 137, 229, 134, 133, 229, 187, 186, 229, 143, 175, 231,
        155, 180, 230, 142, 165, 233, 128, 131, 233, 128, 184, 230, 178, 153, 231, 174, 177, 239, 188, 140,
        229, 133, 168, 233, 131, 168, 231, 166, 129, 230, 173, 162, 232, 176, 131, 231, 148, 168]),
     info ''E0064''
       (utf8 [231, 166, 129, 230, 173, 162, 229, 143, 141, 229, 176, 132, 232, 174, 191, 233, 151, 174])
       (''__class__/__bases__/__subclasses__ '' @ utf8 [231, 173, 137, 229, 143, 141, 229, 176, 132, 233, 147,
        190, 227, 128, 129, 230, 168, 161, 229, 157, 151, 229, 177, 158, 230, 128, 167, 239, 188, 136] @
        ''os/attrgetter/__builtins__ '' @ utf8 [229, 143, 138] @ '' _ '' @ utf8 [229, 137, 141, 231, 188, 128,
        231, 167, 129, 230, 156, 137, 229, 177, 158, 230, 128, 167, 239, 188, 137, 227, 128, 129, 229, 188,
        130, 229, 184, 184, 229, 184, 167] @ '' __traceback__'' @ utf8 [227, 128, 129] @ ''f-string '' @
        utf8 [229, 134, 133, 232, 129, 148, 232, 161, 168, 232, 190, 190, 229, 188, 143, 229, 143, 175, 231,
        187, 149, 232, 191, 135, 230, 178, 153, 231, 174, 177, 239, 188, 140, 229, 133, 168, 233, 131, 168,
        231, 166, 129, 230, 173, 162, 232, 174, 191, 233, 151, 174])
       (''docs/'' @ utf8 [230, 138, 165, 233, 148, 153, 230, 184, 133, 229, 141, 149] @ ''.md#E0064'')
       (''error[E0064]: '' @ utf8 [231, 166, 129, 230, 173, 162, 229, 143, 141, 229, 176, 132, 232, 174, 191,
        233, 151, 174] @ [newline] @ ''  --> example.fly:1:9'' @ [newline] @ ''   |'' @ [newline] @
        ''   1 | x = obj.__class__'' @ [newline] @ ''   |         ^^^^^^^^'' @ [newline] @ ''   |'' @
        [newline] @ ''   = help: '' @ utf8 [231, 166, 129, 230, 173, 162, 229, 143, 141, 229, 176, 132, 232,
        174, 191, 233, 151, 174, 229, 177, 158, 230, 128, 167] @ '' __class__'' @ utf8 [239, 188, 136, 230,
        178, 153, 231, 174, 177, 233, 128, 131, 233, 128, 184, 233, 163, 142, 233, 153, 169, 239, 188, 137,
        227, 128, 130] @ ''__class__/__bases__/__subclasses__ '' @ utf8 [231, 173, 137, 229, 143, 141, 229,
        176, 132, 233, 147, 190, 229, 143, 175, 231, 187, 149, 232, 191, 135, 230, 178, 153, 231, 174, 177,
        239, 188, 140, 231, 166, 129, 230, 173, 162, 232, 174, 191, 233, 151, 174]),
     info ''E0065''
       (utf8 [231, 166, 129, 230, 173, 162, 232, 174, 191, 233, 151, 174] @ '' __builtins__'')
       (''__builtins__ '' @ utf8 [230, 152, 175, 230, 178, 153, 231, 174, 177, 229, 134, 133, 229, 187, 186,
        228, 187, 163, 231, 144, 134, 231, 154, 132, 229, 133, 165, 229, 143, 163, 239, 188, 140, 231, 155,
        180, 230, 142, 165, 232, 174, 191, 233, 151, 174, 229, 141, 179, 233, 128, 131, 233, 128, 184, 233,
        163, 142, 233, 153, 169])
       (''docs/'' @ utf8 [230, 138, 165, 233, 148, 153, 230, 184, 133, 229, 141, 149] @ ''.md#E0065'')
       (''error[E0065]: '' @ utf8 [231, 166, 129, 230, 173, 162, 232, 174, 191, 233, 151, 174] @
        '' __builtins__'' @ [newline] @ ''  --> example.fly:1:1'' @ [newline] @ ''   |'' @ [newline] @
        ''   1 | __builtins__['' @ utf8 [39] @ ''eval'' @ utf8 [39] @ '']'' @ [newline] @
        ''   | ^^^^^^^^^^^^'' @ [newline] @ ''   |'' @ [newline] @ ''   = help: '' @ utf8 [231, 166, 129, 230,
        173, 162, 232, 174, 191, 233, 151, 174] @ '' __builtins__'' @ utf8 [239, 188, 136, 230, 178, 153, 231,
        174, 177, 233, 128, 131, 233, 128, 184, 233, 163, 142, 233, 153, 169, 239, 188, 137, 227, 128, 130] @
        ''__builtins__ '' @ utf8 [230, 152, 175, 230, 178, 153, 231, 174, 177, 229, 134, 133, 229, 187, 186,
        228, 187, 163, 231, 144, 134, 231, 154, 132, 229, 133, 165, 229, 143, 163, 239, 188, 140, 231, 155,
        180, 230, 142, 165, 232, 174, 191, 233, 151, 174, 229, 141, 179, 233, 128, 131, 233, 128, 184, 233,
        163, 142, 233, 153, 169]),
     info ''E0066''
       (utf8 [231, 166, 129, 230, 173, 162, 229, 175, 188, 229, 133, 165, 229, 141, 177, 233, 153, 169, 230,
        168, 161, 229, 157, 151])
       (''os/subprocess/sys/pickle '' @ utf8 [231, 173, 137, 230, 168, 161, 229, 157, 151, 229, 143, 175, 232,
        175, 187, 229, 134, 153, 231, 179, 187, 231, 187, 159, 232, 181, 132, 230, 186, 144, 239, 188, 140,
        231, 166, 129, 230, 173, 162, 229, 175, 188, 229, 133, 165])
       (''docs/'' @ utf8 [230, 138, 165, 233, 148, 153, 230, 184, 133, 229, 141, 149] @ ''.md#E0066'')
       (''error[E0066]: '' @ utf8 [231, 166, 129, 230, 173, 162, 229, 175, 188, 229, 133, 165, 229, 141, 177,
        233, 153, 169, 230, 168, 161, 229, 157, 151] @ [newline] @ ''  --> example.fly:1:8'' @ [newline] @
        ''   |'' @ [newline] @ ''   1 | import os'' @ [newline] @ ''   |        ^^'' @ [newline] @ ''   |'' @
        [newline] @ ''   = help: '' @ utf8 [231, 166, 129, 230, 173, 162, 229, 175, 188, 229, 133, 165, 229,
        141, 177, 233, 153, 169, 230, 168, 161, 229, 157, 151] @ '' os'' @ utf8 [239, 188, 136, 230, 178, 153,
        231, 174, 177, 233, 128, 131, 233, 128, 184, 233, 163, 142, 233, 153, 169, 239, 188, 137, 227, 128,
        130] @ ''os/subprocess/sys/pickle '' @ utf8 [231, 173, 137, 230, 168, 161, 229, 157, 151, 229, 143,
        175, 232, 175, 187, 229, 134, 153, 231, 179, 187, 231, 187, 159, 232, 181, 132, 230, 186, 144, 239,
        188, 140, 231, 166, 129, 230, 173, 162, 229, 175, 188, 229, 133, 165])]"

definition ERROR_INFO :: "error_info list" where
  "ERROR_INFO = ERROR_INFO_1 @ ERROR_INFO_2 @ ERROR_INFO_3 @ ERROR_INFO_4 @ ERROR_INFO_5"

definition info_for_code :: "string \<Rightarrow> error_info option" where
  "info_for_code code = find (\<lambda>i. ei_code i = code) ERROR_INFO"

end
