(* ===== verification/Fly_Format.thy ===== *)
theory Fly_Format
  imports Fly_Errorinfo Fly_Text Fly_Units
begin

text \<open>
  The rendering of diagnostics for the terminal (\<^verbatim>\<open>src/format.rs\<close>): the block with the title of the
  error, the source line with the place underlined, and the help text.
\<close>

definition color_wrap :: "bool \<Rightarrow> string \<Rightarrow> string \<Rightarrow> string" where
  "color_wrap color code s =
     (if \<not> color then s
      else let esc = CHR 0x1B;
        (start, reset) = (if code = ''red'' then (esc # ''[31m'', esc # ''[0m'')
          else if code = ''bred'' then (esc # ''[1;31m'', esc # ''[0m'')
          else if code = ''cyan'' then (esc # ''[1;36m'', esc # ''[0m'')
          else ([], []))
        in start @ s @ reset)"

text \<open>\<open>split_inclusive\<close>: the lines with their line feeds; no empty piece at the end.\<close>

fun split_inclusive :: "string \<Rightarrow> string \<Rightarrow> string list" where
  "split_inclusive cur [] = (if cur = [] then [] else [cur])"
| "split_inclusive cur (c # s) =
     (if c = newline then (cur @ [c]) # split_inclusive [] s else split_inclusive (cur @ [c]) s)"

definition strip_newline :: "string \<Rightarrow> string" where
  "strip_newline l = (if l \<noteq> [] \<and> last l = newline then butlast l else l)"

primrec find_line :: "nat \<Rightarrow> nat \<Rightarrow> string list \<Rightarrow> string option" where
  "find_line cur line [] = None"
| "find_line cur line (l # ls) = (if cur = line then Some (strip_newline l) else find_line (cur + 1) line ls)"

definition src_line :: "string \<Rightarrow> nat \<Rightarrow> string option" where
  "src_line src line = (if src = [] then None else find_line 1 line (split_inclusive [] src))"

definition underline_len :: "string \<Rightarrow> nat \<Rightarrow> nat" where
  "underline_len l col =
     (let off = col - 1 in
      if length l < off then 1
      else let n = length (takeWhile (\<lambda>c. c \<noteq> CHR '' '') (take 32 (drop off l))) in if n = 0 then 1 else n)"

text \<open>\<open>{:4}\<close> on a number: at least four places, filled up on the left.\<close>

definition pad4 :: "nat \<Rightarrow> string" where
  "pad4 n = (let s = digits_of n in replicate (4 - length s) (CHR '' '') @ s)"

abbreviation line_end :: string where "line_end \<equiv> [newline]"

definition source_block :: "bool \<Rightarrow> nat \<Rightarrow> nat \<Rightarrow> string \<Rightarrow> string" where
  "source_block color line col l =
     ''   |'' @ line_end @ pad4 line @ '' | '' @ l @ line_end @ ''   | '' @
     color_wrap color ''red'' (replicate (col - 1) (CHR '' '') @ ''^'' @ replicate (underline_len l col - 1) (CHR ''^'')) @
     line_end"

text \<open>The full stop between message and help text is U+3002.\<close>

definition format_error :: "string \<Rightarrow> string \<Rightarrow> diagnostic \<Rightarrow> bool \<Rightarrow> string" where
  "format_error path src d color =
     (let line = pos_line (d_pos d); col = pos_col (d_pos d);
          place = path @ '':'' @ digits_of line @ '':'' @ digits_of col
      in case info_for_code (d_code d) of
           None \<Rightarrow>
             (if line = 0 then ''error: '' @ path @ '': '' @ d_msg d
              else ''error: '' @ place @ '': '' @ d_msg d)
         | Some i \<Rightarrow>
             color_wrap color ''bred'' (''error['' @ d_code d @ '']'') @ '': '' @ ei_title i @ line_end @
             color_wrap color ''cyan'' (''  --> '' @ place) @ line_end @
             (case src_line src line of Some l \<Rightarrow> source_block color line col l | None \<Rightarrow> []) @
             ''   |'' @ line_end @
             (if d_msg d \<noteq> ei_title i
              then ''   = help: '' @ d_msg d @ utf8 [227, 128, 130] @ ei_help i @ line_end
              else ''   = help: '' @ ei_help i @ line_end) @
             ''   = note: '' @ ei_note i @ line_end)"

definition errno_text :: "int \<Rightarrow> string" where
  "errno_text n =
     (if n = 2 then ''no such file or directory''
      else if n = 13 then ''permission denied''
      else if n = 20 then ''not a directory''
      else if n = 21 then ''is a directory''
      else if n = 40 then ''too many levels of symbolic links''
      else if n = 36 then ''file name too long''
      else ''errno '' @ show_int n)"

definition stat_like_error :: "string \<Rightarrow> string \<Rightarrow> int \<Rightarrow> string" where
  "stat_like_error opr path n = opr @ '' '' @ path @ '': '' @ errno_text n"

definition file_diag :: "string \<Rightarrow> int \<Rightarrow> diagnostic" where
  "file_diag path n = \<lparr>d_pos = \<lparr>pos_line = 0, pos_col = 0\<rparr>, d_code = [], d_msg = ''open '' @ path @ '': '' @ errno_text n\<rparr>"

subsection \<open>The registry\<close>

text \<open>E0001 to E0066, in order.\<close>

definition code_numbers :: "string list" where
  "code_numbers = take 66 (tl (map (\<lambda>(a, b). ''E00'' @ [a, b]) (List.product ''0123456789'' ''0123456789'')))"


text \<open>
  Note: the place is underlined inside its line: at most 32 carets, all under the text of the line and
  none under a blank, except for a single one where the line has ended.\<close>

theorem underline_in_line:
  "1 \<le> underline_len l col \<and> underline_len l col \<le> 32 \<and>
   (underline_len l col = 1 \<or> col - 1 + underline_len l col \<le> length l \<and>
      CHR '' '' \<notin> set (slice l (col - 1) (col - 1 + underline_len l col)))"
proof -
  define u where "u = takeWhile (\<lambda>c. c \<noteq> CHR '' '') (take 32 (drop (col - 1) l))"
  have u: "length u \<le> 32" "length u \<le> length l - (col - 1)" "CHR '' '' \<notin> set u"
    using length_takeWhile_le [of "\<lambda>c. c \<noteq> CHR '' ''" "take 32 (drop (col - 1) l)"] unfolding u_def
    by (auto dest: set_takeWhileD)
  have "slice l (col - 1) (col - 1 + length u) = u"
  proof -
    have "take (length u) (take 32 (drop (col - 1) l)) = u" unfolding u_def by (rule takeWhile_eq_take [symmetric])
    with u(1) show ?thesis by (simp add: slice_def min_def)
  qed
  with u show ?thesis unfolding underline_len_def u_def [symmetric] Let_def by (cases u) auto
qed

end
