(* ===== verification/Fly_Http.thy ===== *)
theory Fly_Http
  imports Fly_Text Fly_Checkd Fly_Json
begin

text \<open>
  The HTTP client of the updater (\<^verbatim>\<open>src/http.rs\<close>): URLs, redirects, requests, responses, and the two
  kinds of proxies.  TCP and TLS are parameters: what a server answers to a request, and the bytes that
  a proxy sends.  Lossy decoding (\<open>String::from_utf8_lossy\<close>) replaces every ill-formed piece by U+FFFD.
\<close>

subsection \<open>Texts and numbers\<close>

fun utf8_lossy :: "byte list \<Rightarrow> string" where
  "utf8_lossy [] = []"
| "utf8_lossy (a # s) =
     (if ord a < 128 then a # utf8_lossy s
      else if in_range a 194 223 then
        (case s of b # t \<Rightarrow> if second_byte a b then a # b # utf8_lossy t else utf8 [239, 191, 189] @ utf8_lossy s
         | [] \<Rightarrow> utf8 [239, 191, 189])
      else if in_range a 224 239 then
        (case s of b # t \<Rightarrow>
           if second_byte a b then
             (case t of c # u \<Rightarrow> if in_range c 128 191 then a # b # c # utf8_lossy u else utf8 [239, 191, 189] @ utf8_lossy t
              | [] \<Rightarrow> utf8 [239, 191, 189])
           else utf8 [239, 191, 189] @ utf8_lossy s
         | [] \<Rightarrow> utf8 [239, 191, 189])
      else if in_range a 240 244 then
        (case s of b # t \<Rightarrow>
           if second_byte a b then
             (case t of c # u \<Rightarrow>
                if in_range c 128 191 then
                  (case u of d # v \<Rightarrow>
                     if in_range d 128 191 then a # b # c # d # utf8_lossy v else utf8 [239, 191, 189] @ utf8_lossy u
                   | [] \<Rightarrow> utf8 [239, 191, 189])
                else utf8 [239, 191, 189] @ utf8_lossy t
              | [] \<Rightarrow> utf8 [239, 191, 189])
           else utf8 [239, 191, 189] @ utf8_lossy s
         | [] \<Rightarrow> utf8 [239, 191, 189])
      else utf8 [239, 191, 189] @ utf8_lossy s)"

lemma utf8_lossy_ascii: "list_all (\<lambda>c. ord c < 128) s \<Longrightarrow> utf8_lossy s = s"
  by (induction s) simp_all

lemma utf8_lossy_valid: "valid_utf8 s \<Longrightarrow> utf8_lossy s = s"
proof (induction s rule: valid_utf8.induct)
  case (2 a s)
  consider "ord a < 128" | "\<not> ord a < 128" "in_range a 194 223"
    | "\<not> ord a < 128" "\<not> in_range a 194 223" "in_range a 224 239"
    | "\<not> ord a < 128" "\<not> in_range a 194 223" "\<not> in_range a 224 239" "in_range a 240 244"
    using "2.prems" by (auto split: if_splits)
  then show ?case
  proof cases
    case 1
    with 2 show ?thesis by simp
  next
    case 2
    with "2.prems" obtain b t where "s = b # t" "second_byte a b" "valid_utf8 t" by (cases s) simp_all
    with 2 "2.IH"(2) [OF 2] show ?thesis by simp
  next
    case 3
    with "2.prems" obtain b c t where "s = b # c # t" "second_byte a b" "in_range c 128 191" "valid_utf8 t"
      by (cases s; cases "tl s") simp_all
    with 3 "2.IH"(3) [OF 3] show ?thesis by simp
  next
    case 4
    with "2.prems" obtain b c d t where "s = b # c # d # t" "second_byte a b" "in_range c 128 191" "in_range d 128 191" "valid_utf8 t"
      by (cases s; cases "tl s"; cases "tl (tl s)") simp_all
    with 4 "2.IH"(4) [OF 4] show ?thesis by simp
  qed
qed simp

text \<open>\<open>str::parse\<close> and \<open>from_str_radix(_, 16)\<close> of an unsigned type with the given largest value.\<close>

definition unsigned_body :: "string \<Rightarrow> string" where
  "unsigned_body s = (case s of c # r \<Rightarrow> if c = CHR ''+'' then r else s | [] \<Rightarrow> [])"

definition parse_unsigned :: "int \<Rightarrow> string \<Rightarrow> nat option" where
  "parse_unsigned largest s =
     (let ds = unsigned_body s in
      if ds = [] \<or> \<not> list_all is_digit ds \<or> largest < dec_value ds then None else Some (nat (dec_value ds)))"

definition parse_hex :: "int \<Rightarrow> string \<Rightarrow> nat option" where
  "parse_hex largest s =
     (let ds = unsigned_body s in
      if ds = [] then None
      else case hex_value 0 ds of Some v \<Rightarrow> if largest < v then None else Some (nat v) | None \<Rightarrow> None)"

abbreviation u16_max :: int where "u16_max \<equiv> 65535"
abbreviation usize_max :: int where "usize_max \<equiv> 18446744073709551615"

definition eq_ignore_case :: "string \<Rightarrow> string \<Rightarrow> bool" where
  "eq_ignore_case a b \<longleftrightarrow> map to_lower a = map to_lower b"

abbreviation crlf :: string where "crlf \<equiv> [carriage_return, newline]"

text \<open>\<open>s.split(pat)\<close> for \<open>pat = CR LF\<close>.\<close>

fun split_crlf :: "string \<Rightarrow> string \<Rightarrow> string list" where
  "split_crlf cur (a # b # s) =
     (if a = carriage_return \<and> b = newline then cur # split_crlf [] s else split_crlf (cur @ [a]) (b # s))"
| "split_crlf cur s = [cur @ s]"

subsection \<open>URLs\<close>

datatype proxy = Http_Proxy string | Https_Proxy string | Socks5_Proxy string

record response =
  rs_status :: nat
  rs_headers :: "(string \<times> string) list"
  rs_body :: "byte list"

definition response_header :: "string \<Rightarrow> response \<Rightarrow> string option" where
  "response_header name r = map_option snd (find (\<lambda>(k, v). eq_ignore_case k name) (rs_headers r))"

datatype http_error =
    Plain_redirect | Head_incomplete | Bad_status_line | Bad_length | Body_incomplete | Chunk_line_incomplete
  | Bad_chunk_length | Chunk_incomplete | No_location nat | Too_many_redirects | Transport string
  | Proxy_closed | Connect_refused nat | Socks_url | Proxy_port | No_proxy_port | Handshake_closed | Not_socks
  | No_method | Auth_closed | Auth_refused | Unknown_method int | Target_port | No_target_port | Reply_closed
  | Bad_reply | Socks_failed int | Address_closed

text \<open>A result, an error, or a panic.\<close>

datatype 'a http_outcome = H_Ok 'a | H_Error http_error | H_Panic

record url_parts =
  url_host :: string
  url_port :: nat
  url_path :: string

definition host_port :: "string \<Rightarrow> nat \<Rightarrow> string \<times> nat" where
  "host_port hp dflt = (case rsplit_once (CHR '':'') hp of
       Some (h, p) \<Rightarrow> if list_all is_digit p then (h, case parse_unsigned u16_max p of Some n \<Rightarrow> n | None \<Rightarrow> dflt) else (hp, dflt)
     | None \<Rightarrow> (hp, dflt))"

text \<open>\<open>parse_url\<close> panics on a URL of another scheme.\<close>

definition parse_url :: "string \<Rightarrow> url_parts option" where
  "parse_url url = (case strip_prefix ''https://'' url of
       None \<Rightarrow> None
     | Some rest \<Rightarrow>
         (let (hp, path) = (case find_byte (CHR ''/'') rest of
                Some i \<Rightarrow> (take i rest, drop i rest)
              | None \<Rightarrow> (rest, ''/''));
              (host, port) = host_port hp 443
          in Some \<lparr>url_host = host, url_port = port, url_path = path\<rparr>))"

definition resolve_redirect :: "string \<Rightarrow> string \<Rightarrow> string http_outcome" where
  "resolve_redirect cur loc =
     (if starts_with ''https://'' loc then H_Ok loc
      else if starts_with ''http://'' loc then H_Error Plain_redirect
      else case parse_url cur of
          None \<Rightarrow> H_Panic
        | Some u \<Rightarrow>
            (let prefix = ''https://'' @ url_host u @ '':'' @ digits_of (url_port u) in
             if starts_with ''/'' loc then H_Ok (prefix @ loc)
             else H_Ok (prefix @ (case rsplit_once (CHR ''/'') (url_path u) of Some (d, _) \<Rightarrow> d | None \<Rightarrow> []) @ ''/'' @ loc)))"

subsection \<open>Responses\<close>

text \<open>
  \<open>raw.get(start..start + n)\<close> with a sum that wraps around at \<open>2\<^sup>6\<^sup>4\<close>.
\<close>

definition get_range :: "byte list \<Rightarrow> nat \<Rightarrow> nat \<Rightarrow> byte list option" where
  "get_range raw start n =
     (let stop = (start + n) mod 2 ^ 64 in
      if start \<le> stop \<and> stop \<le> length raw then Some (slice raw start stop) else None)"

function chunks :: "byte list \<Rightarrow> byte list \<Rightarrow> byte list http_outcome" where
  "chunks out rest =
     (case find_sub crlf rest of
        None \<Rightarrow> H_Error Chunk_line_incomplete
      | Some line_end \<Rightarrow>
          (case parse_hex usize_max (trim_ws (utf8_lossy (take line_end rest))) of
             None \<Rightarrow> H_Error Bad_chunk_length
           | Some amount \<Rightarrow>
               let start = line_end + 2 in
               if amount = 0 then H_Ok out
               else case get_range rest start amount of
                   None \<Rightarrow> H_Error Chunk_incomplete
                 | Some chunk \<Rightarrow>
                     if length rest < start + amount + 2 then H_Panic
                     else chunks (out @ chunk) (drop (start + amount + 2) rest)))"
  by pat_completeness auto
termination
  by (relation "measure (\<lambda>(out, rest). length rest)") auto

declare chunks.simps [simp del]

definition parse_header :: "string \<Rightarrow> (string \<times> string) list" where
  "parse_header l = (case split_once (CHR '':'') l of Some (k, v) \<Rightarrow> [(trim_ws k, trim_ws v)] | None \<Rightarrow> [])"

definition is_chunked :: "string \<times> string \<Rightarrow> bool" where
  "is_chunked = (\<lambda>(k, v). eq_ignore_case k ''transfer-encoding'' \<and> find_sub ''chunked'' v \<noteq> None)"

definition response_body :: "byte list \<Rightarrow> nat \<Rightarrow> (string \<times> string) list \<Rightarrow> byte list http_outcome" where
  "response_body raw start headers =
     (case find (\<lambda>(k, v). eq_ignore_case k ''content-length'') headers of
        Some (_, v) \<Rightarrow>
          (case parse_unsigned usize_max v of
             None \<Rightarrow> H_Error Bad_length
           | Some n \<Rightarrow> (case get_range raw start n of Some b \<Rightarrow> H_Ok b | None \<Rightarrow> H_Error Body_incomplete))
      | None \<Rightarrow> if list_ex is_chunked headers then chunks [] (drop start raw) else H_Ok (drop start raw))"

definition status_of :: "string \<Rightarrow> nat option" where
  "status_of line = (case split_on (CHR '' '') line of _ # s # _ \<Rightarrow> parse_unsigned u16_max s | _ \<Rightarrow> None)"

definition parse_http_response :: "byte list \<Rightarrow> response http_outcome" where
  "parse_http_response raw =
     (case find_sub (crlf @ crlf) raw of
        None \<Rightarrow> H_Error Head_incomplete
      | Some head_end \<Rightarrow>
          (let lns = split_crlf [] (utf8_lossy (take head_end raw)) in
           case status_of (hd lns) of
             None \<Rightarrow> H_Error Bad_status_line
           | Some status \<Rightarrow>
               let headers = concat (map parse_header (tl lns)) in
               case response_body raw (head_end + 4) headers of
                 H_Ok body \<Rightarrow> H_Ok \<lparr>rs_status = status, rs_headers = headers, rs_body = body\<rparr>
               | H_Error e \<Rightarrow> H_Error e
               | H_Panic \<Rightarrow> H_Panic))"

subsection \<open>Requests\<close>

definition get_request :: "url_parts \<Rightarrow> (string \<times> string) list \<Rightarrow> string" where
  "get_request u headers =
     ''GET '' @ url_path u @ '' HTTP/1.1'' @ crlf @ ''Host: '' @ url_host u @ crlf @
     ''User-Agent: pyfly-lang/update'' @ crlf @ ''Accept: */*'' @ crlf @
     concat (map (\<lambda>(k, v). k @ '': '' @ v @ crlf) headers) @ ''Connection: close'' @ crlf @ crlf"

text \<open>
  \<open>net host port request\<close> is everything that the server behind the TLS connection sends, or the
  error of the connection.  The URLs that were asked come first in the result.
\<close>

type_synonym net = "string \<Rightarrow> nat \<Rightarrow> string \<Rightarrow> string + byte list"

primrec get_loop :: "nat \<Rightarrow> net \<Rightarrow> (string \<times> string) list \<Rightarrow> string \<Rightarrow> string list \<times> response http_outcome" where
  "get_loop 0 net headers cur = ([], H_Error Too_many_redirects)"
| "get_loop (Suc n) net headers cur =
     (case parse_url cur of
        None \<Rightarrow> ([], H_Panic)
      | Some u \<Rightarrow>
          (case net (url_host u) (url_port u) (get_request u headers) of
             Inl e \<Rightarrow> ([cur], H_Error (Transport e))
           | Inr raw \<Rightarrow>
               (case parse_http_response raw of
                  H_Ok resp \<Rightarrow>
                    (if 300 \<le> rs_status resp \<and> rs_status resp < 400 then
                       (case response_header ''location'' resp of
                          None \<Rightarrow> ([cur], H_Error (No_location (rs_status resp)))
                        | Some loc \<Rightarrow>
                            (case resolve_redirect cur loc of
                               H_Ok next \<Rightarrow> (let (us, r) = get_loop n net headers next in (cur # us, r))
                             | H_Error e \<Rightarrow> ([cur], H_Error e)
                             | H_Panic \<Rightarrow> ([cur], H_Panic)))
                     else ([cur], H_Ok resp))
                | H_Error e \<Rightarrow> ([cur], H_Error e)
                | H_Panic \<Rightarrow> ([cur], H_Panic))))"

definition http_get :: "net \<Rightarrow> string \<Rightarrow> (string \<times> string) list \<Rightarrow> string list \<times> response http_outcome" where
  "http_get net url headers = get_loop 10 net headers url"

subsection \<open>Proxies\<close>

definition parse_proxy :: "string \<Rightarrow> string \<times> nat \<times> string" where
  "parse_proxy u =
     (let (rest, scheme) = (case strip_prefix ''http://'' u of
            Some r \<Rightarrow> (r, ''http'')
          | None \<Rightarrow> (case strip_prefix ''https://'' u of Some r \<Rightarrow> (r, ''https'') | None \<Rightarrow> (u, ''http'')));
          hp = hd (split_on (CHR ''/'') rest)
      in case rsplit_once (CHR '':'') hp of
           Some (h, p) \<Rightarrow>
             if list_all is_digit p then (h, (case parse_unsigned u16_max p of Some n \<Rightarrow> n | None \<Rightarrow> 80), scheme)
             else (hp, if scheme = ''https'' then 443 else 80, scheme)
         | None \<Rightarrow> (hp, if scheme = ''https'' then 443 else 80, scheme))"

definition connect_request :: "string \<Rightarrow> nat \<Rightarrow> string" where
  "connect_request host port =
     (let hp = host @ '':'' @ digits_of port in
      ''CONNECT '' @ hp @ '' HTTP/1.1'' @ crlf @ ''Host: '' @ hp @ crlf @ crlf)"

text \<open>The answer to \<open>CONNECT\<close>, from the pieces the reads return; an empty piece is the end of the stream.\<close>

fun connect_reply :: "byte list \<Rightarrow> byte list list \<Rightarrow> unit http_outcome" where
  "connect_reply resp [] = H_Error Proxy_closed"
| "connect_reply resp (piece # pieces) =
     (if piece = [] then H_Error Proxy_closed
      else if find_sub (crlf @ crlf) (resp @ piece) = None then connect_reply (resp @ piece) pieces
      else let status = (case status_of (utf8_lossy (resp @ piece)) of Some n \<Rightarrow> n | None \<Rightarrow> 0)
        in if status \<noteq> 200 then H_Error (Connect_refused status) else H_Ok ())"

text \<open>\<open>str::parse::<IpAddr>\<close>: the four or sixteen bytes of an address.\<close>

definition parse_octet :: "string \<Rightarrow> byte option" where
  "parse_octet s =
     (if 1 \<le> length s \<and> length s \<le> 3 \<and> list_all is_digit s \<and> (length s = 1 \<or> hd s \<noteq> CHR ''0'') \<and> dec_value s \<le> 255
      then Some (char_of (dec_value s)) else None)"

fun all_some :: "'a option list \<Rightarrow> 'a list option" where
  "all_some [] = Some []"
| "all_some (x # xs) = (case x of Some v \<Rightarrow> map_option (\<lambda>vs. v # vs) (all_some xs) | None \<Rightarrow> None)"

definition parse_ipv4 :: "string \<Rightarrow> byte list option" where
  "parse_ipv4 s =
     (let parts = split_on (CHR ''.'') s in if length parts = 4 then all_some (map parse_octet parts) else None)"

definition parse_group :: "string \<Rightarrow> byte list option" where
  "parse_group s =
     (if 1 \<le> length s \<and> length s \<le> 4 then
        map_option (\<lambda>v. [char_of (v div 256), char_of (v mod 256)]) (hex_value 0 s)
      else None)"

text \<open>Groups of an IPv6 address; the last one may be an IPv4 address, which takes the place of two.\<close>

fun parse_groups :: "bool \<Rightarrow> string list \<Rightarrow> byte list option" where
  "parse_groups v4 [] = Some []"
| "parse_groups v4 [g] = (case parse_group g of Some b \<Rightarrow> Some b | None \<Rightarrow> if v4 then parse_ipv4 g else None)"
| "parse_groups v4 (g # h # gs) = (case parse_group g of Some b \<Rightarrow> map_option (\<lambda>bs. b @ bs) (parse_groups v4 (h # gs)) | None \<Rightarrow> None)"

definition group_list :: "string \<Rightarrow> string list" where
  "group_list s = (if s = [] then [] else split_on (CHR '':'') s)"

definition parse_ipv6 :: "string \<Rightarrow> byte list option" where
  "parse_ipv6 s = (case find_sub ''::'' s of
       None \<Rightarrow> (case parse_groups True (split_on (CHR '':'') s) of Some b \<Rightarrow> if length b = 16 then Some b else None | None \<Rightarrow> None)
     | Some i \<Rightarrow>
         (case (parse_groups False (group_list (take i s)), parse_groups True (group_list (drop (i + 2) s))) of
            (Some a, Some b) \<Rightarrow>
              if length a + length b \<le> 14 then Some (a @ replicate (16 - length a - length b) nul @ b) else None
          | _ \<Rightarrow> None))"

subsection \<open>SOCKS5\<close>

text \<open>
  The handshake as a dialogue: what the client sends, and \<open>read_exact\<close> on the bytes of the proxy.  The
  result comes with everything that was sent and with the bytes not yet read.
\<close>

record dialogue =
  dg_sent :: "byte list"
  dg_input :: "byte list"

type_synonym 'a step = "dialogue \<Rightarrow> 'a http_outcome \<times> dialogue"

definition send :: "byte list \<Rightarrow> dialogue \<Rightarrow> dialogue" where
  "send bs d = d\<lparr>dg_sent := dg_sent d @ bs\<rparr>"

definition receive :: "nat \<Rightarrow> http_error \<Rightarrow> byte list step" where
  "receive n e d =
     (if length (dg_input d) < n then (H_Error e, d\<lparr>dg_input := []\<rparr>)
      else (H_Ok (take n (dg_input d)), d\<lparr>dg_input := drop n (dg_input d)\<rparr>))"

definition then_step :: "'a step \<Rightarrow> ('a \<Rightarrow> 'b step) \<Rightarrow> 'b step" where
  "then_step m f d = (case m d of (H_Ok v, d1) \<Rightarrow> f v d1 | (H_Error e, d1) \<Rightarrow> (H_Error e, d1) | (H_Panic, d1) \<Rightarrow> (H_Panic, d1))"

definition byte_of :: "nat \<Rightarrow> byte" where
  "byte_of n = char_of (n mod 256)"

record socks_url =
  sk_host :: string
  sk_port :: nat
  sk_user :: string
  sk_pass :: string

definition parse_socks_url :: "string \<Rightarrow> http_error + socks_url" where
  "parse_socks_url proxy =
     (case (case strip_prefix ''socks5://'' proxy of Some r \<Rightarrow> Some r | None \<Rightarrow> strip_prefix ''socks5h://'' proxy) of
        None \<Rightarrow> Inl Socks_url
      | Some rest \<Rightarrow>
          (let (userinfo, hp) = (case rsplit_once (CHR ''@'') rest of Some (u, h) \<Rightarrow> (Some u, h) | None \<Rightarrow> (None, rest));
               (user, pass) = (case userinfo of
                   Some u \<Rightarrow> (case rsplit_once (CHR '':'') u of Some (a, b) \<Rightarrow> (a, b) | None \<Rightarrow> (u, []))
                 | None \<Rightarrow> ([], []))
           in case rsplit_once (CHR '':'') hp of
                None \<Rightarrow> Inl No_proxy_port
              | Some (h, p) \<Rightarrow>
                  (case parse_unsigned u16_max p of
                     None \<Rightarrow> Inl Proxy_port
                   | Some n \<Rightarrow> Inr \<lparr>sk_host = h, sk_port = n, sk_user = user, sk_pass = pass\<rparr>)))"

definition authenticate :: "string \<Rightarrow> string \<Rightarrow> unit step" where
  "authenticate user pass d =
     then_step (receive 2 Auth_closed)
       (\<lambda>r d. if r ! 1 \<noteq> nul then (H_Error Auth_refused, d) else (H_Ok (), d))
       (send ([byte_of 1, byte_of (length user)] @ user @ [byte_of (length pass)] @ pass) d)"

definition choose_method :: "string \<Rightarrow> string \<Rightarrow> unit step" where
  "choose_method user pass d =
     (let methods = (if user = [] then [nul] else [nul, byte_of 2]) in
      then_step (receive 2 Handshake_closed)
        (\<lambda>r d. if r ! 0 \<noteq> byte_of 5 then (H_Error Not_socks, d)
          else if ord (r ! 1) = 255 then (H_Error No_method, d)
          else if ord (r ! 1) = 2 then authenticate user pass d
          else if ord (r ! 1) = 0 then (H_Ok (), d)
          else (H_Error (Unknown_method (ord (r ! 1))), d))
        (send ([byte_of 5, byte_of (length methods)] @ methods) d))"

definition socks_address :: "string \<Rightarrow> byte list" where
  "socks_address host = (case parse_ipv4 host of
       Some b \<Rightarrow> byte_of 1 # b
     | None \<Rightarrow> (case parse_ipv6 host of Some b \<Rightarrow> byte_of 4 # b | None \<Rightarrow> [byte_of 3, byte_of (length host)] @ host))"

definition connect_target :: "string \<Rightarrow> nat \<Rightarrow> unit step" where
  "connect_target host port d =
     then_step (receive 4 Reply_closed)
       (\<lambda>h d. if h ! 0 \<noteq> byte_of 5 then (H_Error Bad_reply, d)
         else if h ! 1 \<noteq> nul then (H_Error (Socks_failed (ord (h ! 1))), d)
         else let skip = (if ord (h ! 3) = 1 then 4 + 2 else if ord (h ! 3) = 4 then 16 + 2 else 1 + 2)
           in then_step (receive skip Address_closed) (\<lambda>_ d. (H_Ok (), d)) d)
       (send ([byte_of 5, byte_of 1, nul] @ socks_address host @ [byte_of (port div 256), byte_of port]) d)"

definition socks5_connect :: "string \<Rightarrow> string \<Rightarrow> unit step" where
  "socks5_connect proxy target d =
     (case parse_socks_url proxy of
        Inl e \<Rightarrow> (H_Error e, d)
      | Inr p \<Rightarrow>
          then_step (choose_method (sk_user p) (sk_pass p))
            (\<lambda>_ d. case rsplit_once (CHR '':'') target of
               None \<Rightarrow> (H_Error No_target_port, d)
             | Some (host, ps) \<Rightarrow>
                 (case parse_unsigned u16_max ps of
                    None \<Rightarrow> (H_Error Target_port, d)
                  | Some port \<Rightarrow> connect_target host port d)) d)"

end
