(* ===== verification/Fly_Update.thy ===== *)
theory Fly_Update
  imports Fly_Http Fly_Sandboxd
begin

text \<open>
  The self update (\<^verbatim>\<open>src/update.rs\<close>) and the version it compares with (\<^verbatim>\<open>src/version.rs\<close>): reading the
  release from the JSON of the GitHub API, the choice of the asset, the signature, unpacking, and the
  replacement of the binaries.  Signature verification, gzip and zip are library code, and the file
  system belongs to the system: they are parameters, collected in the record \<open>world\<close>.
\<close>

subsection \<open>Versions\<close>

record build =
  bd_version :: string
  bd_commit :: string

text \<open>
  \<^verbatim>\<open>build.rs\<close>: the version and the commit from the environment of the build, or from git, whose trimmed
  answer is a parameter.
\<close>

definition build_main :: "string option \<Rightarrow> string option \<Rightarrow> string option \<Rightarrow> build" where
  "build_main fly_version fly_commit git_head =
     (let version = (case fly_version of Some (c # v) \<Rightarrow> c # v | _ \<Rightarrow> ''dev'');
          commit = (case fly_commit of
              Some (c # v) \<Rightarrow> c # v
            | _ \<Rightarrow> if version \<noteq> ''dev'' then (case git_head of Some h \<Rightarrow> h | None \<Rightarrow> []) else [])
      in \<lparr>bd_version = version, bd_commit = commit\<rparr>)"

definition has_sub :: "string \<Rightarrow> string \<Rightarrow> bool" where
  "has_sub p s \<longleftrightarrow> find_sub p s \<noteq> None"

definition is_dev :: "build \<Rightarrow> bool" where
  "is_dev b \<longleftrightarrow> (let v = map to_lower (bd_version b) in v = [] \<or> v = ''dev'' \<or> has_sub ''-dev'' v)"

definition version_string :: "build \<Rightarrow> string" where
  "version_string b =
     (if is_dev b then
        (if 7 \<le> length (bd_commit b) then bd_version b @ '' ('' @ take 7 (bd_commit b) @ '')'' else bd_version b)
      else bd_version b @ '' (release)'')"

text \<open>\<open>version::trim_tag\<close>\<close>

definition trim_tag_v :: "string \<Rightarrow> string" where
  "trim_tag_v tag = (if 1 < length tag \<and> (hd tag = CHR ''v'' \<or> hd tag = CHR ''V'') then tl tag else tag)"

text \<open>\<open>update::trim_tag\<close>\<close>

definition trim_tag :: "string \<Rightarrow> string" where
  "trim_tag tag = trim_start_of {CHR ''v''} tag"

subsection \<open>Releases\<close>

record release_asset =
  ra_name :: string
  ra_url :: string

record release =
  rl_tag :: string
  rl_body :: string
  rl_assets :: "release_asset list"

record asset =
  as_name :: string
  as_url :: string
  as_sig :: string

record updater =
  up_repo :: string
  up_base :: string
  up_current :: string
  up_insecure :: bool
  up_exec :: "string option"

definition updater_new :: "build \<Rightarrow> updater" where
  "updater_new b = \<lparr>up_repo = ''29anan29/PyFly-lang'', up_base = ''https://api.github.com'',
     up_current = version_string b, up_insecure = False, up_exec = None\<rparr>"

definition is_outdated :: "updater \<Rightarrow> string \<Rightarrow> bool" where
  "is_outdated u latest =
     (let cur = trim_tag (up_current u) in if cur = ''dev'' \<or> cur = [] then True else cur \<noteq> trim_tag latest)"

text \<open>The string after a key; escapes of surrogates and unreadable ones are dropped.\<close>

definition unicode_escape :: "string \<Rightarrow> string" where
  "unicode_escape hex = (case parse_hex 4294967295 hex of
       Some cp \<Rightarrow> if 55296 \<le> cp \<and> cp \<le> 57343 then [] else utf8_of (int cp)
     | None \<Rightarrow> [])"

function field_chars :: "string \<Rightarrow> string \<Rightarrow> string option" where
  "field_chars out [] = None"
| "field_chars out (c # s) =
     (if c = double_quote then Some out
      else if c \<noteq> backslash then field_chars (out @ [c]) s
      else case s of
          [] \<Rightarrow> None
        | e # t \<Rightarrow>
            if e = CHR ''n'' then field_chars (out @ [newline]) t
            else if e = CHR ''t'' then field_chars (out @ [tab]) t
            else if e = CHR ''r'' then field_chars (out @ [carriage_return]) t
            else if e = CHR ''u'' then
              (let hex = take_chars 4 t in field_chars (out @ unicode_escape hex) (drop (length hex) t))
            else field_chars (out @ [e]) t)"
  by pat_completeness auto
termination
  by (relation "measure (\<lambda>(out, s). length s)") auto

definition after_key :: "string \<Rightarrow> string \<Rightarrow> string option" where
  "after_key s key =
     (let pat = [double_quote] @ key @ [double_quote] in
      case find_sub pat s of
        None \<Rightarrow> None
      | Some i \<Rightarrow> map_option trim_start (strip_prefix '':'' (trim_start (drop (i + length pat) s))))"

definition json_string_field :: "string \<Rightarrow> string \<Rightarrow> string option" where
  "json_string_field s key = (case after_key s key of
       None \<Rightarrow> None
     | Some r \<Rightarrow> (case strip_prefix [double_quote] r of Some t \<Rightarrow> field_chars [] t | None \<Rightarrow> None))"

fun array_end :: "nat \<Rightarrow> int \<Rightarrow> bool \<Rightarrow> bool \<Rightarrow> string \<Rightarrow> nat option" where
  "array_end i depth in_str esc [] = None"
| "array_end i depth in_str esc (c # s) =
     (if in_str then
        (if esc then array_end (i + 1) depth True False s
         else if c = backslash then array_end (i + 1) depth True True s
         else array_end (i + 1) depth (c \<noteq> double_quote) False s)
      else if c = double_quote then array_end (i + 1) depth True esc s
      else if c = CHR ''['' then array_end (i + 1) (depth + 1) False esc s
      else if c = CHR '']'' then (if depth = 0 then Some i else array_end (i + 1) (depth - 1) False esc s)
      else array_end (i + 1) depth False esc s)"

definition json_array :: "string \<Rightarrow> string \<Rightarrow> string option" where
  "json_array s key = (case after_key s key of
       None \<Rightarrow> None
     | Some r \<Rightarrow>
         (case strip_prefix ''['' r of
            Some inner \<Rightarrow> map_option (\<lambda>i. take i inner) (array_end 0 0 False False inner)
          | None \<Rightarrow> None))"

fun split_objects :: "string \<Rightarrow> nat \<Rightarrow> int \<Rightarrow> nat \<Rightarrow> bool \<Rightarrow> bool \<Rightarrow> string \<Rightarrow> string list" where
  "split_objects arr i depth start in_str esc [] = []"
| "split_objects arr i depth start in_str esc (c # s) =
     (if in_str then
        (if esc then split_objects arr (i + 1) depth start True False s
         else if c = backslash then split_objects arr (i + 1) depth start True True s
         else split_objects arr (i + 1) depth start (c \<noteq> double_quote) False s)
      else if c = double_quote then split_objects arr (i + 1) depth start True esc s
      else if c = CHR ''{'' then split_objects arr (i + 1) (depth + 1) (if depth = 0 then i else start) False esc s
      else if c = CHR ''}'' then
        (if depth - 1 = 0 then [Fly_Prelude.slice arr start (i + 1)] else []) @ split_objects arr (i + 1) (depth - 1) start False esc s
      else split_objects arr (i + 1) depth start False esc s)"

definition split_json_objects :: "string \<Rightarrow> string list" where
  "split_json_objects arr = split_objects arr 0 0 0 False False arr"

definition release_asset_of :: "string \<Rightarrow> release_asset list" where
  "release_asset_of item = (case json_string_field item ''name'' of
       Some name \<Rightarrow> [\<lparr>ra_name = name, ra_url = (case json_string_field item ''browser_download_url'' of Some u \<Rightarrow> u | None \<Rightarrow> [])\<rparr>]
     | None \<Rightarrow> [])"

definition parse_release :: "byte list \<Rightarrow> release option" where
  "parse_release bytes =
     (let s = utf8_lossy bytes in
      map_option (\<lambda>tag.
        \<lparr>rl_tag = tag, rl_body = (case json_string_field s ''body'' of Some t \<Rightarrow> t | None \<Rightarrow> []),
         rl_assets = (case json_array s ''assets'' of
             Some arr \<Rightarrow> concat (map release_asset_of (split_json_objects arr))
           | None \<Rightarrow> [])\<rparr>) (json_string_field s ''tag_name''))"

definition asset_for :: "string \<Rightarrow> string \<Rightarrow> release \<Rightarrow> asset option" where
  "asset_for os arch rel =
     (let ext = (if os = ''windows'' then ''zip'' else ''tar.gz'');
          want = ''fly-'' @ os @ ''-'' @ arch @ ''.'' @ ext
      in map_option (\<lambda>a. \<lparr>as_name = ra_name a, as_url = ra_url a,
           as_sig = (case find (\<lambda>x. ra_name x = want @ ''.sig'') (rl_assets rel) of Some x \<Rightarrow> ra_url x | None \<Rightarrow> [])\<rparr>)
           (find (\<lambda>a. ra_name a = want) (rl_assets rel)))"

subsection \<open>Signatures\<close>

definition base64_table :: string where
  "base64_table = ''ABCDEFGHIJKLMNOPQRSTUVWXYZabcdefghijklmnopqrstuvwxyz0123456789+/''"

text \<open>The buffer keeps 32 bits.\<close>

fun base64_loop :: "byte list \<Rightarrow> nat \<Rightarrow> nat \<Rightarrow> string \<Rightarrow> byte list option" where
  "base64_loop out buf bits [] = Some out"
| "base64_loop out buf bits (c # s) =
     (if c = CHR ''='' then Some out
      else case find_byte c base64_table of
          None \<Rightarrow> None
        | Some v \<Rightarrow>
            (let buf = (buf * 64 + v) mod 4294967296; bits = bits + 6 in
             if 8 \<le> bits then base64_loop (out @ [byte_of (buf div 2 ^ (bits - 8))]) buf (bits - 8) s
             else base64_loop out buf bits s))"

definition base64_decode :: "string \<Rightarrow> byte list option" where
  "base64_decode s = base64_loop [] 0 0 s"

definition SIGN_PUB_KEY :: string where
  "SIGN_PUB_KEY = ''YXpFqzZ8daPtFKwvpKTNoCkc8DIT2cG52cH3tvro9Go=''"

datatype update_error =
    U_Key | U_Signature_length nat | U_Tampered | U_No_signature | U_Signature_status nat | U_Http http_error
  | U_Download_status nat | U_No_executable | U_Unzip | U_Untar | U_Tar_size | U_Tar_padding | U_Archive_empty
  | U_Write | U_Chmod | U_Rename | U_Release_status nat | U_No_tag | U_Panic

text \<open>\<open>valid\<close> is the verification of Ed25519, of a key, a text and a signature.\<close>

definition verify_signed :: "(byte list \<Rightarrow> byte list \<Rightarrow> byte list \<Rightarrow> bool) \<Rightarrow> byte list \<Rightarrow> byte list \<Rightarrow> update_error option" where
  "verify_signed valid data sig =
     (case base64_decode SIGN_PUB_KEY of
        None \<Rightarrow> Some U_Key
      | Some key \<Rightarrow>
          if length sig \<noteq> 64 then Some (U_Signature_length (length sig))
          else if length key \<noteq> 32 then Some U_Key
          else if valid key data sig then None else Some U_Tampered)"

subsection \<open>Archives\<close>

definition base_name :: "string \<Rightarrow> string" where
  "base_name name = last (split_on (CHR ''/'') name)"

text \<open>The unpacked stream: its bytes, and whether it breaks off behind them with an error.\<close>

type_synonym stream = "byte list \<times> bool"

datatype 'a reading_of = Read_ok 'a stream | Read_eof | Read_broken

definition read_exact :: "nat \<Rightarrow> stream \<Rightarrow> byte list reading_of" where
  "read_exact n = (\<lambda>(bs, broken).
     if n \<le> length bs then Read_ok (take n bs) (drop n bs, broken) else if broken then Read_broken else Read_eof)"

record tar_header =
  th_name :: string
  th_size :: nat
  th_is_file :: bool

fun octal_value :: "int \<Rightarrow> string \<Rightarrow> int option" where
  "octal_value v [] = Some v"
| "octal_value v (c # s) = (if 48 \<le> ord c \<and> ord c \<le> 55 then octal_value (v * 8 + (ord c - 48)) s else None)"

definition parse_octal :: "string \<Rightarrow> nat option" where
  "parse_octal s =
     (let ds = unsigned_body s in
      if ds = [] then None
      else case octal_value 0 ds of Some v \<Rightarrow> if usize_max < v then None else Some (nat v) | None \<Rightarrow> None)"

definition tar_header_of :: "byte list \<Rightarrow> tar_header option" where
  "tar_header_of block =
     map_option (\<lambda>n. \<lparr>th_name = trim_end_of {nul} (utf8_lossy (take 100 block)), th_size = n,
         th_is_file = (block ! 156 = CHR ''0'' \<or> block ! 156 = nul)\<rparr>)
       (parse_octal (trim_ws (trim_end_of {nul} (utf8_lossy (Fly_Prelude.slice block 124 136)))))"

definition tar_padding :: "nat \<Rightarrow> nat" where
  "tar_padding n = (512 - n mod 512) mod 512"

definition wanted :: "string \<Rightarrow> string list" where
  "wanted name = (if drop (length name - 4) name = ''.zip'' then [''fly.exe'', ''fly-checkd.exe'', ''fly-sandboxd.exe'']
     else [''fly'', ''fly-checkd'', ''fly-sandboxd''])"

text \<open>
  The loop over the entries of a tar file, one round for every header of 512 bytes, so that a round
  for each byte is enough.  The contents of an entry that is not wanted are not skipped.
\<close>

primrec untar :: "nat \<Rightarrow> string list \<Rightarrow> (string \<times> byte list) list \<Rightarrow> stream \<Rightarrow> update_error + (string \<times> byte list) list" where
  "untar 0 want out st = Inr out"
| "untar (Suc n) want out st =
     (case read_exact 512 st of
        Read_eof \<Rightarrow> Inr out
      | Read_broken \<Rightarrow> Inl U_Untar
      | Read_ok block st1 \<Rightarrow>
          if list_all (\<lambda>b. b = nul) block then Inr out
          else case tar_header_of block of
              None \<Rightarrow> Inl U_Tar_size
            | Some h \<Rightarrow>
                (let fname = base_name (th_name h);
                     taken = (if th_is_file h \<and> fname \<in> set want then
                         (case read_exact (th_size h) st1 of
                            Read_ok data st2 \<Rightarrow> Some (out @ [(fname, data)], st2)
                          | _ \<Rightarrow> None)
                       else Some (out, st1))
                 in case taken of
                      None \<Rightarrow> Inl U_Untar
                    | Some (out2, st2) \<Rightarrow>
                        (case read_exact (tar_padding (th_size h)) st2 of
                           Read_ok _ st3 \<Rightarrow> untar n want out2 st3
                         | _ \<Rightarrow> Inl U_Tar_padding)))"

text \<open>
  \<open>unzip\<close> gives the entries of a zip file, \<open>None\<close> for one that cannot be read, with the contents where
  they can be unpacked.
\<close>

type_synonym zip_entries = "(string \<times> byte list option) option list"

primrec unzip_wanted :: "string list \<Rightarrow> (string \<times> byte list) list \<Rightarrow> zip_entries \<Rightarrow> update_error + (string \<times> byte list) list" where
  "unzip_wanted want out [] = Inr out"
| "unzip_wanted want out (e # es) =
     (case e of
        None \<Rightarrow> Inl U_Unzip
      | Some (name, data) \<Rightarrow>
          if base_name name \<in> set want then
            (case data of Some bs \<Rightarrow> unzip_wanted want (out @ [(base_name name, bs)]) es | None \<Rightarrow> Inl U_Unzip)
          else unzip_wanted want out es)"

definition extract_binaries :: "(byte list \<Rightarrow> stream) \<Rightarrow> (byte list \<Rightarrow> zip_entries option) \<Rightarrow> byte list \<Rightarrow> string \<Rightarrow>
    update_error + (string \<times> byte list) list" where
  "extract_binaries gunzip unzip archive name =
     (let found = (if drop (length name - 4) name = ''.zip'' then
            (case unzip archive of None \<Rightarrow> Inl U_Unzip | Some es \<Rightarrow> unzip_wanted (wanted name) [] es)
          else untar (Suc (length (fst (gunzip archive)))) (wanted name) [] (gunzip archive))
      in case found of Inl e \<Rightarrow> Inl e | Inr out \<Rightarrow> if out = [] then Inl U_Archive_empty else Inr out)"

subsection \<open>Installing\<close>

record world =
  w_net :: net
  w_valid :: "byte list \<Rightarrow> byte list \<Rightarrow> byte list \<Rightarrow> bool"
  w_gunzip :: "byte list \<Rightarrow> stream"
  w_unzip :: "byte list \<Rightarrow> zip_entries option"
  w_exe :: "string option"
  w_canonical :: "string \<Rightarrow> string option"
  w_write :: "string \<Rightarrow> byte list \<Rightarrow> bool"
  w_chmod :: "string \<Rightarrow> bool"
  w_rename :: "string \<Rightarrow> string \<Rightarrow> bool"

datatype file_op = Write_file string "byte list" | Chmod_755 string | Rename_file string string | Remove_file string

definition fetch :: "world \<Rightarrow> string \<Rightarrow> (string \<times> string) list \<Rightarrow> (nat \<Rightarrow> update_error) \<Rightarrow> update_error + byte list" where
  "fetch w url headers bad = (case snd (http_get (w_net w) url headers) of
       H_Ok r \<Rightarrow> if rs_status r \<noteq> 200 then Inl (bad (rs_status r)) else Inr (rs_body r)
     | H_Error e \<Rightarrow> Inl (U_Http e)
     | H_Panic \<Rightarrow> Inl U_Panic)"

definition latest :: "world \<Rightarrow> updater \<Rightarrow> update_error + release" where
  "latest w u =
     (case fetch w (up_base u @ ''/repos/'' @ up_repo u @ ''/releases/latest'')
          [(''Accept'', ''application/vnd.github+json'')] U_Release_status of
        Inl e \<Rightarrow> Inl e
      | Inr body \<Rightarrow> (case parse_release body of Some r \<Rightarrow> Inr r | None \<Rightarrow> Inl U_No_tag))"

definition verify_asset :: "world \<Rightarrow> asset \<Rightarrow> byte list \<Rightarrow> update_error option" where
  "verify_asset w a data =
     (if as_sig a = [] then Some U_No_signature
      else case fetch w (as_sig a) [] U_Signature_status of
          Inl e \<Rightarrow> Some e
        | Inr sig \<Rightarrow> verify_signed (w_valid w) data sig)"

definition executable :: "world \<Rightarrow> updater \<Rightarrow> string option" where
  "executable w u = (case up_exec u of Some p \<Rightarrow> Some p | None \<Rightarrow> w_exe w)"

primrec replace_files :: "world \<Rightarrow> string \<Rightarrow> (string \<times> byte list) list \<Rightarrow> file_op list \<times> update_error option" where
  "replace_files w dir [] = ([], None)"
| "replace_files w dir (f # fs) =
     (let target = join_path dir (fst f); fresh = join_path dir (''.'' @ fst f @ ''.new'') in
      if \<not> w_write w fresh (snd f) then ([Write_file fresh (snd f)], Some U_Write)
      else if \<not> w_chmod w fresh then ([Write_file fresh (snd f), Chmod_755 fresh], Some U_Chmod)
      else if \<not> w_rename w fresh target then
        ([Write_file fresh (snd f), Chmod_755 fresh, Rename_file fresh target, Remove_file fresh], Some U_Rename)
      else let (ops, r) = replace_files w dir fs
        in ([Write_file fresh (snd f), Chmod_755 fresh, Rename_file fresh target] @ ops, r))"

definition install :: "world \<Rightarrow> updater \<Rightarrow> asset \<Rightarrow> file_op list \<times> update_error option" where
  "install w u a =
     (case fetch w (as_url a) [] U_Download_status of
        Inl e \<Rightarrow> ([], Some e)
      | Inr data \<Rightarrow>
          (case (if up_insecure u then None else verify_asset w a data) of
             Some e \<Rightarrow> ([], Some e)
           | None \<Rightarrow>
               (case executable w u of
                  None \<Rightarrow> ([], Some U_No_executable)
                | Some exe \<Rightarrow>
                    (let real = (case w_canonical w exe of Some p \<Rightarrow> p | None \<Rightarrow> exe) in
                     case extract_binaries (w_gunzip w) (w_unzip w) data (as_name a) of
                       Inl e \<Rightarrow> ([], Some e)
                     | Inr files \<Rightarrow>
                         replace_files w (case path_parent real of Some d \<Rightarrow> d | None \<Rightarrow> ''.'') files))))"

text \<open>\<open>confirm\<close>: the line that was typed, or \<open>None\<close> where it cannot be read.\<close>

definition confirm :: "string option \<Rightarrow> bool" where
  "confirm line = (case line of
       Some l \<Rightarrow> (let t = map to_lower (trim_ws l) in t = ''y'' \<or> t = ''yes'')
     | None \<Rightarrow> False)"

end
