(* ===== verification/Fly_Http_Facts.thy ===== *)
theory Fly_Http_Facts
  imports Fly_Http Fly_Digits
begin

text \<open>
  The HTTP client: it never leaves HTTPS, it reads chunked bodies back, and where it misreads a peer.
\<close>

subsection \<open>Redirects\<close>

lemma starts_with_append: "starts_with p s \<longleftrightarrow> (\<exists>r. s = p @ r)"
  by (metis starts_with_def append_take_drop_id append_eq_conv_conj)

lemma parse_url_https: "parse_url u \<noteq> None \<longleftrightarrow> starts_with ''https://'' u"
  by (auto simp: parse_url_def strip_prefix_def Let_def split: option.splits prod.splits)

lemma redirect_https:
  assumes "starts_with ''https://'' cur"
  shows "resolve_redirect cur loc \<noteq> H_Panic" "resolve_redirect cur loc = H_Ok u \<Longrightarrow> starts_with ''https://'' u"
proof -
  obtain p where p: "parse_url cur = Some p" using assms parse_url_https by auto
  show "resolve_redirect cur loc \<noteq> H_Panic" by (simp add: resolve_redirect_def p Let_def)
  show "resolve_redirect cur loc = H_Ok u \<Longrightarrow> starts_with ''https://'' u"
    by (auto simp: resolve_redirect_def p Let_def starts_with_append split: if_splits)
qed

lemma get_loop_https:
  "starts_with ''https://'' url \<Longrightarrow>
   list_all (starts_with ''https://'') (fst (get_loop n net headers url)) \<and> length (fst (get_loop n net headers url)) \<le> n"
proof (induction n arbitrary: url)
  case (Suc n)
  have step: "list_all (starts_with ''https://'') (fst (get_loop n net headers u)) \<and> length (fst (get_loop n net headers u)) \<le> n"
    if "resolve_redirect url loc = H_Ok u" for loc u
    using Suc.IH redirect_https(2) [OF Suc.prems that] by blast
  show ?case using Suc.prems step
    by (auto split: option.split sum.split http_outcome.split prod.split simp: Let_def) (metis fst_conv)+
qed simp

text \<open>
  C19: the updater never leaves HTTPS: whatever the servers answer, every URL that is asked begins with
  \<open>https://\<close>, at most ten are asked, and no redirect makes the client panic.\<close>

theorem get_stays_https:
  assumes "starts_with ''https://'' url"
  shows "list_all (starts_with ''https://'') (fst (http_get net url headers)) \<and> length (fst (http_get net url headers)) \<le> 10 \<and>
    (\<forall>loc. resolve_redirect url loc \<noteq> H_Panic)"
  using get_loop_https [OF assms, of 10 net headers] redirect_https(1) [OF assms] by (simp add: http_get_def)

theorem get_stays_https_witness:
  "list_all (starts_with ''https://'') (fst (http_get (\<lambda>_ _ _. Inl ''refused'') ''https://a.b/c'' [])) \<and>
   length (fst (http_get (\<lambda>_ _ _. Inl ''refused'') ''https://a.b/c'' [])) \<le> 10 \<and>
   (\<forall>loc. resolve_redirect ''https://a.b/c'' loc \<noteq> H_Panic)"
  by (rule get_stays_https) simp

subsection \<open>Chunked bodies\<close>

fun hex_digits :: "nat \<Rightarrow> string" where
  "hex_digits n = (if n < 16 then [hex_char n] else hex_digits (n div 16) @ [hex_char (n mod 16)])"

declare hex_digits.simps [simp del]

definition chunk_text :: "byte list \<Rightarrow> byte list" where
  "chunk_text c = hex_digits (length c) @ crlf @ c @ crlf"

lemma hex_char_facts:
  assumes "d < 16"
  shows "hex_digit_value (hex_char d) = Some (int d) \<and> 48 \<le> ord (hex_char d) \<and> ord (hex_char d) < 128"
proof -
  have "list_all (\<lambda>d. hex_digit_value (hex_char d) = Some (int d) \<and> 48 \<le> ord (hex_char d) \<and> ord (hex_char d) < 128) [0 ..< 16]"
    by code_simp
  with assms show ?thesis by (simp add: list_all_iff)
qed

lemma hex_value_append: "hex_value v (a @ b) = (case hex_value v a of Some w \<Rightarrow> hex_value w b | None \<Rightarrow> None)"
  by (induction v a rule: hex_value.induct) (auto split: option.split)

lemma hex_digits_value: "hex_value 0 (hex_digits n) = Some (int n)"
proof (induction n rule: hex_digits.induct)
  case (1 n)
  show ?case
  proof (cases "n < 16")
    case True
    then show ?thesis by (simp add: hex_digits.simps [of n] hex_char_facts)
  next
    case False
    then have "int (n div 16) * 16 + int (n mod 16) = int n" by (metis div_mult_mod_eq of_nat_add of_nat_mult of_nat_numeral)
    with False 1 show ?thesis by (simp add: hex_digits.simps [of n] hex_value_append hex_char_facts)
  qed
qed

lemma hex_digits_chars: "hex_digits n \<noteq> [] \<and> (\<forall>c \<in> set (hex_digits n). 48 \<le> ord c \<and> ord c < 128)"
proof (induction n rule: hex_digits.induct)
  case (1 n)
  then show ?case using hex_char_facts [of n] hex_char_facts [of "n mod 16"] by (auto simp: hex_digits.simps [of n])
qed

lemma trim_ws_plain: "s \<noteq> [] \<Longrightarrow> \<forall>c \<in> set s. 48 \<le> ord c \<and> ord c < 128 \<Longrightarrow> trim_ws s = s"
proof -
  assume s: "s \<noteq> []" "\<forall>c \<in> set s. 48 \<le> ord c \<and> ord c < 128"
  have plain: "\<not> ascii_space c \<and> \<not> space_2 c b \<and> \<not> space_2 b c \<and> \<not> space_3 c b b' \<and> \<not> space_3 b' b c" if "48 \<le> ord c" "ord c < 128" for c b b'
    using that by (auto simp: ascii_space_def space_2_def space_3_def ord_def)
  have "space_at_start s = 0" using s plain by (cases s) (auto simp: space_at_start_def split: list.split)
  then have "trim_start s = s" by (simp add: trim_start.simps)
  moreover have "space_at_end s = 0" using s plain by (cases s rule: rev_cases) (auto simp: space_at_end_def split: list.split)
  then have "trim_end s = s" by (simp add: trim_end.simps)
  ultimately show ?thesis by (simp add: trim_ws_def)
qed

lemma find_sub_here: "c \<notin> set a \<Longrightarrow> find_sub (c # p) (a @ c # p @ x) = Some (length a)"
  by (induction a) auto

lemma parse_hex_digits: "int n \<le> usize_max \<Longrightarrow> parse_hex usize_max (trim_ws (utf8_lossy (hex_digits n))) = Some n"
proof -
  assume n: "int n \<le> usize_max"
  have "utf8_lossy (hex_digits n) = hex_digits n" using hex_digits_chars by (intro utf8_lossy_ascii) (auto simp: list_all_iff)
  moreover have "hd (hex_digits n) \<noteq> CHR ''+''" using hex_digits_chars [of n] by (cases "hex_digits n") (auto simp: ord_def)
  then have "unsigned_body (hex_digits n) = hex_digits n" by (auto simp: unsigned_body_def split: list.split)
  ultimately show ?thesis using n hex_digits_chars [of n] by (simp add: trim_ws_plain parse_hex_def hex_digits_value Let_def)
qed

lemma find_crlf: "find_sub crlf (hex_digits n @ crlf @ x) = Some (length (hex_digits n))"
proof -
  have "carriage_return \<notin> set (hex_digits n)" using hex_digits_chars [of n] by (auto simp: ord_def)
  from find_sub_here [OF this, of "[newline]" x] show ?thesis by simp
qed

lemma length_hex_digits: "length (hex_digits n) \<le> n + 1"
proof (induction n rule: hex_digits.induct)
  case (1 n)
  have "n div 16 + 2 \<le> n + 1" if "16 \<le> n" using that by (simp add: less_eq_div_iff_mult_less_eq)
  with 1 show ?case by (auto simp: hex_digits.simps [of n])
qed

lemma chunks_step:
  assumes "c \<noteq> []" "length c < 2 ^ 62"
  shows "chunks out (chunk_text c @ rest) = chunks (out @ c) rest"
proof -
  define h where "h = hex_digits (length c)"
  have h: "length h + 2 + length c < 2 ^ 64" using length_hex_digits [of "length c"] assms(2) by (simp add: h_def)
  have n: "int (length c) \<le> usize_max" using assms(2) by simp
  have shape: "chunk_text c @ rest = h @ crlf @ (c @ crlf @ rest)" by (simp add: chunk_text_def h_def)
  have "get_range (h @ crlf @ c @ crlf @ rest) (length h + 2) (length c) = Some c"
    using h by (simp add: get_range_def slice_def Let_def)
  moreover have "find_sub crlf (h @ crlf @ (c @ crlf @ rest)) = Some (length h)" unfolding h_def by (rule find_crlf)
  moreover have "drop (4 + length c) (carriage_return # newline # c @ carriage_return # newline # rest) = rest"
    by (simp add: eval_nat_numeral)
  ultimately show ?thesis unfolding shape
    using assms(1) by (subst chunks.simps) (simp add: h_def parse_hex_digits [OF n] Let_def)
qed

lemma chunks_end: "chunks out (''0'' @ crlf @ crlf) = H_Ok out"
  by (subst chunks.simps) code_simp

lemma chunks_all:
  "list_all (\<lambda>c. c \<noteq> [] \<and> length c < 2 ^ 62) cs \<Longrightarrow> chunks out (concat (map chunk_text cs) @ ''0'' @ crlf @ crlf) = H_Ok (out @ concat cs)"
proof (induction cs arbitrary: out)
  case Nil
  then show ?case using chunks_end by simp
next
  case (Cons c cs)
  then have "chunks out (chunk_text c @ (concat (map chunk_text cs) @ ''0'' @ crlf @ crlf)) = H_Ok ((out @ c) @ concat cs)"
    by (subst chunks_step) simp_all
  then show ?case by simp
qed

abbreviation chunked_head :: string where
  "chunked_head \<equiv> ''HTTP/1.1 200 OK'' @ crlf @ ''Transfer-Encoding: chunked''"

lemma response_head:
  "parse_http_response (chunked_head @ crlf @ crlf @ body) =
     (case chunks [] body of H_Ok b \<Rightarrow> H_Ok \<lparr>rs_status = 200, rs_headers = [(''Transfer-Encoding'', ''chunked'')], rs_body = b\<rparr>
      | H_Error e \<Rightarrow> H_Error e | H_Panic \<Rightarrow> H_Panic)"
proof -
  have head: "hd (split_crlf [] (utf8_lossy chunked_head)) = ''HTTP/1.1 200 OK''"
    "concat (map parse_header (tl (split_crlf [] (utf8_lossy chunked_head)))) = [(''Transfer-Encoding'', ''chunked'')]"
    "status_of ''HTTP/1.1 200 OK'' = Some 200" "length chunked_head = 43"
    by code_simp+
  have "find_sub (crlf @ crlf) (chunked_head @ crlf @ crlf @ body) = Some 43" by simp
  moreover have "response_body (chunked_head @ crlf @ crlf @ body) (43 + 4) [(''Transfer-Encoding'', ''chunked'')] = chunks [] body"
  proof -
    have "\<not> eq_ignore_case ''Transfer-Encoding'' ''content-length''" "is_chunked (''Transfer-Encoding'', ''chunked'')" by code_simp+
    moreover have "drop (43 + 4) (chunked_head @ crlf @ crlf @ body) = body" by (simp add: eval_nat_numeral)
    ultimately show ?thesis unfolding response_body_def by simp
  qed
  ultimately show ?thesis using head unfolding parse_http_response_def by simp
qed



subsection \<open>Peers that are misread\<close>

text \<open>
  Note: some replies are misread: a chunked body that ends right behind the data of a chunk makes the
  client panic; a proxy that names the address it is bound to by a host name leaves bytes of its reply
  in the stream, where the TLS handshake finds them; and a user name of 256 bytes is announced as empty.\<close>

theorem peers_misread:
  "parse_http_response (''HTTP/1.1 200 OK'' @ crlf @ ''Transfer-Encoding: chunked'' @ crlf @ crlf @ ''5'' @ crlf @ ''hello'') = H_Panic \<and>
   dg_input (snd (connect_target ''1.2.3.4'' 443 \<lparr>dg_sent = [], dg_input = utf8 [5, 0, 0, 3, 3] @ ''a.b'' @ utf8 [1, 187]\<rparr>)) = ''b'' @ utf8 [1, 187] \<and>
   take 2 (dg_sent (snd (authenticate (replicate 256 (CHR ''u'')) [] \<lparr>dg_sent = [], dg_input = []\<rparr>))) = utf8 [1, 0]"
proof (intro conjI)
  have "find_sub crlf (''5'' @ crlf @ ''hello'') = Some 1" "parse_hex usize_max (trim_ws (utf8_lossy (take 1 (''5'' @ crlf @ ''hello'')))) = Some 5"
    by code_simp+
  then have chunk: "chunks [] (''5'' @ crlf @ ''hello'') = H_Panic"
    by (subst chunks.simps) (simp add: get_range_def slice_def)
  show "parse_http_response (''HTTP/1.1 200 OK'' @ crlf @ ''Transfer-Encoding: chunked'' @ crlf @ crlf @ ''5'' @ crlf @ ''hello'') = H_Panic"
    using response_head [of "''5'' @ crlf @ ''hello''"] chunk by simp
  show "dg_input (snd (connect_target ''1.2.3.4'' 443 \<lparr>dg_sent = [], dg_input = utf8 [5, 0, 0, 3, 3] @ ''a.b'' @ utf8 [1, 187]\<rparr>)) = ''b'' @ utf8 [1, 187]"
    by code_simp
  show "take 2 (dg_sent (snd (authenticate (replicate 256 (CHR ''u'')) [] \<lparr>dg_sent = [], dg_input = []\<rparr>))) = utf8 [1, 0]"
    by (simp add: authenticate_def send_def then_step_def receive_def byte_of_def utf8_def char_of_def bit_0 bit_Suc)
qed

end
