(* ===== verification/Fly_Update_Facts.thy ===== *)
theory Fly_Update_Facts
  imports Fly_Update Fly_Http_Facts
begin

text \<open>
  The updater installs only what is signed, and unpacks archives of its own binaries; but it takes every
  release build for outdated, and it cannot read archives with other files.
\<close>

subsection \<open>Signatures\<close>

definition public_key :: "byte list" where
  "public_key = the (base64_decode SIGN_PUB_KEY)"

lemma base64_loop_length:
  "set t \<subseteq> set base64_table \<Longrightarrow> CHR ''='' \<notin> set t \<Longrightarrow> bits < 8 \<Longrightarrow>
     \<exists>key. base64_loop out buf bits (t @ ''='') = Some (out @ key) \<and> length key = (bits + 6 * length t) div 8"
proof (induction t arbitrary: out buf bits)
  case (Cons c t)
  then have "c \<in> set base64_table" by simp
  then obtain v where v: "find_byte c base64_table = Some v" by (cases "find_byte c base64_table") auto
  have t: "set t \<subseteq> set base64_table" "CHR ''='' \<notin> set t" using Cons.prems by auto
  let ?buf = "(buf * 64 + v) mod 4294967296"
  show ?case
  proof (cases "8 \<le> bits + 6")
    case True
    define b where "b = byte_of (?buf div 2 ^ (bits + 6 - 8))"
    let ?out = "out @ [b]"
    have less: "bits + 6 - 8 < 8" using Cons.prems(3) by simp
    obtain key where key: "base64_loop ?out ?buf (bits + 6 - 8) (t @ ''='') = Some (?out @ key)"
      "length key = (bits + 6 - 8 + 6 * length t) div 8"
      using Cons.IH [OF t less, of ?out ?buf] by (elim exE conjE)
    have "bits + 6 * length (c # t) = 8 + (bits + 6 - 8 + 6 * length t)" using True by simp
    then have "(bits + 6 * length (c # t)) div 8 = Suc (length key)" by (simp only: key(2))
    with key(1) Cons.prems v True show ?thesis by (auto simp: Let_def b_def)
  next
    case False
    then obtain key where "base64_loop out ?buf (bits + 6) (t @ ''='') = Some (out @ key)"
      "length key = (bits + 6 + 6 * length t) div 8"
      using Cons.IH [OF t, of "bits + 6" out ?buf] by (auto simp del: base64_loop.simps)
    with Cons.prems v False show ?thesis by (auto simp: Let_def)
  qed
qed simp

lemma public_key: "base64_decode SIGN_PUB_KEY = Some public_key" "length public_key = 32"
proof -
  let ?t = "butlast SIGN_PUB_KEY"
  have "list_all (\<lambda>c. c \<in> set base64_table \<and> c \<noteq> CHR ''='') ?t" by code_simp
  moreover have "SIGN_PUB_KEY = ?t @ ''=''" by code_simp
  moreover have "length ?t = 43" by (simp add: SIGN_PUB_KEY_def)
  ultimately have "\<exists>key. base64_decode SIGN_PUB_KEY = Some key \<and> length key = 32"
    using base64_loop_length [of ?t 0 "[]" 0] by (auto simp: base64_decode_def list_all_iff)
  then show "base64_decode SIGN_PUB_KEY = Some public_key" "length public_key = 32" by (auto simp: public_key_def)
qed

lemma verify_asset_None:
  "verify_asset w a data = None \<longleftrightarrow> as_sig a \<noteq> [] \<and>
     (\<exists>sig. fetch w (as_sig a) [] U_Signature_status = Inr sig \<and> length sig = 64 \<and> w_valid w public_key data sig)"
  by (auto simp: verify_asset_def verify_signed_def public_key split: sum.splits)

lemma replace_writes: "Write_file p d \<in> set (fst (replace_files w dir fs)) \<Longrightarrow> \<exists>name. (name, d) \<in> set fs \<and> p = join_path dir (''.'' @ name @ ''.new'')"
  by (induction fs) (auto simp: Let_def split: prod.splits if_splits)

text \<open>The files of an archive that was downloaded together with its valid signature.\<close>

definition authentic :: "world \<Rightarrow> asset \<Rightarrow> (string \<times> byte list) list \<Rightarrow> bool" where
  "authentic w a files \<longleftrightarrow> (\<exists>data sig.
     fetch w (as_url a) [] U_Download_status = Inr data \<and> fetch w (as_sig a) [] U_Signature_status = Inr sig \<and>
     length sig = 64 \<and> w_valid w public_key data sig \<and>
     extract_binaries (w_gunzip w) (w_unzip w) data (as_name a) = Inr files)"

lemma install_authentic:
  assumes "fst (install w u a) \<noteq> []" "\<not> up_insecure u"
  shows "\<exists>files. authentic w a files \<and> {d. \<exists>p. Write_file p d \<in> set (fst (install w u a))} \<subseteq> snd ` set files"
proof -
  obtain data exe files where "fetch w (as_url a) [] U_Download_status = Inr data"
    and ok: "verify_asset w a data = None" and "extract_binaries (w_gunzip w) (w_unzip w) data (as_name a) = Inr files"
    and ops: "install w u a = replace_files w (case path_parent (case w_canonical w exe of Some p \<Rightarrow> p | None \<Rightarrow> exe) of Some d \<Rightarrow> d | None \<Rightarrow> ''.'') files"
    using assms by (auto simp: install_def Let_def split: sum.splits option.splits)
  moreover obtain sig where "fetch w (as_sig a) [] U_Signature_status = Inr sig" "length sig = 64" "w_valid w public_key data sig"
    using ok by (auto simp: verify_asset_None)
  ultimately have "authentic w a files" by (auto simp: authentic_def)
  moreover have "{d. \<exists>p. Write_file p d \<in> set (fst (install w u a))} \<subseteq> snd ` set files"
    unfolding ops by (auto dest!: replace_writes intro: rev_image_eqI)
  ultimately show ?thesis by blast
qed

text \<open>
  C6: nothing is installed without a signature: unless verification is switched off, the files are only
  touched after the asset and its signature were downloaded and the signature was verified with the
  built-in key; and all that is written is what the verified archive contains.\<close>

theorem install_verified:
  "if fst (install w u a) = [] \<or> up_insecure u then True
   else \<exists>data sig files.
     fetch w (as_url a) [] U_Download_status = Inr data \<and> fetch w (as_sig a) [] U_Signature_status = Inr sig \<and>
     length sig = 64 \<and> w_valid w public_key data sig \<and>
     extract_binaries (w_gunzip w) (w_unzip w) data (as_name a) = Inr files \<and>
     {d. \<exists>p. Write_file p d \<in> set (fst (install w u a))} \<subseteq> snd ` set files"
  using install_authentic [of w u a] by (auto simp: authentic_def)

subsection \<open>Versions\<close>

text \<open>
  Note: a release build takes itself for outdated: the version it compares carries the suffix
  \<open> (release)\<close>, which no tag has, so that the newest version is offered again and again.\<close>

theorem release_always_outdated:
  "is_dev b \<or> is_outdated (updater_new b) (bd_version b) \<and> is_outdated (updater_new b) (CHR ''v'' # bd_version b)"
proof (cases "is_dev b")
  case False
  let ?P = "\<lambda>c. c \<in> {CHR ''v''}"
  have "dropWhile ?P (s @ '' (release)'') = dropWhile ?P s @ '' (release)''" for s by (induction s) simp_all
  then have cur: "trim_tag (version_string b) = trim_tag (bd_version b) @ '' (release)''"
    using False by (simp add: trim_tag_def trim_start_of_def version_string_def)
  have "trim_tag (CHR ''v'' # bd_version b) = trim_tag (bd_version b)" by (simp add: trim_tag_def trim_start_of_def)
  with cur show ?thesis by (simp add: is_outdated_def updater_new_def Let_def)
qed simp

subsection \<open>Archives\<close>

fun oct_digits :: "nat \<Rightarrow> string" where
  "oct_digits n = (if n < 8 then [hex_char n] else oct_digits (n div 8) @ [hex_char (n mod 8)])"

declare oct_digits.simps [simp del]

lemma octal_append: "octal_value v (a @ b) = (case octal_value v a of Some w \<Rightarrow> octal_value w b | None \<Rightarrow> None)"
  by (induction v a rule: octal_value.induct) auto

lemma oct_char: "d < 8 \<Longrightarrow> ord (hex_char d) = 48 + int d"
proof -
  assume "d < 8"
  moreover have "list_all (\<lambda>d. ord (hex_char d) = 48 + int d) [0 ..< 8]" by code_simp
  ultimately show ?thesis by (simp add: list_all_iff)
qed

lemma oct_digits_facts:
  "octal_value 0 (oct_digits n) = Some (int n) \<and> oct_digits n \<noteq> [] \<and> (\<forall>c \<in> set (oct_digits n). 48 \<le> ord c \<and> ord c < 56)"
proof (induction n rule: oct_digits.induct)
  case (1 n)
  show ?case
  proof (cases "n < 8")
    case True
    then show ?thesis by (simp add: oct_digits.simps [of n] oct_char)
  next
    case False
    then have "int (n div 8) * 8 + int (n mod 8) = int n" by (metis div_mult_mod_eq of_nat_add of_nat_mult of_nat_numeral)
    with False 1 show ?thesis by (auto simp: oct_digits.simps [of n] octal_append oct_char)
  qed
qed

lemma length_oct_digits: "n < 8 ^ Suc k \<Longrightarrow> length (oct_digits n) \<le> Suc k"
proof (induction k arbitrary: n)
  case 0
  then show ?case by (simp add: oct_digits.simps [of n])
next
  case (Suc k)
  then have "n div 8 < 8 ^ Suc k" by (simp add: less_mult_imp_div_less mult.commute)
  with Suc.IH [OF this] show ?case by (simp add: oct_digits.simps [of n])
qed

text \<open>The entry of a file in a tar archive.\<close>

definition tar_block :: "string \<Rightarrow> nat \<Rightarrow> byte list" where
  "tar_block name n = name @ replicate (124 - length name) nul @ oct_digits n @ replicate (32 - length (oct_digits n)) nul @
     ''0'' @ replicate 355 nul"

definition tar_entry :: "string \<times> byte list \<Rightarrow> byte list" where
  "tar_entry f = tar_block (fst f) (length (snd f)) @ snd f @ replicate (tar_padding (length (snd f))) nul"

lemma trim_nuls: "s \<noteq> [] \<Longrightarrow> last s \<noteq> nul \<Longrightarrow> trim_end_of {nul} (s @ replicate k nul) = s"
  using trim_end_of_last [of s "{nul}"] by (cases s rule: rev_cases) (auto simp: trim_end_of_def dropWhile_append3)

lemma take_replicate_nul: "k \<le> n \<Longrightarrow> take k (replicate n nul) = replicate k nul"
  by (simp add: min_def)

lemma nul_ord: "ord nul = 0"
  by (simp add: ord_def)

definition plain_name :: "string \<Rightarrow> bool" where
  "plain_name name \<longleftrightarrow> name \<noteq> [] \<and> length name < 100 \<and> list_all (\<lambda>c. 0 < ord c \<and> ord c < 128) name"

lemma tar_header_block:
  assumes name: "plain_name name" and n: "n < 8 ^ 11"
  shows "length (tar_block name n) = 512" "\<not> list_all (\<lambda>b. b = nul) (tar_block name n)"
    "tar_header_of (tar_block name n) = Some \<lparr>th_name = name, th_size = n, th_is_file = True\<rparr>"
proof -
  have oct: "length (oct_digits n) \<le> 11" using length_oct_digits [of n 10] n by simp
  have len: "length name < 100" "name \<noteq> []" using name by (simp_all add: plain_name_def)
  show total: "length (tar_block name n) = 512" using oct len by (simp add: tar_block_def)
  have "tar_block name n ! 156 = drop 156 (tar_block name n) ! 0" using total by (simp only: nth_drop) simp
  also have "drop 156 (tar_block name n) = ''0'' @ replicate 355 nul" using oct len by (simp add: tar_block_def)
  finally have type: "tar_block name n ! 156 = CHR ''0''" by simp
  then show "\<not> list_all (\<lambda>b. b = nul) (tar_block name n)" by (auto simp: tar_block_def list_all_iff)
  have "take 100 (tar_block name n) = name @ replicate (100 - length name) nul" using len by (simp add: tar_block_def)
  moreover have "utf8_lossy (name @ replicate k nul) = name @ replicate k nul" for k
    using name by (intro utf8_lossy_ascii) (auto simp: plain_name_def list_all_iff ord_def)
  moreover have "last name \<noteq> nul" using name len last_in_set [of name]
    by (metis (no_types, lifting) list_all_iff nul_ord order_less_irrefl plain_name_def)
  ultimately have nm: "trim_end_of {nul} (utf8_lossy (take 100 (tar_block name n))) = name" using len by (simp add: trim_nuls)
  have size: "Fly_Prelude.slice (tar_block name n) 124 136 = oct_digits n @ replicate (12 - length (oct_digits n)) nul"
    using oct len by (simp add: tar_block_def Fly_Prelude.slice_def)
  have chars: "\<forall>c \<in> set (oct_digits n). 48 \<le> ord c \<and> ord c < 128" using oct_digits_facts [of n] by force
  have "utf8_lossy (oct_digits n @ replicate k nul) = oct_digits n @ replicate k nul" for k
    using chars by (intro utf8_lossy_ascii) (auto simp: list_all_iff ord_def)
  moreover have "last (oct_digits n) \<noteq> nul" using oct_digits_facts [of n] last_in_set [of "oct_digits n"]
    by (metis nul_ord zero_neq_numeral not_numeral_le_zero)
  ultimately have "trim_ws (trim_end_of {nul} (utf8_lossy (oct_digits n @ replicate k nul))) = oct_digits n" for k
    using oct_digits_facts [of n] chars by (simp add: trim_nuls trim_ws_plain)
  moreover have "unsigned_body (oct_digits n) = oct_digits n" using oct_digits_facts [of n] by (cases "oct_digits n") (auto simp: unsigned_body_def ord_def)
  ultimately have "parse_octal (trim_ws (trim_end_of {nul} (utf8_lossy (Fly_Prelude.slice (tar_block name n) 124 136)))) = Some n"
    using oct_digits_facts [of n] n unfolding size by (simp add: parse_octal_def Let_def)
  then show "tar_header_of (tar_block name n) = Some \<lparr>th_name = name, th_size = n, th_is_file = True\<rparr>"
    by (simp add: tar_header_of_def nm type)
qed

definition tar_archive :: "(string \<times> byte list) list \<Rightarrow> byte list" where
  "tar_archive fs = concat (map tar_entry fs) @ replicate 1024 nul"

text \<open>One round over a well-formed entry.\<close>

lemma untar_entry:
  assumes name: "plain_name (fst f)" "base_name (fst f) = fst f" "fst f \<in> set want" and n: "length (snd f) < 8 ^ 11"
  shows "untar (Suc k) want out (tar_entry f @ rest, broken) = untar k want (out @ [f]) (rest, broken)"
proof -
  note header = tar_header_block [OF name(1) n]
  have "read_exact 512 (tar_entry f @ rest, broken) =
      Read_ok (tar_block (fst f) (length (snd f))) (snd f @ replicate (tar_padding (length (snd f))) nul @ rest, broken)"
    by (simp add: read_exact_def tar_entry_def header(1))
  then show ?thesis using header(2,3) name(2,3) by (simp add: read_exact_def)
qed

lemma untar_archive:
  "\<forall>f \<in> set fs. plain_name (fst f) \<and> base_name (fst f) = fst f \<and> fst f \<in> set want \<and> length (snd f) < 8 ^ 11 \<Longrightarrow>
     length fs < n \<Longrightarrow> untar n want out (tar_archive fs, broken) = Inr (out @ fs)"
proof (induction fs arbitrary: out n)
  case Nil
  then obtain k where "n = Suc k" by (cases n) auto
  then show ?case by (simp add: tar_archive_def read_exact_def list_all_iff)
next
  case (Cons f fs)
  then obtain k where k: "n = Suc k" "length fs < k" by (cases n) auto
  have "tar_archive (f # fs) = tar_entry f @ tar_archive fs" by (simp add: tar_archive_def)
  then show ?case using untar_entry [of f want k out "tar_archive fs" broken] Cons.IH [of k "out @ [f]"] Cons.prems k by simp
qed

lemma wanted_names: "f \<in> set (wanted name) \<Longrightarrow> plain_name f \<and> base_name f = f"
proof -
  assume "f \<in> set (wanted name)"
  then have "f \<in> set [''fly.exe'', ''fly-checkd.exe'', ''fly-sandboxd.exe'', ''fly'', ''fly-checkd'', ''fly-sandboxd'']"
    by (auto simp: wanted_def split: if_splits)
  moreover have "list_all (\<lambda>f. plain_name f \<and> base_name f = f)
      [''fly.exe'', ''fly-checkd.exe'', ''fly-sandboxd.exe'', ''fly'', ''fly-checkd'', ''fly-sandboxd'']"
    by (simp add: plain_name_def base_name_def ord_def)
  ultimately show ?thesis by (auto simp: list_all_iff)
qed

text \<open>
  C24: a release archive is unpacked as it was packed: from a tar file of binaries, with the names the
  updater looks for and sizes of at most eleven octal digits, it extracts exactly these files, in
  order and with their contents.\<close>

theorem untar_roundtrip:
  assumes "drop (length name - 4) name \<noteq> ''.zip''" "fs \<noteq> []"
    "\<forall>f \<in> set fs. fst f \<in> set (wanted name) \<and> length (snd f) < 8 ^ 11" "gunzip archive = (tar_archive fs, broken)"
  shows "extract_binaries gunzip unzip archive name = Inr fs"
proof -
  have "length fs \<le> length (tar_archive fs)"
    by (induction fs) (auto simp: tar_archive_def tar_entry_def tar_block_def)
  then have "untar (Suc (length (tar_archive fs))) (wanted name) [] (tar_archive fs, broken) = Inr fs"
    using assms(3) by (subst untar_archive) (auto dest: wanted_names)
  then show ?thesis using assms by (simp add: extract_binaries_def)
qed

theorem untar_roundtrip_witness:
  "extract_binaries (\<lambda>_. (tar_archive [(''fly'', ''ELF''), (''fly-checkd'', [])], False)) (\<lambda>_. None) [] ''fly-linux-amd64.tar.gz'' =
     Inr [(''fly'', ''ELF''), (''fly-checkd'', [])]"
  by (rule untar_roundtrip [where broken = False]) (simp_all add: wanted_def)

text \<open>An archive with any other file is lost: the contents of the file are taken for the next header.\<close>

lemma archive_misread:
  "extract_binaries (\<lambda>_. (tar_entry (''README.md'', replicate 512 CHR ''x'') @ tar_archive fs, False)) unzip archive
     ''fly-linux-amd64.tar.gz'' = Inl U_Tar_size"
proof -
  let ?x = "replicate 512 CHR ''x''"
  have header: "length (tar_block ''README.md'' 512) = 512" "\<not> list_all (\<lambda>b. b = nul) (tar_block ''README.md'' 512)"
    "tar_header_of (tar_block ''README.md'' 512) = Some \<lparr>th_name = ''README.md'', th_size = 512, th_is_file = True\<rparr>"
    using tar_header_block [of "''README.md''" 512] by (simp_all add: plain_name_def ord_def)
  have entry: "tar_entry (''README.md'', ?x) = tar_block ''README.md'' 512 @ ?x" by (simp add: tar_entry_def tar_padding_def)
  have bad: "tar_header_of ?x = None"
  proof -
    have "Fly_Prelude.slice ?x 124 136 = replicate 12 CHR ''x''" by (simp add: Fly_Prelude.slice_def)
    moreover have "parse_octal (trim_ws (trim_end_of {nul} (utf8_lossy (replicate 12 CHR ''x'')))) = None" by code_simp
    ultimately show ?thesis by (simp add: tar_header_of_def)
  qed
  have "untar (Suc (Suc k)) (wanted ''fly-linux-amd64.tar.gz'') [] (tar_entry (''README.md'', ?x) @ rest, False) = Inl U_Tar_size" for k rest
    using header bad by (simp add: entry read_exact_def wanted_def base_name_def tar_padding_def list_all_iff)
  note short = this
  let ?X = "tar_entry (''README.md'', ?x) @ tar_archive fs"
  have len: "length ?X = Suc (length ?X - 1)" by (simp add: tar_archive_def)
  have "untar (Suc (length ?X)) (wanted ''fly-linux-amd64.tar.gz'') [] (?X, False) = Inl U_Tar_size"
    by (subst len) (rule short)
  then show ?thesis by (simp add: extract_binaries_def del: untar.simps)
qed

end
