(* ===== verification/Fly_Help.thy ===== *)
theory Fly_Help
  imports Fly_Text Fly_Diagnostic
begin

text \<open>
  The tutorials of \<^verbatim>\<open>fly help\<close> (\<^verbatim>\<open>src/help.rs\<close>), line by line: the overview, one text for every
  command, and the choice of the text; and the usage of the program (\<^verbatim>\<open>src/main.rs\<close>).
\<close>

definition lines_text :: "string list \<Rightarrow> string" where
  "lines_text ls = join [newline] ls"

definition HELP_HINT :: string where
  "HELP_HINT = lines_text [
     ''PyFly '' @ utf8 [230, 140, 135, 228, 187, 164, 230, 149, 153, 231, 168, 139],
     [],
     utf8 [231, 148, 168, 230, 179, 149] @ '':'',
     ''  fly help <'' @ utf8 [230, 140, 135, 228, 187, 164, 229, 144, 141] @ ''>   '' @ utf8 [230, 159, 165,
       231, 156, 139, 229, 173, 144, 229, 145, 189, 228, 187, 164, 232, 175, 166, 231, 187, 134, 230, 149,
       153, 231, 168, 139, 239, 188, 136] @ ''build/check/run/sandbox/fmt/analyze/'',
     ''                      version/error/update/lsp/help'' @ utf8 [239, 188, 137],
     ''  fly help            '' @ utf8 [230, 159, 165, 231, 156, 139, 230, 156, 172, 230, 128, 187, 232, 167,
       136],
     ''  fly <'' @ utf8 [230, 140, 135, 228, 187, 164, 229, 144, 141] @ ''>        '' @ utf8 [231, 155, 180,
       230, 142, 165, 232, 191, 144, 232, 161, 140, 239, 188, 136, 229, 144, 132, 230, 140, 135, 228, 187,
       164, 228, 185, 159, 230, 148, 175, 230, 140, 129] @ '' -h/--help '' @ utf8 [230, 159, 165, 231, 156,
       139, 231, 174, 128, 232, 166, 129, 231, 148, 168, 230, 179, 149, 239, 188, 137],
     [],
     utf8 [229, 143, 175, 231, 148, 168, 230, 140, 135, 228, 187, 164] @ '':'',
     ''  build     '' @ utf8 [232, 189, 172, 232, 175, 145] @ '' .fly '' @ utf8 [228, 184, 186] @
       '' Python'' @ utf8 [239, 188, 136, 229, 144, 171, 230, 178, 153, 231, 174, 177, 232, 191, 144, 232,
       161, 140, 230, 151, 182, 230, 179, 168, 229, 133, 165, 239, 188, 137],
     ''  check     '' @ utf8 [231, 188, 150, 232, 175, 145, 230, 163, 128, 230, 159, 165, 239, 188, 136, 230,
       148, 175, 230, 140, 129, 231, 155, 174, 229, 189, 149, 233, 128, 146, 229, 189, 146, 228, 184, 142,
       229, 185, 182, 229, 143, 145, 239, 188, 137],
     ''  run       '' @ utf8 [232, 189, 172, 232, 175, 145, 229, 185, 182, 229, 156, 168, 230, 178, 153, 231,
       174, 177, 229, 134, 133, 230, 137, 167, 232, 161, 140],
     ''  sandbox   '' @ utf8 [232, 191, 155, 231, 168, 139, 231, 186, 167, 230, 178, 153, 231, 174, 177, 232,
       191, 144, 232, 161, 140, 228, 187, 187, 230, 132, 143] @ '' Python'',
     ''  fmt       '' @ utf8 [230, 160, 188, 229, 188, 143, 229, 140, 150, 228, 187, 163, 231, 160, 129, 239,
       188, 136] @ ''token '' @ utf8 [231, 186, 167, 231, 169, 186, 231, 153, 189, 233, 135, 141, 230, 142,
       146, 239, 188, 137],
     ''  analyze   '' @ utf8 [228, 187, 163, 231, 160, 129, 232, 180, 168, 233, 135, 143, 230, 138, 165, 229,
       145, 138, 239, 188, 136] @ ''100 '' @ utf8 [229, 136, 182, 232, 175, 132, 229, 136, 134, 239, 188, 137],
     ''  version   '' @ utf8 [230, 152, 190, 231, 164, 186, 231, 137, 136, 230, 156, 172],
     ''  error     '' @ utf8 [230, 159, 165, 232, 175, 162, 233, 148, 153, 232, 175, 175, 231, 160, 129, 239,
       188, 136, 231, 164, 186, 228, 190, 139, 230, 138, 165, 233, 148, 153, 228, 184, 142, 228, 191, 174,
       229, 164, 141, 230, 150, 185, 230, 179, 149, 239, 188, 137],
     ''  update    '' @ utf8 [230, 163, 128, 230, 159, 165] @ ''/'' @ utf8 [230, 155, 180, 230, 150, 176,
       229, 136, 176, 230, 156, 128, 230, 150, 176, 231, 137, 136, 230, 156, 172],
     ''  lsp       '' @ utf8 [232, 175, 173, 232, 168, 128, 230, 156, 141, 229, 138, 161, 229, 153, 168, 239,
       188, 136] @ ''stdio JSON-RPC'' @ utf8 [239, 188, 140, 228, 190, 155, 231, 188, 150, 232, 190, 145,
       229, 153, 168, 232, 176, 131, 231, 148, 168, 239, 188, 137],
     []]"

definition HELP_BUILD :: string where
  "HELP_BUILD = lines_text [
     ''fly build '' @ utf8 [226, 128, 148, 226, 128, 148] @ '' '' @ utf8 [232, 189, 172, 232, 175, 145] @
       '' .fly '' @ utf8 [228, 184, 186] @ '' Python'' @ utf8 [239, 188, 136, 229, 144, 171, 230, 178, 153,
       231, 174, 177, 232, 191, 144, 232, 161, 140, 230, 151, 182, 230, 179, 168, 229, 133, 165, 239, 188, 137],
     [],
     utf8 [231, 148, 168, 233, 128, 148] @ '':'',
     ''  '' @ utf8 [230, 138, 138] @ '' Fly'' @ utf8 [239, 188, 136] @ ''Python '' @ utf8 [229, 174, 137,
       229, 133, 168, 232, 182, 133, 233, 155, 134, 239, 188, 137, 230, 186, 144, 231, 160, 129, 232, 189,
       172, 232, 175, 145, 228, 184, 186, 231, 186, 175] @ '' Python 3.10+ '' @ utf8 [228, 186, 167, 231,
       137, 169, 227, 128, 130],
     ''  '' @ utf8 [228, 186, 167, 231, 137, 169, 230, 129, 146, 230, 179, 168, 229, 133, 165] @
       '' runtime + sandbox '' @ utf8 [228, 184, 164, 228, 184, 170, 232, 191, 144, 232, 161, 140, 230, 151,
       182, 232, 138, 130, 239, 188, 136] @ ''8 '' @ utf8 [228, 184, 170, 229, 174, 137, 229, 133, 168, 229,
       133, 179, 233, 148, 174, 229, 173, 151] @ '' + '' @ utf8 [230, 178, 153, 231, 174, 177, 228, 187, 163,
       231, 144, 134, 239, 188, 137, 239, 188, 140],
     ''  '' @ utf8 [231, 188, 150, 232, 175, 145, 230, 156, 159, 230, 156, 170, 230, 139, 166, 228, 189, 143,
       231, 154, 132, 233, 128, 131, 233, 128, 184, 231, 148, 177, 232, 191, 144, 232, 161, 140, 230, 151,
       182, 229, 133, 156, 229, 186, 149, 227, 128, 130],
     [],
     utf8 [231, 148, 168, 230, 179, 149] @ '':'',
     ''  fly build [-o out.py] [--keep-annotations] <file.fly>'',
     [],
     utf8 [233, 128, 137, 233, 161, 185] @ '':'',
     ''  -o <out.py>           '' @ utf8 [230, 140, 135, 229, 174, 154, 232, 190, 147, 229, 135, 186, 230,
       150, 135, 228, 187, 182, 239, 188, 155, 233, 187, 152, 232, 174, 164, 232, 190, 147, 229, 135, 186,
       229, 136, 176] @ '' build/ '' @ utf8 [231, 155, 174, 229, 189, 149, 229, 185, 182, 228, 191, 157, 231,
       149, 153, 231, 155, 184, 229, 175, 185, 232, 183, 175, 229, 190, 132],
     ''  --keep-annotations    '' @ utf8 [228, 191, 157, 231, 149, 153, 229, 133, 179, 233, 148, 174, 229,
       173, 151, 229, 174, 161, 232, 174, 161, 230, 179, 168, 233, 135, 138, 239, 188, 136] @
       ''# fly-safe: '' @ utf8 [231, 173, 137, 239, 188, 137, 239, 188, 140, 233, 187, 152, 232, 174, 164,
       229, 137, 165, 231, 166, 187],
     [],
     utf8 [231, 164, 186, 228, 190, 139] @ '':'',
     ''  fly build app.fly                  # '' @ utf8 [232, 190, 147, 229, 135, 186] @
       '' build/app.fly '' @ utf8 [226, 134, 146] @ '' build/app.py'',
     ''  fly build app.fly -o app.py        # '' @ utf8 [230, 140, 135, 229, 174, 154, 232, 190, 147, 229,
       135, 186, 232, 183, 175, 229, 190, 132],
     ''  python3 app.py                     # '' @ utf8 [231, 155, 180, 230, 142, 165, 232, 191, 144, 232,
       161, 140, 228, 186, 167, 231, 137, 169],
     [],
     utf8 [232, 175, 180, 230, 152, 142] @ '':'',
     ''  - '' @ utf8 [231, 188, 150, 232, 175, 145, 233, 148, 153, 232, 175, 175, 232, 190, 147, 229, 135,
       186] @ '' Rust '' @ utf8 [233, 163, 142, 230, 160, 188, 232, 175, 138, 230, 150, 173] @
       '': error[EXXXX]: '' @ utf8 [230, 160, 135, 233, 162, 152] @ '' + --> file:line:col'',
     ''    + '' @ utf8 [230, 186, 144, 231, 160, 129, 232, 161, 140, 228, 184, 139, 229, 136, 146, 231, 186,
       191, 233, 171, 152, 228, 186, 174] @ '' + = help: '' @ utf8 [228, 191, 174, 229, 164, 141, 229, 187,
       186, 232, 174, 174] @ '' + = note: '' @ utf8 [230, 150, 135, 230, 161, 163, 233, 147, 190, 230, 142,
       165],
     ''  - '' @ utf8 [228, 186, 167, 231, 137, 169, 232, 161, 140, 228, 184, 186, 229, 143, 175, 231, 148,
       168] @ '' python3 '' @ utf8 [229, 174, 158, 232, 183, 145, 233, 170, 140, 232, 175, 129, 239, 188,
       136] @ ''AGENTS.md '' @ utf8 [233, 170, 140, 232, 175, 129, 231, 186, 166, 229, 174, 154, 239, 188, 137],
     ''  - '' @ utf8 [233, 128, 128, 229, 135, 186, 231, 160, 129] @ '': 0 '' @ utf8 [230, 136, 144, 229,
       138, 159] @ '' / 1 '' @ utf8 [231, 188, 150, 232, 175, 145, 233, 148, 153, 232, 175, 175] @
       '' / 2 '' @ utf8 [229, 143, 130, 230, 149, 176, 233, 148, 153, 232, 175, 175],
     []]"

definition HELP_CHECK :: string where
  "HELP_CHECK = lines_text [
     ''fly check '' @ utf8 [226, 128, 148, 226, 128, 148] @ '' '' @ utf8 [231, 188, 150, 232, 175, 145, 230, 163,
       128, 230, 159, 165, 239, 188, 136, 228, 184, 142, 231, 188, 150, 232, 190, 145, 229, 153, 168, 232,
       175, 138, 230, 150, 173, 229, 144, 140, 228, 184, 128, 231, 174, 161, 231, 186, 191, 239, 188, 137],
     [],
     utf8 [231, 148, 168, 233, 128, 148] @ '':'',
     ''  '' @ utf8 [229, 143, 170, 230, 163, 128, 230, 159, 165, 228, 184, 141, 232, 190, 147, 229, 135, 186,
       228, 186, 167, 231, 137, 169, 227, 128, 130] @ ''checker'' @ utf8 [239, 188, 136] @ ''Go '' @
       utf8 [229, 174, 136, 230, 138, 164, 232, 191, 155, 231, 168, 139] @ '' fly-checkd'' @ utf8 [239, 188,
       137, 230, 137, 167, 232, 161, 140, 228, 184, 142] @ '' LSP '' @ utf8 [232, 175, 138, 230, 150, 173],
     ''  '' @ utf8 [229, 174, 140, 229, 133, 168, 231, 155, 184, 229, 144, 140, 231, 154, 132, 231, 188, 150,
       232, 175, 145, 231, 174, 161, 231, 186, 191, 226, 128, 148, 226, 128, 148, 230, 148, 185] @
       '' checker '' @ utf8 [232, 161, 140, 228, 184, 186, 232, 135, 170, 229, 138, 168, 229, 144, 140, 230,
       173, 165, 231, 188, 150, 232, 190, 145, 229, 153, 168, 232, 175, 138, 230, 150, 173, 227, 128, 130],
     [],
     utf8 [231, 148, 168, 230, 179, 149] @ '':'',
     ''  fly check <file.fly>... | <'' @ utf8 [231, 155, 174, 229, 189, 149] @ ''>...'',
     [],
     utf8 [233, 128, 137, 233, 161, 185] @ '':'',
     ''  '' @ utf8 [239, 188, 136, 230, 151, 160, 233, 128, 137, 233, 161, 185, 239, 188, 155, 229, 164, 154,
       228, 184, 170, 230, 150, 135, 228, 187, 182, 230, 136, 150, 231, 155, 174, 229, 189, 149, 230, 140,
       137, 232, 190, 147, 229, 133, 165, 233, 161, 186, 229, 186, 143, 229, 185, 182, 229, 143, 145, 230,
       163, 128, 230, 159, 165, 239, 188, 137],
     [],
     utf8 [231, 164, 186, 228, 190, 139] @ '':'',
     ''  fly check src/                          # '' @ utf8 [233, 128, 146, 229, 189, 146, 230, 163, 128,
       230, 159, 165, 231, 155, 174, 229, 189, 149, 228, 184, 139, 229, 133, 168, 233, 131, 168] @ '' .fly'',
     ''  fly check a.fly b.fly                   # '' @ utf8 [229, 164, 154, 230, 150, 135, 228, 187, 182,
       229, 185, 182, 229, 143, 145],
     ''  fly check testdata/golden/              # CI '' @ utf8 [233, 151, 168, 231, 166, 129, 229, 184, 184,
       231, 148, 168],
     [],
     utf8 [232, 175, 180, 230, 152, 142] @ '':'',
     ''  - '' @ utf8 [231, 155, 174, 229, 189, 149, 233, 128, 146, 229, 189, 146, 230, 159, 165, 230, 137,
       190] @ '' .fly'' @ utf8 [239, 188, 140, 231, 186, 191, 231, 168, 139, 229, 185, 182, 229, 143, 145,
       239, 188, 136, 228, 191, 161, 229, 143, 183, 233, 135, 143] @ '' = '' @ utf8 [229, 143, 175, 231, 148,
       168, 230, 160, 184, 229, 191, 131] @ '' '' @ utf8 [195, 151] @ '' 2'' @ utf8 [239, 188, 137],
     ''  - '' @ utf8 [228, 187, 187, 228, 184, 128, 230, 150, 135, 228, 187, 182, 229, 164, 177, 232, 180,
       165, 233, 128, 128, 229, 135, 186, 231, 160, 129] @ '' 1'',
     ''  - '' @ utf8 [230, 137, 190, 228, 184, 141, 229, 136, 176] @ '' fly-checkd '' @ utf8 [230, 151, 182,
       232, 174, 190, 231, 189, 174] @ '' FLY_CHECKD '' @ utf8 [231, 142, 175, 229, 162, 131, 229, 143, 152,
       233, 135, 143, 230, 140, 135, 229, 174, 154, 232, 183, 175, 229, 190, 132],
     []]"

definition HELP_RUN :: string where
  "HELP_RUN = lines_text [
     ''fly run '' @ utf8 [226, 128, 148, 226, 128, 148] @ '' '' @ utf8 [232, 189, 172, 232, 175, 145, 229, 185,
       182, 229, 156, 168, 230, 178, 153, 231, 174, 177, 229, 134, 133, 230, 137, 167, 232, 161, 140],
     [],
     utf8 [231, 148, 168, 233, 128, 148] @ '':'',
     ''  build + '' @ utf8 [230, 178, 153, 231, 174, 177, 230, 137, 167, 232, 161, 140, 231, 154, 132, 231,
       187, 132, 229, 144, 136, 239, 188, 154, 229, 133, 136, 231, 188, 150, 232, 175, 145, 230, 163, 128,
       230, 159, 165, 239, 188, 140, 233, 128, 154, 232, 191, 135, 229, 144, 142, 229, 156, 168, 232, 191,
       155, 231, 168, 139, 231, 186, 167, 230, 178, 153, 231, 174, 177, 229, 134, 133, 232, 191, 144, 232,
       161, 140, 228, 186, 167, 231, 137, 169, 227, 128, 130],
     [],
     utf8 [231, 148, 168, 230, 179, 149] @ '':'',
     ''  fly run <file.fly>'',
     [],
     utf8 [231, 164, 186, 228, 190, 139] @ '':'',
     ''  fly run hello.fly'',
     [],
     utf8 [232, 175, 180, 230, 152, 142] @ '':'',
     ''  - '' @ utf8 [228, 190, 157, 232, 181, 150, 229, 144, 140, 231, 155, 174, 229, 189, 149] @
       ''/FLY_CHECKD/PATH '' @ utf8 [228, 184, 173, 231, 154, 132] @ '' fly-checkd'' @ utf8 [239, 188, 136,
       231, 188, 150, 232, 175, 145, 230, 163, 128, 230, 159, 165, 239, 188, 137, 228, 184, 142] @
       '' fly-sandboxd'' @ utf8 [239, 188, 136, 230, 178, 153, 231, 174, 177, 239, 188, 137],
     ''  - '' @ utf8 [230, 178, 153, 231, 174, 177, 230, 156, 186, 229, 136, 182, 233, 154, 143, 229, 185,
       179, 229, 143, 176] @ '': Linux=ns+Landlock+seccomp / macOS=Seatbelt /'',
     ''    Windows=Job Object'' @ utf8 [239, 188, 136, 232, 167, 129] @ '' fly help sandbox'' @ utf8 [239,
       188, 137],
     ''  - '' @ utf8 [233, 128, 128, 229, 135, 186, 231, 160, 129, 233, 128, 143, 228, 188, 160, 230, 178,
       153, 231, 174, 177, 229, 134, 133] @ '' python '' @ utf8 [232, 191, 155, 231, 168, 139, 231, 154, 132,
       233, 128, 128, 229, 135, 186, 231, 160, 129],
     []]"

definition HELP_SANDBOX :: string where
  "HELP_SANDBOX = lines_text [
     ''fly sandbox '' @ utf8 [226, 128, 148, 226, 128, 148] @ '' '' @ utf8 [232, 191, 155, 231, 168, 139, 231,
       186, 167, 230, 178, 153, 231, 174, 177, 232, 191, 144, 232, 161, 140, 228, 187, 187, 230, 132,
       143] @ '' Python'',
     [],
     utf8 [231, 148, 168, 233, 128, 148] @ '':'',
     ''  '' @ utf8 [230, 138, 138, 228, 184, 141, 229, 143, 151, 228, 191, 161, 228, 187, 187, 231, 154,
       132] @ '' Python '' @ utf8 [232, 132, 154, 230, 156, 172, 239, 188, 136, 228, 184, 141, 228, 184, 128,
       229, 174, 154, 230, 152, 175] @ '' Fly '' @ utf8 [228, 186, 167, 231, 137, 169, 239, 188, 137, 230,
       148, 190, 232, 191, 155] @ '' OS '' @ utf8 [229, 177, 130, 232, 191, 155, 231, 168, 139, 230, 178,
       153, 231, 174, 177, 230, 137, 167, 232, 161, 140, 239, 188, 140],
     ''  '' @ utf8 [228, 189, 156, 228, 184, 186, 231, 188, 150, 232, 175, 145, 230, 156, 159, 230, 139, 166,
       230, 136, 170, 228, 185, 139, 229, 164, 150, 231, 154, 132, 231, 172, 172, 228, 186, 140, 233, 129,
       147, 231, 186, 181, 230, 183, 177, 233, 152, 178, 231, 186, 191, 227, 128, 130],
     [],
     utf8 [231, 148, 168, 230, 179, 149] @ '':'',
     ''  fly sandbox <script.py> ['' @ utf8 [233, 128, 137, 233, 161, 185] @ '']'',
     [],
     utf8 [233, 128, 137, 233, 161, 185] @ '':'',
     ''  --cap-fs-read <path>   '' @ utf8 [229, 143, 170, 232, 175, 187, 232, 174, 191, 233, 151, 174, 231,
       153, 189, 229, 144, 141, 229, 141, 149, 239, 188, 136, 229, 143, 175, 233, 135, 141, 229, 164, 141,
       239, 188, 140, 233, 187, 152, 232, 174, 164, 228, 187, 133, 231, 179, 187, 231, 187, 159, 229, 186,
       147] @ ''+'' @ utf8 [232, 132, 154, 230, 156, 172, 239, 188, 137],
     ''  --cap-net-host <host>  '' @ utf8 [231, 189, 145, 231, 187, 156] @ '' host '' @ utf8 [231, 153, 189,
       229, 144, 141, 229, 141, 149, 239, 188, 136, 233, 162, 132, 231, 149, 153, 239, 188, 140, 229, 189,
       147, 229, 137, 141, 231, 189, 145, 231, 187, 156, 228, 184, 128, 229, 190, 139, 231, 166, 129, 231,
       148, 168, 239, 188, 137],
     ''  --mem-limit-mb <n>     '' @ utf8 [229, 134, 133, 229, 173, 152, 228, 184, 138, 233, 153, 144] @
       '' MB'' @ utf8 [239, 188, 136, 233, 187, 152, 232, 174, 164] @ '' 512'' @ utf8 [239, 188, 137],
     ''  --timeout-ms <n>       '' @ utf8 [229, 162, 153, 233, 146, 159, 232, 182, 133, 230, 151, 182, 230,
       175, 171, 231, 167, 146, 239, 188, 136, 233, 187, 152, 232, 174, 164] @ '' 5000'' @ utf8 [239, 188, 137],
     ''  --cpu-sec <n>          CPU '' @ utf8 [230, 151, 182, 233, 151, 180, 228, 184, 138, 233, 153, 144,
       231, 167, 146, 239, 188, 136, 233, 187, 152, 232, 174, 164] @ '' 10'' @ utf8 [239, 188, 137],
     ''  --nofile <n>           '' @ utf8 [230, 150, 135, 228, 187, 182, 230, 143, 143, 232, 191, 176, 231,
       172, 166, 228, 184, 138, 233, 153, 144, 239, 188, 136, 233, 187, 152, 232, 174, 164] @ '' 64'' @
       utf8 [239, 188, 140] @ ''Linux'' @ utf8 [239, 188, 137],
     ''  --no-audit             '' @ utf8 [229, 133, 179, 233, 151, 173, 229, 174, 161, 232, 174, 161, 230,
       151, 165, 229, 191, 151, 239, 188, 136, 233, 187, 152, 232, 174, 164, 229, 188, 128, 229, 144, 175,
       239, 188, 140] @ ''JSON '' @ utf8 [232, 161, 140, 232, 190, 147, 229, 135, 186, 229, 136, 176] @
       '' stderr'' @ utf8 [239, 188, 137],
     ''  --debug-ns             '' @ utf8 [232, 183, 179, 232, 191, 135, 229, 145, 189, 229, 144, 141, 231,
       169, 186, 233, 151, 180, 239, 188, 136, 228, 187, 133] @ '' Linux'' @ utf8 [239, 188, 140, 232, 176,
       131, 232, 175, 149, 233, 154, 148, 231, 166, 187, 229, 177, 130, 231, 148, 168, 239, 188, 137],
     [],
     utf8 [231, 164, 186, 228, 190, 139] @ '':'',
     ''  fly sandbox script.py'',
     ''  fly sandbox script.py --mem-limit-mb 128 --timeout-ms 3000'',
     ''  fly sandbox script.py --cap-fs-read /etc/hosts'',
     [],
     utf8 [232, 175, 180, 230, 152, 142] @ '': '' @ utf8 [239, 188, 136, 229, 185, 179, 229, 143, 176, 230,
       156, 186, 229, 136, 182, 228, 184, 142, 229, 188, 186, 229, 186, 166, 229, 163, 176, 230, 152, 142,
       239, 188, 137],
     ''  Linux      clone ns + Landlock + seccomp + rlimit'' @ utf8 [226, 128, 148, 226, 128, 148, 230, 156,
       128, 229, 188, 186, 239, 188, 136, 229, 134, 133, 230, 160, 184, 231, 186, 167, 233, 154, 148, 231,
       166, 187, 239, 188, 137],
     ''  macOS      Seatbelt'' @ utf8 [239, 188, 136] @ ''sandbox-exec SBPL'' @ utf8 [239, 188, 137, 239,
       188, 154, 230, 150, 135, 228, 187, 182, 229, 134, 153, 228, 187, 133, 233, 153, 144, 228, 184, 180,
       230, 151, 182] @ ''/'' @ utf8 [231, 148, 168, 230, 136, 183] @ ''/'' @ utf8 [229, 189, 147, 229, 137,
       141, 231, 155, 174, 229, 189, 149, 227, 128, 129],
     ''             '' @ utf8 [231, 189, 145, 231, 187, 156, 229, 133, 168, 231, 166, 129, 227, 128, 129,
       229, 134, 133, 229, 173, 152] @ ''(RLIMIT_AS)/CPU '' @ utf8 [228, 184, 138, 233, 153, 144, 226, 128,
       148, 226, 128, 148, 231, 148, 168, 230, 136, 183, 230, 128, 129, 231, 173, 150, 231, 149, 165],
     ''  Windows    Job Object'' @ utf8 [239, 188, 154, 232, 191, 155, 231, 168, 139, 230, 160, 145, 229,
       188, 186, 229, 136, 182, 231, 187, 136, 230, 173, 162] @ '' + '' @ utf8 [230, 128, 187, 229, 134, 133,
       229, 173, 152] @ ''/'' @ utf8 [229, 162, 153, 233, 146, 159] @ ''/'' @ utf8 [232, 191, 155, 231, 168,
       139, 230, 149, 176, 228, 184, 138, 233, 153, 144, 226, 128, 148, 226, 128, 148, 231, 148, 168, 230,
       136, 183, 230, 128, 129, 233, 153, 144, 229, 136, 182],
     ''  '' @ utf8 [239, 188, 136, 229, 144, 132, 229, 185, 179, 229, 143, 176, 229, 157, 135, 228, 184, 186,
       232, 191, 155, 231, 168, 139, 231, 186, 167, 233, 154, 148, 231, 166, 187, 239, 188, 140, 228, 184,
       141, 233, 152, 178, 229, 190, 161, 229, 134, 133, 230, 160, 184, 230, 188, 143, 230, 180, 158, 239,
       188, 155, 229, 174, 161, 232, 174, 161, 230, 151, 165, 229, 191, 151, 229, 137, 141, 231, 188,
       128] @ '' [fly-sandbox]'' @ utf8 [239, 188, 137],
     []]"

definition HELP_FMT :: string where
  "HELP_FMT = lines_text [
     ''fly fmt '' @ utf8 [226, 128, 148, 226, 128, 148] @ '' '' @ utf8 [230, 160, 188, 229, 188, 143, 229, 140,
       150, 228, 187, 163, 231, 160, 129, 239, 188, 136] @ ''token '' @ utf8 [231, 186, 167, 231, 169, 186,
       231, 153, 189, 233, 135, 141, 230, 142, 146, 239, 188, 137],
     [],
     utf8 [231, 148, 168, 233, 128, 148] @ '':'',
     ''  '' @ utf8 [231, 187, 159, 228, 184, 128, 228, 187, 163, 231, 160, 129, 233, 163, 142, 230, 160, 188,
       227, 128, 130] @ ''token '' @ utf8 [230, 181, 129, 231, 186, 167, 233, 135, 141, 230, 142, 146, 239,
       188, 154, 230, 179, 168, 233, 135, 138, 228, 191, 157, 231, 149, 153, 227, 128, 129, 232, 175, 173,
       228, 185, 137, 228, 184, 141, 229, 143, 152, 239, 188, 155, 230, 160, 188, 229, 188, 143, 229, 140,
       150, 229, 137, 141, 229, 133, 136, 231, 188, 150, 232, 175, 145, 230, 163, 128, 230, 159, 165, 239,
       188, 140],
     ''  '' @ utf8 [232, 175, 173, 230, 179, 149, 233, 148, 153, 232, 175, 175, 230, 150, 135, 228, 187, 182,
       232, 183, 179, 232, 191, 135, 239, 188, 136, 229, 166, 130] @ '' testdata/errors/ '' @ utf8 [229, 143,
       141, 228, 190, 139, 239, 188, 137, 227, 128, 130],
     [],
     utf8 [231, 148, 168, 230, 179, 149] @ '':'',
     ''  fly fmt [-w|--write] [--check] <file.fly>... | <'' @ utf8 [231, 155, 174, 229, 189, 149] @ ''>...'',
     [],
     utf8 [233, 128, 137, 233, 161, 185] @ '':'',
     ''  -w, --write   '' @ utf8 [229, 134, 153, 229, 155, 158, 230, 150, 135, 228, 187, 182, 239, 188, 136,
       233, 187, 152, 232, 174, 164, 232, 190, 147, 229, 135, 186, 229, 136, 176] @ '' stdout'' @ utf8 [239,
       188, 137],
     ''  --check       '' @ utf8 [229, 143, 170, 230, 138, 165, 229, 145, 138, 233, 156, 128, 232, 166, 129,
       230, 160, 188, 229, 188, 143, 229, 140, 150, 231, 154, 132, 230, 150, 135, 228, 187, 182, 239, 188,
       136] @ ''CI '' @ utf8 [231, 148, 168, 239, 188, 140, 230, 156, 137, 229, 183, 174, 229, 188, 130, 233,
       128, 128, 229, 135, 186, 231, 160, 129] @ '' 1'' @ utf8 [239, 188, 137],
     [],
     utf8 [231, 164, 186, 228, 190, 139] @ '':'',
     ''  fly fmt src/                       # '' @ utf8 [229, 133, 168, 233, 131, 168] @ '' .fly '' @
       utf8 [230, 160, 188, 229, 188, 143, 229, 140, 150, 228, 184, 186] @ '' stdout'',
     ''  fly fmt -w src/                    # '' @ utf8 [229, 134, 153, 229, 155, 158],
     ''  fly fmt --check testdata/golden/   # CI '' @ utf8 [233, 151, 168, 231, 166, 129, 239, 188, 154, 228,
       184, 141, 229, 185, 178, 229, 135, 128, 229, 141, 179, 229, 164, 177, 232, 180, 165],
     [],
     utf8 [232, 175, 180, 230, 152, 142] @ '':'',
     ''  - '' @ utf8 [230, 148, 185, 232, 161, 140, 229, 143, 183, 228, 188, 154, 229, 189, 177, 229, 147,
       141, 228, 186, 167, 231, 137, 169, 229, 134, 133, 229, 181, 140, 232, 161, 140, 229, 136, 151, 229,
       143, 183, 226, 128, 148, 226, 128, 148] @ ''fmt '' @ utf8 [229, 144, 142, 233, 156, 128, 233, 135,
       141, 230, 150, 176, 231, 148, 159, 230, 136, 144] @ '' golden '' @ utf8 [229, 191, 171, 231, 133, 167],
     ''    '' @ utf8 [239, 188, 136] @ ''fly build -o testdata/golden/x.py testdata/golden/x.fly'' @
       utf8 [239, 188, 137],
     ''  - '' @ utf8 [233, 128, 128, 229, 135, 186, 231, 160, 129] @ '': 0 '' @ utf8 [229, 185, 178, 229,
       135, 128] @ '' / 1 '' @ utf8 [229, 173, 152, 229, 156, 168, 229, 183, 174, 229, 188, 130, 239, 188,
       136] @ ''--check'' @ utf8 [239, 188, 137] @ ''/ 2 '' @ utf8 [229, 143, 130, 230, 149, 176, 233, 148,
       153, 232, 175, 175],
     []]"

definition HELP_ANALYZE :: string where
  "HELP_ANALYZE = lines_text [
     ''fly analyze '' @ utf8 [226, 128, 148, 226, 128, 148] @ '' '' @ utf8 [228, 187, 163, 231, 160, 129, 232,
       180, 168, 233, 135, 143, 230, 138, 165, 229, 145, 138, 239, 188, 136] @ ''100 '' @ utf8 [229, 136,
       182, 232, 175, 132, 229, 136, 134, 239, 188, 137],
     [],
     utf8 [231, 148, 168, 233, 128, 148] @ '':'',
     ''  '' @ utf8 [232, 190, 147, 229, 135, 186, 228, 187, 163, 231, 160, 129, 232, 180, 168, 233, 135, 143,
       232, 175, 132, 229, 136, 134, 228, 184, 142, 231, 187, 180, 229, 186, 166, 230, 152, 142, 231, 187,
       134, 239, 188, 140, 231, 148, 168, 228, 186, 142] @ '' CI '' @ utf8 [232, 180, 168, 233, 135, 143,
       233, 151, 168, 231, 166, 129, 230, 136, 150, 228, 187, 163, 231, 160, 129, 232, 175, 132, 229, 174,
       161, 227, 128, 130],
     [],
     utf8 [231, 148, 168, 230, 179, 149] @ '':'',
     ''  fly analyze <file.fly> | <'' @ utf8 [231, 155, 174, 229, 189, 149] @ ''>...'',
     [],
     utf8 [232, 175, 132, 229, 136, 134, 231, 187, 180, 229, 186, 166] @ '':'',
     ''  McCabe '' @ utf8 [229, 190, 170, 231, 142, 175, 229, 164, 141, 230, 157, 130, 229, 186, 166] @
       '' / '' @ utf8 [232, 174, 164, 231, 159, 165, 229, 164, 141, 230, 157, 130, 229, 186, 166] @
       '' / '' @ utf8 [229, 181, 140, 229, 165, 151, 230, 183, 177, 229, 186, 166] @ '' / '' @ utf8 [233,
       135, 141, 229, 164, 141, 228, 187, 163, 231, 160, 129] @ '' / '' @ utf8 [230, 179, 168, 233, 135, 138,
       230, 175, 148, 228, 190, 139] @ '' / '' @ utf8 [229, 145, 189, 229, 144, 141, 232, 167, 132, 232, 140,
       131],
     [],
     utf8 [231, 164, 186, 228, 190, 139] @ '':'',
     ''  fly analyze app.fly'',
     ''  fly analyze src/'',
     [],
     utf8 [232, 175, 180, 230, 152, 142] @ '':'',
     ''  - '' @ utf8 [230, 148, 175, 230, 140, 129, 231, 155, 174, 229, 189, 149, 233, 128, 146, 229, 189,
       146, 239, 188, 155, 232, 190, 147, 229, 135, 186] @ '' 100 '' @ utf8 [229, 136, 182, 230, 128, 187,
       229, 136, 134] @ '' + '' @ utf8 [229, 144, 132, 231, 187, 180, 229, 186, 166, 230, 152, 142, 231, 187,
       134],
     []]"

definition HELP_VERSION :: string where
  "HELP_VERSION = lines_text [
     ''fly version '' @ utf8 [226, 128, 148, 226, 128, 148] @ '' '' @ utf8 [230, 152, 190, 231, 164, 186, 231,
       137, 136, 230, 156, 172],
     [],
     utf8 [231, 148, 168, 233, 128, 148] @ '':'',
     ''  '' @ utf8 [230, 152, 190, 231, 164, 186, 229, 189, 147, 229, 137, 141, 231, 137, 136, 230, 156, 172,
       228, 184, 142, 230, 158, 132, 229, 187, 186, 231, 177, 187, 229, 158, 139, 227, 128, 130, 231, 148,
       168, 228, 186, 142, 230, 142, 146, 230, 159, 165, 229, 141, 135, 231, 186, 167] @ ''/'' @ utf8 [229,
       133, 188, 229, 174, 185, 233, 151, 174, 233, 162, 152, 239, 188, 136, 229, 166, 130] @
       '' VSCode '' @ utf8 [230, 143, 146, 228, 187, 182],
     ''  '' @ utf8 [232, 166, 129, 230, 177, 130] @ '' fly '' @ utf8 [229, 144, 171] @ '' lsp '' @ utf8 [229,
       173, 144, 229, 145, 189, 228, 187, 164, 239, 188, 140, 230, 151, 167, 228, 186, 140, 232, 191, 155,
       229, 136, 182, 232, 191, 158, 230, 142, 165, 228, 188, 154, 229, 164, 177, 232, 180, 165, 239, 188,
       137, 227, 128, 130],
     [],
     utf8 [231, 148, 168, 230, 179, 149] @ '':'',
     ''  fly version'',
     [],
     utf8 [232, 190, 147, 229, 135, 186, 231, 164, 186, 228, 190, 139] @ '':'',
     ''  v0.6.6 (release)     '' @ utf8 [230, 173, 163, 229, 188, 143, 231, 137, 136, 239, 188, 136, 231,
       137, 136, 230, 156, 172, 229, 143, 183, 230, 179, 168, 229, 133, 165, 232, 135, 170, 230, 158, 132,
       229, 187, 186, 230, 151, 182, 231, 142, 175, 229, 162, 131, 229, 143, 152, 233, 135, 143, 239, 188, 137],
     ''  0.6.7-dev (abc1234)  dev '' @ utf8 [231, 137, 136, 239, 188, 136, 230, 156, 170, 230, 137, 147] @
       '' tag '' @ utf8 [231, 154, 132, 230, 156, 172, 229, 156, 176, 230, 158, 132, 229, 187, 186, 239, 188,
       137],
     [],
     utf8 [232, 175, 180, 230, 152, 142] @ '':'',
     ''  - fly update '' @ utf8 [229, 143, 170, 230, 163, 128, 230, 159, 165] @ '' GitHub '' @ utf8 [230,
       156, 128, 230, 150, 176, 230, 173, 163, 229, 188, 143, 231, 137, 136, 239, 188, 136] @ ''dev '' @
       utf8 [231, 137, 136, 229, 144, 140, 230, 160, 183, 229, 143, 175, 230, 155, 180, 230, 150, 176, 239,
       188, 137],
     []]"

definition HELP_ERROR :: string where
  "HELP_ERROR = lines_text [
     ''fly error '' @ utf8 [226, 128, 148, 226, 128, 148] @ '' '' @ utf8 [230, 159, 165, 232, 175, 162, 233, 148,
       153, 232, 175, 175, 231, 160, 129, 239, 188, 136, 231, 164, 186, 228, 190, 139, 230, 138, 165, 233,
       148, 153, 228, 184, 142, 228, 191, 174, 229, 164, 141, 230, 150, 185, 230, 179, 149, 239, 188, 137],
     [],
     utf8 [231, 148, 168, 233, 128, 148] @ '':'',
     ''  '' @ utf8 [230, 159, 165, 232, 175, 162, 228, 187, 187, 230, 132, 143, 233, 148, 153, 232, 175, 175,
       231, 160, 129, 231, 154, 132, 231, 164, 186, 228, 190, 139, 230, 138, 165, 233, 148, 153, 228, 184,
       142, 228, 191, 174, 229, 164, 141, 229, 187, 186, 232, 174, 174, 239, 188, 140, 230, 151, 160, 233,
       156, 128, 231, 191, 187, 230, 150, 135, 230, 161, 163, 227, 128, 130],
     [],
     utf8 [231, 148, 168, 230, 179, 149] @ '':'',
     ''  fly error <E'' @ utf8 [231, 160, 129] @ ''>'',
     [],
     ''E'' @ utf8 [231, 160, 129, 230, 160, 188, 229, 188, 143] @ '':'',
     ''  E0031 / 31 '' @ utf8 [229, 157, 135, 230, 148, 175, 230, 140, 129, 239, 188, 136, 232, 135, 170,
       229, 138, 168, 232, 161, 165, 233, 155, 182, 229, 136, 176] @ '' EXXXX '' @ utf8 [229, 155, 155, 228,
       189, 141, 239, 188, 137],
     [],
     utf8 [231, 164, 186, 228, 190, 139] @ '':'',
     ''  fly error E0063        # '' @ utf8 [230, 159, 165, 232, 175, 162, 229, 141, 177, 233, 153, 169, 229,
       134, 133, 229, 187, 186, 230, 139, 166, 230, 136, 170, 233, 148, 153, 232, 175, 175],
     ''  fly error 31           # '' @ utf8 [231, 173, 137, 228, 187, 183, 228, 186, 142] @
       '' fly error E0031'',
     [],
     utf8 [232, 175, 180, 230, 152, 142] @ '':'',
     ''  - '' @ utf8 [229, 133, 168, 233, 131, 168, 233, 148, 153, 232, 175, 175, 231, 160, 129, 232, 167,
       129] @ '' docs/'' @ utf8 [230, 138, 165, 233, 148, 153, 230, 184, 133, 229, 141, 149] @ ''.md'' @
       utf8 [239, 188, 136] @ ''E0001 '' @ utf8 [232, 181, 183, 232, 191, 158, 231, 187, 173, 231, 188, 150,
       229, 143, 183, 239, 188, 137],
     ''  - '' @ utf8 [233, 148, 153, 232, 175, 175, 231, 160, 129, 230, 179, 168, 229, 134, 140, 232, 161,
       168] @ '': internal/ast/errors.go'' @ utf8 [239, 188, 136] @ ''Go'' @ utf8 [239, 188, 137, 226, 134,
       148] @ '' src/errorinfo.rs'' @ utf8 [239, 188, 136] @ ''Rust'' @ utf8 [239, 188, 137],
     ''    '' @ utf8 [229, 143, 140, 231, 156, 159, 230, 186, 144, 239, 188, 140, 230, 148, 185, 228, 187,
       187, 228, 184, 128, 233, 161, 187, 229, 144, 140, 230, 173, 165, 229, 143, 166, 228, 184, 128, 229,
       164, 132, 239, 188, 136] @ ''scripts/check-errorinfo.sh '' @ utf8 [230, 160, 161, 233, 170, 140, 239,
       188, 137],
     []]"

definition HELP_UPDATE :: string where
  "HELP_UPDATE = lines_text [
     ''fly update '' @ utf8 [226, 128, 148, 226, 128, 148] @ '' '' @ utf8 [230, 163, 128, 230, 159, 165] @
       ''/'' @ utf8 [230, 155, 180, 230, 150, 176, 229, 136, 176, 230, 156, 128, 230, 150, 176, 231, 137,
       136, 230, 156, 172],
     [],
     utf8 [231, 148, 168, 233, 128, 148] @ '':'',
     ''  '' @ utf8 [228, 187, 142] @ '' GitHub '' @ utf8 [229, 174, 152, 230, 150, 185] @ '' Release '' @
       utf8 [228, 184, 139, 232, 189, 189, 230, 156, 128, 230, 150, 176, 230, 173, 163, 229, 188, 143, 231,
       137, 136, 229, 185, 182, 232, 135, 170, 230, 155, 191, 230, 141, 162, 239, 188, 136, 229, 144,
       171] @ '' fly-checkd/fly-sandboxd'',
     ''  '' @ utf8 [228, 184, 137, 228, 186, 140, 232, 191, 155, 229, 136, 182, 239, 188, 140, 229, 174, 137,
       232, 163, 133, 229, 140, 133, 230, 140, 137, 229, 144, 141, 232, 167, 163, 229, 140, 133, 239, 188,
       137, 227, 128, 130],
     [],
     utf8 [231, 148, 168, 230, 179, 149] @ '':'',
     ''  fly update ['' @ utf8 [233, 128, 137, 233, 161, 185] @ '']'',
     [],
     utf8 [233, 128, 137, 233, 161, 185] @ '':'',
     ''  --check           '' @ utf8 [228, 187, 133, 230, 163, 128, 230, 159, 165, 230, 150, 176, 231, 137,
       136, 230, 156, 172, 239, 188, 136, 230, 156, 137, 230, 150, 176, 231, 137, 136, 230, 156, 172, 233,
       128, 128, 229, 135, 186, 231, 160, 129] @ '' 2'' @ utf8 [239, 188, 140, 228, 190, 191, 228, 186,
       142] @ '' CI '' @ utf8 [229, 136, 164, 230, 150, 173, 239, 188, 137],
     ''  --force           '' @ utf8 [229, 144, 140, 231, 137, 136, 230, 156, 172, 228, 185, 159, 229, 188,
       186, 229, 136, 182, 230, 155, 180, 230, 150, 176],
     ''  --insecure        '' @ utf8 [232, 183, 179, 232, 191, 135, 228, 186, 167, 231, 137, 169, 233, 170,
       140, 231, 173, 190, 239, 188, 136, 233, 187, 152, 232, 174, 164, 229, 188, 186, 229, 136, 182, 233,
       170, 140, 231, 173, 190, 239, 188, 154] @ ''ed25519 '' @ utf8 [229, 133, 172, 233, 146, 165, 229, 134,
       133, 229, 181, 140, 239, 188, 140],
     ''                    '' @ utf8 [231, 188, 186] @ '' .sig '' @ utf8 [230, 139, 146, 231, 187, 157, 229,
       174, 137, 232, 163, 133, 226, 128, 148, 226, 128, 148, 228, 187, 133, 230, 181, 139, 232, 175, 149,
       230, 186, 144, 228, 189, 191, 231, 148, 168, 239, 188, 137],
     ''  --proxy <url>     '' @ utf8 [232, 181, 176, 228, 187, 163, 231, 144, 134] @ '': http://'' @
       utf8 [227, 128, 129] @ ''https://'' @ utf8 [227, 128, 129] @ ''socks5://[user:pass@]host:port'',
     [],
     utf8 [231, 164, 186, 228, 190, 139] @ '':'',
     ''  fly update'',
     ''  fly update --check'',
     ''  fly update --proxy socks5://127.0.0.1:1080'',
     [],
     utf8 [232, 175, 180, 230, 152, 142] @ '':'',
     ''  - '' @ utf8 [228, 184, 141, 229, 143, 175, 229, 134, 153, 230, 151, 182, 231, 187, 136, 231, 171,
       175, 239, 188, 136] @ ''TTY'' @ utf8 [239, 188, 137, 232, 135, 170, 229, 138, 168] @ '' sudo '' @
       utf8 [230, 143, 144, 230, 157, 131, 233, 135, 141, 232, 175, 149, 239, 188, 140, 233, 157, 158] @
       '' TTY '' @ utf8 [230, 143, 144, 231, 164, 186, 230, 137, 139, 229, 138, 168] @ '' sudo'',
     ''  - '' @ utf8 [230, 160, 161, 233, 170, 140, 233, 147, 190] @ '': GitHub Release '' @ utf8 [228, 186,
       167, 231, 137, 169] @ '' .sig'' @ utf8 [239, 188, 136] @ ''ed25519'' @ utf8 [239, 188, 137, 226, 134,
       146] @ '' '' @ utf8 [229, 134, 133, 229, 181, 140, 229, 133, 172, 233, 146, 165, 233, 170, 140, 231,
       173, 190] @ '' '' @ utf8 [226, 134, 146] @ '' '' @ utf8 [230, 155, 191, 230, 141, 162],
     []]"

definition HELP_LSP :: string where
  "HELP_LSP = lines_text [
     ''fly lsp '' @ utf8 [226, 128, 148, 226, 128, 148] @ '' '' @ utf8 [232, 175, 173, 232, 168, 128, 230, 156,
       141, 229, 138, 161, 229, 153, 168, 239, 188, 136] @ ''stdio JSON-RPC'' @ utf8 [239, 188, 137],
     [],
     utf8 [231, 148, 168, 233, 128, 148] @ '':'',
     ''  '' @ utf8 [228, 190, 155, 231, 188, 150, 232, 190, 145, 229, 153, 168] @ '' LSP '' @ utf8 [229, 174,
       162, 230, 136, 183, 231, 171, 175, 232, 176, 131, 231, 148, 168, 239, 188, 136] @ ''VSCode '' @
       utf8 [230, 143, 146, 228, 187, 182] @ '' 29anan29.pyfly-lang '' @ utf8 [229, 134, 133, 231, 189, 174,
       232, 191, 158, 230, 142, 165, 239, 188, 137, 227, 128, 130],
     ''  '' @ utf8 [230, 143, 144, 228, 190, 155, 232, 175, 138, 230, 150, 173, 239, 188, 136] @
       ''publishDiagnostics'' @ utf8 [239, 188, 137, 227, 128, 129] @ ''hover'' @ utf8 [239, 188, 136] @
       ''8 '' @ utf8 [228, 184, 170, 229, 133, 179, 233, 148, 174, 229, 173, 151, 230, 150, 135, 230, 161,
       163, 239, 188, 137, 231, 173, 137, 227, 128, 130],
     [],
     utf8 [231, 148, 168, 230, 179, 149] @ '':'',
     ''  fly lsp'',
     ''  '' @ utf8 [239, 188, 136, 230, 151, 160, 229, 143, 130, 230, 149, 176, 239, 188, 155] @
       ''stdio '' @ utf8 [229, 184, 167, 229, 141, 143, 232, 174, 174] @ '' Content-Length'' @ utf8 [239,
       188, 140] @ ''JSON-RPC 2.0'' @ utf8 [239, 188, 137],
     [],
     utf8 [230, 148, 175, 230, 140, 129, 231, 154, 132, 233, 128, 154, 231, 159, 165] @ ''/'' @ utf8 [232,
       175, 183, 230, 177, 130] @ '':'',
     ''  initialize / initialized / shutdown / exit'',
     ''  didOpen / didChange(full) / didSave / didClose'',
     ''  '' @ utf8 [232, 135, 170, 229, 174, 154, 228, 185, 137, 233, 128, 154, 231, 159, 165] @
       '': fly/forceCheck'',
     [],
     utf8 [232, 175, 180, 230, 152, 142] @ '':'',
     ''  - '' @ utf8 [232, 175, 138, 230, 150, 173, 231, 148, 177] @ '' fly-checkd'' @ utf8 [239, 188,
       136] @ ''Go '' @ utf8 [231, 188, 150, 232, 175, 145, 231, 174, 161, 231, 186, 191] @
       '' CheckSource'' @ utf8 [239, 188, 137, 233, 169, 177, 229, 138, 168, 239, 188, 140, 228, 184,
       142] @ '' fly check '' @ utf8 [229, 144, 140, 228, 184, 128, 231, 174, 161, 231, 186, 191],
     ''  - '' @ utf8 [232, 161, 140, 229, 143, 183, 232, 189, 172, 230, 141, 162] @ '': '' @ utf8 [232, 175,
       138, 230, 150, 173] @ '' Line/Col'' @ utf8 [239, 188, 136] @ ''1 '' @ utf8 [229, 159, 186, 239, 188,
       137, 226, 134, 146] @ '' LSP 0 '' @ utf8 [229, 159, 186, 239, 188, 155] @ ''severity '' @ utf8 [230,
       129, 146, 228, 184, 186] @ '' 1'' @ utf8 [239, 188, 136] @ ''Error'' @ utf8 [239, 188, 137],
     ''  - '' @ utf8 [228, 184, 141, 233, 156, 128, 232, 166, 129, 231, 148, 168, 230, 136, 183, 230, 137,
       139, 229, 138, 168, 232, 191, 144, 232, 161, 140, 226, 128, 148, 226, 128, 148, 231, 188, 150, 232,
       190, 145, 229, 153, 168, 232, 135, 170, 229, 138, 168, 230, 139, 137, 232, 181, 183, 239, 188,
       136] @ ''fly.path '' @ utf8 [233, 133, 141, 231, 189, 174, 230, 140, 135, 229, 174, 154, 228, 186,
       140, 232, 191, 155, 229, 136, 182, 239, 188, 137],
     []]"

definition HELP_HELP :: string where
  "HELP_HELP = lines_text [
     ''fly help '' @ utf8 [226, 128, 148, 226, 128, 148] @ '' '' @ utf8 [230, 140, 135, 228, 187, 164, 230, 149,
       153, 231, 168, 139, 229, 133, 165, 229, 143, 163],
     [],
     utf8 [231, 148, 168, 233, 128, 148] @ '':'',
     ''  '' @ utf8 [230, 159, 165, 231, 156, 139, 228, 187, 187, 228, 184, 128, 229, 173, 144, 229, 145, 189,
       228, 187, 164, 231, 154, 132, 229, 133, 168, 233, 157, 162, 230, 149, 153, 231, 168, 139, 239, 188,
       136, 231, 148, 168, 233, 128, 148] @ ''/'' @ utf8 [231, 148, 168, 230, 179, 149] @ ''/'' @ utf8 [233,
       128, 137, 233, 161, 185] @ ''/'' @ utf8 [231, 164, 186, 228, 190, 139] @ ''/'' @ utf8 [230, 179, 168,
       230, 132, 143, 228, 186, 139, 233, 161, 185, 239, 188, 137, 227, 128, 130],
     [],
     utf8 [231, 148, 168, 230, 179, 149] @ '':'',
     ''  fly help <'' @ utf8 [230, 140, 135, 228, 187, 164, 229, 144, 141] @ ''>'',
     [],
     utf8 [231, 164, 186, 228, 190, 139] @ '':'',
     ''  fly help build'',
     ''  fly help sandbox'',
     ''  fly help update'',
     [],
     utf8 [232, 175, 180, 230, 152, 142] @ '':'',
     ''  - '' @ utf8 [230, 151, 160, 229, 143, 130, 230, 149, 176, 230, 151, 182, 230, 152, 190, 231, 164,
       186, 230, 140, 135, 228, 187, 164, 230, 128, 187, 232, 167, 136],
     ''  - '' @ utf8 [228, 184, 142] @ '' fly <'' @ utf8 [230, 140, 135, 228, 187, 164] @
       ''> -h/--help '' @ utf8 [231, 154, 132, 231, 174, 128, 232, 166, 129, 231, 148, 168, 230, 179, 149,
       230, 143, 144, 231, 164, 186, 228, 186, 146, 232, 161, 165, 239, 188, 136, 230, 149, 153, 231, 168,
       139, 230, 155, 180, 229, 133, 168, 233, 157, 162, 239, 188, 137],
     []]"

definition USAGE :: string where
  "USAGE = lines_text [
     ''PyFly '' @ utf8 [231, 188, 150, 232, 175, 145, 229, 153, 168],
     [],
     utf8 [231, 148, 168, 230, 179, 149] @ '':'',
     ''  fly build ['' @ utf8 [233, 128, 137, 233, 161, 185] @ ''] <file.fly>   '' @ utf8 [232, 189, 172,
       232, 175, 145, 228, 184, 186] @ '' Python'' @ utf8 [239, 188, 136, 229, 144, 171, 230, 178, 153, 231,
       174, 177, 232, 191, 144, 232, 161, 140, 230, 151, 182, 239, 188, 140, 230, 139, 166, 230, 136, 170,
       233, 128, 131, 233, 128, 184, 239, 188, 137],
     ''  fly check <file.fly>...       '' @ utf8 [231, 188, 150, 232, 175, 145, 230, 163, 128, 230, 159, 165,
       239, 188, 136, 230, 148, 175, 230, 140, 129, 231, 155, 174, 229, 189, 149, 233, 128, 146, 229, 189,
       146, 239, 188, 140] @ ''goroutine '' @ utf8 [229, 185, 182, 229, 143, 145, 239, 188, 137],
     ''  fly run <file.fly>            '' @ utf8 [232, 189, 172, 232, 175, 145, 229, 185, 182, 229, 156, 168,
       230, 178, 153, 231, 174, 177, 229, 134, 133, 230, 137, 167, 232, 161, 140],
     ''  fly sandbox <script.py>       '' @ utf8 [232, 191, 155, 231, 168, 139, 231, 186, 167, 230, 178, 153,
       231, 174, 177, 232, 191, 144, 232, 161, 140] @ '' Python'' @ utf8 [239, 188, 136] @
       ''Landlock+seccomp+ns'' @ utf8 [239, 188, 137],
     ''  fly fmt ['' @ utf8 [233, 128, 137, 233, 161, 185] @ ''] <file.fly>...  '' @ utf8 [230, 160, 188,
       229, 188, 143, 229, 140, 150, 228, 187, 163, 231, 160, 129, 239, 188, 136] @ ''token '' @ utf8 [231,
       186, 167, 231, 169, 186, 231, 153, 189, 233, 135, 141, 230, 142, 146, 239, 188, 140, 230, 179, 168,
       233, 135, 138] @ ''/'' @ utf8 [232, 175, 173, 228, 185, 137, 228, 184, 141, 229, 143, 152, 239, 188,
       137],
     ''  fly analyze <file.fly>|<dir> '' @ utf8 [228, 187, 163, 231, 160, 129, 232, 180, 168, 233, 135, 143,
       230, 138, 165, 229, 145, 138, 239, 188, 136, 229, 164, 141, 230, 157, 130, 229, 186, 166] @ ''/'' @
       utf8 [229, 181, 140, 229, 165, 151] @ ''/'' @ utf8 [233, 135, 141, 229, 164, 141] @ ''/'' @ utf8 [230,
       179, 168, 233, 135, 138, 230, 175, 148, 228, 190, 139, 231, 173, 137, 239, 188, 137],
     ''  fly version                  '' @ utf8 [230, 152, 190, 231, 164, 186, 231, 137, 136, 230, 156, 172],
     ''  fly error <E'' @ utf8 [231, 160, 129] @ ''>              '' @ utf8 [230, 159, 165, 232, 175, 162,
       233, 148, 153, 232, 175, 175, 231, 160, 129, 239, 188, 136, 231, 164, 186, 228, 190, 139, 230, 138,
       165, 233, 148, 153, 228, 184, 142, 228, 191, 174, 229, 164, 141, 230, 150, 185, 230, 179, 149, 239,
       188, 137],
     ''  fly update ['' @ utf8 [233, 128, 137, 233, 161, 185] @ '']             '' @ utf8 [230, 163, 128,
       230, 159, 165] @ ''/'' @ utf8 [230, 155, 180, 230, 150, 176, 229, 136, 176, 230, 156, 128, 230, 150,
       176, 231, 137, 136, 230, 156, 172],
     ''  fly help [<'' @ utf8 [230, 140, 135, 228, 187, 164, 229, 144, 141] @ ''>]          '' @ utf8 [230,
       140, 135, 228, 187, 164, 230, 149, 153, 231, 168, 139, 239, 188, 136, 229, 166, 130] @
       '' fly help build'' @ utf8 [239, 188, 137],
     [],
     ''build '' @ utf8 [233, 128, 137, 233, 161, 185] @ '':'',
     ''  -o <out.py>   '' @ utf8 [230, 140, 135, 229, 174, 154, 232, 190, 147, 229, 135, 186, 230, 150, 135,
       228, 187, 182, 239, 188, 136, 233, 187, 152, 232, 174, 164, 232, 190, 147, 229, 135, 186, 229, 136,
       176] @ '' build/ '' @ utf8 [231, 155, 174, 229, 189, 149, 239, 188, 140, 228, 191, 157, 231, 149, 153,
       231, 155, 184, 229, 175, 185, 232, 183, 175, 229, 190, 132, 239, 188, 137],
     [],
     ''fmt '' @ utf8 [233, 128, 137, 233, 161, 185] @ '':'',
     ''  -w, --write   '' @ utf8 [229, 134, 153, 229, 155, 158, 230, 150, 135, 228, 187, 182, 239, 188, 136,
       233, 187, 152, 232, 174, 164, 232, 190, 147, 229, 135, 186] @ '' stdout'' @ utf8 [239, 188, 137],
     ''  --check       '' @ utf8 [229, 143, 170, 230, 138, 165, 229, 145, 138, 233, 156, 128, 232, 166, 129,
       230, 160, 188, 229, 188, 143, 229, 140, 150, 231, 154, 132, 230, 150, 135, 228, 187, 182, 239, 188,
       136] @ ''CI '' @ utf8 [231, 148, 168, 239, 188, 140, 230, 156, 137, 229, 183, 174, 229, 188, 130, 233,
       128, 128, 229, 135, 186, 231, 160, 129] @ '' 1'' @ utf8 [239, 188, 137],
     [],
     ''update '' @ utf8 [233, 128, 137, 233, 161, 185] @ '':'',
     ''  --check       '' @ utf8 [228, 187, 133, 230, 163, 128, 230, 159, 165, 230, 150, 176, 231, 137, 136,
       230, 156, 172, 239, 188, 136, 230, 156, 137, 230, 150, 176, 231, 137, 136, 233, 128, 128, 229, 135,
       186, 231, 160, 129] @ '' 2'' @ utf8 [239, 188, 137],
     ''  --force       '' @ utf8 [229, 144, 140, 231, 137, 136, 230, 156, 172, 228, 185, 159, 229, 188, 186,
       229, 136, 182, 230, 155, 180, 230, 150, 176],
     ''  --proxy <url> '' @ utf8 [232, 181, 176, 228, 187, 163, 231, 144, 134, 239, 188, 136] @
       ''http://'' @ utf8 [227, 128, 129] @ ''https://'' @ utf8 [227, 128, 129] @ ''socks5://'' @ utf8 [239,
       188, 137]]"

definition topic :: "string \<Rightarrow> string option" where
  "topic name =
     (if name = ''build'' then Some HELP_BUILD
      else if name = ''check'' then Some HELP_CHECK
      else if name = ''run'' then Some HELP_RUN
      else if name = ''sandbox'' then Some HELP_SANDBOX
      else if name = ''fmt'' then Some HELP_FMT
      else if name = ''analyze'' then Some HELP_ANALYZE
      else if name = ''version'' then Some HELP_VERSION
      else if name = ''error'' then Some HELP_ERROR
      else if name = ''update'' then Some HELP_UPDATE
      else if name = ''lsp'' then Some HELP_LSP
      else if name = ''help'' then Some HELP_HELP
      else None)"

definition COMMANDS :: "string list" where
  "COMMANDS = [''build'', ''check'', ''run'', ''sandbox'', ''fmt'', ''analyze'', ''version'',
     ''error'', ''update'', ''lsp'', ''help'']"

text \<open>The headings of the two parts that every tutorial has.\<close>

definition usage_heading :: string where
  "usage_heading = utf8 [231, 148, 168, 230, 179, 149] @ '':''"

definition remarks_heading :: string where
  "remarks_heading = utf8 [232, 175, 180, 230, 152, 142] @ '':''"

lemma find_sub_inside: "\<exists>i. find_sub p (a @ p @ b) = Some i"
proof (induction a)
  case Nil
  show ?case by (cases p; cases b) auto
qed auto

lemma lines_text_line: "l \<in> set ls \<Longrightarrow> \<exists>a b. lines_text ls = a @ l @ b"
proof (induction ls)
  case (Cons x xs)
  show ?case
  proof (cases "x = l")
    case True
    then have "lines_text (x # xs) = [] @ l @ (if xs = [] then [] else newline # lines_text xs)" by (cases xs) (simp_all add: lines_text_def)
    then show ?thesis by blast
  next
    case False
    with Cons obtain a b where "lines_text xs = a @ l @ b" by auto
    moreover have "xs \<noteq> []" using False Cons.prems by auto
    ultimately have "lines_text (x # xs) = (x @ newline # a) @ l @ b" by (cases xs) (simp_all add: lines_text_def)
    then show ?thesis by blast
  qed
qed simp

definition full_tutorial :: "string \<Rightarrow> bool" where
  "full_tutorial t \<longleftrightarrow> find_sub usage_heading t \<noteq> None \<and> find_sub remarks_heading t \<noteq> None"

lemma find_sub_line: "list_ex (starts_with h) ls \<Longrightarrow> \<exists>i. find_sub h (lines_text ls) = Some i"
proof -
  assume "list_ex (starts_with h) ls"
  then obtain l where "l \<in> set ls" "starts_with h l" by (auto simp: list_ex_iff)
  then obtain a b where ab: "lines_text ls = a @ l @ b" using lines_text_line by blast
  obtain r where "l = h @ r" using \<open>starts_with h l\<close> by (metis append_take_drop_id starts_with_def)
  with ab show ?thesis using find_sub_inside [of h a "r @ b"] by simp
qed

lemma full_tutorialI:
  "list_ex (starts_with usage_heading) ls \<Longrightarrow> list_ex (starts_with remarks_heading) ls \<Longrightarrow> full_tutorial (lines_text ls)"
  using find_sub_line [of usage_heading ls] find_sub_line [of remarks_heading ls] by (auto simp: full_tutorial_def)

lemma full_tutorials:
  "full_tutorial HELP_BUILD" "full_tutorial HELP_CHECK" "full_tutorial HELP_RUN" "full_tutorial HELP_SANDBOX"
  "full_tutorial HELP_FMT" "full_tutorial HELP_ANALYZE" "full_tutorial HELP_VERSION" "full_tutorial HELP_ERROR"
  "full_tutorial HELP_UPDATE" "full_tutorial HELP_LSP" "full_tutorial HELP_HELP"
  unfolding HELP_BUILD_def HELP_CHECK_def HELP_RUN_def HELP_SANDBOX_def HELP_FMT_def HELP_ANALYZE_def HELP_VERSION_def
    HELP_ERROR_def HELP_UPDATE_def HELP_LSP_def HELP_HELP_def
  by (rule full_tutorialI; code_simp)+

text \<open>
  Note: every command has a tutorial with its usage and its remarks, and nothing else has one.\<close>

theorem tutorials_complete:
  "case topic name of Some t \<Rightarrow> name \<in> set COMMANDS \<and> full_tutorial t | None \<Rightarrow> name \<notin> set COMMANDS"
  by (simp add: topic_def COMMANDS_def full_tutorials)

end
