(* ===== verification/Fly_Front.thy ===== *)
theory Fly_Front
  imports Fly_Gen Fly_Fmt Fly_Analyze Fly_Format Fly_Update Fly_Help
begin

text \<open>
  The command line (\<^verbatim>\<open>src/main.rs\<close>): the commands as functions from what the system answers (the record
  \<open>system\<close>) to the list of their actions and the exit status.  Texts in Chinese are constructors of
  \<open>message\<close>; texts with contents are spelled out.
\<close>

subsection \<open>The system\<close>

text \<open>
  A directory is the tree that \<open>read_dir\<close> unfolds, without following links; a \<open>Bad_entry\<close> is one whose
  listing or type cannot be read.
\<close>

datatype dir_entry =
    File_entry (entry_name: string) | Dir_entry (entry_name: string) "dir_entry list" | Other_entry (entry_name: string)
  | Bad_entry (entry_name: string) int

datatype serve_result = Served | Serve_failed string | No_server string

datatype exit_report = Not_started | Exited int | Signalled

record system =
  sy_build :: build
  sy_env :: "string \<Rightarrow> string option"
  sy_exe_dir :: "string option"
  sy_exists :: "string \<Rightarrow> bool"
  sy_cwd :: "string option"
  sy_tmp :: string
  sy_err_tty :: bool
  sy_out_tty :: bool
  sy_in_tty :: bool
  sy_root :: bool
  sy_read :: "string \<Rightarrow> int + byte list"
  sy_is_dir :: "string \<Rightarrow> int + bool"
  sy_list :: "string \<Rightarrow> int + dir_entry list"
  sy_mkdir :: "string \<Rightarrow> bool"
  sy_write :: "string \<Rightarrow> byte list \<Rightarrow> bool"
  sy_checker :: "string \<Rightarrow> byte list \<Rightarrow> string + byte list"
  sy_spawn :: "string \<Rightarrow> string list \<Rightarrow> exit_report"
  sy_runtime :: string
  sy_os :: string
  sy_arch :: string
  sy_line :: "string option"
  sy_writable :: "string \<Rightarrow> bool"
  sy_net :: "proxy option \<Rightarrow> net"
  sy_world :: world
  sy_serve :: serve_result
  sy_cpus :: "nat option"

datatype check_failure = Checker_process string | Checker_protocol checkd_error

datatype usage =
    Usage_build | Usage_run | Usage_error | Usage_check | Usage_lsp | Usage_fmt | Usage_analyze
  | Command_hint | Help_commands | Needs_out_file | One_input_only | Needs_proxy

datatype notice =
    Checker_not_found | No_fly_files | Sandboxd_not_found | No_sandboxd | No_python | Nothing_to_analyze
  | Insecure_warning | Changes | Ask | Bye | Installing | Panicked | No_sudo | No_executable

datatype topic_of =
    Unknown_command | Unknown_topic | Parse_failed | No_directory | Not_written | Unknown_code | Io_error | Fmt_skipped
  | Needs_formatting | Analyze_skipped | Unknown_argument | Bad_proxy | Up_to_date | Not_writable | Sudo_advice
  | Sudo_retry | Installed

datatype measure =
    Cyclomatic | Cognitive | Nesting | Function_length | File_length | Parameters | Repetition | Comments | Naming

text \<open>\<open>About k s\<close> is the message \<open>k\<close> that mentions \<open>s\<close>.\<close>

datatype message =
    Text string | Usage usage | Notice notice | About topic_of string | Checker_failed string check_failure
  | Files_failed nat | Files_ok nat | Update_failed update_error | New_version string string
  | No_asset string string | Total_score f64 grade nat | Measure measure f64 int | Measure_rate measure f64 f64
  | Measure_errors f64 int int | Worst_file nat string f64 | Complex_function func_metric | Verdict grade

datatype action =
    Out message | Err message | Make_dir string | Write string "byte list" | Run string "string list" | Remove string
  | Update_op file_op

type_synonym command_result = "action list \<times> int"

text \<open>\<open>err_color\<close> and \<open>out_color\<close>\<close>

definition env_set :: "system \<Rightarrow> string \<Rightarrow> bool" where
  "env_set sys name = (case sy_env sys name of Some v \<Rightarrow> v \<noteq> [] | None \<Rightarrow> False)"

definition err_color :: "system \<Rightarrow> bool" where
  "err_color sys = (if env_set sys ''NO_COLOR'' then False else if env_set sys ''FORCE_COLOR'' then True else sy_err_tty sys)"

definition out_color :: "system \<Rightarrow> bool" where
  "out_color sys = (if env_set sys ''NO_COLOR'' then False else if env_set sys ''FORCE_COLOR'' then True else sy_out_tty sys)"

text \<open>A panic ends the process with status 101.\<close>

definition panic_exit :: "action list \<Rightarrow> command_result" where
  "panic_exit acts = (acts @ [Err (Notice Panicked)], 101)"

subsection \<open>The checker\<close>

datatype check_outcome = Checked checkd_result | Not_checked check_failure | Check_panic

definition check_src :: "system \<Rightarrow> string \<Rightarrow> string \<Rightarrow> string \<Rightarrow> bool \<Rightarrow> check_outcome" where
  "check_src sys checkd src path color =
     (case sy_checker sys checkd (request_frame color path src) of
        Inl e \<Rightarrow> Not_checked (Checker_process e)
      | Inr bytes \<Rightarrow>
          (case check_reply bytes of
             Done r \<Rightarrow> Checked r
           | Failed e \<Rightarrow> Not_checked (Checker_protocol e)
           | Panic \<Rightarrow> Check_panic))"

definition the_checker :: "system \<Rightarrow> string option" where
  "the_checker sys = find_checkd (sy_env sys ''FLY_CHECKD'') (sy_exe_dir sys) (sy_exists sys) (sy_env sys ''PATH'')"

text \<open>\<open>read_error\<close>: \<open>build\<close> and \<open>run\<close> tell a directory from a file that cannot be opened.\<close>

definition read_error :: "system \<Rightarrow> string \<Rightarrow> int \<Rightarrow> message" where
  "read_error sys path n =
     (let opr = (case sy_is_dir sys path of Inr True \<Rightarrow> ''read'' | _ \<Rightarrow> ''open'') in
      Text (''error: '' @ path @ '': '' @ opr @ '' '' @ path @ '': '' @ errno_text n))"

text \<open>
  The part that \<open>cmd_build\<close> and \<open>cmd_run\<close> share: read, check, parse.  It gives the tree, or what the
  command ends with.
\<close>

definition front :: "system \<Rightarrow> string \<Rightarrow> command_result + module" where
  "front sys path =
     (case sy_read sys path of
        Inl n \<Rightarrow> Inl ([Err (read_error sys path n)], 1)
      | Inr bytes \<Rightarrow>
          (let src = utf8_lossy bytes; color = err_color sys in
           case the_checker sys of
             None \<Rightarrow> Inl ([Err (Notice Checker_not_found)], 1)
           | Some checkd \<Rightarrow>
               (case check_src sys checkd src path color of
                  Check_panic \<Rightarrow> Inl (panic_exit [])
                | Not_checked e \<Rightarrow> Inl ([Err (Checker_failed path e)], 1)
                | Checked r \<Rightarrow>
                    (case cr_server_error r of
                       Some e \<Rightarrow> Inl ([Err (Text (''error: '' @ path @ '': '' @ e))], 1)
                     | None \<Rightarrow>
                         if cr_diags r \<noteq> [] then
                           Inl (map (\<lambda>d. Err (Text (format_error path src d color))) (cr_diags r), 1)
                         else
                           (case parse src of
                              (Some m, _) \<Rightarrow> Inr m
                            | (None, Some d) \<Rightarrow> Inl ([Err (Text (format_error path src d color))], 1)
                            | (None, None) \<Rightarrow> Inl ([Err (About Parse_failed path)], 1))))))"

subsection \<open>Build\<close>

text \<open>\<open>Path::file_name\<close> and \<open>Path::with_extension\<close> on Unix\<close>

definition path_parts :: "string \<Rightarrow> string list" where
  "path_parts p = filter (\<lambda>c. c \<noteq> [] \<and> c \<noteq> ''.'') (split_on (CHR ''/'') p)"

definition file_name :: "string \<Rightarrow> string option" where
  "file_name p = (let cs = path_parts p in if cs = [] \<or> last cs = ''..'' then None else Some (last cs))"

definition file_stem :: "string \<Rightarrow> string" where
  "file_stem name = (if name = ''..'' then name
     else case rsplit_once (CHR ''.'') name of Some (a, _) \<Rightarrow> if a = [] then name else a | None \<Rightarrow> name)"

definition with_extension :: "string \<Rightarrow> string \<Rightarrow> string" where
  "with_extension p ext = (case file_name p of
       None \<Rightarrow> p
     | Some name \<Rightarrow>
         (let t = rev (strip_tail (rev p)) in take (length t - length name + length (file_stem name)) t @ ''.'' @ ext))"

text \<open>\<open>Path::strip_prefix\<close>, for an absolute path and the absolute path of a directory\<close>

fun skip_seps :: "string \<Rightarrow> string" where
  "skip_seps (c # s) =
     (if c = CHR ''/'' then skip_seps s
      else if c = CHR ''.'' then (case s of [] \<Rightarrow> [] | d # t \<Rightarrow> if d = CHR ''/'' then skip_seps t else c # s)
      else c # s)"
| "skip_seps [] = []"

primrec strip_parts :: "string list \<Rightarrow> string \<Rightarrow> string option" where
  "strip_parts [] p = Some (rev (strip_tail (rev (skip_seps p))))"
| "strip_parts (c # cs) p =
     (let t = skip_seps p; r = drop (length c) t in
      if starts_with c t \<and> (r = [] \<or> hd r = CHR ''/'') then strip_parts cs r else None)"

definition default_out_path :: "string option \<Rightarrow> string \<Rightarrow> string" where
  "default_out_path cwd path =
     (let rel = (if starts_with ''/'' path then
            (case cwd of
               None \<Rightarrow> []
             | Some d \<Rightarrow> (case strip_parts (path_parts d) path of
                   Some r \<Rightarrow> if starts_with ''..'' r then [] else r
                 | None \<Rightarrow> []))
          else path);
          rel = (if rel = [] then (case file_name path of Some n \<Rightarrow> n | None \<Rightarrow> []) else rel)
      in join_path ''build'' (with_extension rel ''py''))"

record build_opts =
  bo_out :: string
  bo_keep :: bool
  bo_file :: "string option"

fun build_args :: "string list \<Rightarrow> build_opts \<Rightarrow> message + build_opts" where
  "build_args [] opt = Inr opt"
| "build_args (a # as) opt =
     (if a = ''-o'' then (case as of [] \<Rightarrow> Inl (Usage Needs_out_file) | v # rest \<Rightarrow> build_args rest (opt\<lparr>bo_out := v\<rparr>))
      else if a = ''--keep-annotations'' then build_args as (opt\<lparr>bo_keep := True\<rparr>)
      else if bo_file opt \<noteq> None then Inl (Usage One_input_only)
      else build_args as (opt\<lparr>bo_file := Some a\<rparr>))"

definition write_output :: "system \<Rightarrow> string \<Rightarrow> string \<Rightarrow> string \<Rightarrow> command_result" where
  "write_output sys path out code =
     (let dirs = (case path_parent out of Some d \<Rightarrow> if d = [] then [] else [d] | None \<Rightarrow> []) in
      if \<not> list_all (sy_mkdir sys) dirs then (map Make_dir dirs @ [Err (About No_directory (hd dirs))], 1)
      else if \<not> sy_write sys out code then (map Make_dir dirs @ [Write out code, Err (About Not_written out)], 1)
      else (map Make_dir dirs @ [Write out code, Out (Text (''ok: '' @ path @ '' -> '' @ out))], 0))"

definition cmd_build :: "system \<Rightarrow> string list \<Rightarrow> command_result" where
  "cmd_build sys args =
     (case build_args args \<lparr>bo_out = [], bo_keep = False, bo_file = None\<rparr> of
        Inl e \<Rightarrow> ([Err e], 2)
      | Inr opt \<Rightarrow>
          (case bo_file opt of
             None \<Rightarrow> ([Err (Usage Usage_build)], 2)
           | Some path \<Rightarrow>
               (case front sys path of
                  Inl r \<Rightarrow> r
                | Inr m \<Rightarrow>
                    write_output sys path (if bo_out opt = [] then default_out_path (sy_cwd sys) path else bo_out opt)
                      (generate_opts (sy_runtime sys) m (bo_keep opt)))))"

subsection \<open>Run\<close>

text \<open>\<open>ExitCode::from(c as u8)\<close>\<close>

definition exit_byte :: "int \<Rightarrow> int" where
  "exit_byte c = c mod 256"

definition cmd_run :: "system \<Rightarrow> string list \<Rightarrow> command_result" where
  "cmd_run sys args = (case args of
       [path] \<Rightarrow>
         (case front sys path of
            Inl r \<Rightarrow> r
          | Inr m \<Rightarrow>
              (let code = generate (sy_runtime sys) m; tmp = sy_tmp sys in
               if \<not> sy_write sys tmp code then ([Write tmp code, Err (About Io_error tmp)], 1)
               else let acts = [Write tmp code, Run ''python3'' [tmp], Remove tmp] in
                 (case sy_spawn sys ''python3'' [tmp] of
                    Exited c \<Rightarrow> (acts, exit_byte c)
                  | Signalled \<Rightarrow> (acts, 1)
                  | Not_started \<Rightarrow> (acts @ [Err (Notice No_python)], 1))))
     | _ \<Rightarrow> ([Err (Usage Usage_run)], 2))"

subsection \<open>Error codes\<close>

definition to_upper :: "byte \<Rightarrow> byte" where
  "to_upper c = (if 97 \<le> ord c \<and> ord c \<le> 122 then char_of (nat (ord c - 32)) else c)"

text \<open>\<open>{:04}\<close> on a number\<close>

definition zero_padded :: "nat \<Rightarrow> string" where
  "zero_padded n = (let s = digits_of n in replicate (4 - length s) (CHR ''0'') @ s)"

text \<open>
  The code that is looked up.  \<open>to_uppercase\<close> is the one of ASCII: no other character is made one of a
  code.
\<close>

definition normal_code :: "string \<Rightarrow> string" where
  "normal_code a =
     (let code = map to_upper a; code = (if starts_with ''E'' code then code else ''E'' @ code) in
      case parse_unsigned 4294967295 (trim_start_of {CHR ''E''} code) of
        Some n \<Rightarrow> ''E'' @ zero_padded n
      | None \<Rightarrow> code)"

definition ansi :: "string \<Rightarrow> string \<Rightarrow> string" where
  "ansi code s = CHR 0x1B # ''['' @ code @ ''m'' @ s @ CHR 0x1B # ''[0m''"

definition colorize_line :: "string \<Rightarrow> string" where
  "colorize_line l =
     (if starts_with ''error[E'' l then ansi ''1;31'' l
      else if has_sub ''--> '' l then ansi ''1;36'' l
      else if starts_with ''   = help:'' l then ansi ''32'' l
      else if starts_with ''   = note:'' l then ansi ''33'' l
      else l)"

definition colorize_example :: "string \<Rightarrow> bool \<Rightarrow> string" where
  "colorize_example s color = (if \<not> color then s else concat (map colorize_line (split_inclusive [] s)))"

definition cmd_error :: "system \<Rightarrow> string list \<Rightarrow> command_result" where
  "cmd_error sys args = (case args of
       [a] \<Rightarrow>
         (case info_for_code (normal_code a) of
            Some i \<Rightarrow> ([Out (Text (colorize_example (ei_example i) (out_color sys)))], 0)
          | None \<Rightarrow> ([Err (About Unknown_code (normal_code a))], 1))
     | _ \<Rightarrow> ([Err (Usage Usage_error)], 2))"

subsection \<open>Help\<close>

definition cmd_help :: "string list \<Rightarrow> command_result" where
  "cmd_help args = (case args of
       name # _ \<Rightarrow>
         (case topic name of
            Some t \<Rightarrow> ([Out (Text t)], 0)
          | None \<Rightarrow> ([Err (About Unknown_topic name), Err (Usage Help_commands), Err (Text HELP_HINT)], 2))
     | [] \<Rightarrow> ([Out (Text HELP_HINT)], 0))"

end
