(* ===== verification/Fly_Pool.thy ===== *)
theory Fly_Pool
  imports Main
begin

text \<open>
  The threads of \<open>fly check\<close> and the semaphore that bounds them (\<^verbatim>\<open>src/main.rs\<close>): one thread for every
  file, which acquires a permit, checks, and releases the permit.  A step is what one thread does under
  the lock of the semaphore; a thread that waits on the condition has no step.  A check that panics
  ends its thread before the release.
\<close>

subsection \<open>Steps\<close>

datatype 'r thread = Waiting | Running | Finished 'r | Crashed

record 'r pool =
  permits :: nat
  threads :: "'r thread list"

text \<open>\<open>work ! i\<close> is the result of the \<open>i\<close>-th check, \<open>None\<close> for a panic.\<close>

inductive pool_step :: "'r option list \<Rightarrow> 'r pool \<Rightarrow> 'r pool \<Rightarrow> bool" for work where
  acquire: "pool_step work s \<lparr>permits = permits s - 1, threads = (threads s)[i := Running]\<rparr>"
    if "i < length (threads s)" "threads s ! i = Waiting" "0 < permits s"
| release: "pool_step work s \<lparr>permits = permits s + 1, threads = (threads s)[i := Finished r]\<rparr>"
    if "i < length (threads s)" "threads s ! i = Running" "work ! i = Some r"
| crash: "pool_step work s \<lparr>permits = permits s, threads = (threads s)[i := Crashed]\<rparr>"
    if "i < length (threads s)" "threads s ! i = Running" "work ! i = None"

inductive_cases pool_stepE: "pool_step work s t"

definition pool_start :: "nat \<Rightarrow> nat \<Rightarrow> 'r pool" where
  "pool_start n k = \<lparr>permits = n, threads = replicate k Waiting\<rparr>"

text \<open>The results of \<open>join\<close>, in the order of the files.\<close>

definition settled :: "'r option list \<Rightarrow> 'r thread list" where
  "settled work = map (\<lambda>w. case w of Some r \<Rightarrow> Finished r | None \<Rightarrow> Crashed) work"

definition crashes :: "'r option list \<Rightarrow> nat" where
  "crashes work = length (filter (\<lambda>w. w = None) work)"

definition running :: "'r pool \<Rightarrow> nat" where
  "running s = length (filter (\<lambda>t. t = Running) (threads s))"

subsection \<open>Counting\<close>

definition total :: "('a \<Rightarrow> nat) \<Rightarrow> 'a list \<Rightarrow> nat" where
  "total f xs = sum_list (map f xs)"

lemma total_update: "i < length xs \<Longrightarrow> total f (xs[i := y]) + f (xs ! i) = total f xs + f y"
  by (induction xs arbitrary: i) (auto simp: total_def less_Suc_eq_0_disj)

lemma total_filter: "length (filter P xs) = total (\<lambda>x. if P x then 1 else 0) xs"
  by (induction xs) (simp_all add: total_def)

lemma total_mono: "list_all2 (\<lambda>x y. f x \<le> g y) xs ys \<Longrightarrow> total f xs \<le> total g ys"
  by (induction rule: list_all2_induct) (simp_all add: total_def)

definition holds_permit :: "'r thread \<Rightarrow> nat" where
  "holds_permit t = (case t of Running \<Rightarrow> 1 | Crashed \<Rightarrow> 1 | _ \<Rightarrow> 0)"

definition to_do :: "'r thread \<Rightarrow> nat" where
  "to_do t = (case t of Waiting \<Rightarrow> 2 | Running \<Rightarrow> 1 | _ \<Rightarrow> 0)"

definition thread_ok :: "'r thread \<Rightarrow> 'r option \<Rightarrow> bool" where
  "thread_ok t w = (case t of Finished r \<Rightarrow> w = Some r | Crashed \<Rightarrow> w = None | _ \<Rightarrow> True)"

lemmas thread_defs = holds_permit_def to_do_def thread_ok_def

text \<open>After \<open>k\<close> steps: permits are neither lost nor made, and every step does one piece of the work.\<close>

definition pool_inv :: "'r option list \<Rightarrow> nat \<Rightarrow> nat \<Rightarrow> 'r pool \<Rightarrow> bool" where
  "pool_inv work n k s \<longleftrightarrow> list_all2 thread_ok (threads s) work \<and>
     permits s + total holds_permit (threads s) = n \<and> total to_do (threads s) + k = 2 * length work"

lemma pool_inv_start: "pool_inv work n 0 (pool_start n (length work))"
  by (auto simp: pool_inv_def pool_start_def total_def thread_defs list_all2_conv_all_nth sum_list_replicate)

lemma pool_inv_update:
  assumes "pool_inv work n k s" "i < length (threads s)" "thread_ok t (work ! i)"
    "p + holds_permit t = permits s + holds_permit (threads s ! i)" "to_do t + 1 = to_do (threads s ! i)"
  shows "pool_inv work n (Suc k) \<lparr>permits = p, threads = (threads s)[i := t]\<rparr>"
  using assms total_update [OF assms(2), of holds_permit t] total_update [OF assms(2), of to_do t]
  by (auto simp: pool_inv_def list_all2_conv_all_nth nth_list_update)

lemma pool_inv_step: "pool_step work s t \<Longrightarrow> pool_inv work n k s \<Longrightarrow> pool_inv work n (Suc k) t"
  by (erule pool_stepE; erule ssubst; rule pool_inv_update; simp add: thread_defs)

lemma pool_inv_steps: "(pool_step work ^^ k) (pool_start n (length work)) s \<Longrightarrow> pool_inv work n k s"
  by (induction k arbitrary: s) (auto simp: pool_inv_start intro: pool_inv_step)

text \<open>A thread that runs can go on, and one that waits can when there is a permit.\<close>

lemma pool_progress:
  assumes "pool_inv work n k s" "crashes work < n" "\<nexists>t. pool_step work s t"
  shows "threads s = settled work"
proof -
  have ok: "list_all2 thread_ok (threads s) work" and sum: "permits s + total holds_permit (threads s) = n"
    using assms(1) by (simp_all add: pool_inv_def)
  have idle: "threads s ! i \<noteq> Running" if "i < length (threads s)" for i
    using that assms(3) pool_step.release [of i s work] pool_step.crash [of i s work] by (cases "work ! i") blast+
  have "list_all2 (\<lambda>t w. holds_permit t \<le> (if w = None then 1 else 0)) (threads s) work"
    using ok idle by (auto simp: list_all2_conv_all_nth thread_defs split: thread.splits)
  then have "total holds_permit (threads s) \<le> crashes work"
    unfolding crashes_def total_filter by (rule total_mono)
  then have "0 < permits s" using sum assms(2) by simp
  then have waits: "threads s ! i \<noteq> Waiting" if "i < length (threads s)" for i
    using that assms(3) pool_step.acquire [of i s work] by blast
  show ?thesis
  proof (rule nth_equalityI)
    show len: "length (threads s) = length (settled work)" using ok by (simp add: settled_def list_all2_lengthD)
    fix i
    assume i: "i < length (threads s)"
    have "thread_ok (threads s ! i) (work ! i)" using ok i by (simp add: list_all2_conv_all_nth)
    with idle [OF i] waits [OF i] show "threads s ! i = settled work ! i"
      using i len by (cases "threads s ! i") (simp_all add: settled_def thread_ok_def)
  qed
qed



text \<open>A panic keeps its permit: the other threads wait for ever, and so does the \<open>join\<close> behind them.\<close>

lemma pool_hangs:
  "(pool_step [None, Some r] ^^ 2) (pool_start 1 2) \<lparr>permits = 0, threads = [Crashed, Waiting]\<rparr> \<and>
   \<not> pool_step [None, Some r] \<lparr>permits = 0, threads = [Crashed, Waiting]\<rparr> t"
proof
  let ?w = "[None, Some r]" and ?a = "\<lparr>permits = 0, threads = [Running, Waiting]\<rparr>"
  have "pool_step ?w (pool_start 1 2) ?a"
    using pool_step.acquire [of 0 "pool_start 1 2" ?w] by (simp add: pool_start_def numeral_2_eq_2)
  moreover have "pool_step ?w ?a \<lparr>permits = 0, threads = [Crashed, Waiting]\<rparr>"
    using pool_step.crash [of 0 ?a ?w] by simp
  ultimately show "(pool_step ?w ^^ 2) (pool_start 1 2) \<lparr>permits = 0, threads = [Crashed, Waiting]\<rparr>"
    by (auto simp: numeral_2_eq_2)
  show "\<not> pool_step ?w \<lparr>permits = 0, threads = [Crashed, Waiting]\<rparr> t"
    by (auto elim!: pool_stepE simp: less_Suc_eq nth_Cons')
qed

end
