(* ===== verification/Fly_Cli.thy ===== *)
theory Fly_Cli
  imports Fly_Front Fly_Pool
begin

text \<open>
  The commands over several files (\<open>check\<close>, \<open>fmt\<close>, \<open>analyze\<close>), the update, the bridges to the process
  sandbox and the language server, and the choice of the command (\<^verbatim>\<open>src/main.rs\<close>).
\<close>

subsection \<open>Finding the files\<close>

definition is_fly :: "string \<Rightarrow> bool" where
  "is_fly name = (case rsplit_once (CHR ''.'') name of Some (a, b) \<Rightarrow> a \<noteq> [] \<and> b = ''fly'' | None \<Rightarrow> False)"

fun all_ok :: "(int + string list) list \<Rightarrow> int + string list" where
  "all_ok [] = Inr []"
| "all_ok (Inl n # rs) = Inl n"
| "all_ok (Inr xs # rs) = (case all_ok rs of Inl n \<Rightarrow> Inl n | Inr ys \<Rightarrow> Inr (xs @ ys))"

text \<open>Entries are visited in the order of their names.\<close>

definition by_name :: "dir_entry list \<Rightarrow> (int + string list) list \<Rightarrow> int + string list" where
  "by_name es rs = all_ok (map snd (sort_key fst (zip (map entry_name es) rs)))"

primrec walk_entry :: "string \<Rightarrow> dir_entry \<Rightarrow> int + string list" where
  "walk_entry dir (File_entry name) = Inr (if is_fly name then [join_path dir name] else [])"
| "walk_entry dir (Dir_entry name es) = by_name es (map (walk_entry (join_path dir name)) es)"
| "walk_entry dir (Other_entry name) = Inr []"
| "walk_entry dir (Bad_entry name n) = Inl n"

definition walk_fly :: "string \<Rightarrow> dir_entry list \<Rightarrow> int + string list" where
  "walk_fly dir es = by_name es (map (walk_entry dir) es)"

text \<open>The files that the arguments name; an error comes with its argument.\<close>

definition files_of :: "system \<Rightarrow> string \<Rightarrow> int + string list" where
  "files_of sys a = (case sy_is_dir sys a of
       Inl n \<Rightarrow> Inl n
     | Inr True \<Rightarrow> (case sy_list sys a of Inl n \<Rightarrow> Inl n | Inr es \<Rightarrow> walk_fly a es)
     | Inr False \<Rightarrow> Inr [a])"

primrec collect_files :: "system \<Rightarrow> string list \<Rightarrow> (string \<times> int) + string list" where
  "collect_files sys [] = Inr []"
| "collect_files sys (a # as) = (case files_of sys a of
       Inl n \<Rightarrow> Inl (a, n)
     | Inr fs \<Rightarrow> (case collect_files sys as of Inl e \<Rightarrow> Inl e | Inr gs \<Rightarrow> Inr (fs @ gs)))"

subsection \<open>Check\<close>

text \<open>The messages for a file, \<open>None\<close> for a panic.\<close>

definition check_one :: "system \<Rightarrow> string \<Rightarrow> bool \<Rightarrow> string \<Rightarrow> message list option" where
  "check_one sys checkd color path = (case sy_read sys path of
       Inl n \<Rightarrow> Some [Text (format_error path [] (file_diag path n) color)]
     | Inr bytes \<Rightarrow>
         (let src = utf8_lossy bytes in
          case check_src sys checkd src path color of
            Check_panic \<Rightarrow> None
          | Not_checked e \<Rightarrow> Some [Checker_failed path e]
          | Checked r \<Rightarrow> (case cr_server_error r of
                Some e \<Rightarrow> Some [Text (''error: '' @ path @ '': '' @ e)]
              | None \<Rightarrow> Some (map (\<lambda>d. Text (format_error path src d color)) (cr_diags r)))))"

definition check_permits :: "system \<Rightarrow> nat" where
  "check_permits sys = min (2 ^ 64 - 1) (2 * (case sy_cpus sys of Some n \<Rightarrow> n | None \<Rightarrow> 4))"

text \<open>\<open>join\<close> on every thread, in order; a panic of a thread is passed on.\<close>

fun join_threads :: "'r thread list \<Rightarrow> 'r list option" where
  "join_threads [] = Some []"
| "join_threads (Finished r # ts) = map_option (\<lambda>rs. r # rs) (join_threads ts)"
| "join_threads (t # ts) = None"

definition check_report :: "message list list \<Rightarrow> command_result" where
  "check_report results =
     (let failed = length (filter (\<lambda>bs. bs \<noteq> []) results); shown = map Err (concat results) in
      if 0 < failed then (shown @ [Err (Files_failed failed)], 1)
      else (shown @ [Out (Files_ok (length results))], 0))"

text \<open>
  The threads end with \<open>settled\<close> results, in any interleaving (theorem \<open>pool_sequential\<close>), unless so many
  of them panic that no permit is left.
\<close>

definition cmd_check :: "system \<Rightarrow> string list \<Rightarrow> command_result" where
  "cmd_check sys args =
     (if args = [] then ([Err (Usage Usage_check)], 2)
      else case the_checker sys of
          None \<Rightarrow> ([Err (Notice Checker_not_found)], 1)
        | Some checkd \<Rightarrow>
            (case collect_files sys args of
               Inl (a, n) \<Rightarrow> ([Err (Text (''error: '' @ stat_like_error ''stat'' a n))], 1)
             | Inr files \<Rightarrow>
                 if files = [] then ([Err (Notice No_fly_files)], 1)
                 else case join_threads (settled (map (check_one sys checkd (err_color sys)) files)) of
                     None \<Rightarrow> panic_exit []
                   | Some results \<Rightarrow> check_report results))"

subsection \<open>Format\<close>

record fmt_opts =
  fo_write :: bool
  fo_check :: bool
  fo_files :: "string list"

text \<open>\<open>None\<close> when help is asked for.\<close>

fun fmt_args :: "string list \<Rightarrow> fmt_opts \<Rightarrow> fmt_opts option" where
  "fmt_args [] opt = Some opt"
| "fmt_args (a # as) opt =
     (if a = ''-w'' \<or> a = ''--write'' then fmt_args as (opt\<lparr>fo_write := True\<rparr>)
      else if a = ''--check'' then fmt_args as (opt\<lparr>fo_check := True\<rparr>)
      else if a = ''-h'' \<or> a = ''--help'' then None
      else fmt_args as (opt\<lparr>fo_files := fo_files opt @ [a]\<rparr>))"

text \<open>The contents of the files change while the command runs: \<open>store\<close> is what reading gives.\<close>

type_synonym store = "string \<Rightarrow> int + byte list"

datatype fmt_step = Go_on "action list" store nat | Stop "action list" int

definition fmt_one :: "system \<Rightarrow> string \<Rightarrow> fmt_opts \<Rightarrow> store \<Rightarrow> string \<Rightarrow> fmt_step" where
  "fmt_one sys checkd opt store p = (case store p of
       Inl n \<Rightarrow> Stop [Err (About Io_error p)] 1
     | Inr src \<Rightarrow>
         if \<not> valid_utf8 src then Stop [Err (About Io_error p)] 1
         else (case check_src sys checkd src p False of
             Check_panic \<Rightarrow> Stop [Err (Notice Panicked)] 101
           | outcome \<Rightarrow>
               if (case outcome of Checked r \<Rightarrow> cr_diags r \<noteq> [] | _ \<Rightarrow> True)
               then Go_on [Err (About Fmt_skipped p)] store 1
               else (case format_source src of
                   None \<Rightarrow> Stop [Err (Notice Panicked)] 101
                 | Some out \<Rightarrow>
                     if out = src then Go_on [] store 0
                     else if fo_check opt then Go_on [Out (About Needs_formatting p)] store 1
                     else if fo_write opt then
                       (if sy_write sys p out then Go_on [Write p out, Out (Text (''ok: '' @ p))] (store(p := Inr out)) 1
                        else Stop [Write p out, Err (About Not_written p)] 1)
                     else Go_on [Out (Text (''--- '' @ p @ '' ---'' @ line_end @ out))] store 1)))"

primrec fmt_loop :: "system \<Rightarrow> string \<Rightarrow> fmt_opts \<Rightarrow> store \<Rightarrow> nat \<Rightarrow> string list \<Rightarrow> command_result" where
  "fmt_loop sys checkd opt store dirty [] = ([], if fo_check opt \<and> 0 < dirty then 1 else 0)"
| "fmt_loop sys checkd opt store dirty (p # ps) = (case fmt_one sys checkd opt store p of
       Stop acts code \<Rightarrow> (acts, code)
     | Go_on acts store2 n \<Rightarrow> (let (rest, code) = fmt_loop sys checkd opt store2 (dirty + n) ps in (acts @ rest, code)))"

definition cmd_fmt :: "system \<Rightarrow> string list \<Rightarrow> command_result" where
  "cmd_fmt sys args = (case fmt_args args \<lparr>fo_write = False, fo_check = False, fo_files = []\<rparr> of
       None \<Rightarrow> ([Err (Usage Usage_fmt)], 0)
     | Some opt \<Rightarrow>
         if fo_files opt = [] then ([Err (Usage Usage_fmt)], 2)
         else (case collect_files sys (fo_files opt) of
             Inl (a, n) \<Rightarrow> ([Err (About Io_error a)], 1)
           | Inr paths \<Rightarrow>
               (case the_checker sys of
                  None \<Rightarrow> ([Err (Notice Checker_not_found)], 1)
                | Some checkd \<Rightarrow> fmt_loop sys checkd opt (sy_read sys) 0 paths)))"

subsection \<open>Analysis\<close>

record rep =
  rp_path :: string
  rp_met :: metrics
  rp_bad :: f64

text \<open>The list of the worst files, worst first, at most five.\<close>

fun bubble_up :: "rep \<Rightarrow> rep list \<Rightarrow> rep list" where
  "bubble_up r [] = [r]"
| "bubble_up r (y # ys) = (if f64_less (rp_bad y) (rp_bad r) then y # bubble_up r ys else r # y # ys)"

fun insert_drop :: "rep \<Rightarrow> rep list \<Rightarrow> rep list" where
  "insert_drop r [] = []"
| "insert_drop r (y # ys) = (if f64_less (rp_bad y) (rp_bad r) then r # butlast (y # ys) else y # insert_drop r ys)"

definition add_worst :: "rep \<Rightarrow> rep list \<Rightarrow> rep list" where
  "add_worst r worst = (if length worst < 5 then rev (bubble_up r (rev worst)) else insert_drop r worst)"

record analysis =
  al_reps :: "rep list"
  al_total :: f64
  al_score :: f64
  al_worst :: "rep list"

definition add_rep :: "string \<Rightarrow> metrics \<Rightarrow> analysis \<Rightarrow> analysis" where
  "add_rep p met a =
     (let (s, b) = score met; r = \<lparr>rp_path = p, rp_met = met, rp_bad = b\<rparr> in
      \<lparr>al_reps = al_reps a @ [r], al_total = f64_add (al_total a) (f64_of_int 1), al_score = f64_add (al_score a) s,
       al_worst = add_worst r (al_worst a)\<rparr>)"

primrec analyze_loop :: "system \<Rightarrow> analysis \<Rightarrow> string list \<Rightarrow> action list \<times> (int + analysis)" where
  "analyze_loop sys a [] = ([], Inr a)"
| "analyze_loop sys a (p # ps) = (case sy_read sys p of
       Inl n \<Rightarrow> ([Err (About Io_error p)], Inl 1)
     | Inr src \<Rightarrow>
         if \<not> valid_utf8 src then ([Err (About Io_error p)], Inl 1)
         else (case analyze src of
             None \<Rightarrow> ([Err (Notice Panicked)], Inl 101)
           | Some None \<Rightarrow> (let (acts, r) = analyze_loop sys a ps in (Err (About Analyze_skipped p) # acts, r))
           | Some (Some met) \<Rightarrow> analyze_loop sys (add_rep p met a) ps))"

definition rate_of :: "f64 \<Rightarrow> f64 \<Rightarrow> f64" where
  "rate_of v target =
     (if \<not> f64_less v target then f64_of_int 0
      else f64_mul (f64_sub (f64_of_int 1) (f64_div v target)) (f64_of_int 100))"

text \<open>The mean of a count over all files, cut to a whole number, and of a rate.\<close>

definition mean :: "(metrics \<Rightarrow> int) \<Rightarrow> rep list \<Rightarrow> int" where
  "mean f reps = as_i64 (False, f64_div (f64_of_int (sum_list (map (\<lambda>r. f (rp_met r)) reps))) (f64_of_int (int (length reps))))"

definition mean_rate :: "(metrics \<Rightarrow> f64) \<Rightarrow> rep list \<Rightarrow> f64" where
  "mean_rate f reps = f64_div (fold (\<lambda>r a. f64_add a (f (rp_met r))) reps (f64_of_int 0)) (f64_of_int (int (length reps)))"

text \<open>\<open>aggregate\<close>; the number of functions is left at zero.\<close>

definition aggregate :: "rep list \<Rightarrow> metrics" where
  "aggregate reps =
     \<lparr>mt_cyclomatic = mean mt_cyclomatic reps, mt_cognitive = mean mt_cognitive reps, mt_max_nest = mean mt_max_nest reps,
      mt_func_count = 0, mt_max_func_len = mean mt_max_func_len reps, mt_max_params = mean mt_max_params reps,
      mt_try_count = mean mt_try_count reps, mt_raise_count = mean mt_raise_count reps, mt_lines = mean mt_lines reps,
      mt_code_lines = 0, mt_comment_rate = mean_rate mt_comment_rate reps, mt_repeat_rate = mean_rate mt_repeat_rate reps,
      mt_name_rate = mean_rate mt_name_rate reps, mt_functions = []\<rparr>"

definition percent :: "f64 \<Rightarrow> f64" where
  "percent v = f64_mul v (f64_of_int 100)"

definition measures :: "metrics \<Rightarrow> message list" where
  "measures am =
     (let m = (\<lambda>k v target. Measure k (rate_of (f64_of_int v) (f64_of_int target)) v);
          rest = (\<lambda>v. f64_sub (f64_of_int 100) (percent v))
      in [m Cyclomatic (mt_cyclomatic am) 10, m Cognitive (mt_cognitive am) 15, m Nesting (mt_max_nest am) 4,
          m Function_length (mt_max_func_len am) 50, m File_length (mt_lines am) 500, m Parameters (mt_max_params am) 5,
          Measure_rate Repetition (percent (mt_repeat_rate am)) (percent (mt_repeat_rate am)),
          Measure_errors (rate_of (f64_of_int (mt_try_count am)) (f64_of_int (mt_func_count am + 1))) (mt_try_count am) (mt_raise_count am),
          Measure_rate Comments (rest (mt_comment_rate am)) (percent (mt_comment_rate am)),
          Measure_rate Naming (rest (mt_name_rate am)) (percent (mt_name_rate am))])"

definition worst_lines :: "nat \<times> rep \<Rightarrow> message list" where
  "worst_lines = (\<lambda>(i, r). Worst_file (i + 1) (rp_path r) (rp_bad r) #
     map Complex_function (filter fm_complex (mt_functions (rp_met r))))"

definition analysis_report :: "analysis \<Rightarrow> message list" where
  "analysis_report a =
     (let avg = f64_div (al_score a) (al_total a) in
      [Total_score avg (level avg) (length (al_reps a))] @ measures (aggregate (al_reps a)) @
      concat (map worst_lines (enumerate 0 (al_worst a))) @ [Verdict (level avg)])"

definition cmd_analyze :: "system \<Rightarrow> string list \<Rightarrow> command_result" where
  "cmd_analyze sys args =
     (if list_ex (\<lambda>a. a = ''-h'' \<or> a = ''--help'') args then ([Err (Usage Usage_analyze)], 0)
      else if args = [] then ([Err (Usage Usage_analyze)], 2)
      else (case collect_files sys args of
          Inl (a, n) \<Rightarrow> ([Err (About Io_error a)], 1)
        | Inr paths \<Rightarrow>
            if paths = [] then ([Err (Notice No_fly_files)], 1)
            else (case analyze_loop sys \<lparr>al_reps = [], al_total = f64_of_int 0, al_score = f64_of_int 0, al_worst = []\<rparr> paths of
                (acts, Inl code) \<Rightarrow> (acts, code)
              | (acts, Inr a) \<Rightarrow>
                  if al_reps a = [] then (acts @ [Err (Notice Nothing_to_analyze)], 1)
                  else (acts @ map Out (analysis_report a), 0))))"

subsection \<open>Update\<close>

record update_opts =
  uo_check :: bool
  uo_force :: bool
  uo_insecure :: bool
  uo_proxy :: string

fun update_args :: "string list \<Rightarrow> update_opts \<Rightarrow> message + update_opts" where
  "update_args [] opt = Inr opt"
| "update_args (a # as) opt =
     (if a = ''--check'' then update_args as (opt\<lparr>uo_check := True\<rparr>)
      else if a = ''--force'' then update_args as (opt\<lparr>uo_force := True\<rparr>)
      else if a = ''--insecure'' then update_args as (opt\<lparr>uo_insecure := True\<rparr>)
      else if a = ''--proxy'' then (case as of [] \<Rightarrow> Inl (Usage Needs_proxy) | v # rest \<Rightarrow> update_args rest (opt\<lparr>uo_proxy := v\<rparr>))
      else Inl (About Unknown_argument a))"

definition parse_proxy_arg :: "string \<Rightarrow> proxy option" where
  "parse_proxy_arg p =
     (if starts_with ''http://'' p \<or> starts_with ''https://'' p then Some (Http_Proxy p)
      else if starts_with ''socks5://'' p \<or> starts_with ''socks5h://'' p then Some (Socks5_Proxy p)
      else None)"

definition goos :: "system \<Rightarrow> string" where
  "goos sys = (if sy_os sys = ''macos'' then ''darwin'' else sy_os sys)"

definition goarch :: "system \<Rightarrow> string" where
  "goarch sys =
     (if sy_arch sys = ''x86_64'' then ''amd64'' else if sy_arch sys = ''x86'' then ''386''
      else if sy_arch sys = ''aarch64'' then ''arm64'' else sy_arch sys)"

definition proxy_arg :: "string \<Rightarrow> string" where
  "proxy_arg p = (if p = [] then [] else '' --proxy '' @ p)"

text \<open>What was done, and the status to end with, if any; \<open>args\<close> are all arguments of the program.\<close>

definition retry_with_sudo :: "system \<Rightarrow> string \<Rightarrow> string list \<Rightarrow> action list \<times> int option" where
  "retry_with_sudo sys exe args =
     (if \<not> sy_in_tty sys \<or> sy_root sys then ([], None)
      else let acts = [Out (About Sudo_retry (exe @ '' '' @ join '' '' args)), Run ''sudo'' (exe # args)] in
        (case sy_spawn sys ''sudo'' (exe # args) of
           Exited c \<Rightarrow> (acts, Some c)
         | Signalled \<Rightarrow> (acts, None)
         | Not_started \<Rightarrow> (acts @ [Err (Notice No_sudo)], Some 1)))"

definition update_failed :: "action list \<Rightarrow> update_error \<Rightarrow> command_result" where
  "update_failed acts e = (if e = U_Panic then panic_exit acts else (acts @ [Err (Update_failed e)], 1))"

definition release_notes :: "release \<Rightarrow> action list" where
  "release_notes rel =
     (if trim_ws (rl_body rel) = [] then []
      else Out (Notice Changes) # map (\<lambda>l. Out (Text (''  '' @ l))) (filter (\<lambda>l. l \<noteq> []) (map trim_ws (split_on newline (rl_body rel)))) @
        [Out (Text [])])"

definition offer :: "system \<Rightarrow> release \<Rightarrow> action list" where
  "offer sys rel =
     Out (New_version (rl_tag rel) (version_string (sy_build sys))) # release_notes rel @ [Out (Notice Ask)]"

text \<open>The part behind the choice of the asset; the lines that \<open>install\<close> logs are left out.\<close>

definition ask_and_install :: "system \<Rightarrow> world \<Rightarrow> updater \<Rightarrow> release \<Rightarrow> asset \<Rightarrow> command_result" where
  "ask_and_install sys wd u rel a =
     (let asked = offer sys rel in
      if \<not> confirm (sy_line sys) then (asked @ [Out (Notice Bye)], 0)
      else let (ops, r) = install wd u a; acts = asked @ [Out (Notice Installing)] @ map Update_op ops in
        (case r of
           Some e \<Rightarrow> update_failed acts e
         | None \<Rightarrow> (acts @ [Out (About Installed (rl_tag rel))], 0)))"

definition update_with :: "system \<Rightarrow> update_opts \<Rightarrow> string list \<Rightarrow> world \<Rightarrow> updater \<Rightarrow> command_result" where
  "update_with sys opt args wd u = (case latest wd u of
       Inl e \<Rightarrow> update_failed [] e
     | Inr rel \<Rightarrow>
         if \<not> is_outdated u (rl_tag rel) \<and> \<not> uo_force opt then ([Out (About Up_to_date (version_string (sy_build sys)))], 0)
         else if uo_check opt then ([Out (New_version (rl_tag rel) (version_string (sy_build sys)))], 2)
         else (case asset_for (goos sys) (goarch sys) rel of
             None \<Rightarrow> ([Err (No_asset (goos sys) (goarch sys))], 1)
           | Some a \<Rightarrow>
               (case executable wd u of
                  None \<Rightarrow> ([Err (Notice No_executable)], 1)
                | Some exe \<Rightarrow>
                    (let real = (case w_canonical wd exe of Some p \<Rightarrow> p | None \<Rightarrow> exe);
                         dir = (case path_parent real of Some d \<Rightarrow> d | None \<Rightarrow> [])
                     in if sy_writable sys dir then ask_and_install sys wd u rel a
                        else case retry_with_sudo sys real (''update'' # args) of
                            (acts, Some code) \<Rightarrow> (acts, exit_byte code)
                          | (acts, None) \<Rightarrow>
                              (acts @ [Err (About Not_writable dir), Err (About Sudo_advice (exe @ '' update'' @ proxy_arg (uo_proxy opt)))], 1)))))"

definition cmd_update :: "system \<Rightarrow> string list \<Rightarrow> command_result" where
  "cmd_update sys args =
     (case update_args args \<lparr>uo_check = False, uo_force = False, uo_insecure = False, uo_proxy = []\<rparr> of
        Inl e \<Rightarrow> ([Err e], 2)
      | Inr opt \<Rightarrow>
          (if uo_proxy opt \<noteq> [] \<and> parse_proxy_arg (uo_proxy opt) = None then ([Err (About Bad_proxy (uo_proxy opt))], 1)
           else
             let p = (if uo_proxy opt = [] then None else parse_proxy_arg (uo_proxy opt));
                 wd = (sy_world sys)\<lparr>w_net := sy_net sys p\<rparr>;
                 u = (updater_new (sy_build sys))\<lparr>up_insecure := uo_insecure opt\<rparr>;
                 warned = (if uo_insecure opt then [Err (Notice Insecure_warning)] else []);
                 (acts, code) = update_with sys opt args wd u
             in (warned @ acts, code)))"

subsection \<open>Bridges\<close>

definition find_sandboxd :: "system \<Rightarrow> string option" where
  "find_sandboxd sys = (case sy_env sys ''FLY_SANDBOXD'' of
       Some (c # p) \<Rightarrow> Some (c # p)
     | _ \<Rightarrow>
         (let near = (case sy_exe_dir sys of Some d \<Rightarrow> [join_path d ''fly-sandboxd''] | None \<Rightarrow> []);
              far = (case sy_env sys ''PATH'' of
                  Some p \<Rightarrow> map (\<lambda>dir. join_path dir ''fly-sandboxd'') (split_on (CHR '':'') p)
                | None \<Rightarrow> [])
          in find (sy_exists sys) (near @ far)))"

definition cmd_sandbox :: "system \<Rightarrow> string list \<Rightarrow> command_result" where
  "cmd_sandbox sys args = (case find_sandboxd sys of
       None \<Rightarrow> ([Err (Notice Sandboxd_not_found)], 1)
     | Some prog \<Rightarrow>
         (case sy_spawn sys prog args of
            Exited c \<Rightarrow> ([Run prog args], exit_byte c)
          | Signalled \<Rightarrow> ([Run prog args], 1)
          | Not_started \<Rightarrow> ([Run prog args, Err (Notice No_sandboxd)], 1)))"

definition cmd_lsp :: "system \<Rightarrow> string list \<Rightarrow> command_result" where
  "cmd_lsp sys args =
     (if args \<noteq> [] then ([Err (Usage Usage_lsp)], 2)
      else case sy_serve sys of
          Served \<Rightarrow> ([], 0)
        | No_server e \<Rightarrow> ([Err (Text (''error: '' @ e))], 1)
        | Serve_failed e \<Rightarrow> ([Err (Text (''lsp: '' @ e))], 1))"

subsection \<open>The commands\<close>

definition fly_main :: "system \<Rightarrow> string list \<Rightarrow> command_result" where
  "fly_main sys args = (case args of
       [] \<Rightarrow> ([Err (Text USAGE)], 2)
     | c # rest \<Rightarrow>
         if c = ''version'' then ([Out (Text (version_string (sy_build sys)))], 0)
         else if c = ''check'' then cmd_check sys rest
         else if c = ''build'' then cmd_build sys rest
         else if c = ''run'' then cmd_run sys rest
         else if c = ''error'' then cmd_error sys rest
         else if c = ''update'' then cmd_update sys rest
         else if c = ''fmt'' then cmd_fmt sys rest
         else if c = ''analyze'' then cmd_analyze sys rest
         else if c = ''help'' then cmd_help rest
         else if c = ''-h'' \<or> c = ''--help'' then ([Out (Text USAGE)], 0)
         else if c = ''lsp'' then cmd_lsp sys rest
         else if c = ''sandbox'' then cmd_sandbox sys rest
         else ([Err (About Unknown_command c), Err (Text USAGE), Err (Usage Command_hint)], 2))"

end
