(* ===== verification/Fly_Cli_Facts.thy ===== *)
theory Fly_Cli_Facts
  imports Fly_Cli Fly_Gen_Sandbox Fly_Update_Facts
begin

text \<open>
  The commands put together: only checked and accepted sources are compiled, and what is compiled
  carries the sandbox; \<open>check\<close> succeeds exactly when every file is clean; an update needs consent and a
  signature.
\<close>

subsection \<open>Build and run\<close>

text \<open>The checker was asked about a source and reported nothing, and the parser read it as \<open>m\<close>.\<close>

definition accepted :: "system \<Rightarrow> string \<Rightarrow> module \<Rightarrow> bool" where
  "accepted sys path m \<longleftrightarrow> (\<exists>bytes checkd r.
     sy_read sys path = Inr bytes \<and> the_checker sys = Some checkd \<and>
     check_src sys checkd (utf8_lossy bytes) path (err_color sys) = Checked r \<and>
     cr_server_error r = None \<and> cr_diags r = [] \<and> fst (parse (utf8_lossy bytes)) = Some m)"

lemma front_accepted: "front sys path = Inr m \<Longrightarrow> accepted sys path m"
  by (auto simp: front_def accepted_def Let_def panic_exit_def split: sum.splits option.splits check_outcome.splits if_splits prod.splits)

text \<open>A command that stops in front of the generator only prints.\<close>

definition prints :: "action list \<Rightarrow> bool" where
  "prints acts \<longleftrightarrow> list_all (\<lambda>a. case a of Out _ \<Rightarrow> True | Err _ \<Rightarrow> True | _ \<Rightarrow> False) acts"

lemma printsD: "prints acts \<Longrightarrow> Write p d \<notin> set acts \<and> Run prog as \<notin> set acts \<and> Update_op op \<notin> set acts"
  by (auto simp: prints_def list_all_iff)

lemma front_prints: "front sys path = Inl (acts, code) \<Longrightarrow> prints acts"
  by (auto simp: front_def prints_def Let_def panic_exit_def list_all_iff
      split: sum.splits option.splits check_outcome.splits if_splits prod.splits)

lemma build_args_file: "build_args as opt = Inr opt2 \<Longrightarrow> bo_file opt2 = Some p \<Longrightarrow> p \<in> set as \<or> bo_file opt = Some p"
  by (induction as opt rule: build_args.induct) (auto split: if_splits list.splits)

lemma prints_simps [simp]:
  "prints []" "prints (Out x # acts) \<longleftrightarrow> prints acts" "prints (Err x # acts) \<longleftrightarrow> prints acts"
  "\<not> prints (Write p d # acts)" "\<not> prints (Run prog as # acts)" "prints (acts @ rest) \<longleftrightarrow> prints acts \<and> prints rest"
  by (simp_all add: prints_def)

lemma build_writes: "Write p d \<in> set (fst (write_output sys path out code)) \<Longrightarrow> d = code"
  by (auto simp: write_output_def Let_def split: if_splits option.splits)

lemma cmd_build_writes:
  "Write p d \<in> set (fst (cmd_build sys args)) \<Longrightarrow>
     \<exists>path m keep. path \<in> set args \<and> accepted sys path m \<and> d = generate_opts (sy_runtime sys) m keep"
  using printsD [OF front_prints]
  by (fastforce simp: cmd_build_def dest: build_writes front_accepted build_args_file split: sum.splits option.splits prod.splits)

lemma cmd_run_cases:
  obtains (stops) "prints (fst (cmd_run sys args))"
  | (fails) path m where "args = [path]" "accepted sys path m"
      "fst (cmd_run sys args) = [Write (sy_tmp sys) (generate (sy_runtime sys) m), Err (About Io_error (sy_tmp sys))]"
  | (runs) path m rest where "args = [path]" "accepted sys path m" "rest \<in> {[], [Err (Notice No_python)]}"
      "fst (cmd_run sys args) =
         [Write (sy_tmp sys) (generate (sy_runtime sys) m), Run ''python3'' [sy_tmp sys], Remove (sy_tmp sys)] @ rest"
proof (cases "\<exists>path. args = [path]")
  case True
  then obtain path where args: "args = [path]" by blast
  show thesis
  proof (cases "front sys path")
    case (Inl r)
    then have "prints (fst (cmd_run sys args))" using front_prints [of sys path "fst r" "snd r"] by (simp add: cmd_run_def args)
    then show thesis by (rule stops)
  next
    case (Inr m)
    note m = front_accepted [OF Inr]
    show thesis
    proof (cases "sy_write sys (sy_tmp sys) (generate (sy_runtime sys) m)")
      case True
      with Inr show thesis
        by (intro runs [OF args m, of "if sy_spawn sys ''python3'' [sy_tmp sys] = Not_started then [Err (Notice No_python)] else []"])
          (simp_all add: cmd_run_def args Let_def split: exit_report.splits)
    next
      case False
      with Inr show thesis by (intro fails [OF args m]) (simp add: cmd_run_def args Let_def)
    qed
  qed
next
  case False
  then have "prints (fst (cmd_run sys args))" by (auto simp: cmd_run_def split: list.splits)
  then show thesis by (rule stops)
qed

text \<open>
  C2: whatever \<open>build\<close> writes and \<open>run\<close> executes is the output of the generator for a source that was
  given to the command, that the checker answered without an error and without a diagnostic, and that
  the parser read; unless it has no statement but a string, the runtime with the sandbox is part of it.\<close>

theorem only_accepted_code:
  "{d. \<exists>p. Write p d \<in> set (fst (cmd_build sys args)) \<union> set (fst (cmd_run sys args))} \<subseteq>
     {code. \<exists>path m keep. path \<in> set args \<and> accepted sys path m \<and> code = generate_opts (sy_runtime sys) m keep \<and>
        (code_stmts (mod_stmts m) = [] \<or> (\<exists>pre post. code = pre @ runtime_text (sy_runtime sys) (mod_stmts m) @ post))} \<and>
   (if \<exists>prog as. Run prog as \<in> set (fst (cmd_run sys args)) then
      \<exists>d. fst (cmd_run sys args) \<in> (\<lambda>rest. [Write (sy_tmp sys) d, Run ''python3'' [sy_tmp sys], Remove (sy_tmp sys)] @ rest) ` {[], [Err (Notice No_python)]}
    else True)"
proof (intro conjI subsetI)
  fix d
  assume "d \<in> {d. \<exists>p. Write p d \<in> set (fst (cmd_build sys args)) \<union> set (fst (cmd_run sys args))}"
  then obtain p where "Write p d \<in> set (fst (cmd_build sys args)) \<or> Write p d \<in> set (fst (cmd_run sys args))" by blast
  then obtain path m keep where "path \<in> set args" "accepted sys path m" "d = generate_opts (sy_runtime sys) m keep"
  proof
    assume "Write p d \<in> set (fst (cmd_run sys args))"
    then show ?thesis using that by (cases sys args rule: cmd_run_cases) (auto simp: generate_def dest: printsD)
  qed (use cmd_build_writes in blast)
  then show "d \<in> {code. \<exists>path m keep. path \<in> set args \<and> accepted sys path m \<and> code = generate_opts (sy_runtime sys) m keep \<and>
      (code_stmts (mod_stmts m) = [] \<or> (\<exists>pre post. code = pre @ runtime_text (sy_runtime sys) (mod_stmts m) @ post))}"
    using generate_runtime [of m "sy_runtime sys" keep] by blast
next
  show "if \<exists>prog as. Run prog as \<in> set (fst (cmd_run sys args)) then
      \<exists>d. fst (cmd_run sys args) \<in> (\<lambda>rest. [Write (sy_tmp sys) d, Run ''python3'' [sy_tmp sys], Remove (sy_tmp sys)] @ rest) ` {[], [Err (Notice No_python)]}
    else True"
    by (cases sys args rule: cmd_run_cases) (auto dest: printsD)
qed

subsection \<open>Check\<close>

text \<open>The checker has nothing to say about a file.\<close>

definition clean_file :: "system \<Rightarrow> string \<Rightarrow> string \<Rightarrow> bool" where
  "clean_file sys checkd path \<longleftrightarrow> (case sy_read sys path of
       Inl _ \<Rightarrow> False
     | Inr bytes \<Rightarrow> check_src sys checkd (utf8_lossy bytes) path (err_color sys) = Checked \<lparr>cr_diags = [], cr_server_error = None\<rparr>)"

lemma check_one_clean: "check_one sys checkd (err_color sys) path = Some [] \<longleftrightarrow> clean_file sys checkd path"
  by (auto simp: check_one_def clean_file_def Let_def split: sum.splits check_outcome.splits option.splits intro!: checkd_result.equality)

lemma join_settled: "join_threads (settled work) = (if None \<in> set work then None else Some (map the work))"
  by (induction work) (auto simp: settled_def split: option.splits)

lemma check_report_0: "snd (check_report results) = 0 \<longleftrightarrow> (\<forall>bs \<in> set results. bs = [])"
  by (auto simp: check_report_def Let_def filter_empty_conv)

text \<open>
  C21: \<open>fly check\<close> ends with status 0 exactly when its arguments name at least one file, all of them
  can be listed, and for every file the checker answers without an error and without a diagnostic.\<close>

theorem check_succeeds:
  "snd (cmd_check sys args) = 0 \<longleftrightarrow>
     (\<exists>checkd files. the_checker sys = Some checkd \<and> collect_files sys args = Inr files \<and> files \<noteq> [] \<and> list_all (clean_file sys checkd) files)"
proof (cases "the_checker sys")
  case (Some checkd)
  show ?thesis
  proof (cases "collect_files sys args")
    case (Inr files)
    let ?work = "map (check_one sys checkd (err_color sys)) files"
    have "None \<notin> set ?work \<and> (\<forall>bs \<in> set (map the ?work). bs = []) \<longleftrightarrow> (\<forall>f \<in> set files. check_one sys checkd (err_color sys) f = Some [])"
      by (auto simp: image_iff) (metis option.exhaust_sel)
    with Some Inr show ?thesis
      by (auto simp: cmd_check_def join_settled panic_exit_def check_report_0 check_one_clean list_all_iff split: if_splits)
  qed (use Some in \<open>auto simp: cmd_check_def\<close>)
qed (simp add: cmd_check_def)

subsection \<open>Update\<close>

definition update_world :: "system \<Rightarrow> update_opts \<Rightarrow> world" where
  "update_world sys opt =
     (sy_world sys)\<lparr>w_net := sy_net sys (if uo_proxy opt = [] then None else parse_proxy_arg (uo_proxy opt))\<rparr>"

definition update_updater :: "system \<Rightarrow> update_opts \<Rightarrow> updater" where
  "update_updater sys opt = (updater_new (sy_build sys))\<lparr>up_insecure := uo_insecure opt\<rparr>"

lemma update_insecure [simp]: "up_insecure (update_updater sys opt) = uo_insecure opt"
  by (simp add: update_updater_def)

definition ops_of :: "action list \<Rightarrow> file_op set" where
  "ops_of acts = {op. Update_op op \<in> set acts}"

lemma ops_of_simps [simp]:
  "ops_of [] = {}" "ops_of (Out x # acts) = ops_of acts" "ops_of (Err x # acts) = ops_of acts" "ops_of (Run prog as # acts) = ops_of acts"
  "ops_of (acts @ rest) = ops_of acts \<union> ops_of rest" "ops_of (map Update_op ops) = set ops" "ops_of (map (\<lambda>x. Out (f x)) xs) = {}"
  "ops_of (if b then acts else rest) = (if b then ops_of acts else ops_of rest)"
  by (auto simp: ops_of_def)

lemma ops_of_failed [simp]: "ops_of (fst (update_failed acts e)) = ops_of acts"
  by (simp add: update_failed_def panic_exit_def)

lemma ops_of_offer [simp]: "ops_of (offer sys rel) = {}"
  by (simp add: offer_def release_notes_def)

lemma ops_of_ask: "ops_of (fst (ask_and_install sys wd u rel a)) = (if confirm (sy_line sys) then set (fst (install wd u a)) else {})"
  by (auto simp: ask_and_install_def Let_def split: prod.splits option.splits)

lemma ops_of_retry: "retry_with_sudo sys exe args = (acts, r) \<Longrightarrow> ops_of acts = {}"
  by (auto simp: retry_with_sudo_def Let_def split: exit_report.splits if_splits)

lemma ops_of_update:
  "ops_of (fst (update_with sys opt args wd u)) = {} \<or>
     (\<exists>rel a. latest wd u = Inr rel \<and> (is_outdated u (rl_tag rel) \<or> uo_force opt) \<and> \<not> uo_check opt \<and>
       asset_for (goos sys) (goarch sys) rel = Some a \<and> confirm (sy_line sys) \<and>
       ops_of (fst (update_with sys opt args wd u)) = set (fst (install wd u a)))"
proof (cases "\<exists>rel a exe. latest wd u = Inr rel \<and> (is_outdated u (rl_tag rel) \<or> uo_force opt) \<and> \<not> uo_check opt \<and>
    asset_for (goos sys) (goarch sys) rel = Some a \<and> executable wd u = Some exe")
  case True
  then obtain rel a exe where go: "latest wd u = Inr rel" "is_outdated u (rl_tag rel) \<or> uo_force opt" "\<not> uo_check opt"
    "asset_for (goos sys) (goarch sys) rel = Some a" "executable wd u = Some exe" by blast
  then have "ops_of (fst (update_with sys opt args wd u)) \<in> {{}, ops_of (fst (ask_and_install sys wd u rel a))}"
    by (auto simp: update_with_def Let_def split: prod.splits option.splits dest: ops_of_retry)
  with go show ?thesis by (auto simp: ops_of_ask split: if_splits)
next
  case False
  then have "ops_of (fst (update_with sys opt args wd u)) = {}"
    by (auto simp: update_with_def split: sum.splits option.splits)
  then show ?thesis ..
qed


text \<open>The question offers yes as the default, but an empty answer means no.\<close>

lemma empty_answer: "\<not> confirm (Some [newline])"
  by code_simp

subsection \<open>Error codes\<close>

lemma trim_start_leading: "set e \<subseteq> S \<Longrightarrow> hd s \<notin> S \<Longrightarrow> s \<noteq> [] \<Longrightarrow> trim_start_of S (e @ s) = s"
  by (induction e) (auto simp: trim_start_of_def dropWhile_eq_self_iff)

lemma to_upper_digits: "list_all is_digit s \<Longrightarrow> map to_upper s = s"
  by (induction s) (auto simp: to_upper_def is_digit_def)

lemma to_upper_letters: "set e \<subseteq> {CHR ''e'', CHR ''E''} \<Longrightarrow> map to_upper e = replicate (length e) (CHR ''E'')"
proof -
  have "to_upper (CHR ''e'') = CHR ''E''" "to_upper (CHR ''E'') = CHR ''E''" by code_simp+
  then show "set e \<subseteq> {CHR ''e'', CHR ''E''} \<Longrightarrow> map to_upper e = replicate (length e) (CHR ''E'')"
    by (induction e) auto
qed

lemma dec_value_zeros: "dec_value (replicate k (CHR ''0'') @ s) = dec_value s"
proof -
  have "foldl (\<lambda>v c. v * 10 + (ord c - 48)) 0 (replicate k (CHR ''0'')) = 0" by (induction k) (simp_all add: ord_def)
  then show ?thesis by (simp add: dec_value_def)
qed

text \<open>
  Note: a code may be given as a bare number, with or without leading zeros, and behind the letter E in
  either case, even repeated: it is always the code of four digits that is looked up.\<close>

theorem error_code_spellings:
  assumes "set e \<subseteq> {CHR ''e'', CHR ''E''}" "int n < 4294967296"
  shows "normal_code (e @ replicate k (CHR ''0'') @ digits_of n) = ''E'' @ zero_padded n"
proof -
  let ?ds = "replicate k (CHR ''0'') @ digits_of n"
  have digits: "list_all is_digit ?ds" using digits_of_digits [of n] by (auto simp: list_all_iff is_digit_def ord_def)
  obtain c cs where ds: "?ds = c # cs" using digits_of_Cons [of n] by (cases ?ds) auto
  with digits have c: "c \<noteq> CHR ''E''" "c \<noteq> CHR ''+''" by (auto simp: is_digit_def ord_def)
  let ?code = "replicate (max 1 (length e)) (CHR ''E'') @ ?ds"
  have up: "map to_upper (e @ ?ds) = replicate (length e) (CHR ''E'') @ ?ds"
    using to_upper_letters [OF assms(1)] to_upper_digits [OF digits] by simp
  have code: "(if starts_with ''E'' (replicate (length e) (CHR ''E'') @ ?ds) then replicate (length e) (CHR ''E'') @ ?ds
      else ''E'' @ replicate (length e) (CHR ''E'') @ ?ds) = ?code"
    using c unfolding ds by (cases e) (auto simp: starts_with_def max_def)
  have trim: "trim_start_of {CHR ''E''} ?code = ?ds"
    using c by (intro trim_start_leading) (auto simp: ds)
  have num: "parse_unsigned 4294967295 ?ds = Some n"
  proof -
    have "unsigned_body ?ds = ?ds" using c unfolding ds by (simp add: unsigned_body_def)
    moreover have "dec_value ?ds = int n" by (simp add: dec_value_zeros dec_value_digits)
    ultimately show ?thesis using digits ds assms(2) by (simp add: parse_unsigned_def Let_def)
  qed
  show ?thesis unfolding normal_code_def Let_def by (simp only: up code trim num option.case)
qed

theorem error_code_spellings_witness:
  "normal_code (''e'' @ replicate 1 (CHR ''0'') @ digits_of 31) = ''E'' @ zero_padded 31"
  by (rule error_code_spellings) simp_all

subsection \<open>Paths and unchecked files\<close>

text \<open>
  The output of \<open>build\<close> is documented to lie in the directory \<open>build\<close>; for a source above the working
  directory it does not.  \<open>fmt\<close> is documented to format checked files only; it takes a file whose check
  failed in the checker for a clean one.
\<close>

lemma default_out_path_leaves: "default_out_path cwd ''../a.fly'' = ''build/../a.py''"
  by (simp add: default_out_path_def with_extension_def file_name_def path_parts_def file_stem_def rsplit_once_def
      split_once_def join_path_def)

lemma fmt_unchecked:
  "check_src sys checkd src p False = Checked \<lparr>cr_diags = [], cr_server_error = Some e\<rparr> \<Longrightarrow> valid_utf8 src \<Longrightarrow>
   format_source src = Some out \<Longrightarrow> out \<noteq> src \<Longrightarrow> sy_write sys p out \<Longrightarrow> store p = Inr src \<Longrightarrow>
   fmt_one sys checkd \<lparr>fo_write = True, fo_check = False, fo_files = fs\<rparr> store p =
     Go_on [Write p out, Out (Text (''ok: '' @ p))] (store(p := Inr out)) 1"
  by (simp add: fmt_one_def)

end
