(* ===== verification/Fly_Lsp.thy ===== *)
theory Fly_Lsp
  imports Fly_Http
begin

text \<open>
  The language server (\<^verbatim>\<open>src/lsp.rs\<close>): the frames on its standard input and output, the handling of
  messages in the main thread, and the worker thread that checks changed documents after a delay.  The
  main thread alone changes documents; the worker drains the list of changed documents, compares
  versions, reads a text, and publishes what the checker says about it.
\<close>

subsection \<open>Frames\<close>

datatype lsp_error =
    Header_not_utf8 | Input_closed | Bad_content_length | No_content_length | Body_truncated | Body_not_utf8
  | Exit_without_shutdown

text \<open>\<open>read_line\<close>: up to and with the next line feed.\<close>

definition read_line :: "byte list \<Rightarrow> byte list \<times> byte list" where
  "read_line s = (takeWhile (\<lambda>c. c \<noteq> newline) s @ take 1 (dropWhile (\<lambda>c. c \<noteq> newline) s),
     drop 1 (dropWhile (\<lambda>c. c \<noteq> newline) s))"

lemma read_line_rest: "(l, rest) = read_line s \<Longrightarrow> s \<noteq> [] \<Longrightarrow> length rest < length s"
proof -
  assume "(l, rest) = read_line s" "s \<noteq> []"
  moreover have "length (dropWhile (\<lambda>c. c \<noteq> newline) s) \<le> length s" by (rule length_dropWhile_le)
  ultimately show ?thesis by (cases "dropWhile (\<lambda>c. c \<noteq> newline) s") (auto simp: read_line_def)
qed

definition max_frame :: nat where
  "max_frame = 67108864"

function read_headers :: "nat option \<Rightarrow> byte list \<Rightarrow> lsp_error + nat option \<times> byte list" where
  "read_headers len s =
     (if s = [] then Inl Input_closed
      else let (l, rest) = read_line s in
        if \<not> valid_utf8 l then Inl Header_not_utf8
        else let t = trim_ws l in
          if t = [] then Inr (len, rest)
          else (case strip_prefix ''Content-Length:'' t of
              None \<Rightarrow> read_headers len rest
            | Some v \<Rightarrow>
                (case parse_unsigned usize_max (trim_ws v) of
                   None \<Rightarrow> Inl Bad_content_length
                 | Some n \<Rightarrow> if n = 0 \<or> max_frame < n then Inl Bad_content_length else read_headers (Some n) rest)))"
  by pat_completeness auto
termination
  by (relation "measure (\<lambda>(len, s). length s)") (auto dest: read_line_rest simp del: valid_utf8.simps)

declare read_headers.simps [simp del]

definition read_message :: "byte list \<Rightarrow> lsp_error + string \<times> byte list" where
  "read_message s = (case read_headers None s of
       Inl e \<Rightarrow> Inl e
     | Inr (None, rest) \<Rightarrow> Inl No_content_length
     | Inr (Some n, rest) \<Rightarrow>
         if length rest < n then Inl Body_truncated
         else if \<not> valid_utf8 (take n rest) then Inl Body_not_utf8
         else Inr (take n rest, drop n rest))"

definition write_message :: "byte list \<Rightarrow> byte list" where
  "write_message msg = ''Content-Length: '' @ digits_of (length msg) @ crlf @ crlf @ msg"

subsection \<open>Documents\<close>

definition KEYWORD_DOCS :: "(string \<times> string) list" where
  "KEYWORD_DOCS = [
     (''safe'', ''**safe** '' @ utf8 [194, 183] @ '' '' @ utf8 [229, 188, 186, 229, 136, 182, 229, 135, 128,
       229, 140, 150, 230, 177, 161, 231, 130, 185, 229, 143, 152, 233, 135, 143] @ [newline] @ [newline] @
       utf8 [229, 163, 176, 230, 152, 142, 230, 173, 164, 229, 143, 152, 233, 135, 143, 228, 184, 186, 230,
       177, 161, 231, 130, 185, 230, 186, 144, 239, 188, 140, 229, 191, 133, 233, 161, 187, 231, 187, 143,
       229, 135, 128, 229, 140, 150, 229, 144, 142, 230, 137, 141, 232, 131, 189, 230, 181, 129, 229, 133,
       165, 229, 141, 177, 233, 153, 169, 230, 147, 141, 228, 189, 156, 239, 188, 136] @
       ''eval/exec/os.system/SQL '' @ utf8 [231, 173, 137, 239, 188, 137, 227, 128, 130, 231, 188, 150, 232,
       175, 145, 230, 156, 159, 230, 177, 161, 231, 130, 185, 232, 191, 189, 232, 184, 170, 239, 188, 140,
       233, 155, 182, 232, 191, 144, 232, 161, 140, 230, 151, 182, 230, 174, 139, 231, 149, 153, 227, 128, 130]),
     (''only'', ''**only** '' @ utf8 [194, 183] @ '' '' @ utf8 [231, 153, 189, 229, 144, 141, 229, 141, 149,
       230, 157, 131, 233, 153, 144, 229, 157, 151] @ [newline] @ [newline] @ utf8 [229, 157, 151, 229, 134,
       133, 229, 143, 170, 229, 133, 129, 232, 174, 184, 231, 153, 189, 229, 144, 141, 229, 141, 149, 229,
       134, 133, 231, 154, 132, 230, 168, 161, 229, 157, 151] @ ''/'' @ utf8 [229, 135, 189, 230, 149, 176,
       232, 176, 131, 231, 148, 168, 239, 188, 136, 229, 166, 130] @ '' '' @ utf8 [96] @ ''only (sys):'' @
       utf8 [96, 239, 188, 137, 227, 128, 130, 231, 188, 150, 232, 175, 145, 230, 156, 159, 230, 160, 161,
       233, 170, 140] @ '' + '' @ utf8 [96] @ ''__builtins__'' @ utf8 [96] @ '' '' @ utf8 [231, 153, 189,
       229, 144, 141, 229, 141, 149, 228, 187, 163, 231, 144, 134, 227, 128, 130]),
     (''lock'', ''**lock** '' @ utf8 [194, 183] @ '' '' @ utf8 [233, 148, 129, 229, 174, 154, 229, 184, 184,
       233, 135, 143] @ [newline] @ [newline] @ utf8 [233, 148, 129, 229, 174, 154, 229, 143, 152, 233, 135,
       143, 228, 184, 186, 229, 184, 184, 233, 135, 143, 239, 188, 154, 231, 166, 129, 230, 173, 162, 229,
       134, 141, 232, 181, 139, 229, 128, 188, 227, 128, 129] @ ''AugAssign'' @ utf8 [227, 128, 129] @
       ''setattr '' @ utf8 [228, 184, 142] @ '' '' @ utf8 [96] @ ''globals()['' @ utf8 [39] @ ''X'' @
       utf8 [39] @ '']'' @ utf8 [96] @ '' '' @ utf8 [229, 143, 141, 229, 176, 132, 232, 175, 187, 229, 143,
       150, 227, 128, 130, 231, 188, 150, 232, 175, 145, 230, 156, 159, 231, 172, 166, 229, 143, 183, 232,
       161, 168, 230, 139, 166, 230, 136, 170, 227, 128, 130]),
     (''mask'', ''**mask** '' @ utf8 [194, 183] @ '' '' @ utf8 [233, 129, 174, 232, 148, 189, 230, 149, 143,
       230, 132, 159, 230, 149, 176, 230, 141, 174] @ [newline] @ [newline] @ utf8 [230, 160, 135, 232, 174,
       176, 230, 149, 143, 230, 132, 159, 229, 143, 152, 233, 135, 143, 239, 188, 136, 229, 175, 134, 231,
       160, 129] @ ''/token'' @ utf8 [239, 188, 137, 239, 188, 140, 231, 166, 129, 230, 173, 162, 230, 181,
       129, 229, 133, 165] @ '' print/logging/f-string '' @ utf8 [231, 173, 137, 232, 190, 147, 229, 135,
       186, 228, 184, 138, 228, 184, 139, 230, 150, 135, 227, 128, 130, 231, 188, 150, 232, 175, 145, 230,
       156, 159, 230, 163, 128, 230, 181, 139, 227, 128, 130]),
     (''cage'', ''**cage** '' @ utf8 [194, 183] @ '' '' @ utf8 [232, 181, 132, 230, 186, 144, 231, 186, 166,
       230, 157, 159] @ [newline] @ [newline] @ utf8 [96] @ ''cage(max_time=, max_memory=):'' @ utf8 [96] @
       '' '' @ utf8 [233, 153, 144, 229, 136, 182, 228, 187, 163, 231, 160, 129, 229, 157, 151, 230, 137,
       167, 232, 161, 140, 230, 151, 182, 233, 151, 180, 228, 184, 142, 229, 134, 133, 229, 173, 152, 239,
       188, 140, 232, 182, 133, 233, 153, 144, 230, 138, 155] @ '' '' @ utf8 [96] @ ''TimeoutError'' @
       utf8 [96] @ ''/'' @ utf8 [96] @ ''ResourceExhaustedError'' @ utf8 [96, 227, 128, 130, 232, 191, 144,
       232, 161, 140, 230, 151, 182] @ '' signal/resource'' @ utf8 [227, 128, 130]),
     (''guard'', ''**guard** '' @ utf8 [194, 183] @ '' '' @ utf8 [229, 188, 186, 229, 136, 182, 232, 190,
       147, 229, 133, 165, 233, 170, 140, 232, 175, 129] @ [newline] @ [newline] @ utf8 [96] @
       ''guard x: type, '' @ utf8 [230, 157, 161, 228, 187, 182, 96] @ '' '' @ utf8 [229, 177, 149, 229, 188,
       128, 228, 184, 186, 230, 150, 173, 232, 168, 128, 239, 188, 140, 228, 184, 141, 230, 187, 161, 232,
       182, 179, 230, 138, 155] @ '' '' @ utf8 [96] @ ''GuardError'' @ utf8 [96, 227, 128, 130, 231, 188,
       150, 232, 175, 145, 230, 156, 159, 233, 170, 140, 232, 175, 129] @ '' + '' @ utf8 [231, 148, 159, 230,
       136, 144, 230, 150, 173, 232, 168, 128, 227, 128, 130]),
     (''seal'', ''**seal** '' @ utf8 [194, 183] @ '' '' @ utf8 [229, 134, 187, 231, 187, 147, 229, 175, 185,
       232, 177, 161] @ [newline] @ [newline] @ utf8 [96] @ ''seal class'' @ utf8 [96] @ '' '' @ utf8 [229,
       134, 187, 231, 187, 147, 231, 177, 187, 228, 184, 142, 229, 174, 158, 228, 190, 139, 239, 188, 140,
       231, 166, 129, 230, 173, 162, 229, 162, 158, 229, 136, 160, 230, 148, 185, 229, 177, 158, 230, 128,
       167, 227, 128, 130, 231, 177, 187, 228, 189, 147, 230, 179, 168, 229, 133, 165] @ '' '' @
       utf8 [96] @ ''__setattr__'' @ utf8 [96] @ '' '' @ utf8 [230, 139, 166, 230, 136, 170, 227, 128, 130]),
     (''trace'', ''**trace** '' @ utf8 [194, 183] @ '' '' @ utf8 [229, 174, 161, 232, 174, 161, 230, 151,
       165, 229, 191, 151] @ [newline] @ [newline] @ utf8 [96] @ ''trace(level=, args=, ret=)'' @
       utf8 [96] @ '' '' @ utf8 [229, 156, 168, 229, 135, 189, 230, 149, 176, 229, 133, 165, 229, 143,
       163] @ ''/'' @ utf8 [229, 135, 186, 229, 143, 163, 230, 143, 146, 229, 133, 165] @ '' logging '' @
       utf8 [232, 176, 131, 231, 148, 168, 239, 188, 140, 232, 174, 176, 229, 189, 149, 229, 143, 130, 230,
       149, 176, 228, 184, 142, 232, 191, 148, 229, 155, 158, 229, 128, 188, 227, 128, 130])]"

record doc =
  dc_text :: string
  dc_version :: nat

text \<open>
  \<open>sv_poisoned\<close>: a thread panicked while it held the checker; \<open>sv_out\<close> is what was sent to the client.
\<close>

record server =
  sv_docs :: "string \<Rightarrow> doc option"
  sv_poisoned :: bool
  sv_shut :: bool
  sv_out :: "json list"
  sv_pending :: "string \<Rightarrow> nat option"
  sv_worker :: bool

definition server_new :: server where
  "server_new = \<lparr>sv_docs = Map.empty, sv_poisoned = False, sv_shut = False, sv_out = [], sv_pending = Map.empty, sv_worker = False\<rparr>"

text \<open>What the checker answers about a text and a path; an error is only logged.\<close>

datatype answer = Answer checkd_result | No_answer | Answer_panic

type_synonym asker = "string \<Rightarrow> string \<Rightarrow> answer"

text \<open>\<open>uri_to_path\<close>: the slice behind a percent sign panics when it cuts a character.\<close>

function decode_uri :: "byte list \<Rightarrow> byte list option" where
  "decode_uri [] = Some []"
| "decode_uri (c # s) =
     (if c = CHR ''%'' \<and> 2 \<le> length s then
        (if \<not> is_boundary s 2 then None
         else case parse_hex 255 (take 2 s) of
             Some b \<Rightarrow> map_option (\<lambda>t. byte_of b # t) (decode_uri (drop 2 s))
           | None \<Rightarrow> map_option (\<lambda>t. c # t) (decode_uri s))
      else map_option (\<lambda>t. c # t) (decode_uri s))"
  by pat_completeness auto
termination
  by (relation "measure length") auto

definition uri_to_path :: "string \<Rightarrow> string option" where
  "uri_to_path uri = (case strip_prefix ''file://'' uri of
       Some rest \<Rightarrow> map_option utf8_lossy (decode_uri rest)
     | None \<Rightarrow> Some uri)"

subsection \<open>Messages to the client\<close>

definition rpc :: "json option \<Rightarrow> json \<Rightarrow> json" where
  "rpc ident result = Obj [(''jsonrpc'', Str ''2.0''), (''id'', case ident of Some i \<Rightarrow> i | None \<Rightarrow> Null), (''result'', result)]"

text \<open>The message of the error is \<open>method_unknown\<close> in Chinese, and the method.\<close>

definition method_unknown :: string where
  "method_unknown = utf8 [230, 150, 185, 230, 179, 149, 230, 156, 170, 229, 174, 158, 231, 142, 176] @ '': ''"

definition rpc_err :: "json option \<Rightarrow> int \<Rightarrow> string \<Rightarrow> json" where
  "rpc_err ident code message = Obj [(''jsonrpc'', Str ''2.0''), (''id'', case ident of Some i \<Rightarrow> i | None \<Rightarrow> Null),
     (''error'', Obj [(''code'', Num (num_of_int code)), (''message'', Str message)])]"

definition capabilities :: json where
  "capabilities = Obj [
     (''capabilities'', Obj [
       (''textDocumentSync'', Obj [(''openClose'', Bool True), (''change'', Num (num_of_int 1)), (''save'', Bool True)]),
       (''hoverProvider'', Bool True)]),
     (''serverInfo'', Obj [(''name'', Str ''fly''), (''version'', Str ''1.0.0'')])]"

definition notification :: "string \<Rightarrow> json \<Rightarrow> json" where
  "notification meth ps = Obj [(''jsonrpc'', Str ''2.0''), (''method'', Str meth), (''params'', ps)]"

definition publish_msg :: "string \<Rightarrow> json list \<Rightarrow> json" where
  "publish_msg uri diags = notification ''textDocument/publishDiagnostics'' (Obj [(''uri'', Str uri), (''diagnostics'', Arr diags)])"

definition position_json :: "nat \<Rightarrow> nat \<Rightarrow> json" where
  "position_json line char = Obj [(''line'', Num (num_of_int (int line))), (''character'', Num (num_of_int (int char)))]"

definition diag_json :: "string \<Rightarrow> diagnostic \<Rightarrow> json" where
  "diag_json base d =
     (let line = (if pos_line (d_pos d) = 0 then 1 else pos_line (d_pos d)); col = pos_col (d_pos d) in
      Obj [(''range'', Obj [(''start'', position_json (line - 1) (col - 1)), (''end'', position_json (line - 1) col)]),
        (''severity'', Num (num_of_int 1)), (''source'', Str ''fly''), (''code'', Str (d_code d)),
        (''message'', Str (''error['' @ d_code d @ '']: '' @ base @ '': '' @ d_msg d))])"

text \<open>What \<open>check_uri\<close> publishes for a text; \<open>None\<close> is a panic.\<close>

definition checked_msg :: "asker \<Rightarrow> string \<Rightarrow> string \<Rightarrow> json option" where
  "checked_msg ask uri text = (case uri_to_path uri of
       None \<Rightarrow> None
     | Some path \<Rightarrow>
         (case ask text path of
            Answer r \<Rightarrow> Some (publish_msg uri (map (diag_json (last (split_on (CHR ''/'') path))) (cr_diags r)))
          | No_answer \<Rightarrow> Some (publish_msg uri [])
          | Answer_panic \<Rightarrow> None))"

definition send_msg :: "json \<Rightarrow> server \<Rightarrow> server" where
  "send_msg j sv = sv\<lparr>sv_out := sv_out sv @ [j]\<rparr>"

subsection \<open>Hover\<close>

definition is_ident_char :: "byte \<Rightarrow> bool" where
  "is_ident_char c \<longleftrightarrow> is_digit c \<or> 65 \<le> ord c \<and> ord c \<le> 90 \<or> 97 \<le> ord c \<and> ord c \<le> 122 \<or> c = CHR ''_''"

text \<open>The slice panics at a place inside a character.\<close>

definition token_at :: "string \<Rightarrow> nat \<Rightarrow> string option" where
  "token_at line char =
     (if length line < char then Some []
      else let start = char - length (takeWhile is_ident_char (rev (take char line)));
               stop = char + length (takeWhile is_ident_char (drop char line))
        in if is_boundary line start \<and> is_boundary line stop then Some (Fly_Prelude.slice line start stop) else None)"

text \<open>\<open>n as usize\<close>\<close>

fun as_usize :: "signed_f64 \<Rightarrow> nat" where
  "as_usize (neg, F64 m e) = (if neg then 0 else nat (min usize_max (scale m e div scale 1 (- e))))"
| "as_usize (neg, F64_Inf) = (if neg then 0 else nat usize_max)"

definition field2 :: "string \<Rightarrow> string \<Rightarrow> json \<Rightarrow> json option" where
  "field2 a b j = (case json_get j a of Some x \<Rightarrow> json_get x b | None \<Rightarrow> None)"

definition str_of :: "json option \<Rightarrow> string option" where
  "str_of j = (case j of Some x \<Rightarrow> as_str x | None \<Rightarrow> None)"

definition num_of :: "json option \<Rightarrow> signed_f64 option" where
  "num_of j = (case j of Some x \<Rightarrow> as_num x | None \<Rightarrow> None)"

definition uri_of :: "json \<Rightarrow> string option" where
  "uri_of ps = str_of (field2 ''textDocument'' ''uri'' ps)"

definition hover_text :: "string \<Rightarrow> string \<Rightarrow> string" where
  "hover_text line token =
     (let code = ''```fly'' @ [newline] @ line @ [newline] @ ''```'' in
      case map_of KEYWORD_DOCS token of
        Some d \<Rightarrow> code @ [newline, newline] @ ''---'' @ [newline, newline] @ d
      | None \<Rightarrow> code)"

definition hover :: "json \<Rightarrow> server \<Rightarrow> json option" where
  "hover ps sv = (case (uri_of ps, num_of (field2 ''position'' ''line'' ps), num_of (field2 ''position'' ''character'' ps)) of
       (Some uri, Some line, Some char) \<Rightarrow>
         (case sv_docs sv uri of
            None \<Rightarrow> Some Null
          | Some d \<Rightarrow>
              (let ls = split_on newline (dc_text d) in
               if length ls \<le> as_usize line then Some Null
               else let l = ls ! as_usize line in
                 map_option (\<lambda>token. if token = [] then Null
                   else Obj [(''contents'', Obj [(''kind'', Str ''markdown''), (''value'', Str (hover_text l token))])])
                   (token_at l (as_usize char))))
     | _ \<Rightarrow> Some Null)"

subsection \<open>The main thread\<close>

text \<open>\<open>None\<close> is a panic, which ends the server.\<close>

definition check_uri :: "asker \<Rightarrow> string \<Rightarrow> server \<Rightarrow> server option" where
  "check_uri ask uri sv = (case sv_docs sv uri of
       None \<Rightarrow> Some sv
     | Some d \<Rightarrow>
         if sv_poisoned sv then None else map_option (\<lambda>j. send_msg j sv) (checked_msg ask uri (dc_text d)))"

definition did_open :: "asker \<Rightarrow> json \<Rightarrow> server \<Rightarrow> server option" where
  "did_open ask ps sv = (case uri_of ps of
       None \<Rightarrow> Some sv
     | Some uri \<Rightarrow>
         (let text = (case str_of (field2 ''textDocument'' ''text'' ps) of Some t \<Rightarrow> t | None \<Rightarrow> []) in
          check_uri ask uri (sv\<lparr>sv_docs := (sv_docs sv)(uri \<mapsto> \<lparr>dc_text = text, dc_version = 0\<rparr>)\<rparr>)))"

definition changed_text :: "json \<Rightarrow> string" where
  "changed_text ps = (case json_get ps ''contentChanges'' of
       Some c \<Rightarrow> (case as_arr c of
           Some (x # xs) \<Rightarrow> (case str_of (json_get (last (x # xs)) ''text'') of Some t \<Rightarrow> t | None \<Rightarrow> [])
         | _ \<Rightarrow> [])
     | None \<Rightarrow> [])"

definition did_change :: "json \<Rightarrow> server \<Rightarrow> server" where
  "did_change ps sv = (case uri_of ps of
       None \<Rightarrow> sv
     | Some uri \<Rightarrow>
         (let version = Suc (case sv_docs sv uri of Some d \<Rightarrow> dc_version d | None \<Rightarrow> 0) in
          sv\<lparr>sv_docs := (sv_docs sv)(uri \<mapsto> \<lparr>dc_text = changed_text ps, dc_version = version\<rparr>),
             sv_pending := (sv_pending sv)(uri \<mapsto> version), sv_worker := True\<rparr>))"

definition did_save :: "asker \<Rightarrow> json \<Rightarrow> server \<Rightarrow> server option" where
  "did_save ask ps sv = (case uri_of ps of None \<Rightarrow> Some sv | Some uri \<Rightarrow> check_uri ask uri sv)"

definition did_close :: "json \<Rightarrow> server \<Rightarrow> server" where
  "did_close ps sv = (case uri_of ps of
       None \<Rightarrow> sv
     | Some uri \<Rightarrow> send_msg (publish_msg uri []) (sv\<lparr>sv_docs := (sv_docs sv)(uri := None)\<rparr>))"

text \<open>The reply, if there is one, and the new state.\<close>

definition dispatch :: "asker \<Rightarrow> string \<Rightarrow> json option \<Rightarrow> json \<Rightarrow> server \<Rightarrow> (json option \<times> server) option" where
  "dispatch ask meth ident ps sv =
     (if meth = ''initialize'' then Some (Some (rpc ident capabilities), sv)
      else if meth = ''initialized'' then Some (None, sv)
      else if meth = ''shutdown'' then Some (Some (rpc ident Null), sv\<lparr>sv_shut := True\<rparr>)
      else if meth = ''exit'' then Some (None, sv)
      else if meth = ''textDocument/didOpen'' then map_option (Pair None) (did_open ask ps sv)
      else if meth = ''textDocument/didChange'' then Some (None, did_change ps sv)
      else if meth = ''textDocument/didSave'' then map_option (Pair None) (did_save ask ps sv)
      else if meth = ''textDocument/didClose'' then Some (None, did_close ps sv)
      else if meth = ''textDocument/hover'' then map_option (\<lambda>r. (Some (rpc ident r), sv)) (hover ps sv)
      else if meth = ''fly/forceCheck'' then
        map_option (Pair None) (check_uri ask (case uri_of ps of Some u \<Rightarrow> u | None \<Rightarrow> []) sv)
      else Some (Some (rpc_err ident (- 32601) (method_unknown @ meth)), sv))"

definition reply :: "json option \<Rightarrow> server \<Rightarrow> server" where
  "reply r sv = (case r of Some j \<Rightarrow> send_msg j sv | None \<Rightarrow> sv)"

datatype handled = Continues server | Ends server "lsp_error option" | Dies

definition handle :: "asker \<Rightarrow> string \<Rightarrow> server \<Rightarrow> handled" where
  "handle ask msg sv = (case parse_json msg of
       Inl _ \<Rightarrow> Continues sv
     | Inr j \<Rightarrow>
         (let meth = (case str_of (json_get j ''method'') of Some m \<Rightarrow> m | None \<Rightarrow> []);
              ps = (case json_get j ''params'' of Some p \<Rightarrow> p | None \<Rightarrow> Null)
          in case dispatch ask meth (json_get j ''id'') ps sv of
               None \<Rightarrow> Dies
             | Some (r, sv2) \<Rightarrow>
                 (let sv3 = reply r sv2 in
                  if meth = ''exit'' then Ends sv3 (if sv_shut sv3 then None else Some Exit_without_shutdown)
                  else Continues sv3)))"

text \<open>
  The loop over the input, when the worker does nothing; every frame has a byte, so that a round for
  each byte is enough.
\<close>

primrec serve :: "nat \<Rightarrow> asker \<Rightarrow> byte list \<Rightarrow> server \<Rightarrow> handled" where
  "serve 0 ask input sv = Continues sv"
| "serve (Suc n) ask input sv = (case read_message input of
       Inl e \<Rightarrow> Ends sv (Some e)
     | Inr (msg, rest) \<Rightarrow> (case handle ask msg sv of Continues sv2 \<Rightarrow> serve n ask rest sv2 | h \<Rightarrow> h))"

definition run_server :: "asker \<Rightarrow> byte list \<Rightarrow> handled" where
  "run_server ask input = serve (Suc (length input)) ask input server_new"

subsection \<open>The worker\<close>

text \<open>
  What the worker is about to do: sleep, take the next job, read the text of a document whose version
  was the one of the job, or publish what the checker says about a text.
\<close>

type_synonym jobs = "(string \<times> nat) list"

datatype worker = Asleep | Jobs jobs | Reads string jobs | Checks string string jobs | Dead

type_synonym lsp_state = "server \<times> worker"

text \<open>A step: a message of the client with a method and parameters, or the worker.\<close>

datatype actor = Client string json | Worker

inductive lsp_step :: "asker \<Rightarrow> actor \<Rightarrow> lsp_state \<Rightarrow> lsp_state \<Rightarrow> bool" for ask where
  client: "lsp_step ask (Client meth ps) (sv, wk) (reply r sv2, wk)" if "dispatch ask meth ident ps sv = Some (r, sv2)"
| drain: "lsp_step ask Worker (sv, Asleep) (sv\<lparr>sv_pending := Map.empty\<rparr>, Jobs jobs)"
    if "sv_worker sv" "map_of jobs = sv_pending sv" "distinct (map fst jobs)"
| skip: "lsp_step ask Worker (sv, Jobs ((uri, v) # jobs)) (sv, Jobs jobs)"
    if "map_option dc_version (sv_docs sv uri) \<noteq> Some v"
| match: "lsp_step ask Worker (sv, Jobs ((uri, v) # jobs)) (sv, Reads uri jobs)"
    if "map_option dc_version (sv_docs sv uri) = Some v"
| gone: "lsp_step ask Worker (sv, Reads uri jobs) (sv, Jobs jobs)" if "sv_docs sv uri = None"
| read: "lsp_step ask Worker (sv, Reads uri jobs) (sv, Checks uri (dc_text d) jobs)" if "sv_docs sv uri = Some d"
| publish: "lsp_step ask Worker (sv, Checks uri text jobs) (send_msg j sv, Jobs jobs)"
    if "\<not> sv_poisoned sv" "checked_msg ask uri text = Some j"
| die: "lsp_step ask Worker (sv, Checks uri text jobs) (sv\<lparr>sv_poisoned := sv_poisoned sv \<or> uri_to_path uri \<noteq> None\<rparr>, Dead)"
    if "sv_poisoned sv \<or> checked_msg ask uri text = None"
| rest: "lsp_step ask Worker (sv, Jobs []) (sv, Asleep)"

end
