(* ===== verification/Fly_Lsp_Facts.thy ===== *)
theory Fly_Lsp_Facts
  imports Fly_Lsp Fly_Digits Fly_Framing
begin

text \<open>
  The language server: frames read back as they were written; the diagnostics of an open document
  settle to those of its text, in any interleaving; closing a document during a check does not.
\<close>

subsection \<open>Frames\<close>

definition visible :: "byte \<Rightarrow> bool" where
  "visible c \<longleftrightarrow> 48 \<le> ord c \<and> ord c < 128"

lemma visible_plain:
  "visible c \<Longrightarrow> \<not> ascii_space c \<and> \<not> space_2 c b \<and> \<not> space_2 b c \<and> \<not> space_3 c b b' \<and> \<not> space_3 b' b c"
  by (auto simp: visible_def ascii_space_def space_2_def space_3_def ord_def)

lemma trim_start_spaces: "list_all ascii_space p \<Longrightarrow> trim_start (p @ s) = trim_start s"
  by (induction p) (simp_all add: trim_start.simps [of "_ # _"] space_at_start_def)

lemma trim_end_spaces: "list_all ascii_space q \<Longrightarrow> trim_end (s @ q) = trim_end s"
proof (induction q rule: rev_induct)
  case (snoc c q)
  then have "space_at_end (s @ q @ [c]) = 1" by (simp add: space_at_end_def)
  with snoc show ?case by (subst trim_end.simps) simp
qed simp

lemma trim_ws_spaces:
  assumes "list_all ascii_space p" "list_all ascii_space q" "x \<noteq> []" "visible (hd x)" "visible (last x)"
  shows "trim_ws (p @ x @ q) = x"
proof -
  obtain c s where x: "x = c # s" using assms(3) by (cases x) auto
  have "space_at_start (x @ q) = 0" using visible_plain [of c] assms(4) by (auto simp: x space_at_start_def split: list.split)
  then have "trim_start (p @ x @ q) = x @ q" using assms(1) by (simp add: trim_start_spaces trim_start.simps [of "x @ q"])
  moreover obtain s' c' where x': "x = s' @ [c']" using assms(3) by (cases x rule: rev_cases) auto
  have "space_at_end x = 0" using visible_plain [of c'] assms(5) by (auto simp: x' space_at_end_def split: list.split)
  then have "trim_end (x @ q) = x" using assms(2) by (simp add: trim_end_spaces trim_end.simps [of x])
  ultimately show ?thesis by (simp add: trim_ws_def)
qed

lemma read_line_at: "newline \<notin> set l \<Longrightarrow> read_line (l @ newline # s) = (l @ [newline], s)"
  by (simp add: read_line_def takeWhile_append dropWhile_append)

lemma valid_utf8_ascii: "list_all (\<lambda>c. ord c < 128) s \<Longrightarrow> valid_utf8 s"
  by (induction s) simp_all

lemma parse_unsigned_digits: "int n \<le> largest \<Longrightarrow> parse_unsigned largest (digits_of n) = Some n"
proof -
  assume "int n \<le> largest"
  moreover obtain c cs where ds: "digits_of n = c # cs" "is_digit c" using digits_of_Cons by blast
  then have "digits_of n \<noteq> []" by simp
  moreover have "unsigned_body (digits_of n) = digits_of n" using ds by (auto simp: unsigned_body_def is_digit_def ord_def)
  ultimately show ?thesis using digits_of_digits [of n] by (auto simp: parse_unsigned_def Let_def dec_value_digits)
qed

lemma read_headers_written:
  assumes "0 < n" "n \<le> max_frame"
  shows "read_headers None (''Content-Length: '' @ digits_of n @ crlf @ crlf @ msg) = Inr (Some n, msg)"
proof -
  let ?ds = "digits_of n" and ?head = "''Content-Length: '' @ digits_of n"
  have ds: "?ds \<noteq> []" "\<forall>c \<in> set ?ds. visible c \<and> ord c < 128 \<and> c \<noteq> newline"
    using digits_of_digits [of n] digits_of_Cons [of n] by (auto simp: list_all_iff is_digit_def visible_def ord_def)
  have crlf: "list_all ascii_space crlf" by (simp add: ascii_space_def ord_def)
  have line: "read_line (''Content-Length: '' @ ?ds @ crlf @ crlf @ msg) = (?head @ crlf, crlf @ msg)"
    using ds read_line_at [of "?head @ [carriage_return]" "crlf @ msg"] by auto
  have valid: "valid_utf8 (?head @ crlf)" "valid_utf8 crlf"
    using ds by (intro valid_utf8_ascii; auto simp: list_all_iff ord_def)+
  have head: "trim_ws (?head @ crlf) = ?head"
    using trim_ws_spaces [of "[]" crlf ?head] ds crlf by (auto simp: visible_def ord_def)
  have number: "trim_ws ('' '' @ ?ds) = ?ds"
    using trim_ws_spaces [of "'' ''" "[]" ?ds] ds by (auto simp: ascii_space_def)
  have blank: "trim_ws crlf = []"
    using trim_start_spaces [OF crlf, of "[]"] by (simp add: trim_ws_def trim_start.simps [of "[]"] trim_end.simps [of "[]"] space_at_start_def space_at_end_def)
  have prefix: "strip_prefix ''Content-Length:'' ?head = Some ('' '' @ ?ds)" by (simp add: strip_prefix_Some)
  have parsed: "parse_unsigned usize_max ?ds = Some n" using assms by (intro parse_unsigned_digits) (simp add: max_frame_def)
  have last: "read_headers (Some n) (crlf @ msg) = Inr (Some n, msg)"
    using read_line_at [of "[carriage_return]" msg] valid blank by (simp add: read_headers.simps)
  define H T where "H = ?head @ crlf" and "T = ?head"
  have "read_headers None (''Content-Length: '' @ ?ds @ crlf @ crlf @ msg) = read_headers (Some n) (crlf @ msg)"
    using assms line [folded H_def] valid(1) [folded H_def] head [folded H_def, folded T_def] prefix [folded T_def]
    by (subst read_headers.simps) (simp add: number [simplified] parsed T_def)
  with last show ?thesis by simp
qed

definition next_message :: "byte list \<Rightarrow> (string \<times> byte list) option" where
  "next_message s = (case read_message s of Inr (m, rest) \<Rightarrow> Some (m, rest) | Inl _ \<Rightarrow> None)"

definition frameable :: "string \<Rightarrow> bool" where
  "frameable m \<longleftrightarrow> m \<noteq> [] \<and> length m \<le> max_frame \<and> valid_utf8 m"

lemma read_message_written: "frameable m \<Longrightarrow> read_message (write_message m @ rest) = Inr (m, rest)"
  using read_headers_written [of "length m" "m @ rest"] by (simp add: read_message_def write_message_def frameable_def)

text \<open>A server that is given messages instead of bytes.\<close>

definition handled_in :: "asker \<Rightarrow> string \<Rightarrow> server \<Rightarrow> handled + server" where
  "handled_in ask m sv = (case handle ask m sv of Continues sv2 \<Rightarrow> Inr sv2 | r \<Rightarrow> Inl r)"

definition serve_messages :: "asker \<Rightarrow> string list \<Rightarrow> server \<Rightarrow> handled" where
  "serve_messages ask = over_messages (handled_in ask) (\<lambda>sv. Ends sv (Some Input_closed))"

interpretation messages: framed_loop write_message next_message frameable "\<lambda>n. serve n ask" "handled_in ask"
    "\<lambda>sv. Ends sv (Some Input_closed)" for ask
proof
  show "next_message (write_message m @ rest) = Some (m, rest)" if "frameable m" for m rest
    using that by (simp add: next_message_def read_message_written)
  show "write_message m \<noteq> []" for m by (simp add: write_message_def)
  show "serve (Suc n) ask s sv = (case handled_in ask m sv of Inl r \<Rightarrow> r | Inr sv2 \<Rightarrow> serve n ask rest sv2)"
    if "next_message s = Some (m, rest)" for s m rest n sv
    using that by (auto simp: next_message_def handled_in_def split: sum.splits handled.splits)
  show "serve (Suc n) ask [] sv = Ends sv (Some Input_closed)" for n sv
    by (simp add: read_message_def read_headers.simps [of _ "[]"])
qed

text \<open>
  C26: the server on the bytes of a client computes what the messages mean, one after the other: messages
  of at most 64 megabytes that are written as frames are read as they were, whatever follows them, and
  when the stream ends after them, the server stops with that error in the state they led to, or where a
  message stopped it.\<close>

theorem server_reads_messages:
  assumes "list_all frameable ms"
  shows "read_many next_message (length ms) (concat (map write_message ms) @ rest) = Some (ms, rest) \<and>
    run_server ask (concat (map write_message ms)) = serve_messages ask ms server_new"
  unfolding run_server_def serve_messages_def using assms by (intro conjI messages.many_read messages.loop_stream)

theorem server_reads_messages_witness:
  "run_server (\<lambda>_ _. No_answer) (write_message ''{}'' @ write_message ''[1]'') = serve_messages (\<lambda>_ _. No_answer) [''{}'', ''[1]''] server_new"
  using server_reads_messages [of "[''{}'', ''[1]'']" "[]" "\<lambda>_ _. No_answer"] by (simp add: frameable_def max_frame_def ord_def)

subsection \<open>Diagnostics settle\<close>

definition is_publish :: "string \<Rightarrow> json \<Rightarrow> bool" where
  "is_publish u j \<longleftrightarrow> json_get j ''method'' = Some (Str ''textDocument/publishDiagnostics'') \<and> field2 ''params'' ''uri'' j = Some (Str u)"

lemma is_publish_simps [simp]:
  "is_publish u (publish_msg v ds) \<longleftrightarrow> v = u" "\<not> is_publish u (rpc i r)" "\<not> is_publish u (rpc_err i c m)"
  by (auto simp: is_publish_def publish_msg_def notification_def rpc_def rpc_err_def json_get_def field2_def)

text \<open>The diagnostics that the client got for a document.\<close>

definition shown :: "string \<Rightarrow> server \<Rightarrow> json list" where
  "shown u sv = filter (is_publish u) (sv_out sv)"

definition up_to_date :: "asker \<Rightarrow> string \<Rightarrow> server \<Rightarrow> doc \<Rightarrow> bool" where
  "up_to_date ask u sv d \<longleftrightarrow> shown u sv \<noteq> [] \<and> checked_msg ask u (dc_text d) = Some (last (shown u sv))"

lemma checked_msg_publish: "checked_msg ask u text = Some j \<Longrightarrow> is_publish v j \<longleftrightarrow> u = v"
  by (auto simp: checked_msg_def split: option.splits answer.splits)

lemma shown_send [simp]: "shown u (send_msg j sv) = shown u sv @ (if is_publish u j then [j] else [])"
  by (simp add: shown_def send_msg_def)

lemma send_frame [simp]:
  "sv_docs (send_msg j sv) = sv_docs sv" "sv_pending (send_msg j sv) = sv_pending sv" "sv_worker (send_msg j sv) = sv_worker sv"
  by (simp_all add: send_msg_def)

lemma shown_upd [simp]:
  "shown u (sv\<lparr>sv_docs := x\<rparr>) = shown u sv" "shown u (sv\<lparr>sv_pending := y\<rparr>) = shown u sv" "shown u (sv\<lparr>sv_worker := b\<rparr>) = shown u sv"
  "shown u (sv\<lparr>sv_shut := b\<rparr>) = shown u sv" "shown u (sv\<lparr>sv_poisoned := b\<rparr>) = shown u sv"
  by (simp_all add: shown_def)

text \<open>The messages that begin or end the life of a document.\<close>

definition opens_or_closes :: "string \<Rightarrow> actor \<Rightarrow> bool" where
  "opens_or_closes u a = (case a of
       Client meth ps \<Rightarrow> (meth = ''textDocument/didOpen'' \<or> meth = ''textDocument/didClose'') \<and> uri_of ps = Some u
     | Worker \<Rightarrow> False)"

text \<open>What a message does to an open document: nothing, a check of its text, or a change that is then pending.\<close>

definition same :: "string \<Rightarrow> server \<Rightarrow> server \<Rightarrow> bool" where
  "same u sv sv2 \<longleftrightarrow> sv_docs sv2 u = sv_docs sv u \<and> sv_pending sv2 u = sv_pending sv u"

definition message_effect :: "asker \<Rightarrow> string \<Rightarrow> doc \<Rightarrow> server \<Rightarrow> server \<Rightarrow> bool" where
  "message_effect ask u d sv sv2 \<longleftrightarrow>
     same u sv sv2 \<and> (shown u sv2 = shown u sv \<or> up_to_date ask u sv2 d) \<or>
     (\<exists>t. sv_docs sv2 u = Some \<lparr>dc_text = t, dc_version = Suc (dc_version d)\<rparr> \<and> sv_pending sv2 u = Some (Suc (dc_version d)))"

lemma check_uri_effect:
  "check_uri ask v sv = Some sv2 \<Longrightarrow> sv_docs sv u = Some d \<Longrightarrow>
     sv_docs sv2 = sv_docs sv \<and> sv_pending sv2 = sv_pending sv \<and> (shown u sv2 = shown u sv \<or> up_to_date ask u sv2 d)"
  by (auto simp: check_uri_def up_to_date_def checked_msg_publish split: option.splits if_splits)

lemma effect_check: "check_uri ask v sv = Some sv2 \<Longrightarrow> sv_docs sv u = Some d \<Longrightarrow> message_effect ask u d sv sv2"
  using check_uri_effect [of ask v sv sv2 u d] by (auto simp: message_effect_def same_def)

lemma effect_none: "same u sv sv2 \<Longrightarrow> shown u sv2 = shown u sv \<Longrightarrow> message_effect ask u d sv sv2"
  by (simp add: message_effect_def)

lemma effect_open:
  assumes "did_open ask ps sv = Some sv2" "uri_of ps \<noteq> Some u" "sv_docs sv u = Some d"
  shows "message_effect ask u d sv sv2"
proof (cases "uri_of ps")
  case (Some v)
  with assms obtain x where x: "check_uri ask v (sv\<lparr>sv_docs := (sv_docs sv)(v \<mapsto> x)\<rparr>) = Some sv2"
    by (auto simp: did_open_def Let_def)
  from check_uri_effect [OF x, of u d] Some assms show ?thesis by (auto simp: message_effect_def same_def)
qed (use assms in \<open>auto simp: did_open_def same_def intro: effect_none\<close>)

lemma effect_change: "sv_docs sv u = Some d \<Longrightarrow> message_effect ask u d sv (did_change ps sv)"
  by (cases "uri_of ps = Some u") (auto simp: did_change_def message_effect_def same_def Let_def split: option.splits)

lemma dispatch_effect:
  assumes "dispatch ask meth ident ps sv = Some (r, sv2)" "sv_docs sv u = Some d" "\<not> opens_or_closes u (Client meth ps)"
  shows "message_effect ask u d sv (reply r sv2)"
proof -
  have quiet: "message_effect ask u d sv (reply r2 sv3)"
    if "message_effect ask u d sv sv3" "\<And>j. r2 = Some j \<Longrightarrow> \<not> is_publish u j" for r2 sv3
    using that by (cases r2) (auto simp: reply_def message_effect_def same_def up_to_date_def)
  have "message_effect ask u d sv sv2 \<and> (\<forall>j. r = Some j \<longrightarrow> \<not> is_publish u j)"
    using assms
    by (auto simp: dispatch_def did_save_def did_close_def opens_or_closes_def same_def Let_def
        split: if_splits option.splits intro: effect_check effect_open effect_none effect_change)
  with quiet show ?thesis by blast
qed

text \<open>What the worker still has to do.\<close>

primrec jobs_of :: "worker \<Rightarrow> jobs" where
  "jobs_of Asleep = []"
| "jobs_of (Jobs js) = js"
| "jobs_of (Reads v js) = js"
| "jobs_of (Checks v t js) = js"
| "jobs_of Dead = []"

definition will_check :: "string \<Rightarrow> doc \<Rightarrow> worker \<Rightarrow> bool" where
  "will_check u d wk \<longleftrightarrow> (u, dc_version d) \<in> set (jobs_of wk) \<or> (\<exists>js. wk = Reads u js \<or> wk = Checks u (dc_text d) js)"

text \<open>
  For an open document: its diagnostics are those of its text, or a check of the text is to come; and the
  worker holds another text of it only when a change is pending.
\<close>

definition settling :: "asker \<Rightarrow> string \<Rightarrow> lsp_state \<Rightarrow> bool" where
  "settling ask u s \<longleftrightarrow> (case s of (sv, wk) \<Rightarrow> \<exists>d. sv_docs sv u = Some d \<and>
     (\<forall>v. sv_pending sv u = Some v \<longrightarrow> v = dc_version d) \<and>
     (wk \<noteq> Dead \<longrightarrow>
        (\<forall>t js. wk = Checks u t js \<longrightarrow> t = dc_text d \<or> sv_pending sv u \<noteq> None) \<and>
        (up_to_date ask u sv d \<or> sv_pending sv u \<noteq> None \<or> will_check u d wk)))"

lemma settling_message:
  assumes "settling ask u (sv, wk)" "\<And>d. sv_docs sv u = Some d \<Longrightarrow> message_effect ask u d sv sv2"
  shows "settling ask u (sv2, wk)"
proof -
  obtain d where d: "sv_docs sv u = Some d" using assms(1) by (auto simp: settling_def)
  from assms(2) [OF d] show ?thesis
    unfolding message_effect_def
  proof (elim disjE exE conjE)
    assume "same u sv sv2" "shown u sv2 = shown u sv"
    with assms(1) show ?thesis by (simp add: settling_def same_def up_to_date_def)
  next
    assume "same u sv sv2" "up_to_date ask u sv2 d"
    with assms(1) d show ?thesis by (auto simp: settling_def same_def)
  qed (auto simp: settling_def)
qed

lemma settling_worker: "lsp_step ask Worker s t \<Longrightarrow> settling ask u s \<Longrightarrow> settling ask u t"
proof (induction Worker s t rule: lsp_step.induct)
  case (drain sv jobs)
  have "(u, v) \<in> set jobs" if "sv_pending sv u = Some v" for v
    using that drain(2) map_of_SomeD [of jobs u v] by simp
  with drain show ?case by (auto simp: settling_def will_check_def up_to_date_def)
next
  case (publish sv uri tx j jobs)
  then show ?case
    by (cases "uri = u") (auto simp: settling_def will_check_def up_to_date_def checked_msg_publish)
qed (auto simp: settling_def will_check_def up_to_date_def)

definition steady :: "asker \<Rightarrow> string \<Rightarrow> lsp_state \<Rightarrow> lsp_state \<Rightarrow> bool" where
  "steady ask u s t \<longleftrightarrow> (\<exists>a. lsp_step ask a s t \<and> \<not> opens_or_closes u a)"

inductive_cases client_stepE: "lsp_step ask (Client meth ps) s t"

lemma settling_steady: "(steady ask u)\<^sup>*\<^sup>* s t \<Longrightarrow> settling ask u s \<Longrightarrow> settling ask u t"
proof (induction rule: rtranclp_induct)
  case (step t t')
  then obtain a where a: "lsp_step ask a t t'" "\<not> opens_or_closes u a" by (auto simp: steady_def)
  show ?case
  proof (cases a)
    case (Client meth ps)
    from a(1) [unfolded Client] obtain ident r sv sv2 wk where "t = (sv, wk)" "t' = (reply r sv2, wk)"
      "dispatch ask meth ident ps sv = Some (r, sv2)" by (rule client_stepE) blast
    with step a(2) Client show ?thesis by (auto intro: settling_message dispatch_effect)
  qed (use step a settling_worker in auto)
qed simp

text \<open>The worker has nothing to do with a document.\<close>

definition unconcerned :: "string \<Rightarrow> worker \<Rightarrow> bool" where
  "unconcerned u wk \<longleftrightarrow> list_all (\<lambda>(v, n). v \<noteq> u) (jobs_of wk) \<and> (\<forall>t js. wk \<noteq> Reads u js \<and> wk \<noteq> Checks u t js)"


text \<open>The parameters of the notifications.\<close>

definition open_params :: "string \<Rightarrow> string \<Rightarrow> json" where
  "open_params u t = Obj [(''textDocument'', Obj [(''uri'', Str u), (''text'', Str t)])]"

definition change_params :: "string \<Rightarrow> string \<Rightarrow> json" where
  "change_params u t = Obj [(''textDocument'', Obj [(''uri'', Str u)]), (''contentChanges'', Arr [Obj [(''text'', Str t)]])]"

lemma params_simps [simp]:
  "uri_of (open_params u t) = Some u" "uri_of (change_params u t) = Some u" "changed_text (change_params u t) = t"
  "str_of (field2 ''textDocument'' ''text'' (open_params u t)) = Some t"
  by (simp_all add: open_params_def change_params_def uri_of_def str_of_def field2_def json_get_def as_str_def as_arr_def changed_text_def)

text \<open>A server with one document, after the given messages were sent.\<close>

definition one_doc :: "string \<Rightarrow> string \<Rightarrow> nat \<Rightarrow> json list \<Rightarrow> nat option \<Rightarrow> bool \<Rightarrow> server" where
  "one_doc u t v out p on = \<lparr>sv_docs = [u \<mapsto> \<lparr>dc_text = t, dc_version = v\<rparr>], sv_poisoned = False, sv_shut = False, sv_out = out,
     sv_pending = (case p of Some n \<Rightarrow> [u \<mapsto> n] | None \<Rightarrow> Map.empty), sv_worker = on\<rparr>"

lemma opened:
  "checked_msg ask u t = Some j \<Longrightarrow>
     lsp_step ask (Client ''textDocument/didOpen'' (open_params u t)) (server_new, wk) (one_doc u t 0 [j] None False, wk)"
  using lsp_step.client [of ask "''textDocument/didOpen''" None "open_params u t" server_new None "one_doc u t 0 [j] None False" wk]
  by (simp add: dispatch_def did_open_def check_uri_def server_new_def one_doc_def send_msg_def reply_def)


definition any_step :: "asker \<Rightarrow> lsp_state \<Rightarrow> lsp_state \<Rightarrow> bool" where
  "any_step ask s t \<longleftrightarrow> (\<exists>a. lsp_step ask a s t)"

lemma any_stepI: "lsp_step ask a s t \<Longrightarrow> any_step ask s t"
  by (auto simp: any_step_def)

text \<open>
  C35: a document that is closed while the worker checks it keeps its diagnostics: they are published
  after the empty list of the close, nothing is left to do, and the client shows the diagnostics of a
  text that is gone.\<close>

theorem stale_after_close:
  "\<exists>sv. (any_step (\<lambda>_ _. Answer r))\<^sup>*\<^sup>* (server_new, Asleep) (sv, Asleep) \<and>
     sv_docs sv ''a'' = None \<and> sv_pending sv ''a'' = None \<and>
     shown ''a'' sv = map (publish_msg ''a'') [map (diag_json ''a'') (cr_diags r), [], map (diag_json ''a'') (cr_diags r)]"
proof -
  let ?ask = "\<lambda>_ _. Answer r"
  let ?j = "publish_msg ''a'' (map (diag_json ''a'') (cr_diags r))"
  let ?sv = "\<lambda>v p on. one_doc ''a'' [] v [?j] p on"
  let ?closed = "(?sv 1 None True)\<lparr>sv_docs := Map.empty, sv_out := [?j, publish_msg ''a'' []]\<rparr>"
  have msg: "checked_msg ?ask ''a'' t = Some ?j" for t
    by (simp add: checked_msg_def uri_to_path_def strip_prefix_def starts_with_def)
  have s1: "any_step ?ask (server_new, Asleep) (?sv 0 None False, Asleep)" by (intro any_stepI [OF opened] msg)
  have s2: "any_step ?ask (?sv 0 None False, Asleep) (?sv 1 (Some 1) True, Asleep)"
    using any_stepI [OF lsp_step.client [of ?ask "''textDocument/didChange''" None "change_params ''a'' []" "?sv 0 None False" None "?sv 1 (Some 1) True" Asleep]]
    by (auto simp: dispatch_def did_change_def one_doc_def reply_def)
  have s3: "any_step ?ask (?sv 1 (Some 1) True, Asleep) (?sv 1 None True, Jobs [(''a'', 1)])"
    using any_stepI [OF lsp_step.drain [of "?sv 1 (Some 1) True" "[(''a'', 1)]" ?ask]]
    by (auto simp: one_doc_def)
  have s4: "any_step ?ask (?sv 1 None True, Jobs [(''a'', 1)]) (?sv 1 None True, Reads ''a'' [])"
    using any_stepI [OF lsp_step.match [of "?sv 1 None True" "''a''" 1 ?ask "[]"]]
    by (auto simp: one_doc_def)
  have s5: "any_step ?ask (?sv 1 None True, Reads ''a'' []) (?sv 1 None True, Checks ''a'' [] [])"
    using any_stepI [OF lsp_step.read [of "?sv 1 None True" "''a''" _ ?ask "[]"]]
    by (auto simp: one_doc_def)
  have s6: "any_step ?ask (?sv 1 None True, Checks ''a'' [] []) (?closed, Checks ''a'' [] [])"
    using any_stepI [OF lsp_step.client [of ?ask "''textDocument/didClose''" None "open_params ''a'' []" "?sv 1 None True" None ?closed "Checks ''a'' [] []"]]
    by (auto simp: dispatch_def did_close_def one_doc_def reply_def send_msg_def)
  have s7: "any_step ?ask (?closed, Checks ''a'' [] []) (send_msg ?j ?closed, Jobs [])"
    using any_stepI [OF lsp_step.publish [of ?closed ?ask "''a''" "[]" ?j "[]"]] msg
    by (auto simp: one_doc_def)
  have s8: "any_step ?ask (send_msg ?j ?closed, Jobs []) (send_msg ?j ?closed, Asleep)" by (rule any_stepI [OF lsp_step.rest])
  note go = converse_rtranclp_into_rtranclp [of "any_step ?ask"]
  have "(any_step ?ask)\<^sup>*\<^sup>* (server_new, Asleep) (send_msg ?j ?closed, Asleep)"
    by (rule go [OF s1 go [OF s2 go [OF s3 go [OF s4 go [OF s5 go [OF s6 go [OF s7 go [OF s8 rtranclp.rtrancl_refl [of "any_step ?ask"]]]]]]]]])
  then show ?thesis by (intro exI [of _ "send_msg ?j ?closed"]) (auto simp: send_msg_def one_doc_def shown_def)
qed

subsection \<open>Requests\<close>


end
