(* ===== verification/Spec2Isabelle.thy ===== *)
theory Spec2Isabelle
  imports Fly_Lexer_Spec Fly_Parser_Total Fly_Units_Spec Fly_Types_Facts Fly_Gen_Sandbox Fly_Needs Fly_Sandboxd_Facts Fly_Checkd_Facts Fly_Json_Facts Fly_Fmt_Facts Fly_Analyze_Facts Fly_Format Fly_Update_Facts Fly_Cli_Facts Fly_Lsp_Facts
begin

text \<open>
  A model of Fly, a safer Python: the compiler from \<^verbatim>\<open>.fly\<close> sources to Python, the process that runs the
  result behind operating system barriers, and the tools around them.  Every Rust file of the repository
  but \<^verbatim>\<open>src/lib.rs\<close> (a list of module names) is modelled; file names below are those of the repository.

  \<^bold>\<open>How the parts interact.\<close>  \<^verbatim>\<open>fly build\<close> and \<^verbatim>\<open>fly run\<close> (\<open>Fly_Front\<close>) ask the checker, a process behind a
  binary protocol (\<open>Fly_Checkd\<close>), for diagnostics of the source, refuse it if there are any, and otherwise
  hand it to the parser (\<open>Fly_Parser\<close>), which pulls tokens from the lexer (\<open>Fly_Lexer\<close>) one at a time.
  The generator (\<open>Fly_Gen\<close>) asks the type inference (\<open>Fly_Types\<close>) which run time checks it may leave out
  and writes Python text behind the runtime and the sandbox; \<^verbatim>\<open>run\<close> gives it to the process sandbox
  (\<open>Fly_Sandboxd\<close>, with the system call filter of \<open>Fly_Seccomp\<close>).  The other commands (\<open>Fly_Cli\<close>) use the
  formatter, the static analysis, the updater with its HTTP client, and the language server.

  \<^bold>\<open>Data.\<close>  A Rust string is the list of its UTF-8 bytes (\<open>Fly_Prelude\<close>); a \<open>struct\<close> is a record, an \<open>enum\<close>
  a datatype with the variants of the source; a \<open>Result\<close> is a sum, an \<open>Option\<close> an option, a panic a value of
  its own (\<open>None\<close>, \<open>Panic\<close>, \<open>Dies\<close>, or the ghost flag \<open>lx_panic\<close> of the lexer).  Machine integers are
  words where they wrap around or are taken apart (the filter, resource limits), and otherwise numbers
  with their bounds checked or proved.  A method on \<open>&mut self\<close> is a function from state to state.

  \<^bold>\<open>Theories and files.\<close>
  \<^item> \<open>Fly_Token\<close> (\<^verbatim>\<open>lexer/token.rs\<close>), \<open>Fly_Diagnostic\<close> (\<^verbatim>\<open>diagnostic.rs\<close>, the message formats of the lexer),
    \<open>Fly_Errorinfo\<close> (\<^verbatim>\<open>errorinfo.rs\<close>, \<^verbatim>\<open>errorcode.rs\<close>: all 66 entries), \<open>Fly_Format\<close> (\<^verbatim>\<open>format.rs\<close>).
  \<^item> \<open>Fly_Lexer\<close> (\<^verbatim>\<open>lexer/lexer.rs\<close>): the record \<open>lexer\<close> is the struct; \<open>lexer_next\<close> is \<open>next\<close>.
    \<open>Fly_Lexer_Facts\<close> holds the invariant \<open>lexer_inv\<close> and the measure that every token lowers,
    \<open>Fly_Lexer_Text\<close> that tokens carry the bytes they were read from, \<open>Fly_Lexer_Spec\<close> the promises to
    consumers: no panic, counters in range, an end after at most four tokens for each byte, balanced
    blocks and brackets, longest match, and that tokens and blanks account for every byte.
  \<^item> \<open>Fly_Ast\<close>, \<open>Fly_Wf\<close> (\<^verbatim>\<open>ast.rs\<close> and the shape of accepted trees), \<open>Fly_Parser\<close> (\<^verbatim>\<open>parser.rs\<close>, one definition for
    each method, in the state monad): \<open>Fly_Parser_Facts\<close>, \<open>Fly_Parser_Stmts\<close>, \<open>Fly_Parser_Total\<close> prove with a
    weakest precondition calculus (\<open>wp\<close>) that every method ends, goes forward, reports or consumes, and
    builds well-formed trees.  \<open>Fly_Units\<close> and \<open>Fly_Units_Spec\<close> are the limits of \<open>cage\<close> blocks.
  \<^item> \<open>Fly_Types\<close>, \<open>Fly_Types_Facts\<close> (\<^verbatim>\<open>typeinfer.rs\<close>): five rounds, as in the code; what is unknown stays so.
  \<^item> \<open>Fly_Gen\<close> (\<^verbatim>\<open>gen.rs\<close>), \<open>Fly_Needs\<close> (its uncalled \<open>needs_runtime\<close>): \<open>Fly_Gen_Facts\<close> on the characters that
    are written, \<open>Fly_Gen_Layout\<close> on lines and indentation, \<open>Fly_Gen_Prelude\<close> and \<open>Fly_Gen_Sandbox\<close> on what
    stands in front of the code.
  \<^item> \<open>Fly_Seccomp\<close>, \<open>Fly_Sandboxd\<close>, \<open>Fly_Sandboxd_Facts\<close> (\<^verbatim>\<open>fly-sandboxd/src/main.rs\<close>): classic BPF with an
    interpreter, against a specification of its decisions; system calls are a trace, their results the
    parameter \<open>kernel\<close>.
  \<^item> \<open>Fly_Framing\<close>, \<open>Fly_Checkd\<close>, \<open>Fly_Checkd_Facts\<close> (\<^verbatim>\<open>checkd.rs\<close> and its peer \<^verbatim>\<open>cmd/fly-checkd/main.go\<close>): frames,
    requests, responses, the loop of the checker.
  \<^item> \<open>Fly_Text\<close> (operations of \<open>str\<close>), \<open>Fly_Digits\<close>, \<open>Fly_Json\<close>, \<open>Fly_Json_Facts\<close> (\<^verbatim>\<open>json.rs\<close>), \<open>Fly_Lsp\<close>,
    \<open>Fly_Lsp_Facts\<close> (\<^verbatim>\<open>lsp.rs\<close>): the main thread is \<open>dispatch\<close> on the record \<open>server\<close>, the worker thread the
    steps of \<open>lsp_step\<close> interleaved with it; diagnostics settle, whatever the interleaving.
  \<^item> \<open>Fly_Fmt\<close> (\<^verbatim>\<open>fmt.rs\<close>), \<open>Fly_Analyze\<close> (\<^verbatim>\<open>analyze.rs\<close>), each with its \<open>_Facts\<close>: the formatter keeps the literals
    of a line, the analysis computes the sums of a declarative reading of the tree.
  \<^item> \<open>Fly_Http\<close> (\<^verbatim>\<open>http.rs\<close>), \<open>Fly_Update\<close> (\<^verbatim>\<open>update.rs\<close>, \<^verbatim>\<open>version.rs\<close>, \<^verbatim>\<open>build.rs\<close>), each with its \<open>_Facts\<close>: requests
    stay on HTTPS, and no file is touched before the signature was verified.
  \<^item> \<open>Fly_Front\<close>, \<open>Fly_Cli\<close>, \<open>Fly_Cli_Facts\<close> (\<^verbatim>\<open>main.rs\<close>), \<open>Fly_Pool\<close> (its threads and semaphore, as a step
    relation), \<open>Fly_Help\<close> (\<^verbatim>\<open>help.rs\<close>): the commands are functions from the answers of the record \<open>system\<close> to
    their actions and exit status.

  \<^bold>\<open>Interfaces.\<close>  \<open>token_stream\<close> and \<open>weighted_stream\<close> (what a producer of tokens promises, interpreted by the
  lexer for its blocks and its brackets); \<open>expr_calls\<close> and \<open>stmt_calls\<close> (what the parser's recursive calls
  promise, interpreted by each level of the recursion); \<open>collect_rel\<close> and \<open>call_rel\<close> (relations that the walks of
  the inference keep); \<open>writable\<close> (predicates on the characters that are written); \<open>counter\<close> (what a count of the
  analysis does at each node, interpreted for the five counts); \<open>framing\<close> and \<open>framed_loop\<close> (messages in a
  stream of bytes, interpreted by the language server and by both directions of the checker protocol).

  \<^bold>\<open>Bounds.\<close>  Loops that end for a reason other than structure carry a number of rounds, and it is proved
  large enough or is the code's own: \<open>4 * n + 4\<close> tokens for a source of \<open>n\<close> bytes (\<open>lex_all_terminates\<close>), depth
  \<open>8 * n + 8\<close> for the parser (\<open>parse_terminates\<close>: the field \<open>p_stuck\<close> is never set), \<open>2 * n + 3\<close> for JSON
  (\<open>Fly_Json_Facts\<close>: the reader ends on every text), one round for each byte of an archive, of the input of the
  language server and of the checker (each round takes a byte at least); ten redirects and the five rounds of
  the inference are the code's.

  \<^bold>\<open>Not modelled.\<close>  Cryptography (Ed25519, TLS), decompression (gzip, zip), the file system, the kernel,
  processes and the clock are parameters of the definitions that use them; so are the text of the Python
  runtime, which the generator copies, and the check proper, which is Go code behind the checker
  protocol.  Left out are time-outs and the delay of the worker, the writer thread of the language server
  (it keeps the order of messages), the recursion limit that the stack puts on very deep sources, the
  uncalled \<open>sudo_retry\<close>, the probe of \<open>check_writable\<close> (its answer is a parameter), log lines of the
  installation, tests, and everything in other languages.  Texts in Chinese that only a person reads are
  constructors; where their bytes matter (diagnostics, the registry, help, comments in generated code) they
  are written out.
\<close>

end
